(* ===== verification/Kld_Prelude.thy ===== *)
theory Kld_Prelude
  imports Main "HOL-Library.Word"
begin

text \<open>
  What every component of the development shares: the machine types of the Rust code and its
  \<open>as\<close> and \<open>try_into\<close> casts, the outcome of a fallible function (a value, an error that is
  returned, or a panic), the \<open>for\<close> loop that stops at the first error, and the SQL statements
  the code issues, as operations on a table kept as a list of rows.  Arithmetic on words wraps
  around, as it does in the release build of the program.
\<close>

named_theorems outcome_simps "facts that take an outcome apart"
named_theorems table_simps "what a statement leaves in a table"

section \<open>Machine types\<close>

type_synonym u8 = "8 word"
type_synonym u16 = "16 word"
type_synonym u32 = "32 word"
type_synonym u64 = "64 word"
type_synonym u128 = "128 word"
type_synonym bytes = "u8 list"

text \<open>A signed column of the database (\<open>INT\<close>, \<open>INT4\<close>, \<open>INT2\<close>) holds an integer. The casts below
  are the \<open>x as i64\<close>, \<open>x as i32\<close>, \<open>x as i16\<close> of a write and the \<open>x as u64\<close>, \<open>x as u32\<close> of a read.\<close>

definition u64_as_i64 :: "u64 \<Rightarrow> int" where
  "u64_as_i64 x = sint x"

definition i64_as_u64 :: "int \<Rightarrow> u64" where
  "i64_as_u64 i = word_of_int i"

definition u32_as_i32 :: "u32 \<Rightarrow> int" where
  "u32_as_i32 x = sint x"

definition i32_as_u32 :: "int \<Rightarrow> u32" where
  "i32_as_u32 i = word_of_int i"

definition u16_as_i16 :: "u16 \<Rightarrow> int" where
  "u16_as_i16 x = sint x"

lemma i64_as_u64_inverse [simp]: "i64_as_u64 (u64_as_i64 x) = x"
  by (simp add: i64_as_u64_def u64_as_i64_def)

lemma i32_as_u32_inverse [simp]: "i32_as_u32 (u32_as_i32 x) = x"
  by (simp add: i32_as_u32_def u32_as_i32_def)

lemma u64_as_i64_inject [simp]: "u64_as_i64 x = u64_as_i64 y \<longleftrightarrow> x = y"
  by (metis i64_as_u64_inverse)

lemma u32_as_i32_inject [simp]: "u32_as_i32 x = u32_as_i32 y \<longleftrightarrow> x = y"
  by (metis i32_as_u32_inverse)

lemma u16_as_i16_inject [simp]: "u16_as_i16 x = u16_as_i16 y \<longleftrightarrow> x = y"
  by (simp add: u16_as_i16_def word_eq_iff_signed [where 'a = int])

lemma unat_less_iff_uint: "unat (x :: u64) < 2 ^ n \<longleftrightarrow> uint x < 2 ^ n"
proof -
  have "unat x < 2 ^ n \<longleftrightarrow> int (unat x) < int (2 ^ n)"
    by (simp only: of_nat_less_iff)
  then show ?thesis by simp
qed

lemma sint_small_u64:
  assumes "unat (x :: u64) < 2 ^ 63"
  shows "sint x = uint x"
proof -
  have "- (2 ^ 63) \<le> uint x" and "uint x < 2 ^ 63"
    using assms by (simp_all only: unat_less_iff_uint) (rule order.trans [OF _ uint_ge_0], simp)
  then show ?thesis
    by (simp add: sint_uint signed_take_bit_int_eq_self)
qed

section \<open>Outcomes\<close>

text \<open>\<open>Msg\<close> is an error made with \<open>anyhow!\<close> or \<open>bail!\<close>; the others are the ways a statement of the
  database can fail: a dropped connection, a primary key or unique index that is violated, a
  \<open>NULL\<close> in a \<open>NOT NULL\<close> column, and \<open>query_one\<close> or \<open>query_opt\<close> on the wrong number of rows.\<close>

datatype kld_error = DbClosed | DbUnique | DbNotNull | DbRowCount | Msg string

datatype 'a outcome = Ok 'a | Err kld_error | Panic

primrec bind_outcome :: "'a outcome \<Rightarrow> ('a \<Rightarrow> 'b outcome) \<Rightarrow> 'b outcome" where
  "bind_outcome (Ok x) f = f x"
| "bind_outcome (Err e) f = Err e"
| "bind_outcome Panic f = Panic"

definition ok_or :: "kld_error \<Rightarrow> 'a option \<Rightarrow> 'a outcome" where
  "ok_or e x = (case x of None \<Rightarrow> Err e | Some v \<Rightarrow> Ok v)"

definition is_ok :: "'a outcome \<Rightarrow> bool" where
  "is_ok r = (case r of Ok _ \<Rightarrow> True | _ \<Rightarrow> False)"

lemma bind_outcome_eq_Ok [outcome_simps]:
  "bind_outcome r f = Ok y \<longleftrightarrow> (\<exists>x. r = Ok x \<and> f x = Ok y)"
  by (cases r) auto

lemma bind_outcome_Ok_right [simp]: "bind_outcome r Ok = r"
  by (cases r) auto

lemma bind_outcome_assoc: "bind_outcome (bind_outcome r f) g = bind_outcome r (\<lambda>x. bind_outcome (f x) g)"
  by (cases r) auto

lemma ok_or_eq_Ok [outcome_simps]: "ok_or e x = Ok y \<longleftrightarrow> x = Some y"
  by (auto simp: ok_or_def split: option.splits)

lemma ok_or_Some [simp]: "ok_or e (Some v) = Ok v"
  by (simp add: ok_or_def)

lemma ok_or_None [simp]: "ok_or e None = Err e"
  by (simp add: ok_or_def)

lemma is_ok_simps [simp]: "is_ok (Ok x)" "\<not> is_ok (Err e)" "\<not> is_ok Panic"
  by (simp_all add: is_ok_def)

lemma is_ok_iff: "is_ok r \<longleftrightarrow> (\<exists>x. r = Ok x)"
  by (cases r) auto

text \<open>\<open>x.try_into().unwrap()\<close> from a signed column panics on a value the target type lacks.\<close>

definition i64_try_u64 :: "int \<Rightarrow> u64 outcome" where
  "i64_try_u64 i = (if 0 \<le> i then Ok (word_of_int i) else Panic)"

definition i64_try_u32 :: "int \<Rightarrow> u32 outcome" where
  "i64_try_u32 i = (if 0 \<le> i \<and> i < 2 ^ 32 then Ok (word_of_int i) else Panic)"

text \<open>The cast of a \<open>u32\<close> to \<open>i64\<close> keeps the value.\<close>

definition u32_as_i64 :: "u32 \<Rightarrow> int" where
  "u32_as_i64 x = uint x"

lemma i64_try_u32_u32 [simp]: "i64_try_u32 (u32_as_i64 x) = Ok x"
proof -
  have "uint x < 2 ^ 32"
    using uint_bounded [of x] by simp
  then show ?thesis
    by (simp add: i64_try_u32_def u32_as_i64_def)
qed

lemma i64_try_u64_u64: "i64_try_u64 (u64_as_i64 x) = (if unat x < 2 ^ 63 then Ok x else Panic)"
proof (cases "unat x < 2 ^ 63")
  case True
  then show ?thesis
    by (simp add: i64_try_u64_def u64_as_i64_def sint_small_u64)
next
  case False
  have "2 ^ 63 \<le> uint x" and "uint x < 2 ^ 64"
    using False uint_bounded [of x] by (simp_all only: unat_less_iff_uint not_less) simp
  then have "sint x < 0"
    using signed_take_bit_int_less_eq [of 63 "uint x"] by (simp del: signed_take_bit_negative_iff add: sint_uint)
  with False show ?thesis
    by (simp add: i64_try_u64_def u64_as_i64_def)
qed

section \<open>Loops that stop at the first error\<close>

fun collect :: "('a \<Rightarrow> 'b outcome) \<Rightarrow> 'a list \<Rightarrow> 'b list outcome" where
  "collect f [] = Ok []"
| "collect f (x # xs) = bind_outcome (f x) (\<lambda>y. bind_outcome (collect f xs) (\<lambda>ys. Ok (y # ys)))"

lemma collect_eq_Ok [outcome_simps]: "collect f xs = Ok ys \<longleftrightarrow> list_all2 (\<lambda>x y. f x = Ok y) xs ys"
proof (induction xs arbitrary: ys)
  case Nil
  then show ?case by auto
next
  case (Cons x xs)
  then show ?case
    by (cases ys) (auto simp: outcome_simps)
qed

lemma collect_all_ok: "(\<And>x. x \<in> set xs \<Longrightarrow> f x = Ok (g x)) \<Longrightarrow> collect f xs = Ok (map g xs)"
  by (induction xs) auto

lemma collect_append:
  "collect f (xs @ ys) = bind_outcome (collect f xs) (\<lambda>us. bind_outcome (collect f ys) (\<lambda>vs. Ok (us @ vs)))"
proof (induction xs)
  case (Cons x xs)
  then show ?case
    by (cases "f x"; cases "collect f xs"; cases "collect f ys") auto
qed (cases "collect f ys"; simp)

end
