(* ===== verification/Rust_Text.thy ===== *)
theory Rust_Text
  imports Kld_Prelude
begin

text \<open>
  The functions of the Rust standard library on strings that the program uses: the decimal
  \<open>to_string\<close> and \<open>parse\<close> of unsigned integers, \<open>split_once\<close>, \<open>split\<close>, \<open>starts_with\<close>,
  \<open>ends_with\<close> and \<open>trim_end_matches\<close>, and the lower-case \<open>hex::encode\<close>.  A string is its
  list of bytes; every literal of the program is ASCII.
\<close>

section \<open>Decimal numerals\<close>

fun dec_digits :: "nat \<Rightarrow> nat list" where
  "dec_digits n = (if n < 10 then [n] else dec_digits (n div 10) @ [n mod 10])"

declare dec_digits.simps [simp del]

definition digit_char :: "nat \<Rightarrow> char" where
  "digit_char d = char_of (48 + d)"

definition char_digit :: "char \<Rightarrow> nat option" where
  "char_digit c = (let n = of_char c in if 48 \<le> n \<and> n \<le> (57::nat) then Some (n - 48) else None)"

definition nat_to_string :: "nat \<Rightarrow> string" where
  "nat_to_string n = map digit_char (dec_digits n)"

fun digits_value :: "nat \<Rightarrow> string \<Rightarrow> nat option" where
  "digits_value acc [] = Some acc"
| "digits_value acc (c # cs) =
     (case char_digit c of None \<Rightarrow> None | Some d \<Rightarrow> digits_value (10 * acc + d) cs)"

text \<open>\<open>str::parse\<close> for an unsigned type of \<open>w\<close> bits: an optional plus sign, then digits.\<close>

definition parse_uint :: "nat \<Rightarrow> string \<Rightarrow> nat option" where
  "parse_uint w s =
     (let ds = (case s of [] \<Rightarrow> [] | c # cs \<Rightarrow> if c = CHR ''+'' then cs else s)
      in if ds = [] then None
         else case digits_value 0 ds of None \<Rightarrow> None | Some n \<Rightarrow> if n < 2 ^ w then Some n else None)"

definition parse_u32 :: "string \<Rightarrow> u32 option" where
  "parse_u32 s = map_option of_nat (parse_uint 32 s)"

definition parse_u64 :: "string \<Rightarrow> u64 option" where
  "parse_u64 s = map_option of_nat (parse_uint 64 s)"

definition u32_to_string :: "u32 \<Rightarrow> string" where
  "u32_to_string x = nat_to_string (unat x)"

definition u64_to_string :: "u64 \<Rightarrow> string" where
  "u64_to_string x = nat_to_string (unat x)"

lemma dec_digits_bound: "d \<in> set (dec_digits n) \<Longrightarrow> d < 10"
proof (induction n rule: dec_digits.induct)
  case (1 n)
  then show ?case
    by (cases "n < 10") (auto simp: dec_digits.simps [of n])
qed

lemma dec_digits_nonempty [simp]: "dec_digits n \<noteq> []"
  by (subst dec_digits.simps) simp

lemma char_digit_digit_char: "d < 10 \<Longrightarrow> char_digit (digit_char d) = Some d"
  by (simp add: char_digit_def digit_char_def Let_def)

lemma char_digit_plus [simp]: "char_digit CHR ''+'' = None"
  by (simp add: char_digit_def)

lemma digits_value_append:
  "digits_value acc (xs @ ys) = (case digits_value acc xs of None \<Rightarrow> None | Some n \<Rightarrow> digits_value n ys)"
  by (induction xs arbitrary: acc) (auto split: option.splits)

lemma digits_value_map:
  assumes "\<And>d. d \<in> set ds \<Longrightarrow> d < 10"
  shows "digits_value acc (map digit_char ds) = Some (foldl (\<lambda>a d. 10 * a + d) acc ds)"
  using assms by (induction ds arbitrary: acc) (auto simp: char_digit_digit_char)

lemma foldl_dec_digits: "foldl (\<lambda>a d. 10 * a + d) 0 (dec_digits n) = n"
proof (induction n rule: dec_digits.induct)
  case (1 n)
  then show ?case
    by (cases "n < 10") (auto simp: dec_digits.simps [of n])
qed

lemma digits_value_nat_to_string [simp]: "digits_value 0 (nat_to_string n) = Some n"
  unfolding nat_to_string_def
  by (subst digits_value_map) (auto simp: foldl_dec_digits dest: dec_digits_bound)

lemma nat_to_string_nonempty [simp]: "nat_to_string n \<noteq> []"
  by (simp add: nat_to_string_def)

lemma nat_to_string_is_digit: "c \<in> set (nat_to_string n) \<Longrightarrow> char_digit c \<noteq> None"
  by (auto simp: nat_to_string_def char_digit_digit_char dest: dec_digits_bound)

lemma nat_to_string_not_mem: "char_digit c = None \<Longrightarrow> c \<notin> set (nat_to_string n)"
  using nat_to_string_is_digit by blast

lemma parse_uint_nat_to_string: "parse_uint w (nat_to_string n) = (if n < 2 ^ w then Some n else None)"
proof -
  obtain c cs where s: "nat_to_string n = c # cs"
    by (meson nat_to_string_nonempty neq_Nil_conv)
  then have "c \<noteq> CHR ''+''"
    using nat_to_string_not_mem [OF char_digit_plus, of n] by auto
  then have "parse_uint w (nat_to_string n) =
      (case digits_value 0 (nat_to_string n) of None \<Rightarrow> None | Some n \<Rightarrow> if n < 2 ^ w then Some n else None)"
    by (simp add: parse_uint_def s)
  then show ?thesis by simp
qed

lemma nat_to_string_inject [simp]: "nat_to_string m = nat_to_string n \<longleftrightarrow> m = n"
  by (metis digits_value_nat_to_string option.inject)

lemma parse_u32_to_string [simp]: "parse_u32 (u32_to_string x) = Some x"
  using unsigned_less [of x, where 'a = nat] by (simp add: parse_u32_def u32_to_string_def parse_uint_nat_to_string)

lemma parse_u64_to_string [simp]: "parse_u64 (u64_to_string x) = Some x"
  using unsigned_less [of x, where 'a = nat] by (simp add: parse_u64_def u64_to_string_def parse_uint_nat_to_string)

lemma u64_to_string_inject [simp]: "u64_to_string x = u64_to_string y \<longleftrightarrow> x = y"
  by (metis option.inject parse_u64_to_string)

lemma parse_uint_bound: "parse_uint w s = Some n \<Longrightarrow> n < 2 ^ w"
  by (auto simp: parse_uint_def Let_def split: if_splits option.splits)

section \<open>Patterns\<close>

definition starts_with :: "string \<Rightarrow> string \<Rightarrow> bool" where
  "starts_with s p \<longleftrightarrow> take (length p) s = p"

fun str_contains :: "string \<Rightarrow> string \<Rightarrow> bool" where
  "str_contains [] p = (p = [])"
| "str_contains (c # s) p = (starts_with (c # s) p \<or> str_contains s p)"

definition ends_with :: "string \<Rightarrow> string \<Rightarrow> bool" where
  "ends_with s p \<longleftrightarrow> length p \<le> length s \<and> drop (length s - length p) s = p"

text \<open>\<open>trim_end_matches\<close> removes the pattern from the end as often as it occurs there.\<close>

function trim_end_matches :: "string \<Rightarrow> string \<Rightarrow> string" where
  "trim_end_matches s p =
     (if p \<noteq> [] \<and> ends_with s p then trim_end_matches (take (length s - length p) s) p else s)"
  by pat_completeness auto
termination
proof (relation "measure (\<lambda>(s, p). length s)", goal_cases)
  case (2 s p)
  then show ?case by (cases p; cases s) (auto simp: ends_with_def)
qed simp

declare trim_end_matches.simps [simp del]

fun split_once :: "char \<Rightarrow> string \<Rightarrow> (string \<times> string) option" where
  "split_once d [] = None"
| "split_once d (c # cs) =
     (if c = d then Some ([], cs) else map_option (\<lambda>(a, b). (c # a, b)) (split_once d cs))"

fun split_char :: "char \<Rightarrow> string \<Rightarrow> string list" where
  "split_char d [] = [[]]"
| "split_char d (c # cs) =
     (if c = d then [] # split_char d cs
      else case split_char d cs of [] \<Rightarrow> [[c]] | w # ws \<Rightarrow> (c # w) # ws)"

lemma ends_with_append [simp]: "ends_with (s @ p) p"
  by (simp add: ends_with_def)

lemma ends_with_last: "ends_with s p \<Longrightarrow> p \<noteq> [] \<Longrightarrow> s \<noteq> [] \<and> last s = last p"
  by (metis append_take_drop_id drop_eq_Nil ends_with_def last_appendR le_zero_eq length_0_conv list.size(3) drop_Nil)

lemma trim_end_matches_once:
  assumes "p \<noteq> []" and "\<not> ends_with s p"
  shows "trim_end_matches (s @ p) p = s"
  using assms by (subst trim_end_matches.simps) (simp add: trim_end_matches.simps [of s p])

lemma split_once_Some: "split_once d s = Some (a, b) \<longleftrightarrow> s = a @ d # b \<and> d \<notin> set a"
proof (induction s arbitrary: a)
  case (Cons c cs)
  then show ?case by (cases a) (auto split: if_splits)
qed simp

lemma split_once_None: "split_once d s = None \<longleftrightarrow> d \<notin> set s"
  by (induction s) auto

lemma split_char_nonempty [simp]: "split_char d s \<noteq> []"
  by (induction s) (auto split: list.splits)

lemma split_char_none: "d \<notin> set s \<Longrightarrow> split_char d s = [s]"
  by (induction s) auto

lemma split_char_append: "d \<notin> set a \<Longrightarrow> split_char d (a @ d # b) = a # split_char d b"
  by (induction a) auto

lemma split_char_no_sep: "w \<in> set (split_char d s) \<Longrightarrow> d \<notin> set w"
proof (induction s arbitrary: w)
  case (Cons c cs)
  then show ?case by (auto split: if_splits list.splits)
qed simp

section \<open>Hexadecimal\<close>

definition hex_char :: "nat \<Rightarrow> char" where
  "hex_char d = (if d < 10 then char_of (48 + d) else char_of (87 + d))"

definition hex_encode :: "bytes \<Rightarrow> string" where
  "hex_encode bs = concat (map (\<lambda>b. [hex_char (unat b div 16), hex_char (unat b mod 16)]) bs)"

lemma hex_char_inject: "a < 16 \<Longrightarrow> b < 16 \<Longrightarrow> hex_char a = hex_char b \<Longrightarrow> a = b"
  by (auto simp: hex_char_def dest!: arg_cong [of _ _ "of_char :: char \<Rightarrow> nat"] split: if_splits)

lemma hex_encode_Nil [simp]: "hex_encode [] = []"
  by (simp add: hex_encode_def)

lemma hex_encode_Cons:
  "hex_encode (b # bs) = hex_char (unat b div 16) # hex_char (unat b mod 16) # hex_encode bs"
  by (simp add: hex_encode_def)

lemma length_hex_encode [simp]: "length (hex_encode bs) = 2 * length bs"
  by (induction bs) (auto simp: hex_encode_Cons)

lemma hex_encode_inject [simp]: "hex_encode as = hex_encode bs \<longleftrightarrow> as = bs"
proof (induction as arbitrary: bs)
  case Nil
  then show ?case by (cases bs) (auto simp: hex_encode_Cons)
next
  case (Cons a as)
  show ?case
  proof (cases bs)
    case (Cons b bs')
    have bound: "unat x div 16 < 16 \<and> unat x mod 16 < 16" for x :: u8
      using unsigned_less [of x, where 'a = nat] by simp
    have "a = b" if "hex_char (unat a div 16) = hex_char (unat b div 16)"
      "hex_char (unat a mod 16) = hex_char (unat b mod 16)"
    proof -
      have "unat a div 16 = unat b div 16" and "unat a mod 16 = unat b mod 16"
        using that bound by (metis hex_char_inject)+
      then have "unat a = unat b" by (metis mult_div_mod_eq)
      then show ?thesis by (simp add: word_unat_eq_iff)
    qed
    then show ?thesis using Cons.IH by (auto simp: local.Cons hex_encode_Cons)
  qed (simp add: hex_encode_Cons)
qed

section \<open>Case\<close>

definition ascii_lower :: "char \<Rightarrow> char" where
  "ascii_lower c = (let n = (of_char c :: nat) in if 65 \<le> n \<and> n \<le> 90 then char_of (n + 32) else c)"

definition ascii_upper :: "char \<Rightarrow> char" where
  "ascii_upper c = (let n = (of_char c :: nat) in if 97 \<le> n \<and> n \<le> 122 then char_of (n - 32) else c)"

end
