(* ===== verification/Sql_Table.thy ===== *)
theory Sql_Table
  imports Kld_Prelude
begin

text \<open>
  The SQL statements of \<^verbatim>\<open>kld/src/database\<close> as operations on a table, a list of rows in storage order.
  A primary key is a function of the row.  A statement that names some of the columns of a table
  sets these and leaves the others (on a conflict) or gives them their defaults (on a new row), so
  \<open>UPSERT\<close> takes both the change of an existing row and the new row.  The locales at the end
  state once what a table with a primary key promises to the code that reads it back.
\<close>

section \<open>Statements\<close>

definition tbl_find :: "('r \<Rightarrow> 'k) \<Rightarrow> 'k \<Rightarrow> 'r list \<Rightarrow> 'r option" where
  "tbl_find key k rows = List.find (\<lambda>r. key r = k) rows"

definition tbl_upsert :: "('r \<Rightarrow> 'k) \<Rightarrow> 'k \<Rightarrow> ('r \<Rightarrow> 'r) \<Rightarrow> 'r \<Rightarrow> 'r list \<Rightarrow> 'r list" where
  "tbl_upsert key k upd new rows =
     (if k \<in> key ` set rows then map (\<lambda>r. if key r = k then upd r else r) rows else rows @ [new])"

definition tbl_insert :: "('r \<Rightarrow> 'k) \<Rightarrow> 'r \<Rightarrow> 'r list \<Rightarrow> 'r list outcome" where
  "tbl_insert key new rows = (if key new \<in> key ` set rows then Err DbUnique else Ok (rows @ [new]))"

definition tbl_update :: "('r \<Rightarrow> bool) \<Rightarrow> ('r \<Rightarrow> 'r) \<Rightarrow> 'r list \<Rightarrow> 'r list" where
  "tbl_update p upd rows = map (\<lambda>r. if p r then upd r else r) rows"

definition tbl_delete :: "('r \<Rightarrow> bool) \<Rightarrow> 'r list \<Rightarrow> 'r list" where
  "tbl_delete p rows = filter (\<lambda>r. \<not> p r) rows"

text \<open>\<open>query_opt\<close> and \<open>query_one\<close> of the client, on the rows of a query.\<close>

definition query_opt :: "'r list \<Rightarrow> 'r option outcome" where
  "query_opt rows = (case rows of [] \<Rightarrow> Ok None | [r] \<Rightarrow> Ok (Some r) | _ \<Rightarrow> Err DbRowCount)"

definition query_one :: "'r list \<Rightarrow> 'r outcome" where
  "query_one rows = (case rows of [r] \<Rightarrow> Ok r | _ \<Rightarrow> Err DbRowCount)"

section \<open>Tables with a primary key\<close>

definition keys_distinct :: "('r \<Rightarrow> 'k) \<Rightarrow> 'r list \<Rightarrow> bool" where
  "keys_distinct key rows \<longleftrightarrow> distinct (map key rows)"

lemma tbl_find_Nil [simp]: "tbl_find key k [] = None"
  by (simp add: tbl_find_def)

lemma tbl_find_Cons [simp]: "tbl_find key k (r # rows) = (if key r = k then Some r else tbl_find key k rows)"
  by (simp add: tbl_find_def)

lemma tbl_find_None_iff: "tbl_find key k rows = None \<longleftrightarrow> k \<notin> key ` set rows"
  by (induction rows) auto

lemma tbl_find_SomeD: "tbl_find key k rows = Some r \<Longrightarrow> r \<in> set rows \<and> key r = k"
  by (induction rows) (auto split: if_splits)

lemma tbl_find_append:
  "tbl_find key k (xs @ ys) = (case tbl_find key k xs of None \<Rightarrow> tbl_find key k ys | Some r \<Rightarrow> Some r)"
  by (induction xs) auto

lemma tbl_find_distinct:
  "keys_distinct key rows \<Longrightarrow> r \<in> set rows \<Longrightarrow> tbl_find key (key r) rows = Some r"
  by (induction rows) (auto simp: keys_distinct_def)

lemma tbl_find_map_key:
  assumes "\<And>r. key (f r) = key r"
  shows "tbl_find key k (map f rows) = map_option f (tbl_find key k rows)"
  by (induction rows) (auto simp: assms)

lemma filter_key_distinct:
  "keys_distinct key rows \<Longrightarrow> filter (\<lambda>r. key r = k) rows = (case tbl_find key k rows of None \<Rightarrow> [] | Some r \<Rightarrow> [r])"
proof (induction rows)
  case (Cons x rows)
  then have d: "keys_distinct key rows" and notin: "key x \<notin> key ` set rows"
    by (auto simp: keys_distinct_def)
  show ?case
  proof (cases "key x = k")
    case True
    then have "filter (\<lambda>r. key r = k) rows = []"
      using notin by (auto simp: filter_empty_conv image_iff)
    with True show ?thesis by simp
  next
    case False
    with Cons.IH [OF d] show ?thesis by simp
  qed
qed simp

lemma tbl_find_filter:
  "keys_distinct key rows \<Longrightarrow>
   tbl_find key k (filter P rows) = (case tbl_find key k rows of None \<Rightarrow> None | Some r \<Rightarrow> if P r then Some r else None)"
proof (induction rows)
  case (Cons x rows)
  then have d: "keys_distinct key rows" and none: "tbl_find key (key x) rows = None"
    by (auto simp: keys_distinct_def tbl_find_None_iff)
  from Cons.IH [OF d] none show ?case by (cases "key x = k") auto
qed simp

lemma query_opt_distinct:
  assumes "keys_distinct key rows"
  shows "query_opt (filter (\<lambda>r. key r = k) rows) = Ok (tbl_find key k rows)"
  by (simp add: query_opt_def filter_key_distinct [OF assms] split: option.splits)

lemma keys_distinct_Nil [simp]: "keys_distinct key []"
  by (simp add: keys_distinct_def)

lemma keys_distinct_delete [simp, intro]: "keys_distinct key rows \<Longrightarrow> keys_distinct key (tbl_delete p rows)"
  by (auto simp: keys_distinct_def tbl_delete_def distinct_map intro: inj_on_subset)

lemma keys_distinct_update:
  assumes "\<And>r. key (upd r) = key r" and "keys_distinct key rows"
  shows "keys_distinct key (tbl_update p upd rows)"
proof -
  have "map key (tbl_update p upd rows) = map key rows"
    using assms(1) by (simp add: tbl_update_def)
  with assms(2) show ?thesis by (simp add: keys_distinct_def)
qed

lemma keys_distinct_insert:
  "tbl_insert key new rows = Ok rows' \<Longrightarrow> keys_distinct key rows \<Longrightarrow> keys_distinct key rows'"
  by (auto simp: tbl_insert_def keys_distinct_def split: if_splits)

lemma tbl_find_insert:
  "tbl_insert key new rows = Ok rows' \<Longrightarrow>
   tbl_find key k rows' = (if k = key new then Some new else tbl_find key k rows)"
  using tbl_find_None_iff [of key k rows]
  by (auto simp: tbl_insert_def tbl_find_append image_iff split: if_splits option.splits)

lemma tbl_find_delete_key:
  "tbl_find key k (tbl_delete (\<lambda>r. key r = k') rows) = (if k = k' then None else tbl_find key k rows)"
  by (induction rows) (auto simp: tbl_delete_def)

lemma tbl_find_update_key:
  assumes "\<And>r. key (upd r) = key r"
  shows "tbl_find key k (tbl_update (\<lambda>r. key r = k') upd rows) =
    (if k = k' then map_option upd (tbl_find key k rows) else tbl_find key k rows)"
  by (induction rows) (auto simp: tbl_update_def assms)

section \<open>What a keyed table promises\<close>

text \<open>
  A statement \<open>UPSERT\<close> with the values \<open>v\<close>: \<open>new v\<close> is the row it inserts, \<open>upd v\<close> its effect
  on a row that has the key already.  Both have the key \<open>vkey v\<close>.
\<close>

locale keyed_table =
  fixes key :: "'r \<Rightarrow> 'k"
    and vkey :: "'v \<Rightarrow> 'k"
    and upd :: "'v \<Rightarrow> 'r \<Rightarrow> 'r"
    and new :: "'v \<Rightarrow> 'r"
  assumes key_new: "key (new v) = vkey v"
    and key_upd: "key r = vkey v \<Longrightarrow> key (upd v r) = vkey v"
begin

lemma find_upsert:
  "tbl_find key k (tbl_upsert key (vkey v) (upd v) (new v) rows) =
     (if k = vkey v then Some (case tbl_find key k rows of None \<Rightarrow> new v | Some r \<Rightarrow> upd v r)
      else tbl_find key k rows)"
proof (cases "vkey v \<in> key ` set rows")
  case True
  have "tbl_find key k (map (\<lambda>r. if key r = vkey v then upd v r else r) rows) =
      (if k = vkey v then map_option (upd v) (tbl_find key k rows) else tbl_find key k rows)"
    by (induction rows) (auto simp: key_upd)
  moreover have "tbl_find key (vkey v) rows \<noteq> None"
    using True by (simp add: tbl_find_None_iff)
  ultimately show ?thesis
    using True by (auto simp: tbl_upsert_def split: option.splits)
next
  case False
  then have none: "tbl_find key (vkey v) rows = None"
    by (simp add: tbl_find_None_iff)
  have "tbl_upsert key (vkey v) (upd v) (new v) rows = rows @ [new v]"
    using False by (simp add: tbl_upsert_def)
  with none show ?thesis
    by (auto simp: tbl_find_append key_new split: option.splits)
qed

lemma distinct_upsert:
  assumes "keys_distinct key rows"
  shows "keys_distinct key (tbl_upsert key (vkey v) (upd v) (new v) rows)"
proof (cases "vkey v \<in> key ` set rows")
  case True
  have "map key (map (\<lambda>r. if key r = vkey v then upd v r else r) rows) = map key rows"
    by (simp add: key_upd)
  with True assms show ?thesis
    by (simp add: tbl_upsert_def keys_distinct_def del: map_map)
next
  case False
  with assms show ?thesis
    by (simp add: tbl_upsert_def keys_distinct_def key_new)
qed

lemma keys_upsert:
  "key ` set (tbl_upsert key (vkey v) (upd v) (new v) rows) = insert (vkey v) (key ` set rows)"
proof (cases "vkey v \<in> key ` set rows")
  case True
  have "map key (map (\<lambda>r. if key r = vkey v then upd v r else r) rows) = map key rows"
    by (simp add: key_upd)
  then have "key ` set (map (\<lambda>r. if key r = vkey v then upd v r else r) rows) = key ` set rows"
    by (metis list.set_map)
  with True show ?thesis by (simp add: tbl_upsert_def insert_absorb del: list.set_map)
next
  case False
  then show ?thesis by (simp add: tbl_upsert_def key_new)
qed

end

text \<open>An \<open>UPSERT\<close> that names every column the code reads replaces the row.\<close>

locale replacing_table = keyed_table +
  assumes upd_new: "key r = vkey v \<Longrightarrow> upd v r = new v"
begin

lemma find_upsert_replaced:
  "tbl_find key k (tbl_upsert key (vkey v) (upd v) (new v) rows) =
     (if k = vkey v then Some (new v) else tbl_find key k rows)"
  by (auto simp: find_upsert upd_new split: option.splits dest: tbl_find_SomeD)

lemma upsert_idem:
  assumes "keys_distinct key rows"
  shows "tbl_upsert key (vkey v) (upd v) (new v) (tbl_upsert key (vkey v) (upd v) (new v) rows)
    = tbl_upsert key (vkey v) (upd v) (new v) rows"
proof -
  have "vkey v \<in> key ` set (tbl_upsert key (vkey v) (upd v) (new v) rows)"
    by (simp add: keys_upsert)
  moreover have "r = new v"
    if "r \<in> set (tbl_upsert key (vkey v) (upd v) (new v) rows)" and "key r = vkey v" for r
  proof -
    have "tbl_find key (key r) (tbl_upsert key (vkey v) (upd v) (new v) rows) = Some r"
      using tbl_find_distinct [OF distinct_upsert [OF assms] that(1)] .
    with that(2) show ?thesis by (simp add: find_upsert_replaced)
  qed
  ultimately show ?thesis
    by (subst tbl_upsert_def) (simp, rule map_idI, metis upd_new)
qed

lemma mem_upsert:
  assumes "keys_distinct key rows"
  shows "r \<in> set (tbl_upsert key (vkey v) (upd v) (new v) rows) \<longleftrightarrow>
    r = new v \<or> r \<in> set rows \<and> key r \<noteq> vkey v"
proof -
  have iff: "r \<in> set xs \<longleftrightarrow> tbl_find key (key r) xs = Some r" if "keys_distinct key xs" for xs
    using tbl_find_distinct [OF that] by (auto dest: tbl_find_SomeD)
  show ?thesis
    by (auto simp: iff [OF assms] iff [OF distinct_upsert [OF assms]] find_upsert_replaced key_new)
qed

end

end
