(* ===== verification/Kld_Data.thy ===== *)
theory Kld_Data
  imports Rust_Text Sql_Table
begin

text \<open>
  The records the node stores: timestamps (\<^verbatim>\<open>database/mod.rs\<close>), payments (\<^verbatim>\<open>database/payment.rs\<close>),
  invoices (\<^verbatim>\<open>database/invoice.rs\<close>), forwards (\<^verbatim>\<open>database/forward.rs\<close>) and peers
  (\<^verbatim>\<open>database/peer.rs\<close>), with the conversions between a record and its row.  A hash, a preimage, a
  secret or an identifier is a byte string; \<open>try_into\<close> a \<open>[u8; 32]\<close> fails on another length.
  The types of the libraries are records of what the code reads of them; what their parsers
  and codecs do is a parameter.
\<close>

section \<open>Timestamps\<close>

text \<open>An \<open>OffsetDateTime\<close>: local date and time in seconds, the nanosecond, and the offset from UTC.
  A \<open>PrimitiveDateTime\<close> has no offset.\<close>

record primitive_date_time =
  pdt_secs :: int
  pdt_nanosecond :: nat

record offset_date_time =
  odt_secs :: int
  odt_nanosecond :: nat
  odt_offset :: int

definition microsecond_timestamp :: "offset_date_time \<Rightarrow> offset_date_time" where
  "microsecond_timestamp now = now\<lparr>odt_nanosecond := (odt_nanosecond now div 1000) * 1000\<rparr>"

definition to_primitive :: "offset_date_time \<Rightarrow> primitive_date_time" where
  "to_primitive t = \<lparr>pdt_secs = odt_secs t, pdt_nanosecond = odt_nanosecond t\<rparr>"

definition assume_utc :: "primitive_date_time \<Rightarrow> offset_date_time" where
  "assume_utc p = \<lparr>odt_secs = pdt_secs p, odt_nanosecond = pdt_nanosecond p, odt_offset = 0\<rparr>"

definition unix_timestamp :: "offset_date_time \<Rightarrow> int" where
  "unix_timestamp t = odt_secs t - odt_offset t"

definition is_utc :: "offset_date_time \<Rightarrow> bool" where
  "is_utc t \<longleftrightarrow> odt_offset t = 0"

lemma is_utc_microsecond_timestamp [simp]: "is_utc (microsecond_timestamp t) \<longleftrightarrow> is_utc t"
  by (simp add: is_utc_def microsecond_timestamp_def)

lemma assume_utc_to_primitive [simp]: "is_utc t \<Longrightarrow> assume_utc (to_primitive t) = t"
  by (simp add: assume_utc_def to_primitive_def is_utc_def)

section \<open>Payments\<close>

datatype payment_status =
    Pending | Succeeded | RecipientRejected | UserAbandoned
  | RetriesExhausted | Expired | RouteNotFound | Error

datatype payment_direction = Inbound | Outbound

fun payment_status_fmt :: "payment_status \<Rightarrow> string" where
  "payment_status_fmt Pending = ''pending''"
| "payment_status_fmt Succeeded = ''succeeded''"
| "payment_status_fmt RecipientRejected = ''recipient rejected''"
| "payment_status_fmt UserAbandoned = ''user abandoned''"
| "payment_status_fmt RetriesExhausted = ''retries exhausted''"
| "payment_status_fmt Expired = ''expired''"
| "payment_status_fmt RouteNotFound = ''route not found''"
| "payment_status_fmt Error = ''error''"

fun payment_direction_fmt :: "payment_direction \<Rightarrow> string" where
  "payment_direction_fmt Inbound = ''inbound''"
| "payment_direction_fmt Outbound = ''outbound''"

definition payment_direction_from_str :: "string \<Rightarrow> payment_direction outcome" where
  "payment_direction_from_str s =
     (if s = ''inbound'' then Ok Inbound
      else if s = ''outbound'' then Ok Outbound
      else Err (Msg (''unable to deserialize '' @ s)))"

text \<open>What the code reads of a \<open>Bolt11Invoice\<close>: its text and its accessors. \<open>b11_payee\<close> and
  \<open>b11_raw_payment_hash\<close> are those of the signed raw invoice, which may be missing.\<close>

record bolt11_invoice =
  b11_text :: string
  b11_payment_hash :: bytes
  b11_payment_secret :: bytes
  b11_amount_msat :: "u64 option"
  b11_expiry_secs :: u64
  b11_timestamp :: nat
  b11_raw_expiry :: "u64 option"
  b11_raw_amount_pico :: "u64 option"
  b11_raw_payment_hash :: "bytes option"
  b11_recovered_payee :: "bytes option"
  b11_signature_ok :: bool

record payment =
  pay_id :: bytes
  pay_hash :: "bytes option"
  pay_preimage :: "bytes option"
  pay_secret :: "bytes option"
  pay_label :: "string option"
  pay_status :: payment_status
  pay_amount :: u64
  pay_fee :: "u64 option"
  pay_direction :: payment_direction
  pay_timestamp :: offset_date_time
  pay_bolt11 :: "bolt11_invoice option"

text \<open>The constructors take the random identifier and the clock as arguments.\<close>

definition spontaneous_inbound :: "bytes \<Rightarrow> offset_date_time \<Rightarrow> bytes \<Rightarrow> bytes \<Rightarrow> u64 \<Rightarrow> payment" where
  "spontaneous_inbound random now hash preimage amount =
     \<lparr>pay_id = random, pay_hash = Some hash, pay_preimage = Some preimage, pay_secret = None,
      pay_label = None, pay_status = Pending, pay_amount = amount, pay_fee = None,
      pay_direction = Inbound, pay_timestamp = microsecond_timestamp now, pay_bolt11 = None\<rparr>"

definition spontaneous_outbound :: "offset_date_time \<Rightarrow> bytes \<Rightarrow> u64 \<Rightarrow> payment" where
  "spontaneous_outbound now pid amount =
     \<lparr>pay_id = pid, pay_hash = None, pay_preimage = None, pay_secret = None,
      pay_label = None, pay_status = Pending, pay_amount = amount, pay_fee = None,
      pay_direction = Outbound, pay_timestamp = microsecond_timestamp now, pay_bolt11 = None\<rparr>"

definition of_invoice_inbound ::
  "bytes \<Rightarrow> offset_date_time \<Rightarrow> bytes \<Rightarrow> bytes option \<Rightarrow> bytes \<Rightarrow> u64 \<Rightarrow> payment" where
  "of_invoice_inbound random now hash preimage secret amount =
     \<lparr>pay_id = random, pay_hash = Some hash, pay_preimage = preimage, pay_secret = Some secret,
      pay_label = None, pay_status = Succeeded, pay_amount = amount, pay_fee = None,
      pay_direction = Inbound, pay_timestamp = microsecond_timestamp now, pay_bolt11 = None\<rparr>"

definition of_invoice_outbound ::
  "bytes \<Rightarrow> offset_date_time \<Rightarrow> bolt11_invoice \<Rightarrow> string option \<Rightarrow> payment" where
  "of_invoice_outbound random now bolt11 label =
     \<lparr>pay_id = random, pay_hash = Some (b11_payment_hash bolt11), pay_preimage = None,
      pay_secret = Some (b11_payment_secret bolt11), pay_label = label, pay_status = Pending,
      pay_amount = (case b11_amount_msat bolt11 of None \<Rightarrow> 0 | Some a \<Rightarrow> a), pay_fee = None,
      pay_direction = Outbound, pay_timestamp = microsecond_timestamp now,
      pay_bolt11 = Some bolt11\<rparr>"

definition payment_succeeded :: "bytes \<Rightarrow> bytes \<Rightarrow> u64 option \<Rightarrow> payment \<Rightarrow> payment" where
  "payment_succeeded hash preimage fee p =
     p\<lparr>pay_hash := Some hash, pay_preimage := Some preimage, pay_fee := fee, pay_status := Succeeded\<rparr>"

text \<open>LDK's reasons for a failed payment.\<close>

datatype failure_reason =
    ReasonRecipientRejected | ReasonUserAbandoned | ReasonRetriesExhausted
  | ReasonPaymentExpired | ReasonRouteNotFound | ReasonUnexpectedError

fun payment_failed :: "failure_reason option \<Rightarrow> payment \<Rightarrow> payment" where
  "payment_failed (Some ReasonRecipientRejected) p = p\<lparr>pay_status := RecipientRejected\<rparr>"
| "payment_failed (Some ReasonUserAbandoned) p = p\<lparr>pay_status := UserAbandoned\<rparr>"
| "payment_failed (Some ReasonRetriesExhausted) p = p\<lparr>pay_status := RetriesExhausted\<rparr>"
| "payment_failed (Some ReasonPaymentExpired) p = p\<lparr>pay_status := Expired\<rparr>"
| "payment_failed (Some ReasonRouteNotFound) p = p\<lparr>pay_status := RouteNotFound\<rparr>"
| "payment_failed _ p = p\<lparr>pay_status := Error\<rparr>"

section \<open>Rows of payments\<close>

text \<open>The columns of \<open>payments\<close> that the code writes and reads (\<^verbatim>\<open>sql/V3__payments.sql\<close>, \<^verbatim>\<open>V4\<close>, \<^verbatim>\<open>V9\<close>).\<close>

record payment_row =
  pr_id :: bytes
  pr_hash :: "bytes option"
  pr_preimage :: "bytes option"
  pr_secret :: "bytes option"
  pr_label :: "string option"
  pr_status :: payment_status
  pr_amount :: int
  pr_fee :: "int option"
  pr_direction :: payment_direction
  pr_timestamp :: primitive_date_time

definition array32 :: "string \<Rightarrow> bytes \<Rightarrow> bytes outcome" where
  "array32 what b = (if length b = 32 then Ok b else Err (Msg what))"

definition opt_array32 :: "string \<Rightarrow> bytes option \<Rightarrow> bytes option outcome" where
  "opt_array32 what b =
     (case b of None \<Rightarrow> Ok None | Some b \<Rightarrow> bind_outcome (array32 what b) (\<lambda>x. Ok (Some x)))"

text \<open>\<open>Payment::try_from(&Row)\<close>: the row with the \<open>bolt11\<close> column of the joined invoice. Reading a
  \<open>NULL\<close> there as a \<open>&str\<close> panics; \<open>from_str\<close> is the parser of the invoice library.\<close>

definition payment_try_from ::
  "(string \<Rightarrow> bolt11_invoice option) \<Rightarrow> payment_row \<times> string option \<Rightarrow> payment outcome" where
  "payment_try_from from_str rb = (case rb of (row, bolt11) \<Rightarrow>
     bind_outcome (opt_array32 ''bad hash'' (pr_hash row)) (\<lambda>hash.
     bind_outcome (opt_array32 ''bad preimage'' (pr_preimage row)) (\<lambda>preimage.
     bind_outcome (opt_array32 ''bad secret'' (pr_secret row)) (\<lambda>secret.
     bind_outcome (array32 ''bad ID'' (pr_id row)) (\<lambda>pid.
     bind_outcome (case bolt11 of None \<Rightarrow> Panic | Some s \<Rightarrow> Ok (from_str s)) (\<lambda>inv.
       Ok \<lparr>pay_id = pid, pay_hash = hash, pay_preimage = preimage, pay_secret = secret,
           pay_label = pr_label row, pay_status = pr_status row,
           pay_amount = i64_as_u64 (pr_amount row), pay_fee = map_option i64_as_u64 (pr_fee row),
           pay_direction = pr_direction row, pay_timestamp = assume_utc (pr_timestamp row),
           pay_bolt11 = inv\<rparr>))))))"

definition payment_to_row :: "payment \<Rightarrow> payment_row" where
  "payment_to_row p =
     \<lparr>pr_id = pay_id p, pr_hash = pay_hash p, pr_preimage = pay_preimage p, pr_secret = pay_secret p,
      pr_label = pay_label p, pr_status = pay_status p, pr_amount = u64_as_i64 (pay_amount p),
      pr_fee = map_option u64_as_i64 (pay_fee p), pr_direction = pay_direction p,
      pr_timestamp = to_primitive (pay_timestamp p)\<rparr>"

lemma payment_to_row_sel [simp]:
  "pr_id (payment_to_row p) = pay_id p" "pr_hash (payment_to_row p) = pay_hash p"
  "pr_status (payment_to_row p) = pay_status p" "pr_direction (payment_to_row p) = pay_direction p"
  "pr_amount (payment_to_row p) = u64_as_i64 (pay_amount p)"
  by (simp_all add: payment_to_row_def)

text \<open>The type invariant of a payment: identifiers of 32 bytes and a timestamp in UTC.\<close>

definition len32 :: "bytes \<Rightarrow> bool" where
  "len32 b \<longleftrightarrow> length b = 32"

definition payment_wf :: "payment \<Rightarrow> bool" where
  "payment_wf p \<longleftrightarrow> len32 (pay_id p) \<and> pred_option len32 (pay_hash p) \<and>
     pred_option len32 (pay_preimage p) \<and> pred_option len32 (pay_secret p) \<and> is_utc (pay_timestamp p)"

lemma array32_len [simp]: "len32 b \<Longrightarrow> array32 w b = Ok b"
  by (simp add: array32_def len32_def)

lemma opt_array32_len [simp]: "pred_option len32 b \<Longrightarrow> opt_array32 w b = Ok b"
  by (cases b) (simp_all add: opt_array32_def)

lemma payment_try_from_row:
  assumes "payment_wf p"
  shows "payment_try_from from_str (payment_to_row p, bolt11) =
    (case bolt11 of None \<Rightarrow> Panic | Some s \<Rightarrow> Ok (p\<lparr>pay_bolt11 := from_str s\<rparr>))"
  using assms
  by (cases bolt11) (simp_all add: payment_try_from_def payment_to_row_def payment_wf_def
      option.map_comp comp_def option.map_ident)

section \<open>Invoices\<close>

text \<open>A public key is its serialised form; \<open>from_slice\<close>, the parser of the key library, is a
  parameter that accepts the valid forms.\<close>

type_synonym pubkey = bytes

record invoice =
  inv_payment_hash :: bytes
  inv_label :: "string option"
  inv_bolt11 :: bolt11_invoice
  inv_payee_pub_key :: pubkey
  inv_expiry :: "u64 option"
  inv_amount :: "u64 option"
  inv_timestamp :: nat
  inv_payments :: "payment list"

definition invoice_new :: "string option \<Rightarrow> bolt11_invoice \<Rightarrow> invoice outcome" where
  "invoice_new label bolt11 =
     bind_outcome (ok_or (Msg ''recover payee'') (b11_recovered_payee bolt11)) (\<lambda>payee.
     bind_outcome (ok_or (Msg ''missing payment hash'') (b11_raw_payment_hash bolt11)) (\<lambda>hash.
       Ok \<lparr>inv_payment_hash = hash, inv_label = label, inv_bolt11 = bolt11,
           inv_payee_pub_key = payee, inv_expiry = b11_raw_expiry bolt11,
           inv_amount = map_option (\<lambda>a. a div 10) (b11_raw_amount_pico bolt11),
           inv_timestamp = b11_timestamp bolt11, inv_payments = []\<rparr>))"

definition invoice_try_from :: "(string \<Rightarrow> bolt11_invoice option) \<Rightarrow> string \<Rightarrow> invoice outcome" where
  "invoice_try_from from_str value =
     bind_outcome (ok_or (Msg ''parse invoice'') (from_str value)) (\<lambda>bolt11.
       if b11_signature_ok bolt11 then invoice_new None bolt11 else Err (Msg ''bad signature''))"

definition invoice_deserialize ::
  "(string \<Rightarrow> bolt11_invoice option) \<Rightarrow> (bytes \<Rightarrow> pubkey option) \<Rightarrow> bytes \<Rightarrow> string option \<Rightarrow> string \<Rightarrow>
   bytes \<Rightarrow> u64 option \<Rightarrow> int option \<Rightarrow> nat \<Rightarrow> invoice outcome" where
  "invoice_deserialize from_str from_slice payment_hash label bolt11 payee expiry amount timestamp =
     bind_outcome (ok_or (Msg ''parse invoice'') (from_str bolt11)) (\<lambda>b.
     bind_outcome (ok_or (Msg ''malformed public key'') (from_slice payee)) (\<lambda>pk.
       Ok \<lparr>inv_payment_hash = payment_hash, inv_label = label, inv_bolt11 = b,
           inv_payee_pub_key = pk, inv_expiry = expiry, inv_amount = map_option i64_as_u64 amount,
           inv_timestamp = timestamp, inv_payments = []\<rparr>))"

record invoice_row =
  ir_payment_hash :: bytes
  ir_label :: "string option"
  ir_bolt11 :: string
  ir_payee_pub_key :: bytes
  ir_expiry :: "int option"
  ir_amount :: "int option"
  ir_timestamp :: nat

section \<open>Forwards\<close>

datatype htlc_destination =
    NextHopChannel "pubkey option" bytes
  | UnknownNextHop u64
  | InvalidForward u64
  | FailedPayment bytes

datatype forward_status = FwdSucceeded | FwdFailed

record forward =
  fwd_id :: bytes
  fwd_inbound_channel_id :: bytes
  fwd_outbound_channel_id :: "bytes option"
  fwd_amount :: "u64 option"
  fwd_fee :: "u64 option"
  fwd_status :: forward_status
  fwd_htlc_destination :: "htlc_destination option"
  fwd_timestamp :: offset_date_time

definition forward_success ::
  "bytes \<Rightarrow> offset_date_time \<Rightarrow> bytes \<Rightarrow> bytes \<Rightarrow> u64 \<Rightarrow> u64 \<Rightarrow> forward" where
  "forward_success uuid now inbound outbound amount fee =
     \<lparr>fwd_id = uuid, fwd_inbound_channel_id = inbound, fwd_outbound_channel_id = Some outbound,
      fwd_amount = Some amount, fwd_fee = Some fee, fwd_status = FwdSucceeded,
      fwd_htlc_destination = None, fwd_timestamp = microsecond_timestamp now\<rparr>"

definition forward_failure ::
  "bytes \<Rightarrow> offset_date_time \<Rightarrow> bytes \<Rightarrow> htlc_destination \<Rightarrow> forward" where
  "forward_failure uuid now inbound dest =
     \<lparr>fwd_id = uuid, fwd_inbound_channel_id = inbound, fwd_outbound_channel_id = None,
      fwd_amount = None, fwd_fee = None, fwd_status = FwdFailed,
      fwd_htlc_destination = Some dest, fwd_timestamp = microsecond_timestamp now\<rparr>"

record forward_row =
  fr_id :: bytes
  fr_inbound_channel_id :: bytes
  fr_outbound_channel_id :: "bytes option"
  fr_amount :: "int option"
  fr_fee :: "int option"
  fr_status :: forward_status
  fr_htlc_destination :: "bytes option"
  fr_timestamp :: primitive_date_time

text \<open>\<open>RowExt::read\<close> and \<open>read_optional\<close>: a decode error, a value that is not readable, a value. The
  codec is a function from bytes to one of the three.\<close>

definition row_read :: "(bytes \<Rightarrow> 'a option outcome) \<Rightarrow> bytes \<Rightarrow> 'a outcome" where
  "row_read dec b = bind_outcome (dec b) (ok_or (Msg ''expected readable value for column''))"

definition row_read_optional :: "(bytes \<Rightarrow> 'a option outcome) \<Rightarrow> bytes option \<Rightarrow> 'a option outcome" where
  "row_read_optional dec b =
     (case b of None \<Rightarrow> Ok None | Some b \<Rightarrow> bind_outcome (row_read dec b) (\<lambda>x. Ok (Some x)))"

definition forward_try_from ::
  "(bytes \<Rightarrow> htlc_destination option outcome) \<Rightarrow> forward_row \<Rightarrow> forward outcome" where
  "forward_try_from dec row =
     bind_outcome (opt_array32 ''slice'' (fr_outbound_channel_id row)) (\<lambda>out.
     bind_outcome (array32 ''slice'' (fr_inbound_channel_id row)) (\<lambda>inb.
     bind_outcome (row_read_optional dec (fr_htlc_destination row)) (\<lambda>dest.
       Ok \<lparr>fwd_id = fr_id row, fwd_inbound_channel_id = inb, fwd_outbound_channel_id = out,
           fwd_amount = map_option i64_as_u64 (fr_amount row),
           fwd_fee = map_option i64_as_u64 (fr_fee row), fwd_status = fr_status row,
           fwd_htlc_destination = dest, fwd_timestamp = assume_utc (fr_timestamp row)\<rparr>)))"

definition forward_to_row :: "(htlc_destination \<Rightarrow> bytes) \<Rightarrow> forward \<Rightarrow> forward_row" where
  "forward_to_row enc f =
     \<lparr>fr_id = fwd_id f, fr_inbound_channel_id = fwd_inbound_channel_id f,
      fr_outbound_channel_id = fwd_outbound_channel_id f,
      fr_amount = map_option u64_as_i64 (fwd_amount f), fr_fee = map_option u64_as_i64 (fwd_fee f),
      fr_status = fwd_status f, fr_htlc_destination = map_option enc (fwd_htlc_destination f),
      fr_timestamp = to_primitive (fwd_timestamp f)\<rparr>"

definition forward_wf :: "forward \<Rightarrow> bool" where
  "forward_wf f \<longleftrightarrow> len32 (fwd_inbound_channel_id f) \<and> pred_option len32 (fwd_outbound_channel_id f) \<and>
     is_utc (fwd_timestamp f)"

lemma row_read_optional_encoded:
  "(\<And>x. dec (enc x) = Ok (Some x)) \<Longrightarrow> row_read_optional dec (map_option enc y) = Ok y"
  by (cases y) (simp_all add: row_read_optional_def row_read_def)

lemma forward_try_from_row:
  assumes "forward_wf f" and "\<And>x. dec (enc x) = Ok (Some x)"
  shows "forward_try_from dec (forward_to_row enc f) = Ok f"
  using assms
  by (simp add: forward_try_from_def forward_to_row_def forward_wf_def row_read_optional_encoded
      option.map_comp comp_def option.map_ident)

record total_forwards =
  tf_count :: u64
  tf_amount :: u64
  tf_fee :: u64

section \<open>Peers\<close>

text \<open>LDK's socket addresses.\<close>

datatype socket_address =
    TcpIpV4 bytes u16
  | TcpIpV6 bytes u16
  | OnionV2 bytes
  | OnionV3 bytes u16 u8 u16
  | Hostname string u16

record peer =
  peer_public_key :: pubkey
  peer_address :: socket_address

record peer_row =
  pe_public_key :: bytes
  pe_address :: bytes

definition peer_deserialize ::
  "(bytes \<Rightarrow> pubkey option) \<Rightarrow> (bytes \<Rightarrow> socket_address option outcome) \<Rightarrow> bytes \<Rightarrow> bytes \<Rightarrow> peer outcome" where
  "peer_deserialize from_slice addr_read public_key net_address =
     bind_outcome (ok_or (Msg ''malformed public key'') (from_slice public_key)) (\<lambda>pk.
     bind_outcome (addr_read net_address) (\<lambda>a.
     bind_outcome (ok_or (Msg ''Error parsing address'') a) (\<lambda>addr.
       Ok \<lparr>peer_public_key = pk, peer_address = addr\<rparr>)))"

end
