(* ===== verification/Ldk_Database.thy ===== *)
theory Ldk_Database
  imports Kld_Data
begin

text \<open>
  \<^verbatim>\<open>database/ldk_database.rs\<close>: the tables of the lightning node and one definition per method of
  \<open>LdkDatabase\<close>.  A method that writes returns the new state or an error, in which case nothing is
  written; a method on a dropped connection fails.  The columns and keys are those of
  \<^verbatim>\<open>database/sql\<close>.  The clock of the node (\<open>now\<close>) and that of the database server
  (\<open>server_now\<close>, for a column whose default is the current time) are arguments, as are the codecs
  of LDK.  Statements that the code hands to the runtime are tasks, executed by \<open>run_task\<close> in
  whatever order the runtime chooses.
\<close>

section \<open>Channels as LDK lists them\<close>

text \<open>The fields of \<open>ChannelDetails\<close> and \<open>ChannelConfig\<close> that the program computes with; the
  remaining ones are only copied into responses.\<close>

datatype max_dust_htlc_exposure = FixedLimitMsat u64 | FeeRateMultiplier u64

record channel_config =
  cfg_forwarding_fee_proportional_millionths :: u32
  cfg_forwarding_fee_base_msat :: u32
  cfg_cltv_expiry_delta :: u16
  cfg_max_dust_htlc_exposure :: max_dust_htlc_exposure

record channel_details =
  cd_channel_id :: bytes
  cd_counterparty_node_id :: pubkey
  cd_counterparty_reserve :: u64
  cd_funding_txo :: "(bytes \<times> u16) option"
  cd_short_channel_id :: "u64 option"
  cd_channel_value_satoshis :: u64
  cd_reserve :: "u64 option"
  cd_user_channel_id :: u128
  cd_balance_msat :: u64
  cd_outbound_capacity_msat :: u64
  cd_inbound_capacity_msat :: u64
  cd_is_outbound :: bool
  cd_is_channel_ready :: bool
  cd_is_usable :: bool
  cd_is_public :: bool
  cd_config :: "channel_config option"

section \<open>Tables\<close>

record manager_row =
  mr_id :: string
  mr_manager :: bytes

record monitor_row =
  mo_out_point :: bytes
  mo_monitor :: bytes
  mo_update_id :: int

record scorer_row =
  sr_id :: string
  sr_scorer :: bytes
  sr_timestamp :: primitive_date_time

record spendable_row =
  so_txid :: bytes
  so_index :: int
  so_value :: int
  so_channel_id :: "bytes option"
  so_data :: bytes
  so_is_spent :: bool

record channel_row =
  ch_channel_id :: bytes
  ch_counterparty :: bytes
  ch_short_channel_id :: "int option"
  ch_is_usable :: bool
  ch_is_public :: bool
  ch_data :: "bytes option"
  ch_open_timestamp :: primitive_date_time
  ch_update_timestamp :: primitive_date_time
  ch_closure_reason :: "string option"

record initializing_row =
  in_initializing_channel_id :: bytes
  in_counterparty :: bytes
  in_is_public :: bool
  in_channel_id :: "bytes option"
  in_status :: "string option"
  in_txid :: bytes
  in_vout :: "int option"
  in_open_timestamp :: primitive_date_time
  in_update_timestamp :: primitive_date_time

record ldk_database =
  db_closed :: bool
  t_channel_manager :: "manager_row list"
  t_channel_monitors :: "monitor_row list"
  t_scorer :: "scorer_row list"
  t_peers :: "peer_row list"
  t_payments :: "payment_row list"
  t_invoices :: "invoice_row list"
  t_spendable_outputs :: "spendable_row list"
  t_forwards :: "forward_row list"
  t_channels :: "channel_row list"
  t_initializing_channels :: "initializing_row list"

definition on_conn :: "ldk_database \<Rightarrow> 'a outcome \<Rightarrow> 'a outcome" where
  "on_conn db r = (if db_closed db then Err DbClosed else r)"

lemma on_conn_eq_Ok [outcome_simps]: "on_conn db r = Ok x \<longleftrightarrow> \<not> db_closed db \<and> r = Ok x"
  by (simp add: on_conn_def)

lemma on_conn_open [simp]: "\<not> db_closed db \<Longrightarrow> on_conn db r = r"
  by (simp add: on_conn_def)

lemma on_conn_closed [simp]: "db_closed db \<Longrightarrow> on_conn db r = Err DbClosed"
  by (simp add: on_conn_def)

section \<open>Start and peers\<close>

definition is_first_start :: "ldk_database \<Rightarrow> bool outcome" where
  "is_first_start db =
     on_conn db (bind_outcome (query_opt (t_channel_manager db)) (\<lambda>r. Ok (r = None)))"

text \<open>The primary key of \<open>peers\<close> is the pair of public key and address.\<close>

definition peer_row_key :: "peer_row \<Rightarrow> bytes \<times> bytes" where
  "peer_row_key r = (pe_public_key r, pe_address r)"

definition persist_peer :: "(socket_address \<Rightarrow> bytes) \<Rightarrow> peer \<Rightarrow> ldk_database \<Rightarrow> ldk_database outcome" where
  "persist_peer addr_encode p db =
     (let row = \<lparr>pe_public_key = peer_public_key p, pe_address = addr_encode (peer_address p)\<rparr>
      in on_conn db (Ok (db\<lparr>t_peers := tbl_upsert peer_row_key (peer_row_key row) (\<lambda>_. row) row (t_peers db)\<rparr>)))"

definition fetch_peer ::
  "(bytes \<Rightarrow> pubkey option) \<Rightarrow> (bytes \<Rightarrow> socket_address option outcome) \<Rightarrow> pubkey \<Rightarrow> ldk_database \<Rightarrow>
   peer option outcome" where
  "fetch_peer from_slice addr_read public_key db =
     on_conn db (bind_outcome (query_opt (filter (\<lambda>r. pe_public_key r = public_key) (t_peers db))) (\<lambda>row.
       case row of None \<Rightarrow> Ok None
       | Some r \<Rightarrow> bind_outcome (peer_deserialize from_slice addr_read (pe_public_key r) (pe_address r))
                    (\<lambda>p. Ok (Some p))))"

fun insert_peers ::
  "(bytes \<Rightarrow> pubkey option) \<Rightarrow> (bytes \<Rightarrow> socket_address option outcome) \<Rightarrow> peer_row list \<Rightarrow>
   (pubkey \<rightharpoonup> socket_address) \<Rightarrow> (pubkey \<rightharpoonup> socket_address) outcome" where
  "insert_peers from_slice addr_read [] peers = Ok peers"
| "insert_peers from_slice addr_read (r # rs) peers =
     bind_outcome (peer_deserialize from_slice addr_read (pe_public_key r) (pe_address r)) (\<lambda>p.
       insert_peers from_slice addr_read rs (peers(peer_public_key p \<mapsto> peer_address p)))"

definition fetch_peers ::
  "(bytes \<Rightarrow> pubkey option) \<Rightarrow> (bytes \<Rightarrow> socket_address option outcome) \<Rightarrow> ldk_database \<Rightarrow>
   (pubkey \<rightharpoonup> socket_address) outcome" where
  "fetch_peers from_slice addr_read db =
     on_conn db (insert_peers from_slice addr_read (t_peers db) Map.empty)"

definition delete_peer :: "pubkey \<Rightarrow> ldk_database \<Rightarrow> ldk_database outcome" where
  "delete_peer public_key db =
     on_conn db (Ok (db\<lparr>t_peers := tbl_delete (\<lambda>r. pe_public_key r = public_key) (t_peers db)\<rparr>))"

section \<open>Channels being opened\<close>

definition persist_initializing_channel ::
  "primitive_date_time \<Rightarrow> bytes \<Rightarrow> bool \<Rightarrow> pubkey \<Rightarrow> bytes \<Rightarrow> ldk_database \<Rightarrow> ldk_database outcome" where
  "persist_initializing_channel server_now initializing_channel_id is_public counterparty txid db =
     on_conn db (bind_outcome
       (tbl_insert in_initializing_channel_id
          \<lparr>in_initializing_channel_id = initializing_channel_id, in_counterparty = counterparty,
           in_is_public = is_public, in_channel_id = None, in_status = None, in_txid = txid,
           in_vout = None, in_open_timestamp = server_now, in_update_timestamp = server_now\<rparr>
          (t_initializing_channels db))
       (\<lambda>rows. Ok (db\<lparr>t_initializing_channels := rows\<rparr>)))"

definition update_initializing_channel ::
  "offset_date_time \<Rightarrow> bytes \<Rightarrow> (bytes \<times> u32) option \<Rightarrow> string option \<Rightarrow> ldk_database \<Rightarrow> ldk_database outcome" where
  "update_initializing_channel now initializing_channel_id channel_id_with_vout status db =
     (let p = (\<lambda>r. in_initializing_channel_id r = initializing_channel_id);
          ts = to_primitive (microsecond_timestamp now)
      in case channel_id_with_vout of
        Some (channel_id, vout) \<Rightarrow>
          (let st = (case status of Some s \<Rightarrow> s | None \<Rightarrow> ''Updated by ChannelPending Event'')
           in on_conn db (Ok (db\<lparr>t_initializing_channels := tbl_update p
                (\<lambda>r. r\<lparr>in_channel_id := Some channel_id, in_vout := Some (u32_as_i32 vout),
                      in_update_timestamp := ts, in_status := Some st\<rparr>)
                (t_initializing_channels db)\<rparr>)))
      | None \<Rightarrow>
          (case status of
             Some s \<Rightarrow> on_conn db (Ok (db\<lparr>t_initializing_channels := tbl_update p
                (\<lambda>r. r\<lparr>in_status := Some s, in_update_timestamp := ts\<rparr>)
                (t_initializing_channels db)\<rparr>))
           | None \<Rightarrow> Ok db))"

section \<open>Channels\<close>

definition create_channel :: "primitive_date_time \<Rightarrow> bytes \<Rightarrow> bool \<Rightarrow> pubkey \<Rightarrow> ldk_database \<Rightarrow> ldk_database outcome" where
  "create_channel server_now channel_id is_public counterparty db =
     on_conn db (bind_outcome
       (tbl_insert ch_channel_id
          \<lparr>ch_channel_id = channel_id, ch_counterparty = counterparty, ch_short_channel_id = None,
           ch_is_usable = False, ch_is_public = is_public, ch_data = None,
           ch_open_timestamp = server_now, ch_update_timestamp = server_now, ch_closure_reason = None\<rparr>
          (t_channels db))
       (\<lambda>rows. Ok (db\<lparr>t_channels := rows\<rparr>)))"

text \<open>The columns \<open>persist_channel\<close> names, on an existing row and on a new one.\<close>

definition channel_row_update ::
  "(channel_details \<Rightarrow> bytes) \<Rightarrow> offset_date_time \<Rightarrow> channel_details \<Rightarrow> channel_row \<Rightarrow> channel_row" where
  "channel_row_update enc now c r =
     (let r' = r\<lparr>ch_channel_id := cd_channel_id c, ch_counterparty := cd_counterparty_node_id c,
                ch_is_usable := cd_is_usable c, ch_is_public := cd_is_public c, ch_data := Some (enc c),
                ch_update_timestamp := to_primitive (microsecond_timestamp now)\<rparr>
      in case cd_short_channel_id c of
           Some scid \<Rightarrow> r'\<lparr>ch_short_channel_id := Some (u64_as_i64 scid)\<rparr>
         | None \<Rightarrow> r')"

definition channel_row_default :: "primitive_date_time \<Rightarrow> channel_row" where
  "channel_row_default server_now =
     \<lparr>ch_channel_id = [], ch_counterparty = [], ch_short_channel_id = None, ch_is_usable = False,
      ch_is_public = False, ch_data = None, ch_open_timestamp = server_now,
      ch_update_timestamp = server_now, ch_closure_reason = None\<rparr>"

definition persist_channel ::
  "(channel_details \<Rightarrow> bytes) \<Rightarrow> offset_date_time \<Rightarrow> primitive_date_time \<Rightarrow> channel_details \<Rightarrow> ldk_database \<Rightarrow>
   ldk_database outcome" where
  "persist_channel enc now server_now c db =
     on_conn db (Ok (db\<lparr>t_channels :=
       tbl_upsert ch_channel_id (cd_channel_id c) (channel_row_update enc now c)
         (channel_row_update enc now c (channel_row_default server_now)) (t_channels db)\<rparr>))"

definition close_channel_row :: "offset_date_time \<Rightarrow> string \<Rightarrow> channel_row \<Rightarrow> channel_row" where
  "close_channel_row now reason r =
     r\<lparr>ch_is_usable := False, ch_update_timestamp := to_primitive (microsecond_timestamp now),
       ch_closure_reason := Some reason\<rparr>"

definition close_channel :: "offset_date_time \<Rightarrow> bytes \<Rightarrow> string \<Rightarrow> ldk_database \<Rightarrow> ldk_database outcome" where
  "close_channel now channel_id closure_reason db =
     on_conn db (Ok (db\<lparr>t_channels :=
       tbl_update (\<lambda>r. ch_channel_id r = channel_id) (close_channel_row now closure_reason) (t_channels db)\<rparr>))"

record channel_record =
  cr_channel_id :: string
  cr_counterparty :: string
  cr_open_timestamp :: offset_date_time
  cr_update_timestamp :: offset_date_time
  cr_closure_reason :: "string option"
  cr_detail :: "channel_details option"

text \<open>The decoder of \<open>ChannelDetails\<close> is a parameter. A channel id and a public key print as their
  lower-case hexadecimal form.\<close>

fun history_records ::
  "(bytes \<Rightarrow> channel_details option outcome) \<Rightarrow> channel_row list \<Rightarrow> channel_record list outcome" where
  "history_records dec [] = Ok []"
| "history_records dec (r # rs) =
     bind_outcome (row_read_optional dec (ch_data r)) (\<lambda>detail.
     bind_outcome (history_records dec rs) (\<lambda>rest.
       case detail of None \<Rightarrow> Ok rest
       | Some d \<Rightarrow> Ok (\<lparr>cr_channel_id = hex_encode (cd_channel_id d),
             cr_counterparty = hex_encode (cd_counterparty_node_id d),
             cr_open_timestamp = assume_utc (ch_open_timestamp r),
             cr_update_timestamp = assume_utc (ch_update_timestamp r),
             cr_closure_reason = ch_closure_reason r,
             cr_detail = Some (d\<lparr>cd_is_usable := False\<rparr>)\<rparr> # rest)))"

definition fetch_channel_history ::
  "(bytes \<Rightarrow> channel_details option outcome) \<Rightarrow> ldk_database \<Rightarrow> channel_record list outcome" where
  "fetch_channel_history dec db =
     on_conn db (history_records dec (filter (\<lambda>r. \<not> ch_is_usable r) (t_channels db)))"

definition read32 :: "bytes \<Rightarrow> bytes outcome" where
  "read32 b = (if 32 \<le> length b then Ok (take 32 b) else Err (Msg ''Short read''))"

definition channel_record_of ::
  "(bytes \<Rightarrow> channel_details option outcome) \<Rightarrow> (bytes \<Rightarrow> pubkey option outcome) \<Rightarrow>
   channel_row \<Rightarrow> channel_record outcome" where
  "channel_record_of dec pk_read r =
     bind_outcome (row_read_optional dec (ch_data r)) (\<lambda>detail.
     bind_outcome (row_read pk_read (ch_counterparty r)) (\<lambda>pk.
     bind_outcome (read32 (ch_channel_id r)) (\<lambda>cid.
       Ok \<lparr>cr_channel_id = hex_encode cid, cr_counterparty = hex_encode pk,
           cr_open_timestamp = assume_utc (ch_open_timestamp r),
           cr_update_timestamp = assume_utc (ch_update_timestamp r),
           cr_closure_reason = ch_closure_reason r,
           cr_detail = map_option (\<lambda>d. d\<lparr>cd_is_usable := ch_is_usable r\<rparr>) detail\<rparr>)))"

definition fetch_channels ::
  "(bytes \<Rightarrow> channel_details option outcome) \<Rightarrow> (bytes \<Rightarrow> pubkey option outcome) \<Rightarrow> ldk_database \<Rightarrow>
   channel_record list outcome" where
  "fetch_channels dec pk_read db = on_conn db (collect (channel_record_of dec pk_read) (t_channels db))"

section \<open>Spendable outputs\<close>

text \<open>A descriptor of LDK: the outpoint, the value and the kind of output.\<close>

datatype spendable_output_descriptor =
    StaticOutput bytes u16 u64
  | DelayedPaymentOutput bytes u16 u64
  | StaticPaymentOutput bytes u16 u64

fun descriptor_outpoint :: "spendable_output_descriptor \<Rightarrow> bytes \<times> u16 \<times> u64" where
  "descriptor_outpoint (StaticOutput txid index val) = (txid, index, val)"
| "descriptor_outpoint (DelayedPaymentOutput txid index val) = (txid, index, val)"
| "descriptor_outpoint (StaticPaymentOutput txid index val) = (txid, index, val)"

definition spendable_row_key :: "spendable_row \<Rightarrow> bytes \<times> int" where
  "spendable_row_key r = (so_txid r, so_index r)"

definition spendable_row_update ::
  "(spendable_output_descriptor \<Rightarrow> bytes) \<Rightarrow> spendable_output_descriptor \<Rightarrow> bytes option \<Rightarrow> bool \<Rightarrow>
   spendable_row \<Rightarrow> spendable_row" where
  "spendable_row_update enc descriptor channel_id is_spent r =
     (case descriptor_outpoint descriptor of (txid, index, val) \<Rightarrow>
       let r' = r\<lparr>so_txid := txid, so_index := u16_as_i16 index, so_value := u64_as_i64 val,
                 so_data := enc descriptor, so_is_spent := is_spent\<rparr>
       in case channel_id of Some c \<Rightarrow> r'\<lparr>so_channel_id := Some c\<rparr> | None \<Rightarrow> r')"

definition spendable_row_default :: spendable_row where
  "spendable_row_default =
     \<lparr>so_txid = [], so_index = 0, so_value = 0, so_channel_id = None, so_data = [], so_is_spent = False\<rparr>"

definition spendable_key :: "spendable_output_descriptor \<Rightarrow> bytes \<times> int" where
  "spendable_key d = (case descriptor_outpoint d of (txid, index, _) \<Rightarrow> (txid, u16_as_i16 index))"

definition persist_spendable_output ::
  "(spendable_output_descriptor \<Rightarrow> bytes) \<Rightarrow> spendable_output_descriptor \<Rightarrow> bytes option \<Rightarrow> bool \<Rightarrow>
   ldk_database \<Rightarrow> ldk_database outcome" where
  "persist_spendable_output enc descriptor channel_id is_spent db =
     on_conn db (Ok (db\<lparr>t_spendable_outputs :=
       tbl_upsert spendable_row_key (spendable_key descriptor)
         (spendable_row_update enc descriptor channel_id is_spent)
         (spendable_row_update enc descriptor channel_id is_spent spendable_row_default)
         (t_spendable_outputs db)\<rparr>))"

definition fetch_spendable_outputs ::
  "(bytes \<Rightarrow> spendable_output_descriptor option outcome) \<Rightarrow> ldk_database \<Rightarrow>
   (spendable_output_descriptor \<times> bool) list outcome" where
  "fetch_spendable_outputs dec db =
     on_conn db (collect (\<lambda>r. bind_outcome (row_read dec (so_data r)) (\<lambda>d. Ok (d, so_is_spent r)))
       (t_spendable_outputs db))"

section \<open>Invoices and payments\<close>

text \<open>\<open>expiry\<close> is written from \<open>bolt11.expiry_time()\<close>. The label is a unique column
  (\<^verbatim>\<open>sql/V5__invoice_label.sql\<close>): \<open>UPSERT\<close> fails when another invoice has it.\<close>

definition invoice_to_row :: "invoice \<Rightarrow> invoice_row" where
  "invoice_to_row i =
     \<lparr>ir_payment_hash = inv_payment_hash i, ir_label = inv_label i, ir_bolt11 = b11_text (inv_bolt11 i),
      ir_payee_pub_key = inv_payee_pub_key i,
      ir_expiry = Some (u64_as_i64 (b11_expiry_secs (inv_bolt11 i))),
      ir_amount = map_option u64_as_i64 (inv_amount i), ir_timestamp = inv_timestamp i\<rparr>"

definition label_taken :: "invoice_row \<Rightarrow> invoice_row list \<Rightarrow> bool" where
  "label_taken row rows \<longleftrightarrow> ir_label row \<noteq> None \<and>
     (\<exists>r \<in> set rows. ir_payment_hash r \<noteq> ir_payment_hash row \<and> ir_label r = ir_label row)"

definition persist_invoice :: "invoice \<Rightarrow> ldk_database \<Rightarrow> ldk_database outcome" where
  "persist_invoice i db =
     (let row = invoice_to_row i
      in on_conn db (if label_taken row (t_invoices db) then Err DbUnique
           else Ok (db\<lparr>t_invoices := tbl_upsert ir_payment_hash (ir_payment_hash row) (\<lambda>_. row) row
                        (t_invoices db)\<rparr>)))"

text \<open>\<open>invoices i LEFT OUTER JOIN payments p ON i.payment_hash = p.hash\<close>.\<close>

definition invoice_payment_join ::
  "payment_row list \<Rightarrow> invoice_row list \<Rightarrow> (invoice_row \<times> payment_row option) list" where
  "invoice_payment_join payments invoices =
     concat (map (\<lambda>i. case filter (\<lambda>p. pr_hash p = Some (ir_payment_hash i)) payments of
               [] \<Rightarrow> [(i, None)] | ps \<Rightarrow> map (\<lambda>p. (i, Some p)) ps) invoices)"

text \<open>One step of the loop of \<open>fetch_invoices\<close>: the invoices found so far, by payment hash.\<close>

definition add_invoice_row ::
  "(string \<Rightarrow> bolt11_invoice option) \<Rightarrow> (bytes \<Rightarrow> pubkey option) \<Rightarrow> (bytes \<rightharpoonup> invoice) \<Rightarrow>
   invoice_row \<times> payment_row option \<Rightarrow> (bytes \<rightharpoonup> invoice) outcome" where
  "add_invoice_row from_str from_slice invoices ip = (case ip of (i, p) \<Rightarrow>
     bind_outcome (array32 ''payment hash'' (ir_payment_hash i)) (\<lambda>hash.
     bind_outcome (case p of None \<Rightarrow> Ok None
        | Some row \<Rightarrow> bind_outcome (payment_try_from from_str (row, Some (ir_bolt11 i))) (\<lambda>x. Ok (Some x)))
      (\<lambda>payment.
       case invoices hash of
         Some found \<Rightarrow> Ok (case payment of None \<Rightarrow> invoices
                     | Some x \<Rightarrow> invoices(hash \<mapsto> found\<lparr>inv_payments := inv_payments found @ [x]\<rparr>))
       | None \<Rightarrow>
           bind_outcome (invoice_deserialize from_str from_slice hash (ir_label i) (ir_bolt11 i)
              (ir_payee_pub_key i) (map_option i64_as_u64 (ir_expiry i)) (ir_amount i) (ir_timestamp i))
           (\<lambda>made. Ok (invoices(inv_payment_hash made \<mapsto>
              (case payment of None \<Rightarrow> made | Some x \<Rightarrow> made\<lparr>inv_payments := inv_payments made @ [x]\<rparr>)))))))"

fun add_invoice_rows ::
  "(string \<Rightarrow> bolt11_invoice option) \<Rightarrow> (bytes \<Rightarrow> pubkey option) \<Rightarrow> (bytes \<rightharpoonup> invoice) \<Rightarrow>
   (invoice_row \<times> payment_row option) list \<Rightarrow> (bytes \<rightharpoonup> invoice) outcome" where
  "add_invoice_rows from_str from_slice invoices [] = Ok invoices"
| "add_invoice_rows from_str from_slice invoices (r # rs) =
     bind_outcome (add_invoice_row from_str from_slice invoices r) (\<lambda>m.
       add_invoice_rows from_str from_slice m rs)"

text \<open>The result is the map of the invoices, whose values the code returns in no particular order.\<close>

definition fetch_invoices ::
  "(string \<Rightarrow> bolt11_invoice option) \<Rightarrow> (bytes \<Rightarrow> pubkey option) \<Rightarrow> string option \<Rightarrow> ldk_database \<Rightarrow>
   (bytes \<rightharpoonup> invoice) outcome" where
  "fetch_invoices from_str from_slice label db =
     on_conn db (add_invoice_rows from_str from_slice Map.empty
       (invoice_payment_join (t_payments db)
          (filter (\<lambda>i. label = None \<or> ir_label i = label) (t_invoices db))))"

definition persist_payment :: "payment \<Rightarrow> ldk_database \<Rightarrow> ldk_database outcome" where
  "persist_payment p db =
     on_conn db (Ok (db\<lparr>t_payments :=
       tbl_upsert pr_id (pay_id p) (\<lambda>_. payment_to_row p) (payment_to_row p) (t_payments db)\<rparr>))"

text \<open>\<open>payments p LEFT OUTER JOIN invoices i ON p.hash = i.payment_hash\<close>, with the two optional
  conditions on \<open>p\<close>; the hash of an invoice is its primary key.\<close>

definition joined_bolt11 :: "invoice_row list \<Rightarrow> payment_row \<Rightarrow> string option" where
  "joined_bolt11 invoices p =
     (case pr_hash p of None \<Rightarrow> None
      | Some h \<Rightarrow> map_option ir_bolt11 (tbl_find ir_payment_hash h invoices))"

definition fetch_payments ::
  "(string \<Rightarrow> bolt11_invoice option) \<Rightarrow> bytes option \<Rightarrow> payment_direction option \<Rightarrow> ldk_database \<Rightarrow>
   payment list outcome" where
  "fetch_payments from_str payment_hash direction db =
     on_conn db (collect (\<lambda>p. payment_try_from from_str (p, joined_bolt11 (t_invoices db) p))
       (filter (\<lambda>p. (payment_hash = None \<or> pr_hash p = payment_hash) \<and>
                    (case direction of None \<Rightarrow> True | Some d \<Rightarrow> pr_direction p = d)) (t_payments db)))"

section \<open>Forwards\<close>

definition persist_forward :: "(htlc_destination \<Rightarrow> bytes) \<Rightarrow> forward \<Rightarrow> ldk_database \<Rightarrow> ldk_database outcome" where
  "persist_forward enc f db =
     on_conn db (Ok (db\<lparr>t_forwards :=
       tbl_upsert fr_id (fwd_id f) (\<lambda>_. forward_to_row enc f) (forward_to_row enc f) (t_forwards db)\<rparr>))"

definition pdt_nanos :: "primitive_date_time \<Rightarrow> int" where
  "pdt_nanos t = pdt_secs t * 1000000000 + int (pdt_nanosecond t)"

definition fetch_forwards ::
  "(bytes \<Rightarrow> htlc_destination option outcome) \<Rightarrow> forward_status option \<Rightarrow> ldk_database \<Rightarrow> forward list outcome" where
  "fetch_forwards dec status db =
     on_conn db (collect (forward_try_from dec)
       (sort_key (\<lambda>r. pdt_nanos (fr_timestamp r))
         (filter (\<lambda>r. case status of None \<Rightarrow> True | Some s \<Rightarrow> fr_status r = s) (t_forwards db))))"

text \<open>\<open>sum\<close> skips \<open>NULL\<close> and is \<open>NULL\<close> on no rows, where \<open>COALESCE\<close> gives 0; \<open>CAST (... AS INT)\<close> fails
  out of the range of the type.\<close>

definition sql_sum :: "int option list \<Rightarrow> int outcome" where
  "sql_sum xs = (let s = sum_list (map the (filter (\<lambda>x. x \<noteq> None) xs))
     in if - (2 ^ 63) \<le> s \<and> s < 2 ^ 63 then Ok s else Err (Msg ''integer out of range''))"

definition fetch_total_forwards :: "ldk_database \<Rightarrow> total_forwards outcome" where
  "fetch_total_forwards db =
     (let rows = filter (\<lambda>r. fr_status r = FwdSucceeded) (t_forwards db)
      in on_conn db (bind_outcome (sql_sum (map fr_amount rows)) (\<lambda>amount.
           bind_outcome (sql_sum (map fr_fee rows)) (\<lambda>fee.
             Ok \<lparr>tf_count = i64_as_u64 (int (length rows)), tf_amount = i64_as_u64 amount,
                 tf_fee = i64_as_u64 fee\<rparr>))))"

end
