(* ===== verification/Channel_Persistence.thy ===== *)
theory Channel_Persistence
  imports Ldk_Database
begin

text \<open>
  The part of \<^verbatim>\<open>database/ldk_database.rs\<close> that LDK calls back: \<open>persist_manager\<close>, \<open>persist_graph\<close>
  and \<open>persist_scorer\<close> of \<open>Persister\<close>, \<open>persist_new_channel\<close> and \<open>update_persisted_channel\<close> of
  \<open>Persist\<close>, and the functions that read these tables when the node starts.  The callbacks do not
  wait for the database: they hand a task to the runtime, which executes tasks in an order of its
  own.  An \<open>Async\<close> task is a future given to \<open>spawn\<close>, which the runtime drives to its end.  A
  \<open>Blocking\<close> task is a closure given to \<open>spawn_blocking\<close>, which the runtime calls; when the closure
  is an \<open>async\<close> one, the call only makes a future, and the value of the call is dropped with it.  The
  functions that read first wait for a connection; their argument is the database in the state in which the
  query is then sent.
\<close>

section \<open>Monitors and outpoints\<close>

record out_point =
  op_txid :: bytes
  op_index :: u16

record channel_monitor =
  cm_funding_txo :: out_point
  cm_latest_update_id :: u64
  cm_state :: bytes

datatype db_task =
    StoreManager bytes
  | StoreScorer bytes
  | StoreMonitor out_point u64 bytes u64
    \<comment> \<open>funding outpoint, latest update id, encoded monitor, id of the update to acknowledge\<close>

datatype spawned = Async db_task | Blocking db_task

text \<open>\<open>channel_monitor_updated\<close> calls made to LDK's chain monitor.\<close>

type_synonym acks = "(out_point \<times> u64) list"

datatype monitor_update_status = Completed | InProgress | UnrecoverableError

section \<open>The callbacks\<close>

definition persist_manager :: "('m \<Rightarrow> bytes) \<Rightarrow> 'm \<Rightarrow> spawned list \<Rightarrow> spawned list" where
  "persist_manager write manager tasks = tasks @ [Blocking (StoreManager (write manager))]"

definition persist_scorer :: "('s \<Rightarrow> bytes) \<Rightarrow> 's \<Rightarrow> spawned list \<Rightarrow> spawned list" where
  "persist_scorer write scorer tasks = tasks @ [Async (StoreScorer (write scorer))]"

text \<open>The graph is a file of the data directory: \<open>None\<close> is a file that does not exist. A write that
  fails is logged and changes nothing.\<close>

definition persist_graph :: "('g \<Rightarrow> bytes) \<Rightarrow> bool \<Rightarrow> 'g \<Rightarrow> bytes option \<Rightarrow> bytes option" where
  "persist_graph write write_ok graph file = (if write_ok then Some (write graph) else file)"

definition fetch_graph :: "(bytes \<Rightarrow> 'g outcome) \<Rightarrow> bytes option \<Rightarrow> 'g option outcome" where
  "fetch_graph read file =
     (case file of None \<Rightarrow> Ok None | Some b \<Rightarrow> bind_outcome (read b) (\<lambda>g. Ok (Some g)))"

definition persist_new_channel ::
  "(channel_monitor \<Rightarrow> bytes) \<Rightarrow> out_point \<Rightarrow> channel_monitor \<Rightarrow> u64 \<Rightarrow> spawned list \<Rightarrow>
   monitor_update_status \<times> spawned list" where
  "persist_new_channel mon_write funding_txo monitor update_id tasks =
     (InProgress, tasks @ [Async (StoreMonitor funding_txo (cm_latest_update_id monitor)
                                    (mon_write monitor) update_id)])"

definition update_persisted_channel ::
  "(channel_monitor \<Rightarrow> bytes) \<Rightarrow> out_point \<Rightarrow> 'u option \<Rightarrow> channel_monitor \<Rightarrow> u64 \<Rightarrow> spawned list \<Rightarrow>
   monitor_update_status \<times> spawned list" where
  "update_persisted_channel mon_write funding_txo upd monitor update_id tasks =
     persist_new_channel mon_write funding_txo monitor update_id tasks"

section \<open>Execution of the tasks\<close>

text \<open>\<open>op_write\<close> is LDK's serialisation of an outpoint.\<close>

definition monitor_row_of :: "(out_point \<Rightarrow> bytes) \<Rightarrow> out_point \<Rightarrow> u64 \<Rightarrow> bytes \<Rightarrow> monitor_row" where
  "monitor_row_of op_write funding_txo latest monitor =
     \<lparr>mo_out_point = op_write funding_txo, mo_monitor = monitor, mo_update_id = u64_as_i64 latest\<rparr>"

fun run_task ::
  "(out_point \<Rightarrow> bytes) \<Rightarrow> primitive_date_time \<Rightarrow> db_task \<Rightarrow> ldk_database \<times> acks \<Rightarrow> ldk_database \<times> acks" where
  "run_task op_write server_now (StoreManager buf) (db, a) =
     (if db_closed db then (db, a)
      else let row = \<lparr>mr_id = ''manager'', mr_manager = buf\<rparr>
           in (db\<lparr>t_channel_manager := tbl_upsert mr_id ''manager'' (\<lambda>_. row) row (t_channel_manager db)\<rparr>, a))"
| "run_task op_write server_now (StoreScorer buf) (db, a) =
     (if db_closed db then (db, a)
      else let row = \<lparr>sr_id = ''scorer'', sr_scorer = buf, sr_timestamp = server_now\<rparr>
           in (db\<lparr>t_scorer := tbl_upsert sr_id ''scorer'' (\<lambda>_. row) row (t_scorer db)\<rparr>, a))"
| "run_task op_write server_now (StoreMonitor funding_txo latest monitor update_id) (db, a) =
     (if db_closed db then (db, a)
      else let row = monitor_row_of op_write funding_txo latest monitor
           in (db\<lparr>t_channel_monitors :=
                 tbl_upsert mo_out_point (mo_out_point row) (\<lambda>_. row) row (t_channel_monitors db)\<rparr>,
               a @ [(funding_txo, update_id)]))"

fun run_spawned ::
  "(out_point \<Rightarrow> bytes) \<Rightarrow> primitive_date_time \<Rightarrow> spawned \<Rightarrow> ldk_database \<times> acks \<Rightarrow> ldk_database \<times> acks" where
  "run_spawned op_write server_now (Async t) s = run_task op_write server_now t s"
| "run_spawned op_write server_now (Blocking t) s = s"

definition run_all ::
  "(out_point \<Rightarrow> bytes) \<Rightarrow> primitive_date_time \<Rightarrow> spawned list \<Rightarrow> ldk_database \<times> acks \<Rightarrow> ldk_database \<times> acks" where
  "run_all op_write server_now ts s = fold (run_spawned op_write server_now) ts s"

section \<open>Reading back at start\<close>

text \<open>\<open>fetch_channel_monitors\<close>: \<open>split_at(32)\<close> and the conversion of the rest to two bytes panic on an
  outpoint of another size; the index is big-endian.\<close>

definition parse_out_point :: "bytes \<Rightarrow> out_point outcome" where
  "parse_out_point b =
     (if length b < 32 then Panic
      else case drop 32 b of
             [hi, lo] \<Rightarrow> Ok \<lparr>op_txid = take 32 b, op_index = push_bit 8 (ucast hi) + ucast lo\<rparr>
           | _ \<Rightarrow> Panic)"

definition fetch_channel_monitor ::
  "(bytes \<Rightarrow> (bytes \<times> channel_monitor) outcome) \<Rightarrow> monitor_row \<Rightarrow> (bytes \<times> channel_monitor) outcome" where
  "fetch_channel_monitor mon_read r =
     bind_outcome (parse_out_point (mo_out_point r)) (\<lambda>op.
     bind_outcome (mon_read (mo_monitor r)) (\<lambda>(blockhash, monitor).
       if op_txid (cm_funding_txo monitor) \<noteq> op_txid op \<or> op_index (cm_funding_txo monitor) \<noteq> op_index op
       then Err (Msg ''Unable to find ChannelMonitor'') else Ok (blockhash, monitor)))"

definition fetch_channel_monitors ::
  "(bytes \<Rightarrow> (bytes \<times> channel_monitor) outcome) \<Rightarrow> ldk_database \<Rightarrow> (bytes \<times> channel_monitor) list outcome" where
  "fetch_channel_monitors mon_read db =
     on_conn db (collect (fetch_channel_monitor mon_read) (t_channel_monitors db))"

definition fetch_channel_manager :: "(bytes \<Rightarrow> 'm outcome) \<Rightarrow> ldk_database \<Rightarrow> 'm outcome" where
  "fetch_channel_manager read db =
     on_conn db (bind_outcome (query_one (t_channel_manager db)) (\<lambda>r. read (mr_manager r)))"

definition fetch_scorer ::
  "(bytes \<Rightarrow> 's option) \<Rightarrow> ldk_database \<Rightarrow> ('s \<times> primitive_date_time) option outcome" where
  "fetch_scorer read db =
     on_conn db (bind_outcome (query_opt (t_scorer db)) (\<lambda>row. case row of None \<Rightarrow> Ok None
       | Some r \<Rightarrow> (case read (sr_scorer r) of None \<Rightarrow> Panic | Some s \<Rightarrow> Ok (Some (s, sr_timestamp r)))))"

definition fetch_scorer_binary :: "ldk_database \<Rightarrow> bytes outcome" where
  "fetch_scorer_binary db = on_conn db (bind_outcome (query_one (t_scorer db)) (\<lambda>r. Ok (sr_scorer r)))"

end
