(* ===== verification/Ldk_Database_Correct.thy ===== *)
theory Ldk_Database_Correct
  imports Channel_Persistence
begin

text \<open>
  What the database of the node promises: each table is an interpretation of the interfaces of
  \<open>Sql_Table\<close>, every write keeps the keys of the tables unique, and what is read is what was
  written.
\<close>

section \<open>The tables are keyed tables\<close>

interpretation payments_tbl: replacing_table pr_id pay_id "\<lambda>p _. payment_to_row p" payment_to_row
  by unfold_locales (simp_all add: payment_to_row_def)

interpretation forwards_tbl: replacing_table fr_id fwd_id "\<lambda>f _. forward_to_row enc f" "forward_to_row enc"
  for enc
  by unfold_locales (simp_all add: forward_to_row_def)

interpretation invoices_tbl: replacing_table ir_payment_hash ir_payment_hash "\<lambda>row _. row" "\<lambda>row. row"
  by unfold_locales simp_all

interpretation peers_tbl: replacing_table peer_row_key peer_row_key "\<lambda>row _. row" "\<lambda>row. row"
  by unfold_locales simp_all

interpretation managers_tbl: replacing_table mr_id mr_id "\<lambda>row _. row" "\<lambda>row. row"
  by unfold_locales simp_all

interpretation scorers_tbl: replacing_table sr_id sr_id "\<lambda>row _. row" "\<lambda>row. row"
  by unfold_locales simp_all

interpretation monitors_tbl: replacing_table mo_out_point mo_out_point "\<lambda>row _. row" "\<lambda>row. row"
  by unfold_locales simp_all

interpretation channels_tbl: keyed_table ch_channel_id cd_channel_id "channel_row_update enc now"
  "\<lambda>c. channel_row_update enc now c (channel_row_default server_now)" for enc now server_now
  by unfold_locales (simp_all add: channel_row_update_def Let_def split: option.splits)

interpretation spendables_tbl: keyed_table spendable_row_key "\<lambda>(d, c, s). spendable_key d"
  "\<lambda>(d, c, s). spendable_row_update enc d c s"
  "\<lambda>(d, c, s). spendable_row_update enc d c s spendable_row_default" for enc
  by unfold_locales
    (auto simp: spendable_row_key_def spendable_key_def spendable_row_update_def Let_def
      split: option.splits prod.splits)

section \<open>Writes keep the tables well formed\<close>

definition labels_unique :: "invoice_row list \<Rightarrow> bool" where
  "labels_unique rows \<longleftrightarrow>
     (\<forall>r \<in> set rows. \<forall>r' \<in> set rows. ir_label r \<noteq> None \<longrightarrow> ir_label r = ir_label r' \<longrightarrow> r = r')"

definition db_inv :: "ldk_database \<Rightarrow> bool" where
  "db_inv db \<longleftrightarrow>
     keys_distinct mr_id (t_channel_manager db) \<and> (\<forall>r \<in> set (t_channel_manager db). mr_id r = ''manager'') \<and>
     keys_distinct mo_out_point (t_channel_monitors db) \<and>
     keys_distinct sr_id (t_scorer db) \<and> (\<forall>r \<in> set (t_scorer db). sr_id r = ''scorer'') \<and>
     keys_distinct peer_row_key (t_peers db) \<and>
     keys_distinct pr_id (t_payments db) \<and>
     keys_distinct ir_payment_hash (t_invoices db) \<and> labels_unique (t_invoices db) \<and>
     keys_distinct spendable_row_key (t_spendable_outputs db) \<and>
     keys_distinct fr_id (t_forwards db) \<and>
     keys_distinct ch_channel_id (t_channels db) \<and>
     keys_distinct in_initializing_channel_id (t_initializing_channels db)"

definition empty_db :: ldk_database where
  "empty_db =
     \<lparr>db_closed = False, t_channel_manager = [], t_channel_monitors = [], t_scorer = [], t_peers = [],
      t_payments = [], t_invoices = [], t_spendable_outputs = [], t_forwards = [], t_channels = [],
      t_initializing_channels = []\<rparr>"

text \<open>Every way the program writes to these tables, with any arguments, and the connection being
  dropped and restored.\<close>

inductive ldk_step :: "ldk_database \<Rightarrow> ldk_database \<Rightarrow> bool" where
  step_peer: "persist_peer enc p db = Ok db' \<Longrightarrow> ldk_step db db'"
| step_delete_peer: "delete_peer pk db = Ok db' \<Longrightarrow> ldk_step db db'"
| step_initializing: "persist_initializing_channel sn i pub pk txid db = Ok db' \<Longrightarrow> ldk_step db db'"
| step_update_initializing: "update_initializing_channel now i cv st db = Ok db' \<Longrightarrow> ldk_step db db'"
| step_create: "create_channel sn c pub pk db = Ok db' \<Longrightarrow> ldk_step db db'"
| step_persist_channel: "persist_channel cenc now sn cd db = Ok db' \<Longrightarrow> ldk_step db db'"
| step_close: "close_channel now c reason db = Ok db' \<Longrightarrow> ldk_step db db'"
| step_spendable: "persist_spendable_output senc d oc spent db = Ok db' \<Longrightarrow> ldk_step db db'"
| step_invoice: "persist_invoice inv1 db = Ok db' \<Longrightarrow> ldk_step db db'"
| step_payment: "persist_payment pay db = Ok db' \<Longrightarrow> ldk_step db db'"
| step_forward: "persist_forward henc f db = Ok db' \<Longrightarrow> ldk_step db db'"
| step_task: "run_spawned opw sn t (db, a) = (db', a') \<Longrightarrow> ldk_step db db'"
| step_connection: "ldk_step db (db\<lparr>db_closed := b\<rparr>)"

inductive ldk_reachable :: "ldk_database \<Rightarrow> bool" where
  reach_empty: "ldk_reachable empty_db"
| reach_step: "ldk_reachable db \<Longrightarrow> ldk_step db db' \<Longrightarrow> ldk_reachable db'"

lemma db_inv_empty: "db_inv empty_db"
  by (simp add: db_inv_def empty_db_def labels_unique_def)

lemma db_inv_connection [simp]: "db_inv (db\<lparr>db_closed := b\<rparr>) \<longleftrightarrow> db_inv db"
  by (simp add: db_inv_def)

lemma db_inv_persist_peer: "persist_peer enc p db = Ok db' \<Longrightarrow> db_inv db \<Longrightarrow> db_inv db'"
  by (auto simp: persist_peer_def Let_def outcome_simps db_inv_def intro!: peers_tbl.distinct_upsert)

lemma db_inv_delete_peer: "delete_peer pk db = Ok db' \<Longrightarrow> db_inv db \<Longrightarrow> db_inv db'"
  by (auto simp: delete_peer_def outcome_simps db_inv_def)

lemma db_inv_persist_initializing:
  "persist_initializing_channel sn i pub pk txid db = Ok db' \<Longrightarrow> db_inv db \<Longrightarrow> db_inv db'"
  by (auto simp: persist_initializing_channel_def outcome_simps db_inv_def intro: keys_distinct_insert)

lemma db_inv_update_initializing:
  "update_initializing_channel now i cv st db = Ok db' \<Longrightarrow> db_inv db \<Longrightarrow> db_inv db'"
  by (auto simp: update_initializing_channel_def Let_def outcome_simps db_inv_def
      intro!: keys_distinct_update split: option.splits)

lemma db_inv_create_channel: "create_channel sn c pub pk db = Ok db' \<Longrightarrow> db_inv db \<Longrightarrow> db_inv db'"
  by (auto simp: create_channel_def outcome_simps db_inv_def intro: keys_distinct_insert)

lemma db_inv_persist_channel: "persist_channel enc now sn cd db = Ok db' \<Longrightarrow> db_inv db \<Longrightarrow> db_inv db'"
  by (auto simp: persist_channel_def outcome_simps db_inv_def intro!: channels_tbl.distinct_upsert)

lemma db_inv_close_channel: "close_channel now c reason db = Ok db' \<Longrightarrow> db_inv db \<Longrightarrow> db_inv db'"
  by (auto simp: close_channel_def outcome_simps db_inv_def close_channel_row_def intro!: keys_distinct_update)

lemma db_inv_persist_spendable:
  "persist_spendable_output enc d oc spent db = Ok db' \<Longrightarrow> db_inv db \<Longrightarrow> db_inv db'"
  using spendables_tbl.distinct_upsert [of "t_spendable_outputs db" "(d, oc, spent)"]
  by (auto simp: persist_spendable_output_def outcome_simps db_inv_def)

lemma labels_unique_upsert:
  assumes "keys_distinct ir_payment_hash rows" and "labels_unique rows" and "\<not> label_taken row rows"
  shows "labels_unique (tbl_upsert ir_payment_hash (ir_payment_hash row) (\<lambda>_. row) row rows)"
  using assms(2,3)
  by (fastforce simp: labels_unique_def label_taken_def invoices_tbl.mem_upsert [OF assms(1)])

lemma db_inv_persist_invoice: "persist_invoice i db = Ok db' \<Longrightarrow> db_inv db \<Longrightarrow> db_inv db'"
  by (auto simp: persist_invoice_def Let_def outcome_simps db_inv_def
      intro!: invoices_tbl.distinct_upsert labels_unique_upsert split: if_splits)

lemma db_inv_persist_payment: "persist_payment p db = Ok db' \<Longrightarrow> db_inv db \<Longrightarrow> db_inv db'"
  by (auto simp: persist_payment_def outcome_simps db_inv_def intro!: payments_tbl.distinct_upsert)

lemma db_inv_persist_forward: "persist_forward enc f db = Ok db' \<Longrightarrow> db_inv db \<Longrightarrow> db_inv db'"
  by (auto simp: persist_forward_def outcome_simps db_inv_def intro!: forwards_tbl.distinct_upsert)

lemma db_inv_run_task: "run_task opw sn t (db, a) = (db', a') \<Longrightarrow> db_inv db \<Longrightarrow> db_inv db'"
proof (cases t)
  case (StoreManager buf)
  let ?row = "\<lparr>mr_id = ''manager'', mr_manager = buf\<rparr>"
  assume "run_task opw sn t (db, a) = (db', a')" and "db_inv db"
  then show ?thesis
    using StoreManager managers_tbl.distinct_upsert [of "t_channel_manager db" ?row]
      managers_tbl.mem_upsert [of "t_channel_manager db" _ ?row]
    by (auto simp: db_inv_def Let_def split: if_splits)
next
  case (StoreScorer buf)
  let ?row = "\<lparr>sr_id = ''scorer'', sr_scorer = buf, sr_timestamp = sn\<rparr>"
  assume "run_task opw sn t (db, a) = (db', a')" and "db_inv db"
  then show ?thesis
    using StoreScorer scorers_tbl.distinct_upsert [of "t_scorer db" ?row]
      scorers_tbl.mem_upsert [of "t_scorer db" _ ?row]
    by (auto simp: db_inv_def Let_def split: if_splits)
next
  case (StoreMonitor op latest m u)
  assume "run_task opw sn t (db, a) = (db', a')" and "db_inv db"
  then show ?thesis
    using StoreMonitor by (auto simp: db_inv_def Let_def intro: monitors_tbl.distinct_upsert split: if_splits)
qed

lemma db_inv_run_spawned: "run_spawned opw sn t (db, a) = (db', a') \<Longrightarrow> db_inv db \<Longrightarrow> db_inv db'"
  by (cases t) (auto dest: db_inv_run_task)

lemmas db_inv_writes =
  db_inv_persist_peer db_inv_delete_peer db_inv_persist_initializing db_inv_update_initializing
  db_inv_create_channel db_inv_persist_channel db_inv_close_channel db_inv_persist_spendable
  db_inv_persist_invoice db_inv_persist_payment db_inv_persist_forward db_inv_run_spawned

lemma db_inv_step: "ldk_step db db' \<Longrightarrow> db_inv db \<Longrightarrow> db_inv db'"
  by (induction rule: ldk_step.induct) (auto dest: db_inv_writes)

lemma db_inv_reachable: "ldk_reachable db \<Longrightarrow> db_inv db"
  by (induction rule: ldk_reachable.induct) (auto intro: db_inv_empty db_inv_step)

text \<open>Every state of the database that the program can reach, by any sequence of its writes and
  spawned tasks and with the connection dropped and restored at will, has unique primary keys in
  every table, unique invoice labels, and at most the single row \<open>manager\<close> and the single row
  \<open>scorer\<close> in their tables.\<close>

theorem reachable_db_inv: "ldk_reachable db \<Longrightarrow> db_inv db"
  by (rule db_inv_reachable)

theorem reachable_db_inv_witness: "ldk_reachable (empty_db\<lparr>db_closed := True\<rparr>) \<and> db_inv (empty_db\<lparr>db_closed := True\<rparr>)"
proof -
  have r: "ldk_reachable (empty_db\<lparr>db_closed := True\<rparr>)"
    by (rule ldk_reachable.intros(2) [OF ldk_reachable.intros(1)]) (rule ldk_step.step_connection)
  show ?thesis using r reachable_db_inv [OF r] by blast
qed

section \<open>Payments are read back as they were written\<close>

text \<open>The rows of \<open>payments\<close> come from well-formed payments, since only such are persisted.\<close>

definition payments_wf :: "ldk_database \<Rightarrow> bool" where
  "payments_wf db \<longleftrightarrow> (\<forall>r \<in> set (t_payments db). \<exists>p. payment_wf p \<and> r = payment_to_row p)"

definition payment_of_row :: "(string \<Rightarrow> bolt11_invoice option) \<Rightarrow> invoice_row list \<Rightarrow> payment_row \<Rightarrow> payment" where
  "payment_of_row from_str invoices r =
     \<lparr>pay_id = pr_id r, pay_hash = pr_hash r, pay_preimage = pr_preimage r, pay_secret = pr_secret r,
      pay_label = pr_label r, pay_status = pr_status r, pay_amount = i64_as_u64 (pr_amount r),
      pay_fee = map_option i64_as_u64 (pr_fee r), pay_direction = pr_direction r,
      pay_timestamp = assume_utc (pr_timestamp r),
      pay_bolt11 = Option.bind (joined_bolt11 invoices r) from_str\<rparr>"

definition selects_payment :: "bytes option \<Rightarrow> payment_direction option \<Rightarrow> payment_row \<Rightarrow> bool" where
  "selects_payment h d r \<longleftrightarrow> (h = None \<or> pr_hash r = h) \<and> (case d of None \<Rightarrow> True | Some x \<Rightarrow> pr_direction r = x)"

lemma payment_of_row_to_row:
  "payment_wf p \<Longrightarrow> payment_of_row fs invoices (payment_to_row p) =
     p\<lparr>pay_bolt11 := Option.bind (joined_bolt11 invoices (payment_to_row p)) fs\<rparr>"
  by (simp add: payment_of_row_def payment_to_row_def payment_wf_def option.map_comp comp_def option.map_ident)

lemma payment_try_from_joined:
  assumes "payment_wf p"
  shows "payment_try_from fs (payment_to_row p, joined_bolt11 invoices (payment_to_row p)) =
    (if joined_bolt11 invoices (payment_to_row p) = None then Panic
     else Ok (payment_of_row fs invoices (payment_to_row p)))"
  using assms by (auto simp: payment_try_from_row payment_of_row_to_row split: option.splits)

lemma collect_panic_or_ok:
  assumes "\<And>x. x \<in> set xs \<Longrightarrow> f x = (if bad x then Panic else Ok (g x))"
  shows "collect f xs = (if \<exists>x \<in> set xs. bad x then Panic else Ok (map g xs))"
  using assms by (induction xs) auto

lemma fetch_payments_cases:
  assumes "\<not> db_closed db" and "payments_wf db"
  shows "fetch_payments fs h d db =
    (if \<exists>r \<in> set (t_payments db). selects_payment h d r \<and> joined_bolt11 (t_invoices db) r = None then Panic
     else Ok (map (payment_of_row fs (t_invoices db)) (filter (selects_payment h d) (t_payments db))))"
proof -
  have "payment_try_from fs (r, joined_bolt11 (t_invoices db) r) =
      (if joined_bolt11 (t_invoices db) r = None then Panic else Ok (payment_of_row fs (t_invoices db) r))"
    if "r \<in> set (filter (selects_payment h d) (t_payments db))" for r
  proof -
    from that assms(2) obtain p where "payment_wf p" and "r = payment_to_row p"
      by (auto simp: payments_wf_def)
    then show ?thesis by (simp add: payment_try_from_joined)
  qed
  then show ?thesis
    unfolding fetch_payments_def selects_payment_def [symmetric]
    using assms(1) by (subst collect_panic_or_ok) auto
qed

text \<open>C13: On an open connection, \<open>fetch_payments\<close> returns every selected payment exactly as it was
  persisted, with the invoice of its hash, in one case only: each selected payment has its invoice
  in the database. As soon as one has none, such as a keysend payment, the whole call panics.\<close>

theorem fetch_payments_outcome:
  assumes "\<not> db_closed db" and "payments_wf db"
  shows "fetch_payments fs h d db =
    (if \<exists>r \<in> set (t_payments db). selects_payment h d r \<and> joined_bolt11 (t_invoices db) r = None then Panic
     else Ok (map (payment_of_row fs (t_invoices db)) (filter (selects_payment h d) (t_payments db))))"
  using assms by (rule fetch_payments_cases)

definition sample_time :: offset_date_time where
  "sample_time = \<lparr>odt_secs = 1700000000, odt_nanosecond = 123456789, odt_offset = 0\<rparr>"

definition sample_bolt11 :: bolt11_invoice where
  "sample_bolt11 =
     \<lparr>b11_text = ''lnbc1'', b11_payment_hash = replicate 32 7, b11_payment_secret = replicate 32 8,
      b11_amount_msat = Some 5000, b11_expiry_secs = 3600, b11_timestamp = 1700000000,
      b11_raw_expiry = None, b11_raw_amount_pico = Some 50000, b11_raw_payment_hash = Some (replicate 32 7),
      b11_recovered_payee = Some (replicate 33 2), b11_signature_ok = True\<rparr>"

definition sample_from_str :: "string \<Rightarrow> bolt11_invoice option" where
  "sample_from_str s = (if s = ''lnbc1'' then Some sample_bolt11 else None)"

definition sample_payment :: payment where
  "sample_payment = of_invoice_outbound (replicate 32 9) sample_time sample_bolt11 None"

definition sample_keysend :: payment where
  "sample_keysend = spontaneous_outbound sample_time (replicate 32 1) 1000"

lemma sample_payments_wf: "payment_wf sample_payment" "payment_wf sample_keysend"
  by (simp_all add: sample_payment_def sample_keysend_def of_invoice_outbound_def spontaneous_outbound_def
      payment_wf_def len32_def is_utc_def microsecond_timestamp_def sample_time_def sample_bolt11_def)

theorem fetch_payments_outcome_witness:
  "fetch_payments sample_from_str None None (empty_db\<lparr>t_payments := [payment_to_row sample_keysend]\<rparr>) = Panic"
proof -
  have "payments_wf (empty_db\<lparr>t_payments := [payment_to_row sample_keysend]\<rparr>)"
    using sample_payments_wf by (auto simp: payments_wf_def)
  then show ?thesis
    using fetch_payments_outcome [of "empty_db\<lparr>t_payments := [payment_to_row sample_keysend]\<rparr>" sample_from_str None None]
    by (simp add: empty_db_def selects_payment_def joined_bolt11_def payment_to_row_def sample_keysend_def
        spontaneous_outbound_def)
qed


definition sample_invoice :: invoice where
  "sample_invoice =
     \<lparr>inv_payment_hash = replicate 32 7, inv_label = None, inv_bolt11 = sample_bolt11,
      inv_payee_pub_key = replicate 33 2, inv_expiry = None, inv_amount = Some 5000,
      inv_timestamp = 1700000000, inv_payments = []\<rparr>"

lemma sample_persisted:
  "persist_invoice sample_invoice empty_db = Ok (empty_db\<lparr>t_invoices := [invoice_to_row sample_invoice]\<rparr>)"
  "persist_payment sample_payment (empty_db\<lparr>t_invoices := [invoice_to_row sample_invoice]\<rparr>) =
     Ok (empty_db\<lparr>t_invoices := [invoice_to_row sample_invoice], t_payments := [payment_to_row sample_payment]\<rparr>)"
  by (simp_all add: persist_invoice_def persist_payment_def empty_db_def Let_def label_taken_def
      tbl_upsert_def)


section \<open>Peers\<close>

text \<open>The primary key of \<open>peers\<close> is the pair of public key and address, and nothing removes the old
  address of a peer: once a peer has been persisted with two addresses that differ, \<open>fetch_peer\<close>
  fails on it whatever else the table holds, so \<open>keep_channel_peers_connected\<close> can no longer
  reconnect it.\<close>

theorem two_addresses_break_fetch_peer:
  assumes "persist_peer enc \<lparr>peer_public_key = k, peer_address = a\<rparr> db = Ok db1"
    and "persist_peer enc \<lparr>peer_public_key = k, peer_address = b\<rparr> db1 = Ok db2"
    and "enc a \<noteq> enc b"
  shows "fetch_peer from_slice addr_read k db2 = Err DbRowCount"
proof -
  let ?A = "\<lparr>pe_public_key = k, pe_address = enc a\<rparr>" and ?B = "\<lparr>pe_public_key = k, pe_address = enc b\<rparr>"
  let ?sel = "filter (\<lambda>r. pe_public_key r = k) (t_peers db2)"
  have open2: "\<not> db_closed db2"
    and peers: "t_peers db2 = tbl_upsert peer_row_key (peer_row_key ?B) (\<lambda>_. ?B) ?B
      (tbl_upsert peer_row_key (peer_row_key ?A) (\<lambda>_. ?A) ?A (t_peers db))"
    using assms(1,2) by (auto simp: persist_peer_def Let_def outcome_simps)
  have "tbl_find peer_row_key (peer_row_key ?A) (t_peers db2) = Some ?A"
    using peers_tbl.find_upsert_replaced [of _ ?B] peers_tbl.find_upsert_replaced [of _ ?A] assms(3)
    by (simp add: peers) (simp add: peer_row_key_def)
  moreover have "tbl_find peer_row_key (peer_row_key ?B) (t_peers db2) = Some ?B"
    using peers_tbl.find_upsert_replaced [of _ ?B] by (simp add: peers)
  ultimately have "?A \<in> set ?sel" and "?B \<in> set ?sel"
    by (auto dest!: tbl_find_SomeD)
  moreover have "?A \<noteq> ?B" using assms(3) by simp
  ultimately have "\<exists>x y zs. ?sel = x # y # zs"
    by (cases ?sel; cases "tl ?sel") auto
  then have "query_opt ?sel = Err DbRowCount"
    by (auto simp: query_opt_def)
  then show ?thesis using open2 by (simp add: fetch_peer_def)
qed

definition sample_addr_encode :: "socket_address \<Rightarrow> bytes" where
  "sample_addr_encode a = (case a of TcpIpV4 b p \<Rightarrow> 1 # b | _ \<Rightarrow> [])"

theorem two_addresses_break_fetch_peer_witness:
  "\<exists>db1 db2. persist_peer sample_addr_encode \<lparr>peer_public_key = [2], peer_address = TcpIpV4 [127, 0, 0, 1] 80\<rparr> empty_db = Ok db1 \<and>
     persist_peer sample_addr_encode \<lparr>peer_public_key = [2], peer_address = TcpIpV4 [10, 0, 0, 1] 80\<rparr> db1 = Ok db2 \<and>
     fetch_peer Some (\<lambda>_. Ok None) [2] db2 = Err DbRowCount"
proof -
  obtain db1 db2 where
    w: "persist_peer sample_addr_encode \<lparr>peer_public_key = [2], peer_address = TcpIpV4 [127, 0, 0, 1] 80\<rparr> empty_db = Ok db1"
       "persist_peer sample_addr_encode \<lparr>peer_public_key = [2], peer_address = TcpIpV4 [10, 0, 0, 1] 80\<rparr> db1 = Ok db2"
    by (simp add: persist_peer_def Let_def empty_db_def)
  have "sample_addr_encode (TcpIpV4 [127, 0, 0, 1] 80) \<noteq> sample_addr_encode (TcpIpV4 [10, 0, 0, 1] 80)"
    by (simp add: sample_addr_encode_def)
  from two_addresses_break_fetch_peer [OF w this] w show ?thesis by blast
qed

text \<open>\<open>delete_peer\<close> removes every address of a peer: \<open>fetch_peer\<close> then finds nothing for it, and finds
  for any other peer what it found before.\<close>

theorem delete_peer_fetch_peer:
  assumes "delete_peer k db = Ok db'"
  shows "fetch_peer from_slice addr_read k' db' =
    (if k' = k then Ok None else fetch_peer from_slice addr_read k' db)"
proof -
  have "filter (\<lambda>r. pe_public_key r = k') (tbl_delete (\<lambda>r. pe_public_key r = k) (t_peers db)) =
      (if k' = k then [] else filter (\<lambda>r. pe_public_key r = k') (t_peers db))"
    by (auto simp: tbl_delete_def filter_empty_conv intro: filter_cong)
  then show ?thesis
    using assms by (auto simp: delete_peer_def fetch_peer_def outcome_simps query_opt_def)
qed

theorem delete_peer_fetch_peer_witness:
  "\<exists>db'. delete_peer [2] (empty_db\<lparr>t_peers := [\<lparr>pe_public_key = [2], pe_address = [1]\<rparr>]\<rparr>) = Ok db' \<and>
     fetch_peer Some (\<lambda>_. Ok None) [2] db' = Ok None"
proof -
  obtain db' where d: "delete_peer [2] (empty_db\<lparr>t_peers := [\<lparr>pe_public_key = [2], pe_address = [1]\<rparr>]\<rparr>) = Ok db'"
    by (simp add: delete_peer_def empty_db_def)
  from delete_peer_fetch_peer [OF d, of Some "\<lambda>_. Ok None" "[2]"] d show ?thesis by auto
qed

end
