(* ===== verification/Channel_Persistence_Correct.thy ===== *)
theory Channel_Persistence_Correct
  imports Ldk_Database_Correct
begin

text \<open>
  What is left in the database after LDK's persistence callbacks, over every order in which the
  runtime may execute the tasks they spawn.
\<close>

section \<open>The channel manager\<close>

lemma run_task_manager:
  "t \<noteq> StoreManager buf \<Longrightarrow> (\<And>b. t \<noteq> StoreManager b) \<Longrightarrow>
   t_channel_manager (fst (run_task opw sn t s)) = t_channel_manager (fst s)"
  by (cases s; cases t) (auto simp: Let_def)

text \<open>The tasks that the callbacks spawn, from an empty pool; manager, scorer and monitor update
  stand as the bytes that are written of them.\<close>

inductive spawned_by_callbacks :: "spawned list \<Rightarrow> bool" where
  pool_empty: "spawned_by_callbacks []"
| pool_manager: "spawned_by_callbacks ts \<Longrightarrow> spawned_by_callbacks (persist_manager (\<lambda>b. b) mbytes ts)"
| pool_scorer: "spawned_by_callbacks ts \<Longrightarrow> spawned_by_callbacks (persist_scorer (\<lambda>b. b) sbytes ts)"
| pool_new: "spawned_by_callbacks ts \<Longrightarrow>
    spawned_by_callbacks (snd (persist_new_channel mw op mon u ts))"
| pool_update: "spawned_by_callbacks ts \<Longrightarrow>
    spawned_by_callbacks (snd (update_persisted_channel mw op (upd :: bytes option) mon u ts))"

lemma callbacks_no_async_manager:
  "spawned_by_callbacks ts \<Longrightarrow> Async (StoreManager buf) \<notin> set ts"
  by (induction rule: spawned_by_callbacks.induct)
    (auto simp: persist_manager_def persist_scorer_def persist_new_channel_def update_persisted_channel_def)

lemma run_all_manager:
  assumes "\<And>buf. Async (StoreManager buf) \<notin> set ts"
  shows "t_channel_manager (fst (run_all opw sn ts s)) = t_channel_manager (fst s)"
  using assms
proof (induction ts arbitrary: s)
  case Nil
  then show ?case by (simp add: run_all_def)
next
  case (Cons t ts)
  have "t_channel_manager (fst (run_spawned opw sn t s)) = t_channel_manager (fst s)"
  proof (cases t)
    case (Async u)
    with Cons.prems have "\<And>b. u \<noteq> StoreManager b" by auto
    with Async show ?thesis by (simp add: run_task_manager)
  qed simp
  moreover have "t_channel_manager (fst (run_all opw sn ts (run_spawned opw sn t s))) =
      t_channel_manager (fst (run_spawned opw sn t s))"
    using Cons.prems by (intro Cons.IH) auto
  ultimately show ?case by (simp add: run_all_def)
qed

lemma run_task_closed: "db_closed (fst (run_task opw sn t s)) = db_closed (fst s)"
  by (cases s; cases t) (auto simp: Let_def)

lemma run_all_closed: "db_closed (fst (run_all opw sn ts s)) = db_closed (fst s)"
proof (induction ts arbitrary: s)
  case (Cons t ts)
  have "db_closed (fst (run_spawned opw sn t s)) = db_closed (fst s)"
    by (cases t) (auto simp: run_task_closed)
  with Cons.IH [of "run_spawned opw sn t s"] show ?case by (simp add: run_all_def)
qed (simp add: run_all_def)

text \<open>\<open>persist_manager\<close> never stores the channel manager. It gives \<open>spawn_blocking\<close> an asynchronous
  closure, whose future nobody drives: whatever callbacks LDK makes on a new database and in
  whatever order their tasks run to the end, the table of the manager stays empty, so the next start
  of the node is taken for the first one again and makes a new channel manager.\<close>

theorem manager_never_stored:
  assumes "spawned_by_callbacks ts" and "set ts' \<subseteq> set ts"
  shows "is_first_start (fst (run_all opw sn ts' (empty_db, []))) = Ok True"
proof -
  have "t_channel_manager (fst (run_all opw sn ts' (empty_db, []))) = []"
    using callbacks_no_async_manager [OF assms(1)] assms(2)
    by (subst run_all_manager) (auto simp: empty_db_def)
  then show ?thesis
    by (simp add: is_first_start_def query_opt_def on_conn_def run_all_closed empty_db_def)
qed

theorem manager_never_stored_witness:
  "is_first_start (fst (run_all (\<lambda>_. []) \<lparr>pdt_secs = 0, pdt_nanosecond = 0\<rparr>
     (persist_manager (\<lambda>m. m) [1, 2, 3] []) (empty_db, []))) = Ok True"
proof -
  have "spawned_by_callbacks (persist_manager (\<lambda>m :: bytes. m) [1, 2, 3] [])"
    by (intro spawned_by_callbacks.intros)
  from manager_never_stored [OF this subset_refl] show ?thesis .
qed

section \<open>Channel monitors\<close>

definition stored_monitor :: "(out_point \<Rightarrow> bytes) \<Rightarrow> out_point \<Rightarrow> ldk_database \<Rightarrow> monitor_row option" where
  "stored_monitor op_write op db = tbl_find mo_out_point (op_write op) (t_channel_monitors db)"

fun task_for :: "out_point \<Rightarrow> spawned \<Rightarrow> (u64 \<times> bytes) option" where
  "task_for op (Async (StoreMonitor op' latest m u)) = (if op' = op then Some (latest, m) else None)"
| "task_for op _ = None"

lemma run_spawned_monitor:
  assumes "inj opw" and "\<not> db_closed db"
  shows "stored_monitor opw op (fst (run_spawned opw sn t (db, a))) =
    (case task_for op t of None \<Rightarrow> stored_monitor opw op db
     | Some (latest, m) \<Rightarrow> Some (monitor_row_of opw op latest m))"
proof (cases "(op, t)" rule: task_for.cases)
  case (1 op' op2 latest m u)
  have "mo_out_point (monitor_row_of opw op2 latest m) = opw op2"
    by (simp add: monitor_row_of_def)
  with 1 assms show ?thesis
    using monitors_tbl.find_upsert_replaced [of "opw op" "monitor_row_of opw op2 latest m" "t_channel_monitors db"]
    by (auto simp: stored_monitor_def Let_def inj_eq)
qed (use assms in \<open>auto simp: stored_monitor_def Let_def\<close>)

lemma run_all_monitor:
  assumes "inj opw" and "\<not> db_closed db"
  shows "stored_monitor opw op (fst (run_all opw sn ts (db, a))) =
    (case rev (List.map_filter (task_for op) ts) of [] \<Rightarrow> stored_monitor opw op db
     | (latest, m) # _ \<Rightarrow> Some (monitor_row_of opw op latest m))"
proof (induction ts arbitrary: rule: rev_induct)
  case Nil
  then show ?case by (simp add: run_all_def List.map_filter_simps)
next
  case (snoc t ts)
  obtain db1 a1 where r: "run_all opw sn ts (db, a) = (db1, a1)" by fastforce
  then have "\<not> db_closed db1" using assms(2) run_all_closed [of opw sn ts "(db, a)"] by simp
  moreover have "run_all opw sn (ts @ [t]) (db, a) = run_spawned opw sn t (db1, a1)"
    using r by (simp add: run_all_def)
  ultimately show ?case
    using snoc r run_spawned_monitor [OF assms(1), of db1 op sn t a1]
    by (auto simp: List.map_filter_def split: option.splits list.splits)
qed


definition sample_op :: out_point where
  "sample_op = \<lparr>op_txid = replicate 32 5, op_index = 1\<rparr>"

definition sample_op_write :: "out_point \<Rightarrow> bytes" where
  "sample_op_write op = [ucast (drop_bit 8 (op_index op)), ucast (op_index op)] @ op_txid op"

definition sample_monitor :: "u64 \<Rightarrow> channel_monitor" where
  "sample_monitor n = \<lparr>cm_funding_txo = sample_op, cm_latest_update_id = n, cm_state = [ucast n]\<rparr>"

lemma u16_bytes_inject:
  assumes "(ucast (drop_bit 8 x) :: u8) = ucast (drop_bit 8 (y :: u16))" and "(ucast x :: u8) = ucast y"
  shows "x = y"
proof (rule bit_word_eqI)
  fix n assume n: "n < LENGTH(16)"
  show "bit x n = bit y n"
  proof (cases "n < 8")
    case True
    with arg_cong [OF assms(2), of "\<lambda>w. bit w n"] show ?thesis by (simp add: bit_simps)
  next
    case False
    moreover from n have "n - 8 < 8" by simp
    ultimately show ?thesis using arg_cong [OF assms(1), of "\<lambda>w. bit w (n - 8)"] by (simp add: bit_simps)
  qed
qed

lemma inj_sample_op_write: "inj sample_op_write"
  by (rule injI) (auto simp: sample_op_write_def intro: out_point.equality u16_bytes_inject)


text \<open>C7: The order matters, and \<open>update_persisted_channel\<close> does nothing to keep it: when the tasks of two
  updates of a channel are executed in the opposite order, both updates are acknowledged to LDK and
  the row is left with the older monitor.\<close>

theorem monitor_out_of_order:
  assumes "inj op_write" and "\<not> db_closed db"
    and "snd (update_persisted_channel mon_write op upd1 mon1 u1 []) = [t1]"
    and "snd (update_persisted_channel mon_write op upd2 mon2 u2 []) = [t2]"
  shows "run_all op_write sn [t2, t1] (db, []) = (db', acknowledged) \<Longrightarrow>
    set acknowledged = {(op, u1), (op, u2)} \<and>
    stored_monitor op_write op db' =
      Some \<lparr>mo_out_point = op_write op, mo_monitor = mon_write mon1,
            mo_update_id = u64_as_i64 (cm_latest_update_id mon1)\<rparr>"
proof -
  have t: "t1 = Async (StoreMonitor op (cm_latest_update_id mon1) (mon_write mon1) u1)"
    "t2 = Async (StoreMonitor op (cm_latest_update_id mon2) (mon_write mon2) u2)"
    using assms(3,4) by (simp_all add: update_persisted_channel_def persist_new_channel_def)
  assume r: "run_all op_write sn [t2, t1] (db, []) = (db', acknowledged)"
  then have "set acknowledged = {(op, u1), (op, u2)}"
    using assms(2) by (auto simp: t run_all_def Let_def)
  moreover have "stored_monitor op_write op db' = Some (monitor_row_of op_write op (cm_latest_update_id mon1) (mon_write mon1))"
    using run_all_monitor [OF assms(1,2), of op sn "[t2, t1]" "[]"] r by (simp add: t List.map_filter_def)
  ultimately show ?thesis by (simp add: monitor_row_of_def)
qed

theorem monitor_out_of_order_witness:
  "\<exists>db' acknowledged t1 t2.
     snd (update_persisted_channel cm_state sample_op (None :: bytes option) (sample_monitor 1) 6 []) = [t1] \<and>
     snd (update_persisted_channel cm_state sample_op (None :: bytes option) (sample_monitor 2) 7 []) = [t2] \<and>
     run_all sample_op_write \<lparr>pdt_secs = 0, pdt_nanosecond = 0\<rparr> [t2, t1] (empty_db, []) = (db', acknowledged) \<and>
     set acknowledged = {(sample_op, 6), (sample_op, 7)} \<and>
     stored_monitor sample_op_write sample_op db' =
       Some \<lparr>mo_out_point = sample_op_write sample_op, mo_monitor = [1], mo_update_id = 1\<rparr>"
proof -
  obtain t1 t2 where
    t: "snd (update_persisted_channel cm_state sample_op (None :: bytes option) (sample_monitor 1) 6 []) = [t1]"
      "snd (update_persisted_channel cm_state sample_op (None :: bytes option) (sample_monitor 2) 7 []) = [t2]"
    by (simp add: update_persisted_channel_def persist_new_channel_def)
  obtain db' acknowledged where
    r: "run_all sample_op_write \<lparr>pdt_secs = 0, pdt_nanosecond = 0\<rparr> [t2, t1] (empty_db, []) = (db', acknowledged)"
    by fastforce
  have "\<not> db_closed empty_db" by (simp add: empty_db_def)
  from monitor_out_of_order [OF inj_sample_op_write this t r] t r show ?thesis
    by (auto simp: sample_monitor_def u64_as_i64_def)
qed

text \<open>A stored monitor is read back: when outpoints are serialised as 32 bytes of transaction id and
  the index in two big-endian bytes, and the codec of monitors reads what it wrote, then the row that
  \<open>persist_new_channel\<close> leaves for a monitor passes the checks of \<open>fetch_channel_monitors\<close> and gives
  the monitor.\<close>

theorem monitor_read_back:
  assumes "\<And>op. len32 (op_txid op) \<Longrightarrow>
      op_write op = op_txid op @ [ucast (drop_bit 8 (op_index op)), ucast (op_index op)]"
    and "mon_read (mon_write mon) = Ok (blockhash, mon)" and "len32 (op_txid (cm_funding_txo mon))"
  shows "fetch_channel_monitor mon_read
      (monitor_row_of op_write (cm_funding_txo mon) (cm_latest_update_id mon) (mon_write mon)) = Ok (blockhash, mon)"
proof -
  have be: "push_bit 8 (ucast (ucast (drop_bit 8 i) :: u8)) + ucast (ucast i :: u8) = i" for i :: u16
  proof -
    have "push_bit 8 (ucast (ucast (drop_bit 8 i) :: u8)) + ucast (ucast i :: u8) =
        or (push_bit 8 (ucast (ucast (drop_bit 8 i) :: u8))) (ucast (ucast i :: u8) :: u16)"
      by (rule disjunctive_add) (auto simp: bit_simps)
    also have "\<dots> = i"
      by (rule bit_word_eqI) (auto simp: bit_simps)
    finally show ?thesis .
  qed
  have "parse_out_point (op_write (cm_funding_txo mon)) = Ok (cm_funding_txo mon)"
    using assms(3) by (simp add: assms(1) parse_out_point_def len32_def be out_point.equality)
  then show ?thesis
    using assms(2) by (simp add: fetch_channel_monitor_def monitor_row_of_def)
qed

theorem monitor_read_back_witness:
  "fetch_channel_monitor (\<lambda>_. Ok ([], sample_monitor 3))
     (monitor_row_of (\<lambda>op. op_txid op @ [ucast (drop_bit 8 (op_index op)), ucast (op_index op)]) sample_op 3 [3]) =
   Ok ([], sample_monitor 3)"
  using monitor_read_back [of "\<lambda>op. op_txid op @ [ucast (drop_bit 8 (op_index op)), ucast (op_index op)]"
      "\<lambda>_. Ok ([], sample_monitor 3)" cm_state "sample_monitor 3" "[]"]
  by (simp add: sample_monitor_def sample_op_def len32_def)

end
