(* ===== verification/Records_Correct.thy ===== *)
theory Records_Correct
  imports Ldk_Database_Correct
begin

text \<open>
  Channels, invoices with their payments, forwards and spendable outputs: what the fetching methods
  of the database return after the persisting ones.
\<close>

section \<open>Channels\<close>

lemma close_channel_row_id [simp]: "ch_channel_id (close_channel_row now reason r) = ch_channel_id r"
  by (simp add: close_channel_row_def)

lemma find_persist_channel:
  assumes "persist_channel enc now sn c db = Ok db'"
  shows "tbl_find ch_channel_id k (t_channels db') =
    (if k = cd_channel_id c
     then Some (channel_row_update enc now c
       (case tbl_find ch_channel_id k (t_channels db) of None \<Rightarrow> channel_row_default sn | Some r \<Rightarrow> r))
     else tbl_find ch_channel_id k (t_channels db))"
  using assms channels_tbl.find_upsert [of k c enc now sn "t_channels db"]
  by (auto simp: persist_channel_def outcome_simps split: option.splits)

lemma find_close_channel:
  assumes "close_channel now cid reason db = Ok db'"
  shows "tbl_find ch_channel_id k (t_channels db') =
    (if k = cid then map_option (close_channel_row now reason) (tbl_find ch_channel_id k (t_channels db))
     else tbl_find ch_channel_id k (t_channels db))"
proof -
  have "t_channels db' = tbl_update (\<lambda>r. ch_channel_id r = cid) (close_channel_row now reason) (t_channels db)"
    using assms by (auto simp: close_channel_def outcome_simps)
  then show ?thesis by (simp add: tbl_find_update_key)
qed

text \<open>C14: The row of a channel over its life: \<open>persist_channel\<close> and then \<open>close_channel\<close> leave one row
  for the channel, not usable, with the data of the details that were persisted and the reason of the
  closure; the time of opening is that of the first record of the channel and no later update
  changes it, nor does an update without a short channel id erase a known one.\<close>

theorem channel_lifecycle:
  assumes "persist_channel enc now sn c db = Ok db1"
    and "close_channel now' (cd_channel_id c) reason db1 = Ok db2"
  shows "\<exists>r. tbl_find ch_channel_id (cd_channel_id c) (t_channels db2) = Some r \<and>
    \<not> ch_is_usable r \<and> ch_data r = Some (enc c) \<and> ch_closure_reason r = Some reason \<and>
    ch_update_timestamp r = to_primitive (microsecond_timestamp now') \<and>
    ch_open_timestamp r = (case tbl_find ch_channel_id (cd_channel_id c) (t_channels db) of
       None \<Rightarrow> sn | Some r0 \<Rightarrow> ch_open_timestamp r0) \<and>
    ch_short_channel_id r = (case cd_short_channel_id c of Some scid \<Rightarrow> Some (u64_as_i64 scid)
       | None \<Rightarrow> (case tbl_find ch_channel_id (cd_channel_id c) (t_channels db) of
           None \<Rightarrow> None | Some r0 \<Rightarrow> ch_short_channel_id r0))"
  using find_persist_channel [OF assms(1), of "cd_channel_id c"] find_close_channel [OF assms(2), of "cd_channel_id c"]
  by (auto simp: close_channel_row_def channel_row_update_def channel_row_default_def Let_def split: option.splits)

definition sample_channel :: channel_details where
  "sample_channel =
     \<lparr>cd_channel_id = replicate 32 3, cd_counterparty_node_id = replicate 33 2, cd_counterparty_reserve = 1000,
      cd_funding_txo = Some (replicate 32 5, 0), cd_short_channel_id = Some 42,
      cd_channel_value_satoshis = 100000, cd_reserve = None, cd_user_channel_id = 1,
      cd_balance_msat = 60000000, cd_outbound_capacity_msat = 59000000, cd_inbound_capacity_msat = 39000000,
      cd_is_outbound = True, cd_is_channel_ready = True, cd_is_usable = True, cd_is_public = True,
      cd_config = None\<rparr>"

theorem channel_lifecycle_witness:
  "\<exists>db1 db2 r. persist_channel (\<lambda>_. [1]) sample_time (to_primitive sample_time) sample_channel empty_db = Ok db1 \<and>
     close_channel sample_time (cd_channel_id sample_channel) ''closed'' db1 = Ok db2 \<and>
     tbl_find ch_channel_id (cd_channel_id sample_channel) (t_channels db2) = Some r \<and>
     \<not> ch_is_usable r \<and> ch_closure_reason r = Some ''closed'' \<and> ch_short_channel_id r = Some 42"
proof -
  obtain db1 db2 where
    w: "persist_channel (\<lambda>_. [1]) sample_time (to_primitive sample_time) sample_channel empty_db = Ok db1"
      "close_channel sample_time (cd_channel_id sample_channel) ''closed'' db1 = Ok db2"
    by (simp add: persist_channel_def close_channel_def empty_db_def)
  have "cd_short_channel_id sample_channel = Some 42" by (simp add: sample_channel_def)
  with channel_lifecycle [OF w] w show ?thesis
    by (auto simp: u64_as_i64_def)
qed

lemma history_records_mem:
  assumes "history_records dec rows = Ok rs" and "r \<in> set rows" and "ch_data r = Some b"
    and "dec b = Ok (Some d)"
  shows "\<lparr>cr_channel_id = hex_encode (cd_channel_id d), cr_counterparty = hex_encode (cd_counterparty_node_id d),
      cr_open_timestamp = assume_utc (ch_open_timestamp r), cr_update_timestamp = assume_utc (ch_update_timestamp r),
      cr_closure_reason = ch_closure_reason r, cr_detail = Some (d\<lparr>cd_is_usable := False\<rparr>)\<rparr> \<in> set rs"
  using assms
proof (induction rows arbitrary: rs)
  case (Cons x xs)
  from Cons.prems(1) obtain det rest where det: "row_read_optional dec (ch_data x) = Ok det"
    and rest: "history_records dec xs = Ok rest"
    by (auto simp: outcome_simps)
  with Cons.prems(1) have rs: "set rest \<subseteq> set rs"
    by (auto split: option.splits)
  show ?case
  proof (cases "r \<in> set xs")
    case True
    with Cons.IH [OF rest] Cons.prems rs show ?thesis by blast
  next
    case False
    with Cons.prems(2) have "r = x" by simp
    with Cons.prems det rest show ?thesis
      by (auto simp: row_read_optional_def row_read_def outcome_simps)
  qed
qed simp

text \<open>A channel that was persisted and then closed is in the channel history, as the details that
  were persisted, marked unusable, with the reason of its closure; the codec of the details reads
  back what it wrote.\<close>

theorem closed_channel_in_history:
  assumes "dec (enc c) = Ok (Some c)"
    and "persist_channel enc now sn c db = Ok db1"
    and "close_channel now' (cd_channel_id c) reason db1 = Ok db2"
    and "fetch_channel_history dec db2 = Ok rs"
  shows "\<exists>r \<in> set rs. cr_detail r = Some (c\<lparr>cd_is_usable := False\<rparr>) \<and> cr_closure_reason r = Some reason \<and>
    cr_channel_id r = hex_encode (cd_channel_id c)"
proof -
  obtain row where f: "tbl_find ch_channel_id (cd_channel_id c) (t_channels db2) = Some row"
    and u: "\<not> ch_is_usable row" and d: "ch_data row = Some (enc c)" and cl: "ch_closure_reason row = Some reason"
    using find_persist_channel [OF assms(2), of "cd_channel_id c"] find_close_channel [OF assms(3), of "cd_channel_id c"]
    by (auto simp: close_channel_row_def channel_row_update_def Let_def split: option.splits)
  from f u have mem: "row \<in> set (filter (\<lambda>r. \<not> ch_is_usable r) (t_channels db2))"
    by (auto dest: tbl_find_SomeD)
  have "history_records dec (filter (\<lambda>r. \<not> ch_is_usable r) (t_channels db2)) = Ok rs"
    using assms(4) by (simp add: fetch_channel_history_def outcome_simps)
  from history_records_mem [OF this mem d assms(1)] show ?thesis
    by (rule rev_bexI) (simp add: cl)
qed

theorem closed_channel_in_history_witness:
  "\<exists>db1 db2 rs. persist_channel (\<lambda>_. [1]) sample_time (to_primitive sample_time) sample_channel empty_db = Ok db1 \<and>
     close_channel sample_time (cd_channel_id sample_channel) ''closed'' db1 = Ok db2 \<and>
     fetch_channel_history (\<lambda>_. Ok (Some sample_channel)) db2 = Ok rs \<and>
     (\<exists>r \<in> set rs. cr_closure_reason r = Some ''closed'')"
proof -
  obtain db1 db2 where
    w: "persist_channel (\<lambda>_. [1]) sample_time (to_primitive sample_time) sample_channel empty_db = Ok db1"
      "close_channel sample_time (cd_channel_id sample_channel) ''closed'' db1 = Ok db2"
    by (simp add: persist_channel_def close_channel_def empty_db_def)
  then obtain rs where rs: "fetch_channel_history (\<lambda>_. Ok (Some sample_channel)) db2 = Ok rs"
    by (auto simp: persist_channel_def close_channel_def empty_db_def fetch_channel_history_def tbl_upsert_def
        tbl_update_def close_channel_row_def row_read_optional_def row_read_def channel_row_update_def
        Let_def sample_channel_def)
  from closed_channel_in_history [OF _ w rs] w rs show ?thesis by blast
qed

section \<open>Invoices and their payments\<close>

text \<open>The invoices of the database are well formed: a hash of 32 bytes, a text that parses to an
  invoice and a payee that is a public key.\<close>

definition invoice_row_wf ::
  "(string \<Rightarrow> bolt11_invoice option) \<Rightarrow> (bytes \<Rightarrow> pubkey option) \<Rightarrow> invoice_row \<Rightarrow> bool" where
  "invoice_row_wf fs pk i \<longleftrightarrow> len32 (ir_payment_hash i) \<and> fs (ir_bolt11 i) \<noteq> None \<and> pk (ir_payee_pub_key i) \<noteq> None"

definition invoice_of_row ::
  "(string \<Rightarrow> bolt11_invoice option) \<Rightarrow> (bytes \<Rightarrow> pubkey option) \<Rightarrow> payment list \<Rightarrow> invoice_row \<Rightarrow> invoice" where
  "invoice_of_row fs pk ps i =
     \<lparr>inv_payment_hash = ir_payment_hash i, inv_label = ir_label i, inv_bolt11 = the (fs (ir_bolt11 i)),
      inv_payee_pub_key = the (pk (ir_payee_pub_key i)), inv_expiry = map_option i64_as_u64 (ir_expiry i),
      inv_amount = map_option i64_as_u64 (ir_amount i), inv_timestamp = ir_timestamp i, inv_payments = ps\<rparr>"

definition payments_of ::
  "(string \<Rightarrow> bolt11_invoice option) \<Rightarrow> payment_row list \<Rightarrow> invoice_row \<Rightarrow> payment list" where
  "payments_of fs rows i = map (payment_of_row fs [i]) (filter (\<lambda>p. pr_hash p = Some (ir_payment_hash i)) rows)"

lemma invoice_deserialize_row:
  "invoice_row_wf fs pk i \<Longrightarrow>
   invoice_deserialize fs pk (ir_payment_hash i) (ir_label i) (ir_bolt11 i) (ir_payee_pub_key i)
     (map_option i64_as_u64 (ir_expiry i)) (ir_amount i) (ir_timestamp i) = Ok (invoice_of_row fs pk [] i)"
  by (auto simp: invoice_row_wf_def invoice_deserialize_def invoice_of_row_def)

lemma payment_try_from_own_invoice:
  assumes "payment_wf p" and "pay_hash p = Some (ir_payment_hash i)"
  shows "payment_try_from fs (payment_to_row p, Some (ir_bolt11 i)) = Ok (payment_of_row fs [i] (payment_to_row p))"
  using assms by (simp add: payment_try_from_row payment_of_row_to_row joined_bolt11_def)

text \<open>The rows of one invoice, one after the other: the first makes the invoice, the others add their
  payment to it.\<close>

lemma add_invoice_rows_block:
  assumes "invoice_row_wf fs pk i" and "m (ir_payment_hash i) = Some (invoice_of_row fs pk ps i)"
    and "\<forall>r \<in> set rows. pr_hash r = Some (ir_payment_hash i) \<and> (\<exists>p. payment_wf p \<and> r = payment_to_row p)"
  shows "add_invoice_rows fs pk m (map (\<lambda>r. (i, Some r)) rows) =
    Ok (m(ir_payment_hash i \<mapsto> invoice_of_row fs pk (ps @ map (payment_of_row fs [i]) rows) i))"
  using assms
proof (induction rows arbitrary: m ps)
  case Nil
  then show ?case by (simp add: fun_upd_idem)
next
  case (Cons r rows)
  then obtain p where p: "payment_wf p" "r = payment_to_row p" "pay_hash p = Some (ir_payment_hash i)" by auto
  let ?x = "payment_of_row fs [i] r"
  let ?m = "m(ir_payment_hash i \<mapsto> invoice_of_row fs pk (ps @ [?x]) i)"
  have "len32 (ir_payment_hash i)" using Cons.prems(1) by (simp add: invoice_row_wf_def)
  then have "add_invoice_row fs pk m (i, Some r) = Ok ?m"
    using Cons.prems(2) p by (simp add: add_invoice_row_def payment_try_from_own_invoice invoice_of_row_def)
  moreover have "add_invoice_rows fs pk ?m (map (\<lambda>r. (i, Some r)) rows) =
      Ok (?m(ir_payment_hash i \<mapsto> invoice_of_row fs pk ((ps @ [?x]) @ map (payment_of_row fs [i]) rows) i))"
    using Cons.prems by (intro Cons.IH) auto
  ultimately show ?case by simp (auto simp: fun_eq_iff)
qed

lemma add_invoice_rows_append:
  "add_invoice_rows fs pk m (xs @ ys) = bind_outcome (add_invoice_rows fs pk m xs) (\<lambda>m'. add_invoice_rows fs pk m' ys)"
  by (induction xs arbitrary: m) (auto simp: bind_outcome_assoc)

lemma add_invoice_rows_one:
  assumes "invoice_row_wf fs pk i" and "m (ir_payment_hash i) = None"
    and "\<forall>r \<in> set rows. \<exists>p. payment_wf p \<and> r = payment_to_row p"
  shows "add_invoice_rows fs pk m (invoice_payment_join rows [i]) =
    Ok (m(ir_payment_hash i \<mapsto> invoice_of_row fs pk (payments_of fs rows i) i))"
proof -
  let ?h = "ir_payment_hash i"
  have len: "len32 ?h" using assms(1) by (simp add: invoice_row_wf_def)
  show ?thesis
  proof (cases "filter (\<lambda>p. pr_hash p = Some ?h) rows")
    case Nil
    then show ?thesis
      using assms(2) len
      by (simp add: invoice_payment_join_def add_invoice_row_def invoice_deserialize_row [OF assms(1)]
          payments_of_def) (simp add: invoice_of_row_def)
  next
    case (Cons r rs)
    have all: "\<forall>q \<in> set (r # rs). pr_hash q = Some ?h \<and> (\<exists>p. payment_wf p \<and> q = payment_to_row p)"
      using assms(3) unfolding Cons [symmetric] by auto
    then obtain p where p: "payment_wf p" "r = payment_to_row p" "pay_hash p = Some ?h" by auto
    let ?m = "m(?h \<mapsto> invoice_of_row fs pk [payment_of_row fs [i] r] i)"
    have "add_invoice_row fs pk m (i, Some r) = Ok ?m"
      using assms(2) len p
      by (simp add: add_invoice_row_def payment_try_from_own_invoice invoice_deserialize_row [OF assms(1)])
        (simp add: invoice_of_row_def)
    moreover have "add_invoice_rows fs pk ?m (map (\<lambda>r. (i, Some r)) rs) =
        Ok (?m(?h \<mapsto> invoice_of_row fs pk ([payment_of_row fs [i] r] @ map (payment_of_row fs [i]) rs) i))"
      using all by (intro add_invoice_rows_block [OF assms(1)]) auto
    ultimately show ?thesis by (simp add: invoice_payment_join_def Cons payments_of_def)
  qed
qed

lemma add_invoice_rows_join:
  assumes "keys_distinct ir_payment_hash invs" and "\<forall>i \<in> set invs. invoice_row_wf fs pk i"
    and "\<forall>r \<in> set rows. \<exists>p. payment_wf p \<and> r = payment_to_row p"
    and "\<forall>i \<in> set invs. m (ir_payment_hash i) = None"
  shows "\<exists>m'. add_invoice_rows fs pk m (invoice_payment_join rows invs) = Ok m' \<and>
    (\<forall>h. m' h = (case tbl_find ir_payment_hash h invs of None \<Rightarrow> m h
       | Some i \<Rightarrow> Some (invoice_of_row fs pk (payments_of fs rows i) i)))"
  using assms
proof (induction invs arbitrary: m)
  case Nil
  then show ?case by (simp add: invoice_payment_join_def)
next
  case (Cons i invs)
  let ?m = "m(ir_payment_hash i \<mapsto> invoice_of_row fs pk (payments_of fs rows i) i)"
  have notin: "ir_payment_hash i \<notin> ir_payment_hash ` set invs" and d: "keys_distinct ir_payment_hash invs"
    using Cons.prems(1) by (auto simp: keys_distinct_def)
  have "\<exists>m'. add_invoice_rows fs pk ?m (invoice_payment_join rows invs) = Ok m' \<and>
    (\<forall>h. m' h = (case tbl_find ir_payment_hash h invs of None \<Rightarrow> ?m h
       | Some i \<Rightarrow> Some (invoice_of_row fs pk (payments_of fs rows i) i)))"
    using Cons.prems notin d by (intro Cons.IH) (auto simp: image_iff)
  then obtain m' where m': "add_invoice_rows fs pk ?m (invoice_payment_join rows invs) = Ok m'"
    "\<And>h. m' h = (case tbl_find ir_payment_hash h invs of None \<Rightarrow> ?m h
       | Some i \<Rightarrow> Some (invoice_of_row fs pk (payments_of fs rows i) i))" by blast
  have one: "add_invoice_rows fs pk m (invoice_payment_join rows [i]) = Ok ?m"
    using Cons.prems by (intro add_invoice_rows_one) auto
  have join: "invoice_payment_join rows (i # invs) = invoice_payment_join rows [i] @ invoice_payment_join rows invs"
    by (simp add: invoice_payment_join_def)
  have none: "tbl_find ir_payment_hash (ir_payment_hash i) invs = None"
    using notin by (simp add: tbl_find_None_iff)
  show ?case
    by (rule exI [of _ m']) (use m' one none in \<open>auto simp: join add_invoice_rows_append split: option.splits\<close>)
qed

text \<open>C8: \<open>fetch_invoices\<close> returns one invoice for each stored one with the wanted label, with all the
  payments of its hash and no other, although the rows of the join come one per payment and the
  invoice is rebuilt from the first of them.\<close>

theorem fetch_invoices_groups_payments:
  assumes "\<not> db_closed db" and "db_inv db" and "payments_wf db"
    and "\<forall>i \<in> set (t_invoices db). invoice_row_wf from_str from_slice i"
  shows "\<exists>m. fetch_invoices from_str from_slice label db = Ok m \<and>
    (\<forall>h. m h = (case tbl_find ir_payment_hash h (t_invoices db) of
       None \<Rightarrow> None
     | Some i \<Rightarrow> if label = None \<or> ir_label i = label
         then Some (invoice_of_row from_str from_slice (payments_of from_str (t_payments db) i) i) else None))"
proof -
  let ?invs = "filter (\<lambda>i. label = None \<or> ir_label i = label) (t_invoices db)"
  have d: "keys_distinct ir_payment_hash (t_invoices db)" using assms(2) by (simp add: db_inv_def)
  then have df: "keys_distinct ir_payment_hash ?invs"
    by (auto simp: keys_distinct_def distinct_map intro: inj_on_subset)
  obtain m where m: "fetch_invoices from_str from_slice label db = Ok m"
    "\<And>h. m h = (case tbl_find ir_payment_hash h ?invs of None \<Rightarrow> None
       | Some i \<Rightarrow> Some (invoice_of_row from_str from_slice (payments_of from_str (t_payments db) i) i))"
    using add_invoice_rows_join [OF df, of from_str from_slice "t_payments db" Map.empty] assms
    by (auto simp: fetch_invoices_def payments_wf_def)
  have "tbl_find ir_payment_hash h ?invs = (case tbl_find ir_payment_hash h (t_invoices db) of None \<Rightarrow> None
      | Some i \<Rightarrow> if label = None \<or> ir_label i = label then Some i else None)" for h
    by (rule tbl_find_filter [OF d])
  with m show ?thesis
    by (intro exI [of _ m]) (auto split: option.splits)
qed

lemma sample_db_payments_wf:
  "payments_wf (empty_db\<lparr>t_invoices := [invoice_to_row sample_invoice], t_payments := [payment_to_row sample_payment]\<rparr>)"
  using sample_payments_wf by (auto simp: payments_wf_def)

theorem fetch_invoices_groups_payments_witness:
  "\<exists>m i. fetch_invoices sample_from_str Some None
     (empty_db\<lparr>t_invoices := [invoice_to_row sample_invoice], t_payments := [payment_to_row sample_payment]\<rparr>) = Ok m \<and>
     m (replicate 32 7) = Some i \<and> map pay_id (inv_payments i) = [pay_id sample_payment]"
proof -
  let ?db = "empty_db\<lparr>t_invoices := [invoice_to_row sample_invoice], t_payments := [payment_to_row sample_payment]\<rparr>"
  have "\<forall>i \<in> set (t_invoices ?db). invoice_row_wf sample_from_str Some i"
    by (simp add: invoice_row_wf_def invoice_to_row_def sample_invoice_def sample_bolt11_def sample_from_str_def len32_def)
  moreover have "db_inv ?db"
    by (simp add: empty_db_def db_inv_def keys_distinct_def labels_unique_def)
  moreover have "\<not> db_closed ?db" by (simp add: empty_db_def)
  ultimately show ?thesis
    using fetch_invoices_groups_payments [of ?db sample_from_str Some None] sample_db_payments_wf
    by (auto simp: invoice_to_row_def sample_invoice_def invoice_of_row_def payments_of_def payment_of_row_def
        payment_to_row_def sample_payment_def of_invoice_outbound_def sample_bolt11_def)
qed

section \<open>Forwards\<close>

text \<open>The rows of \<open>forwards\<close> come from well-formed forwards, whose destinations the codec reads back.\<close>

definition forwards_wf :: "(htlc_destination \<Rightarrow> bytes) \<Rightarrow> ldk_database \<Rightarrow> bool" where
  "forwards_wf enc db \<longleftrightarrow> (\<forall>r \<in> set (t_forwards db). \<exists>f. forward_wf f \<and> r = forward_to_row enc f)"

definition selects_forward :: "forward_status option \<Rightarrow> forward_row \<Rightarrow> bool" where
  "selects_forward s r \<longleftrightarrow> (case s of None \<Rightarrow> True | Some x \<Rightarrow> fr_status r = x)"

lemma fetch_forwards_selects:
  "fetch_forwards dec s db = on_conn db (collect (forward_try_from dec)
     (sort_key (\<lambda>r. pdt_nanos (fr_timestamp r)) (filter (selects_forward s) (t_forwards db))))"
  by (simp add: fetch_forwards_def selects_forward_def [abs_def])

lemma fetch_forwards_rows:
  assumes "\<not> db_closed db" and "forwards_wf enc db" and codec: "\<And>x. dec (enc x) = Ok (Some x)"
  shows "\<exists>fs. fetch_forwards dec s db = Ok fs \<and>
    map (forward_to_row enc) fs = sort_key (\<lambda>r. pdt_nanos (fr_timestamp r)) (filter (selects_forward s) (t_forwards db))"
proof -
  let ?rows = "sort_key (\<lambda>r. pdt_nanos (fr_timestamp r)) (filter (selects_forward s) (t_forwards db))"
  have "\<forall>r \<in> set ?rows. \<exists>f. forward_wf f \<and> r = forward_to_row enc f"
    using assms(2) by (simp add: forwards_wf_def)
  then obtain written where written: "\<And>r. r \<in> set ?rows \<Longrightarrow> forward_wf (written r) \<and> r = forward_to_row enc (written r)"
    by metis
  have "collect (forward_try_from dec) ?rows = Ok (map written ?rows)"
    by (rule collect_all_ok) (metis written forward_try_from_row codec)
  moreover have "map (forward_to_row enc) (map written ?rows) = ?rows"
    unfolding map_map comp_def by (rule map_idI) (metis written)
  ultimately show ?thesis
    using assms(1) by (auto simp: fetch_forwards_selects)
qed

lemma forward_row_inject:
  assumes "forward_wf f" and "forward_to_row enc g = forward_to_row enc f" and "forward_wf g"
    and codec: "\<And>x. dec (enc x) = Ok (Some x)"
  shows "g = f"
  using forward_try_from_row [OF assms(1) codec] forward_try_from_row [OF assms(3) codec] assms(2) by simp

lemma map_eq_listI:
  assumes "map h xs = (if b then [h x] else [])" and "\<And>y. y \<in> set xs \<Longrightarrow> h y = h x \<Longrightarrow> y = x"
  shows "xs = (if b then [x] else [])"
  using assms by (cases xs) (auto split: if_splits)

lemma list_all2_in_set_right:
  "list_all2 R xs ys \<Longrightarrow> y \<in> set ys \<Longrightarrow> \<exists>x \<in> set xs. R x y"
  by (induction rule: list_all2_induct) auto

lemma fetch_forwards_wf:
  assumes "forwards_wf enc db" and "\<And>x. dec (enc x) = Ok (Some x)" and "fetch_forwards dec s db = Ok fs"
    and "g \<in> set fs"
  shows "forward_wf g \<and> forward_to_row enc g \<in> set (t_forwards db)"
proof -
  let ?rows = "sort_key (\<lambda>r. pdt_nanos (fr_timestamp r)) (filter (selects_forward s) (t_forwards db))"
  have "list_all2 (\<lambda>r f. forward_try_from dec r = Ok f) ?rows fs"
    using assms(3) by (auto simp: fetch_forwards_selects outcome_simps)
  then obtain r where r: "r \<in> set ?rows" "forward_try_from dec r = Ok g"
    using list_all2_in_set_right [OF _ assms(4)] by blast
  moreover from r(1) have "r \<in> set (t_forwards db)" by simp
  ultimately show ?thesis
    using assms(1) forward_try_from_row [OF _ assms(2)] by (force simp: forwards_wf_def)
qed

text \<open>A forward that was persisted is in the answer of \<open>fetch_forwards\<close> once, equal to what was
  persisted, when its status is asked for, and it is not there otherwise; the answer is in the order
  of the timestamps.\<close>

theorem persist_forward_listed:
  assumes "db_inv db" and "forwards_wf enc db" and "forward_wf f"
    and codec: "\<And>x. dec (enc x) = Ok (Some x)"
    and "persist_forward enc f db = Ok db'"
  shows "\<exists>fs. fetch_forwards dec s db' = Ok fs \<and>
    filter (\<lambda>g. fwd_id g = fwd_id f) fs = (if s = None \<or> s = Some (fwd_status f) then [f] else []) \<and>
    sorted (map (\<lambda>g. pdt_nanos (to_primitive (fwd_timestamp g))) fs)"
proof -
  let ?row = "forward_to_row enc f"
  let ?rows = "tbl_upsert fr_id (fwd_id f) (\<lambda>_. ?row) ?row (t_forwards db)"
  let ?sel = "sort_key (\<lambda>r. pdt_nanos (fr_timestamp r)) (filter (selects_forward s) ?rows)"
  have fid: "fr_id (forward_to_row enc g) = fwd_id g" for g by (simp add: forward_to_row_def)
  have d: "keys_distinct fr_id (t_forwards db)" using assms(1) by (simp add: db_inv_def)
  have open': "\<not> db_closed db'" and rows: "t_forwards db' = ?rows"
    using assms(5) by (auto simp: persist_forward_def outcome_simps fid)
  have wf: "forwards_wf enc db'"
    using assms(2,3) by (auto simp: forwards_wf_def rows forwards_tbl.mem_upsert [OF d])
  obtain fs where fs: "fetch_forwards dec s db' = Ok fs" "map (forward_to_row enc) fs = ?sel"
    using fetch_forwards_rows [OF open' wf codec] unfolding rows by blast
  have "map (\<lambda>g. pdt_nanos (to_primitive (fwd_timestamp g))) fs = map (\<lambda>r. pdt_nanos (fr_timestamp r)) ?sel"
    unfolding fs(2) [symmetric] by (simp add: forward_to_row_def)
  then have sorted: "sorted (map (\<lambda>g. pdt_nanos (to_primitive (fwd_timestamp g))) fs)" by simp
  have "map (forward_to_row enc) (filter (\<lambda>g. fwd_id g = fwd_id f) fs) =
      filter (\<lambda>r. fr_id r = fwd_id f) (map (forward_to_row enc) fs)"
    by (simp add: filter_map comp_def fid)
  also have "\<dots> = sort_key (\<lambda>r. pdt_nanos (fr_timestamp r)) (filter (selects_forward s) (filter (\<lambda>r. fr_id r = fwd_id f) ?rows))"
    by (simp add: fs(2) filter_sort fid conj_commute)
  also have "filter (\<lambda>r. fr_id r = fwd_id f) ?rows = [?row]"
    by (simp add: filter_key_distinct [OF forwards_tbl.distinct_upsert [OF d]] forwards_tbl.find_upsert_replaced)
  finally have one: "map (forward_to_row enc) (filter (\<lambda>g. fwd_id g = fwd_id f) fs) =
      (if s = None \<or> s = Some (fwd_status f) then [?row] else [])"
    by (auto simp: selects_forward_def forward_to_row_def split: option.splits)
  have "forward_wf g" if "g \<in> set fs" for g
    using fetch_forwards_wf [OF wf codec fs(1) that] by simp
  then have "g = f" if "g \<in> set fs" and "forward_to_row enc g = ?row" for g
    using forward_row_inject [OF assms(3) that(2) _ codec] that(1) by blast
  with one have "filter (\<lambda>g. fwd_id g = fwd_id f) fs = (if s = None \<or> s = Some (fwd_status f) then [f] else [])"
    by (rule map_eq_listI) (auto split: if_splits)
  with fs(1) sorted show ?thesis by blast
qed

definition sample_forward :: forward where
  "sample_forward = forward_success (replicate 16 1) sample_time (replicate 32 2) (replicate 32 3) 1000 10"

text \<open>A codec of destinations for the examples: a tag, then lengths and numbers in unary.\<close>

fun sample_dest_encode :: "htlc_destination \<Rightarrow> bytes" where
  "sample_dest_encode (NextHopChannel None cid) = 0 # cid"
| "sample_dest_encode (NextHopChannel (Some pk) cid) = 1 # replicate (length pk) 1 @ 0 # pk @ cid"
| "sample_dest_encode (UnknownNextHop scid) = 2 # replicate (unat scid) 1"
| "sample_dest_encode (InvalidForward scid) = 3 # replicate (unat scid) 1"
| "sample_dest_encode (FailedPayment h) = 4 # h"

fun sample_dest_decode :: "bytes \<Rightarrow> htlc_destination option outcome" where
  "sample_dest_decode [] = Ok None"
| "sample_dest_decode (t # b) =
     (if t = 0 then Ok (Some (NextHopChannel None b))
      else if t = 1 then
        (let n = length (takeWhile (\<lambda>x. x = 1) b); c = drop (n + 1) b
         in Ok (Some (NextHopChannel (Some (take n c)) (drop n c))))
      else if t = 2 then Ok (Some (UnknownNextHop (of_nat (length b))))
      else if t = 3 then Ok (Some (InvalidForward (of_nat (length b))))
      else Ok (Some (FailedPayment b)))"

lemma sample_dest_codec: "sample_dest_decode (sample_dest_encode x) = Ok (Some x)"
proof -
  have "takeWhile (\<lambda>x. x = 1) (replicate n 1 @ (0 :: u8) # r) = replicate n 1" for n r
    by (induction n) auto
  then show ?thesis
    by (cases x rule: sample_dest_encode.cases) (simp_all add: Let_def)
qed

theorem persist_forward_listed_witness:
  "\<exists>db' fs. persist_forward sample_dest_encode sample_forward empty_db = Ok db' \<and>
     fetch_forwards sample_dest_decode (Some FwdSucceeded) db' = Ok fs \<and>
     filter (\<lambda>g. fwd_id g = fwd_id sample_forward) fs = [sample_forward]"
proof -
  have wf: "forward_wf sample_forward"
    by (simp add: sample_forward_def forward_success_def forward_wf_def len32_def is_utc_def microsecond_timestamp_def
        sample_time_def)
  have e: "forwards_wf sample_dest_encode empty_db" by (simp add: forwards_wf_def empty_db_def)
  obtain db' where p: "persist_forward sample_dest_encode sample_forward empty_db = Ok db'"
    by (simp add: persist_forward_def empty_db_def)
  moreover have "fwd_status sample_forward = FwdSucceeded"
    by (simp add: sample_forward_def forward_success_def)
  ultimately show ?thesis
    using persist_forward_listed [OF db_inv_empty e wf sample_dest_codec p, of "Some FwdSucceeded"] by auto
qed

lemma sum_list_insort_key:
  "sum_list (map g (insort_key k x xs)) = g x + sum_list (map (g :: _ \<Rightarrow> 'a :: comm_monoid_add) xs)"
  by (induction xs) (auto simp: add.left_commute)

lemma sum_list_sort_key [simp]:
  "sum_list (map g (sort_key k xs)) = sum_list (map (g :: _ \<Rightarrow> 'a :: comm_monoid_add) xs)"
  by (induction xs) (auto simp: sum_list_insort_key)

lemma i64_as_u64_add: "i64_as_u64 (a + b) = i64_as_u64 a + i64_as_u64 b"
  by (simp add: i64_as_u64_def)

lemma i64_as_u64_0 [simp]: "i64_as_u64 0 = 0"
  by (simp add: i64_as_u64_def)

lemma sql_sum_word:
  assumes "sql_sum xs = Ok s"
  shows "i64_as_u64 s = sum_list (map (\<lambda>x. case x of None \<Rightarrow> 0 | Some a \<Rightarrow> i64_as_u64 a) xs)"
proof -
  have "i64_as_u64 (sum_list (map the (filter (\<lambda>x. x \<noteq> None) xs))) =
      sum_list (map (\<lambda>x. case x of None \<Rightarrow> 0 | Some a \<Rightarrow> i64_as_u64 a) xs)"
    by (induction xs) (auto simp: i64_as_u64_add split: option.splits)
  with assms show ?thesis by (simp add: sql_sum_def Let_def split: if_splits)
qed

lemma forward_try_from_columns:
  assumes "forward_try_from dec r = Ok f"
  shows "fwd_amount f = map_option i64_as_u64 (fr_amount r)" and "fwd_fee f = map_option i64_as_u64 (fr_fee r)"
  using assms by (auto simp: forward_try_from_def outcome_simps)

lemma sum_list_columns:
  assumes "list_all2 (\<lambda>r f. forward_try_from dec r = Ok f) rows fs"
    and "\<And>r f. forward_try_from dec r = Ok f \<Longrightarrow> fcol f = map_option i64_as_u64 (rcol r)"
  shows "sum_list (map (\<lambda>f. case fcol f of None \<Rightarrow> 0 | Some a \<Rightarrow> a) fs) =
    sum_list (map (\<lambda>x. case x of None \<Rightarrow> 0 | Some a \<Rightarrow> i64_as_u64 a) (map rcol rows))"
  using assms(1) by (induction rule: list_all2_induct) (auto simp: assms(2) split: option.splits)

text \<open>C15: \<open>fetch_total_forwards\<close> agrees with the list: when it returns, the count is the number of the
  forwards that \<open>fetch_forwards\<close> gives for the status succeeded, and the amount and the fee are the
  sums over that list, where a missing amount or fee counts as 0.\<close>

theorem total_forwards_agree:
  assumes "fetch_forwards dec (Some FwdSucceeded) db = Ok fs" and "fetch_total_forwards db = Ok t"
  shows "tf_count t = of_nat (length fs) \<and>
    tf_amount t = sum_list (map (\<lambda>f. case fwd_amount f of None \<Rightarrow> 0 | Some a \<Rightarrow> a) fs) \<and>
    tf_fee t = sum_list (map (\<lambda>f. case fwd_fee f of None \<Rightarrow> 0 | Some a \<Rightarrow> a) fs)"
proof -
  let ?rows = "filter (selects_forward (Some FwdSucceeded)) (t_forwards db)"
  let ?sorted = "sort_key (\<lambda>r. pdt_nanos (fr_timestamp r)) ?rows"
  have rel: "list_all2 (\<lambda>r f. forward_try_from dec r = Ok f) ?sorted fs"
    using assms(1) by (auto simp: fetch_forwards_selects outcome_simps)
  have sel: "filter (\<lambda>r. fr_status r = FwdSucceeded) (t_forwards db) = ?rows"
    by (simp add: selects_forward_def [abs_def])
  from assms(2) obtain a c where a: "sql_sum (map fr_amount ?rows) = Ok a" and c: "sql_sum (map fr_fee ?rows) = Ok c"
    and t: "t = \<lparr>tf_count = i64_as_u64 (int (length ?rows)), tf_amount = i64_as_u64 a, tf_fee = i64_as_u64 c\<rparr>"
    by (auto simp: fetch_total_forwards_def Let_def outcome_simps sel)
  have "length fs = length ?rows" using list_all2_lengthD [OF rel] by simp
  moreover have "i64_as_u64 (int n) = of_nat n" for n by (simp add: i64_as_u64_def)
  moreover note sum_list_columns [OF rel, of fwd_amount fr_amount] sum_list_columns [OF rel, of fwd_fee fr_fee]
  ultimately show ?thesis
    using sql_sum_word [OF a] sql_sum_word [OF c] by (simp add: t forward_try_from_columns comp_def)
qed

theorem total_forwards_agree_witness:
  "\<exists>t. fetch_total_forwards (empty_db\<lparr>t_forwards := [forward_to_row sample_dest_encode sample_forward]\<rparr>) = Ok t \<and>
     tf_count t = 1 \<and> tf_amount t = 1000 \<and> tf_fee t = 10"
proof -
  let ?db = "empty_db\<lparr>t_forwards := [forward_to_row sample_dest_encode sample_forward]\<rparr>"
  have f: "fetch_forwards sample_dest_decode (Some FwdSucceeded) ?db = Ok [sample_forward]"
    by (simp add: fetch_forwards_def empty_db_def)
      (simp add: sample_forward_def forward_success_def forward_to_row_def forward_try_from_def u64_as_i64_def
        i64_as_u64_def opt_array32_def array32_def len32_def row_read_optional_def to_primitive_def assume_utc_def
        microsecond_timestamp_def sample_time_def)
  obtain t where t: "fetch_total_forwards ?db = Ok t"
    by (simp add: fetch_total_forwards_def Let_def empty_db_def sample_forward_def forward_success_def
        forward_to_row_def sql_sum_def u64_as_i64_def)
  from total_forwards_agree [OF f t] t show ?thesis
    by (auto simp: sample_forward_def forward_success_def)
qed

end
