(* ===== verification/Wallet_Database.thy ===== *)
theory Wallet_Database
  imports Sql_Table
begin

text \<open>
  The tables of the on-chain wallet (\<^verbatim>\<open>database/wallet_database.rs\<close>), which implement the database
  interface of \<^verbatim>\<open>bdk\<close>: script pubkeys, unspent outputs, transactions and their details, derivation
  indices, descriptor checksums, the time of the last synchronisation, and the transaction a batch
  opens.  Only \<open>wallet_utxos\<close>, \<open>wallet_last_derivation_indices\<close> and \<open>wallet_sync_time\<close> have a
  primary key (\<^verbatim>\<open>sql/V2__wallet.sql\<close>); the others take duplicates, and the code reads the first row.

  The encodings of \<^verbatim>\<open>bitcoin::consensus\<close> and of \<^verbatim>\<open>serde_json\<close> are the fields of a \<open>wallet_codec\<close>, a
  parameter of the operations that use them.
\<close>

section \<open>Data\<close>

datatype keychain_kind = External | Internal

record local_utxo =
  lu_txid :: bytes
  lu_vout :: u32
  lu_value :: u64
  lu_script_pubkey :: bytes
  lu_keychain :: keychain_kind
  lu_is_spent :: bool

record block_time =
  bt_height :: u32
  bt_timestamp :: u64

record 'tx transaction_details =
  td_transaction :: "'tx option"
  td_txid :: bytes
  td_received :: u64
  td_sent :: u64
  td_fee :: "u64 option"
  td_confirmation_time :: "block_time option"

record 'tx wallet_codec =
  tx_txid :: "'tx \<Rightarrow> bytes"
  tx_serialize :: "'tx \<Rightarrow> bytes"
  tx_deserialize :: "bytes \<Rightarrow> 'tx outcome"
  txid_deserialize :: "bytes \<Rightarrow> bytes outcome"
  keychain_to_json :: "keychain_kind \<Rightarrow> string outcome"
  keychain_from_json :: "string \<Rightarrow> keychain_kind outcome"

section \<open>Tables\<close>

record script_row =
  sp_keychain :: string
  sp_child :: int
  sp_script :: bytes

record utxo_row =
  ut_value :: int
  ut_keychain :: string
  ut_vout :: int
  ut_txid :: bytes
  ut_script :: bytes
  ut_is_spent :: bool

record transaction_row =
  wt_txid :: bytes
  wt_raw_tx :: bytes

record details_row =
  dt_txid :: bytes
  dt_timestamp :: "int option"
  dt_received :: int
  dt_sent :: int
  dt_fee :: "int option"
  dt_height :: "int option"

record index_row =
  ix_keychain :: string
  ix_value :: int

record checksum_row =
  ck_keychain :: string
  ck_checksum :: bytes

record sync_row =
  sy_id :: int
  sy_height :: int
  sy_timestamp :: int

record wallet_tables =
  w_script_pubkeys :: "script_row list"
  w_utxos :: "utxo_row list"
  w_transactions :: "transaction_row list"
  w_transaction_details :: "details_row list"
  w_last_derivation_indices :: "index_row list"
  w_checksums :: "checksum_row list"
  w_sync_time :: "sync_row list"

text \<open>The connection of the wallet: the tables as its session sees them, the tables as they were when
  the open transaction began, and whether the client is closed.\<close>

record wallet_database =
  wd_tables :: wallet_tables
  wd_begun :: "wallet_tables option"
  wd_closed :: bool

definition utxo_row_key :: "utxo_row \<Rightarrow> bytes \<times> int" where
  "utxo_row_key r = (ut_txid r, ut_vout r)"

section \<open>Statements\<close>

text \<open>\<open>execute_blocking!\<close> and \<open>query_blocking!\<close>: the statement on the current client, which fails when the
  connection is closed.\<close>

definition execute_blocking :: "(wallet_tables \<Rightarrow> wallet_tables outcome) \<Rightarrow> wallet_database \<Rightarrow> wallet_database outcome" where
  "execute_blocking statement db =
     (if wd_closed db then Err DbClosed
      else bind_outcome (statement (wd_tables db)) (\<lambda>t. Ok (db\<lparr>wd_tables := t\<rparr>)))"

definition query_blocking :: "(wallet_tables \<Rightarrow> 'r list) \<Rightarrow> wallet_database \<Rightarrow> 'r list outcome" where
  "query_blocking statement db = (if wd_closed db then Err DbClosed else Ok (statement (wd_tables db)))"

definition first_row :: "'r list \<Rightarrow> 'r option" where
  "first_row rows = (case rows of [] \<Rightarrow> None | r # _ \<Rightarrow> Some r)"

fun opt_try_u64 :: "int option \<Rightarrow> u64 option outcome" where
  "opt_try_u64 None = Ok None"
| "opt_try_u64 (Some i) = bind_outcome (i64_try_u64 i) (\<lambda>x. Ok (Some x))"

fun opt_try_u32 :: "int option \<Rightarrow> u32 option outcome" where
  "opt_try_u32 None = Ok None"
| "opt_try_u32 (Some i) = bind_outcome (i64_try_u32 i) (\<lambda>x. Ok (Some x))"

subsection \<open>Writing\<close>

definition insert_script_pubkey :: "string \<Rightarrow> u32 \<Rightarrow> bytes \<Rightarrow> wallet_database \<Rightarrow> wallet_database outcome" where
  "insert_script_pubkey keychain child script =
     execute_blocking (\<lambda>t. Ok (t\<lparr>w_script_pubkeys := w_script_pubkeys t @
       [\<lparr>sp_keychain = keychain, sp_child = u32_as_i32 child, sp_script = script\<rparr>]\<rparr>))"

definition insert_utxo ::
  "u64 \<Rightarrow> string \<Rightarrow> u32 \<Rightarrow> bytes \<Rightarrow> bytes \<Rightarrow> bool \<Rightarrow> wallet_database \<Rightarrow> wallet_database outcome" where
  "insert_utxo val keychain vout txid script is_spent =
     (let row = \<lparr>ut_value = u64_as_i64 val, ut_keychain = keychain, ut_vout = u32_as_i32 vout, ut_txid = txid,
                 ut_script = script, ut_is_spent = is_spent\<rparr>
      in execute_blocking (\<lambda>t. Ok (t\<lparr>w_utxos :=
           tbl_upsert utxo_row_key (utxo_row_key row) (\<lambda>_. row) row (w_utxos t)\<rparr>)))"

definition insert_transaction :: "bytes \<Rightarrow> bytes \<Rightarrow> wallet_database \<Rightarrow> wallet_database outcome" where
  "insert_transaction txid raw_tx =
     execute_blocking (\<lambda>t. Ok (t\<lparr>w_transactions := w_transactions t @ [\<lparr>wt_txid = txid, wt_raw_tx = raw_tx\<rparr>]\<rparr>))"

text \<open>\<open>UPDATE wallet_transactions SET raw_tx=$1 WHERE txid=$2\<close> with the parameters \<open>[txid, raw_tx]\<close>.\<close>

definition update_transaction_statement :: "bytes \<Rightarrow> bytes \<Rightarrow> wallet_tables \<Rightarrow> wallet_tables" where
  "update_transaction_statement p1 p2 t =
     t\<lparr>w_transactions := tbl_update (\<lambda>r. wt_txid r = p2) (\<lambda>r. r\<lparr>wt_raw_tx := p1\<rparr>) (w_transactions t)\<rparr>"

definition update_transaction :: "bytes \<Rightarrow> bytes \<Rightarrow> wallet_database \<Rightarrow> wallet_database outcome" where
  "update_transaction txid raw_tx = execute_blocking (\<lambda>t. Ok (update_transaction_statement txid raw_tx t))"

definition confirmation_columns :: "'tx transaction_details \<Rightarrow> int option \<times> int option" where
  "confirmation_columns d =
     (case td_confirmation_time d of
        Some c \<Rightarrow> (Some (u64_as_i64 (bt_timestamp c)), Some (u32_as_i64 (bt_height c)))
      | None \<Rightarrow> (None, None))"

definition insert_transaction_details :: "'tx transaction_details \<Rightarrow> wallet_database \<Rightarrow> wallet_database outcome" where
  "insert_transaction_details d =
     (case confirmation_columns d of (timestamp, height) \<Rightarrow>
       execute_blocking (\<lambda>t. Ok (t\<lparr>w_transaction_details := w_transaction_details t @
         [\<lparr>dt_txid = td_txid d, dt_timestamp = timestamp, dt_received = u64_as_i64 (td_received d),
           dt_sent = u64_as_i64 (td_sent d), dt_fee = map_option u64_as_i64 (td_fee d), dt_height = height\<rparr>]\<rparr>)))"

definition update_transaction_details :: "'tx transaction_details \<Rightarrow> wallet_database \<Rightarrow> wallet_database outcome" where
  "update_transaction_details d =
     (case confirmation_columns d of (timestamp, height) \<Rightarrow>
       execute_blocking (\<lambda>t. Ok (t\<lparr>w_transaction_details :=
         tbl_update (\<lambda>r. dt_txid r = td_txid d)
           (\<lambda>r. r\<lparr>dt_timestamp := timestamp, dt_received := u64_as_i64 (td_received d),
                  dt_sent := u64_as_i64 (td_sent d), dt_fee := map_option u64_as_i64 (td_fee d),
                  dt_height := height\<rparr>)
           (w_transaction_details t)\<rparr>)))"

definition insert_last_derivation_index :: "string \<Rightarrow> u32 \<Rightarrow> wallet_database \<Rightarrow> wallet_database outcome" where
  "insert_last_derivation_index keychain val =
     execute_blocking (\<lambda>t. bind_outcome
       (tbl_insert ix_keychain \<lparr>ix_keychain = keychain, ix_value = u32_as_i64 val\<rparr> (w_last_derivation_indices t))
       (\<lambda>rows. Ok (t\<lparr>w_last_derivation_indices := rows\<rparr>)))"

definition insert_checksum :: "string \<Rightarrow> bytes \<Rightarrow> wallet_database \<Rightarrow> wallet_database outcome" where
  "insert_checksum keychain checksum =
     execute_blocking (\<lambda>t. Ok (t\<lparr>w_checksums := w_checksums t @ [\<lparr>ck_keychain = keychain, ck_checksum = checksum\<rparr>]\<rparr>))"

definition update_last_derivation_index :: "string \<Rightarrow> u32 \<Rightarrow> wallet_database \<Rightarrow> wallet_database outcome" where
  "update_last_derivation_index keychain val =
     (let row = \<lparr>ix_keychain = keychain, ix_value = u32_as_i64 val\<rparr>
      in execute_blocking (\<lambda>t. Ok (t\<lparr>w_last_derivation_indices :=
           tbl_upsert ix_keychain keychain (\<lambda>_. row) row (w_last_derivation_indices t)\<rparr>)))"

definition update_sync_time :: "block_time \<Rightarrow> wallet_database \<Rightarrow> wallet_database outcome" where
  "update_sync_time data =
     (let row = \<lparr>sy_id = 0, sy_height = u32_as_i64 (bt_height data), sy_timestamp = u64_as_i64 (bt_timestamp data)\<rparr>
      in execute_blocking (\<lambda>t. Ok (t\<lparr>w_sync_time := tbl_upsert sy_id 0 (\<lambda>_. row) row (w_sync_time t)\<rparr>)))"

subsection \<open>Reading\<close>

definition select_script_pubkeys :: "wallet_database \<Rightarrow> bytes list outcome" where
  "select_script_pubkeys db =
     bind_outcome (query_blocking w_script_pubkeys db) (\<lambda>rows. Ok (map sp_script rows))"

definition select_script_pubkeys_by_keychain :: "string \<Rightarrow> wallet_database \<Rightarrow> bytes list outcome" where
  "select_script_pubkeys_by_keychain keychain db =
     bind_outcome (query_blocking (\<lambda>t. filter (\<lambda>r. sp_keychain r = keychain) (w_script_pubkeys t)) db)
       (\<lambda>rows. Ok (map sp_script rows))"

definition select_script_pubkey_by_path :: "string \<Rightarrow> u32 \<Rightarrow> wallet_database \<Rightarrow> bytes option outcome" where
  "select_script_pubkey_by_path keychain child db =
     bind_outcome (query_blocking (\<lambda>t. filter (\<lambda>r. sp_keychain r = keychain \<and> sp_child r = u32_as_i32 child)
         (w_script_pubkeys t)) db)
       (\<lambda>rows. Ok (map_option sp_script (first_row rows)))"

definition select_script_pubkey_by_script ::
  "'tx wallet_codec \<Rightarrow> bytes \<Rightarrow> wallet_database \<Rightarrow> (keychain_kind \<times> u32) option outcome" where
  "select_script_pubkey_by_script codec script db =
     bind_outcome (query_blocking (\<lambda>t. filter (\<lambda>r. sp_script r = script) (w_script_pubkeys t)) db) (\<lambda>rows.
       case first_row rows of
         Some row \<Rightarrow> bind_outcome (keychain_from_json codec (sp_keychain row)) (\<lambda>keychain.
           Ok (Some (keychain, i32_as_u32 (sp_child row))))
       | None \<Rightarrow> Ok None)"

definition utxo_of_row :: "'tx wallet_codec \<Rightarrow> utxo_row \<Rightarrow> local_utxo outcome" where
  "utxo_of_row codec row =
     bind_outcome (i64_try_u64 (ut_value row)) (\<lambda>val.
     bind_outcome (keychain_from_json codec (ut_keychain row)) (\<lambda>keychain.
     bind_outcome (txid_deserialize codec (ut_txid row)) (\<lambda>txid.
       Ok \<lparr>lu_txid = txid, lu_vout = i32_as_u32 (ut_vout row), lu_value = val, lu_script_pubkey = ut_script row,
           lu_keychain = keychain, lu_is_spent = ut_is_spent row\<rparr>)))"

definition select_utxos :: "'tx wallet_codec \<Rightarrow> wallet_database \<Rightarrow> local_utxo list outcome" where
  "select_utxos codec db = bind_outcome (query_blocking w_utxos db) (collect (utxo_of_row codec))"

definition select_utxo_by_outpoint ::
  "'tx wallet_codec \<Rightarrow> bytes \<Rightarrow> u32 \<Rightarrow> wallet_database \<Rightarrow> local_utxo option outcome" where
  "select_utxo_by_outpoint codec txid vout db =
     bind_outcome (query_blocking (\<lambda>t. filter (\<lambda>r. utxo_row_key r = (txid, u32_as_i32 vout)) (w_utxos t)) db) (\<lambda>rows.
       case first_row rows of
         Some row \<Rightarrow>
           bind_outcome (i64_try_u64 (ut_value row)) (\<lambda>val.
           bind_outcome (keychain_from_json codec (ut_keychain row)) (\<lambda>keychain.
           bind_outcome (txid_deserialize codec txid) (\<lambda>id.
             Ok (Some \<lparr>lu_txid = id, lu_vout = vout, lu_value = val, lu_script_pubkey = ut_script row,
                       lu_keychain = keychain, lu_is_spent = ut_is_spent row\<rparr>))))
       | None \<Rightarrow> Ok None)"

definition select_transactions :: "'tx wallet_codec \<Rightarrow> wallet_database \<Rightarrow> 'tx list outcome" where
  "select_transactions codec db =
     bind_outcome (query_blocking w_transactions db) (collect (\<lambda>r. tx_deserialize codec (wt_raw_tx r)))"

definition select_transaction_by_txid :: "'tx wallet_codec \<Rightarrow> bytes \<Rightarrow> wallet_database \<Rightarrow> 'tx option outcome" where
  "select_transaction_by_txid codec txid db =
     bind_outcome (query_blocking (\<lambda>t. filter (\<lambda>r. wt_txid r = txid) (w_transactions t)) db) (\<lambda>rows.
       case first_row rows of
         Some row \<Rightarrow> bind_outcome (tx_deserialize codec (wt_raw_tx row)) (\<lambda>tx. Ok (Some tx))
       | None \<Rightarrow> Ok None)"

text \<open>\<open>wallet_transaction_details wtd, wallet_transactions wt WHERE wtd.txid = wt.txid\<close>: an inner join.\<close>

definition details_join :: "wallet_tables \<Rightarrow> (details_row \<times> transaction_row) list" where
  "details_join t =
     concat (map (\<lambda>d. map (Pair d) (filter (\<lambda>r. wt_txid r = dt_txid d) (w_transactions t))) (w_transaction_details t))"

definition confirmation_of :: "u32 option \<Rightarrow> u64 option \<Rightarrow> block_time option" where
  "confirmation_of height timestamp =
     (case (height, timestamp) of (Some h, Some t) \<Rightarrow> Some \<lparr>bt_height = h, bt_timestamp = t\<rparr> | _ \<Rightarrow> None)"

definition details_columns ::
  "details_row \<Rightarrow> (u64 option \<times> u64 \<times> u64 \<times> u64 option \<times> u32 option) outcome" where
  "details_columns row =
     bind_outcome (opt_try_u64 (dt_timestamp row)) (\<lambda>timestamp.
     bind_outcome (i64_try_u64 (dt_received row)) (\<lambda>received.
     bind_outcome (i64_try_u64 (dt_sent row)) (\<lambda>sent.
     bind_outcome (opt_try_u64 (dt_fee row)) (\<lambda>fee.
     bind_outcome (opt_try_u32 (dt_height row)) (\<lambda>height.
       Ok (timestamp, received, sent, fee, height))))))"

definition select_transaction_details_with_raw ::
  "'tx wallet_codec \<Rightarrow> wallet_database \<Rightarrow> 'tx transaction_details list outcome" where
  "select_transaction_details_with_raw codec db =
     bind_outcome (query_blocking details_join db) (collect (\<lambda>(row, raw).
       bind_outcome (txid_deserialize codec (dt_txid row)) (\<lambda>txid.
       bind_outcome (details_columns row) (\<lambda>(timestamp, received, sent, fee, height).
       bind_outcome (tx_deserialize codec (wt_raw_tx raw)) (\<lambda>tx.
         Ok \<lparr>td_transaction = Some tx, td_txid = txid, td_received = received, td_sent = sent, td_fee = fee,
             td_confirmation_time = confirmation_of height timestamp\<rparr>)))))"

definition select_transaction_details ::
  "'tx wallet_codec \<Rightarrow> wallet_database \<Rightarrow> 'tx transaction_details list outcome" where
  "select_transaction_details codec db =
     bind_outcome (query_blocking w_transaction_details db) (collect (\<lambda>row.
       bind_outcome (txid_deserialize codec (dt_txid row)) (\<lambda>txid.
       bind_outcome (details_columns row) (\<lambda>(timestamp, received, sent, fee, height).
         Ok \<lparr>td_transaction = None, td_txid = txid, td_received = received, td_sent = sent, td_fee = fee,
             td_confirmation_time = confirmation_of height timestamp\<rparr>))))"

definition select_transaction_details_by_txid ::
  "'tx wallet_codec \<Rightarrow> bytes \<Rightarrow> wallet_database \<Rightarrow> 'tx transaction_details option outcome" where
  "select_transaction_details_by_txid codec txid db =
     bind_outcome (query_blocking (\<lambda>t. filter (\<lambda>(d, r). dt_txid d = txid) (details_join t)) db) (\<lambda>rows.
       case first_row rows of
         Some (row, raw) \<Rightarrow>
           bind_outcome (details_columns row) (\<lambda>(timestamp, received, sent, fee, height).
           bind_outcome (tx_deserialize codec (wt_raw_tx raw)) (\<lambda>tx.
           bind_outcome (txid_deserialize codec txid) (\<lambda>id.
             Ok (Some \<lparr>td_transaction = Some tx, td_txid = id, td_received = received, td_sent = sent, td_fee = fee,
                       td_confirmation_time = confirmation_of height timestamp\<rparr>))))
       | None \<Rightarrow> Ok None)"

definition select_last_derivation_index_by_keychain :: "string \<Rightarrow> wallet_database \<Rightarrow> u32 option outcome" where
  "select_last_derivation_index_by_keychain keychain db =
     bind_outcome (query_blocking (\<lambda>t. filter (\<lambda>r. ix_keychain r = keychain) (w_last_derivation_indices t)) db) (\<lambda>rows.
       case first_row rows of
         Some row \<Rightarrow> bind_outcome (i64_try_u32 (ix_value row)) (\<lambda>v. Ok (Some v))
       | None \<Rightarrow> Ok None)"

definition select_sync_time :: "wallet_database \<Rightarrow> block_time option outcome" where
  "select_sync_time db =
     bind_outcome (query_blocking (\<lambda>t. filter (\<lambda>r. sy_id r = 0) (w_sync_time t)) db) (\<lambda>rows.
       case first_row rows of
         Some row \<Rightarrow>
           bind_outcome (i64_try_u32 (sy_height row)) (\<lambda>h.
           bind_outcome (i64_try_u64 (sy_timestamp row)) (\<lambda>t. Ok (Some \<lparr>bt_height = h, bt_timestamp = t\<rparr>)))
       | None \<Rightarrow> Ok None)"

definition select_checksum_by_keychain :: "string \<Rightarrow> wallet_database \<Rightarrow> bytes option outcome" where
  "select_checksum_by_keychain keychain db =
     bind_outcome (query_blocking (\<lambda>t. filter (\<lambda>r. ck_keychain r = keychain) (w_checksums t)) db)
       (\<lambda>rows. Ok (map_option ck_checksum (first_row rows)))"

subsection \<open>Deleting\<close>

definition delete_script_pubkey_by_path :: "string \<Rightarrow> u32 \<Rightarrow> wallet_database \<Rightarrow> wallet_database outcome" where
  "delete_script_pubkey_by_path keychain child =
     execute_blocking (\<lambda>t. Ok (t\<lparr>w_script_pubkeys :=
       tbl_delete (\<lambda>r. sp_keychain r = keychain \<and> sp_child r = u32_as_i32 child) (w_script_pubkeys t)\<rparr>))"

definition delete_script_pubkey_by_script :: "bytes \<Rightarrow> wallet_database \<Rightarrow> wallet_database outcome" where
  "delete_script_pubkey_by_script script =
     execute_blocking (\<lambda>t. Ok (t\<lparr>w_script_pubkeys := tbl_delete (\<lambda>r. sp_script r = script) (w_script_pubkeys t)\<rparr>))"

definition delete_utxo_by_outpoint :: "bytes \<Rightarrow> u32 \<Rightarrow> wallet_database \<Rightarrow> wallet_database outcome" where
  "delete_utxo_by_outpoint txid vout =
     execute_blocking (\<lambda>t. Ok (t\<lparr>w_utxos := tbl_delete (\<lambda>r. utxo_row_key r = (txid, u32_as_i32 vout)) (w_utxos t)\<rparr>))"

definition delete_transaction_by_txid :: "bytes \<Rightarrow> wallet_database \<Rightarrow> wallet_database outcome" where
  "delete_transaction_by_txid txid =
     execute_blocking (\<lambda>t. Ok (t\<lparr>w_transactions := tbl_delete (\<lambda>r. wt_txid r = txid) (w_transactions t)\<rparr>))"

definition delete_transaction_details_by_txid :: "bytes \<Rightarrow> wallet_database \<Rightarrow> wallet_database outcome" where
  "delete_transaction_details_by_txid txid =
     execute_blocking (\<lambda>t. Ok (t\<lparr>w_transaction_details :=
       tbl_delete (\<lambda>r. dt_txid r = txid) (w_transaction_details t)\<rparr>))"

definition delete_last_derivation_index_by_keychain :: "string \<Rightarrow> wallet_database \<Rightarrow> wallet_database outcome" where
  "delete_last_derivation_index_by_keychain keychain =
     execute_blocking (\<lambda>t. Ok (t\<lparr>w_last_derivation_indices :=
       tbl_delete (\<lambda>r. ix_keychain r = keychain) (w_last_derivation_indices t)\<rparr>))"

definition delete_sync_time :: "wallet_database \<Rightarrow> wallet_database outcome" where
  "delete_sync_time = execute_blocking (\<lambda>t. Ok (t\<lparr>w_sync_time := tbl_delete (\<lambda>r. sy_id r = 0) (w_sync_time t)\<rparr>))"

section \<open>Batch operations\<close>

definition set_script_pubkey ::
  "'tx wallet_codec \<Rightarrow> bytes \<Rightarrow> keychain_kind \<Rightarrow> u32 \<Rightarrow> wallet_database \<Rightarrow> wallet_database outcome" where
  "set_script_pubkey codec script keychain child db =
     bind_outcome (keychain_to_json codec keychain) (\<lambda>k. insert_script_pubkey k child script db)"

definition set_utxo :: "'tx wallet_codec \<Rightarrow> local_utxo \<Rightarrow> wallet_database \<Rightarrow> wallet_database outcome" where
  "set_utxo codec utxo db =
     bind_outcome (keychain_to_json codec (lu_keychain utxo)) (\<lambda>k.
       insert_utxo (lu_value utxo) k (lu_vout utxo) (lu_txid utxo) (lu_script_pubkey utxo) (lu_is_spent utxo) db)"

definition set_raw_tx :: "'tx wallet_codec \<Rightarrow> 'tx \<Rightarrow> wallet_database \<Rightarrow> wallet_database outcome" where
  "set_raw_tx codec tx db =
     (let txid = tx_txid codec tx in
      bind_outcome (select_transaction_by_txid codec txid db) (\<lambda>found.
        case found of
          Some _ \<Rightarrow> update_transaction txid (tx_serialize codec tx) db
        | None \<Rightarrow> insert_transaction txid (tx_serialize codec tx) db))"

definition set_tx :: "'tx wallet_codec \<Rightarrow> 'tx transaction_details \<Rightarrow> wallet_database \<Rightarrow> wallet_database outcome" where
  "set_tx codec d db =
     bind_outcome (select_transaction_details_by_txid codec (td_txid d) db) (\<lambda>found.
     bind_outcome (case found of Some _ \<Rightarrow> update_transaction_details d db | None \<Rightarrow> insert_transaction_details d db) (\<lambda>db'.
       case td_transaction d of Some tx \<Rightarrow> set_raw_tx codec tx db' | None \<Rightarrow> Ok db'))"

definition set_last_index ::
  "'tx wallet_codec \<Rightarrow> keychain_kind \<Rightarrow> u32 \<Rightarrow> wallet_database \<Rightarrow> wallet_database outcome" where
  "set_last_index codec keychain val db =
     bind_outcome (keychain_to_json codec keychain) (\<lambda>k. update_last_derivation_index k val db)"

definition set_sync_time :: "block_time \<Rightarrow> wallet_database \<Rightarrow> wallet_database outcome" where
  "set_sync_time ct db = update_sync_time ct db"

text \<open>The \<open>del_\<close> operations return what they found and remove it only then.\<close>

definition del_found ::
  "'a option outcome \<Rightarrow> (wallet_database \<Rightarrow> wallet_database outcome) \<Rightarrow> wallet_database \<Rightarrow>
   (wallet_database \<times> 'a option) outcome" where
  "del_found found delete db =
     bind_outcome found (\<lambda>x. case x of
       Some v \<Rightarrow> bind_outcome (delete db) (\<lambda>db'. Ok (db', Some v))
     | None \<Rightarrow> Ok (db, None))"

definition del_script_pubkey_from_path ::
  "'tx wallet_codec \<Rightarrow> keychain_kind \<Rightarrow> u32 \<Rightarrow> wallet_database \<Rightarrow> (wallet_database \<times> bytes option) outcome" where
  "del_script_pubkey_from_path codec keychain child db =
     bind_outcome (keychain_to_json codec keychain) (\<lambda>k.
       del_found (select_script_pubkey_by_path k child db) (delete_script_pubkey_by_path k child) db)"

definition del_path_from_script_pubkey ::
  "'tx wallet_codec \<Rightarrow> bytes \<Rightarrow> wallet_database \<Rightarrow> (wallet_database \<times> (keychain_kind \<times> u32) option) outcome" where
  "del_path_from_script_pubkey codec script db =
     del_found (select_script_pubkey_by_script codec script db) (delete_script_pubkey_by_script script) db"

definition del_utxo ::
  "'tx wallet_codec \<Rightarrow> bytes \<Rightarrow> u32 \<Rightarrow> wallet_database \<Rightarrow> (wallet_database \<times> local_utxo option) outcome" where
  "del_utxo codec txid vout db =
     del_found (select_utxo_by_outpoint codec txid vout db) (delete_utxo_by_outpoint txid vout) db"

definition del_raw_tx ::
  "'tx wallet_codec \<Rightarrow> bytes \<Rightarrow> wallet_database \<Rightarrow> (wallet_database \<times> 'tx option) outcome" where
  "del_raw_tx codec txid db =
     del_found (select_transaction_by_txid codec txid db) (delete_transaction_by_txid txid) db"

definition del_tx ::
  "'tx wallet_codec \<Rightarrow> bytes \<Rightarrow> bool \<Rightarrow> wallet_database \<Rightarrow> (wallet_database \<times> 'tx transaction_details option) outcome" where
  "del_tx codec txid include_raw db =
     del_found (select_transaction_details_by_txid codec txid db)
       (\<lambda>db. bind_outcome (delete_transaction_details_by_txid txid db) (\<lambda>db'.
          if include_raw then delete_transaction_by_txid txid db' else Ok db')) db"

definition del_last_index ::
  "'tx wallet_codec \<Rightarrow> keychain_kind \<Rightarrow> wallet_database \<Rightarrow> (wallet_database \<times> u32 option) outcome" where
  "del_last_index codec keychain db =
     bind_outcome (keychain_to_json codec keychain) (\<lambda>k.
       del_found (select_last_derivation_index_by_keychain k db) (delete_last_derivation_index_by_keychain k) db)"

definition del_sync_time :: "wallet_database \<Rightarrow> (wallet_database \<times> block_time option) outcome" where
  "del_sync_time db = del_found (select_sync_time db) delete_sync_time db"

section \<open>The database interface\<close>

definition check_descriptor_checksum ::
  "'tx wallet_codec \<Rightarrow> keychain_kind \<Rightarrow> bytes \<Rightarrow> wallet_database \<Rightarrow> wallet_database outcome" where
  "check_descriptor_checksum codec keychain bytes db =
     bind_outcome (keychain_to_json codec keychain) (\<lambda>k.
     bind_outcome (select_checksum_by_keychain k db) (\<lambda>found.
       case found of
         Some checksum \<Rightarrow> if checksum = bytes then Ok db else Err (Msg ''ChecksumMismatch'')
       | None \<Rightarrow> insert_checksum k bytes db))"

definition iter_script_pubkeys ::
  "'tx wallet_codec \<Rightarrow> keychain_kind option \<Rightarrow> wallet_database \<Rightarrow> bytes list outcome" where
  "iter_script_pubkeys codec keychain db =
     (case keychain of
        Some keychain \<Rightarrow> bind_outcome (keychain_to_json codec keychain) (\<lambda>k. select_script_pubkeys_by_keychain k db)
      | None \<Rightarrow> select_script_pubkeys db)"

definition iter_utxos :: "'tx wallet_codec \<Rightarrow> wallet_database \<Rightarrow> local_utxo list outcome" where
  "iter_utxos codec db = select_utxos codec db"

definition iter_raw_txs :: "'tx wallet_codec \<Rightarrow> wallet_database \<Rightarrow> 'tx list outcome" where
  "iter_raw_txs codec db = select_transactions codec db"

definition iter_txs :: "'tx wallet_codec \<Rightarrow> bool \<Rightarrow> wallet_database \<Rightarrow> 'tx transaction_details list outcome" where
  "iter_txs codec include_raw db =
     (if include_raw then select_transaction_details_with_raw codec db else select_transaction_details codec db)"

definition get_script_pubkey_from_path ::
  "'tx wallet_codec \<Rightarrow> keychain_kind \<Rightarrow> u32 \<Rightarrow> wallet_database \<Rightarrow> bytes option outcome" where
  "get_script_pubkey_from_path codec keychain child db =
     bind_outcome (keychain_to_json codec keychain) (\<lambda>k. select_script_pubkey_by_path k child db)"

definition get_path_from_script_pubkey ::
  "'tx wallet_codec \<Rightarrow> bytes \<Rightarrow> wallet_database \<Rightarrow> (keychain_kind \<times> u32) option outcome" where
  "get_path_from_script_pubkey codec script db = select_script_pubkey_by_script codec script db"

definition wallet_get_utxo :: "'tx wallet_codec \<Rightarrow> bytes \<Rightarrow> u32 \<Rightarrow> wallet_database \<Rightarrow> local_utxo option outcome" where
  "wallet_get_utxo codec txid vout db = select_utxo_by_outpoint codec txid vout db"

definition get_raw_tx :: "'tx wallet_codec \<Rightarrow> bytes \<Rightarrow> wallet_database \<Rightarrow> 'tx option outcome" where
  "get_raw_tx codec txid db = select_transaction_by_txid codec txid db"

definition get_tx :: "'tx wallet_codec \<Rightarrow> bytes \<Rightarrow> bool \<Rightarrow> wallet_database \<Rightarrow> 'tx transaction_details option outcome" where
  "get_tx codec txid include_raw db =
     bind_outcome (select_transaction_details_by_txid codec txid db) (\<lambda>found.
       case found of
         Some d \<Rightarrow> Ok (Some (if include_raw then d else d\<lparr>td_transaction := None\<rparr>))
       | None \<Rightarrow> Ok None)"

definition get_last_index :: "'tx wallet_codec \<Rightarrow> keychain_kind \<Rightarrow> wallet_database \<Rightarrow> u32 option outcome" where
  "get_last_index codec keychain db =
     bind_outcome (keychain_to_json codec keychain) (\<lambda>k. select_last_derivation_index_by_keychain k db)"

definition get_sync_time :: "wallet_database \<Rightarrow> block_time option outcome" where
  "get_sync_time db = select_sync_time db"

definition increment_last_index ::
  "'tx wallet_codec \<Rightarrow> keychain_kind \<Rightarrow> wallet_database \<Rightarrow> (wallet_database \<times> u32) outcome" where
  "increment_last_index codec keychain db =
     bind_outcome (keychain_to_json codec keychain) (\<lambda>k.
     bind_outcome (get_last_index codec keychain db) (\<lambda>found.
       case found of
         Some val \<Rightarrow> bind_outcome (update_last_derivation_index k (val + 1) db) (\<lambda>db'. Ok (db', val + 1))
       | None \<Rightarrow> bind_outcome (insert_last_derivation_index k 0 db) (\<lambda>db'. Ok (db', 0))))"

section \<open>Batches\<close>

text \<open>The batch is the same connection, in a transaction of the server. A \<open>BEGIN\<close> inside a transaction and a
  \<open>COMMIT\<close> outside one are refused by the server; a connection that is lost takes the open
  transaction with it.\<close>

definition begin_batch :: "wallet_database \<Rightarrow> wallet_database outcome" where
  "begin_batch db =
     (if wd_closed db then Err DbClosed
      else case wd_begun db of
        None \<Rightarrow> Ok (db\<lparr>wd_begun := Some (wd_tables db)\<rparr>)
      | Some _ \<Rightarrow> Err (Msg ''Failed to begin SQL transaction''))"

definition commit_batch :: "wallet_database \<Rightarrow> wallet_database outcome" where
  "commit_batch db =
     (if wd_closed db then Err DbClosed
      else case wd_begun db of
        Some _ \<Rightarrow> Ok (db\<lparr>wd_begun := None\<rparr>)
      | None \<Rightarrow> Err (Msg ''Failed to commit SQL transaction''))"

definition connection_lost :: "wallet_database \<Rightarrow> wallet_database" where
  "connection_lost db =
     db\<lparr>wd_tables := (case wd_begun db of None \<Rightarrow> wd_tables db | Some t \<Rightarrow> t), wd_begun := None, wd_closed := True\<rparr>"

definition connection_restored :: "wallet_database \<Rightarrow> wallet_database" where
  "connection_restored db = db\<lparr>wd_closed := False\<rparr>"

end
