(* ===== verification/Wallet_Database_Correct.thy ===== *)
theory Wallet_Database_Correct
  imports Wallet_Database
begin

text \<open>
  What the wallet tables promise to the wallet: unspent outputs, derivation indices, checksums and
  the synchronisation time are read back as they were set, transactions are not, once they are there.
\<close>

section \<open>Tables with a primary key\<close>

interpretation utxos_tbl: replacing_table utxo_row_key utxo_row_key "\<lambda>row _. row" "\<lambda>row. row"
  by unfold_locales auto

interpretation indices_tbl: replacing_table ix_keychain ix_keychain "\<lambda>row _. row" "\<lambda>row. row"
  by unfold_locales auto

interpretation sync_tbl: replacing_table sy_id sy_id "\<lambda>row _. row" "\<lambda>row. row"
  by unfold_locales auto

lemma first_row_filter: "first_row (filter (\<lambda>r. key r = k) rows) = tbl_find key k rows"
  by (induction rows) (auto simp: first_row_def)

lemma execute_blocking_eq_Ok [outcome_simps]:
  "execute_blocking f db = Ok db' \<longleftrightarrow> \<not> wd_closed db \<and> (\<exists>t. f (wd_tables db) = Ok t \<and> db' = db\<lparr>wd_tables := t\<rparr>)"
  by (auto simp: execute_blocking_def bind_outcome_eq_Ok)

lemma query_blocking_open [simp]: "\<not> wd_closed db \<Longrightarrow> query_blocking q db = Ok (q (wd_tables db))"
  by (simp add: query_blocking_def)

section \<open>Unspent outputs\<close>

lemma select_utxo_find:
  "\<not> wd_closed db \<Longrightarrow> select_utxo_by_outpoint codec txid vout db =
    (case tbl_find utxo_row_key (txid, u32_as_i32 vout) (w_utxos (wd_tables db)) of
       Some row \<Rightarrow> bind_outcome (i64_try_u64 (ut_value row)) (\<lambda>val.
         bind_outcome (keychain_from_json codec (ut_keychain row)) (\<lambda>keychain.
         bind_outcome (txid_deserialize codec txid) (\<lambda>id.
           Ok (Some \<lparr>lu_txid = id, lu_vout = vout, lu_value = val, lu_script_pubkey = ut_script row,
                     lu_keychain = keychain, lu_is_spent = ut_is_spent row\<rparr>))))
     | None \<Rightarrow> Ok None)"
  by (simp add: select_utxo_by_outpoint_def first_row_filter)

definition utxo_to_row :: "string \<Rightarrow> local_utxo \<Rightarrow> utxo_row" where
  "utxo_to_row k u =
     \<lparr>ut_value = u64_as_i64 (lu_value u), ut_keychain = k, ut_vout = u32_as_i32 (lu_vout u), ut_txid = lu_txid u,
      ut_script = lu_script_pubkey u, ut_is_spent = lu_is_spent u\<rparr>"

lemma set_utxo_rows:
  assumes "set_utxo codec u db = Ok db'" and "keychain_to_json codec (lu_keychain u) = Ok k"
  shows "\<not> wd_closed db \<and> db' = db\<lparr>wd_tables := (wd_tables db)\<lparr>w_utxos :=
    tbl_upsert utxo_row_key (utxo_row_key (utxo_to_row k u)) (\<lambda>_. utxo_to_row k u) (utxo_to_row k u)
      (w_utxos (wd_tables db))\<rparr>\<rparr>"
  using assms by (auto simp: set_utxo_def insert_utxo_def utxo_to_row_def Let_def outcome_simps)

text \<open>C9: An unspent output that was set is read back by its outpoint as it was set, and no other outpoint
  is affected; \<open>del_utxo\<close> returns it and it is gone afterwards. This holds for values below
  \<open>2 ^ 63\<close>: the column is signed, and a larger value is written without an error but makes every read
  of it panic.\<close>

theorem utxo_read_back:
  assumes "keychain_to_json codec (lu_keychain u) = Ok k" and "keychain_from_json codec k = Ok (lu_keychain u)"
    and "txid_deserialize codec (lu_txid u) = Ok (lu_txid u)"
    and "set_utxo codec u db = Ok db'"
  shows "wallet_get_utxo codec (lu_txid u) (lu_vout u) db' = (if unat (lu_value u) < 2 ^ 63 then Ok (Some u) else Panic) \<and>
    (\<forall>txid vout. (txid, vout) \<noteq> (lu_txid u, lu_vout u) \<longrightarrow>
       wallet_get_utxo codec txid vout db' = wallet_get_utxo codec txid vout db) \<and>
    (unat (lu_value u) < 2 ^ 63 \<longrightarrow> (\<exists>db''. del_utxo codec (lu_txid u) (lu_vout u) db' = Ok (db'', Some u) \<and>
       wallet_get_utxo codec (lu_txid u) (lu_vout u) db'' = Ok None))"
proof (intro conjI)
  let ?row = "utxo_to_row k u" and ?rows = "w_utxos (wd_tables db)"
  have key: "utxo_row_key ?row = (lu_txid u, u32_as_i32 (lu_vout u))"
    by (simp add: utxo_to_row_def utxo_row_key_def)
  note set = set_utxo_rows [OF assms(4,1)]
  then have op: "\<not> wd_closed db" "\<not> wd_closed db'" by auto
  have find: "tbl_find utxo_row_key key' (w_utxos (wd_tables db')) =
      (if key' = (lu_txid u, u32_as_i32 (lu_vout u)) then Some ?row else tbl_find utxo_row_key key' ?rows)" for key'
    using set utxos_tbl.find_upsert_replaced [of key' ?row] by (simp add: key)
  have got: "select_utxo_by_outpoint codec (lu_txid u) (lu_vout u) db' =
      (if unat (lu_value u) < 2 ^ 63 then Ok (Some u) else Panic)"
    using assms(2,3) by (simp add: select_utxo_find op find i64_try_u64_u64 utxo_to_row_def)
  then show "wallet_get_utxo codec (lu_txid u) (lu_vout u) db' = (if unat (lu_value u) < 2 ^ 63 then Ok (Some u) else Panic)"
    by (simp add: wallet_get_utxo_def)
  show "\<forall>txid vout. (txid, vout) \<noteq> (lu_txid u, lu_vout u) \<longrightarrow>
      wallet_get_utxo codec txid vout db' = wallet_get_utxo codec txid vout db"
    by (auto simp: wallet_get_utxo_def select_utxo_find op find)
  show "unat (lu_value u) < 2 ^ 63 \<longrightarrow> (\<exists>db''. del_utxo codec (lu_txid u) (lu_vout u) db' = Ok (db'', Some u) \<and>
      wallet_get_utxo codec (lu_txid u) (lu_vout u) db'' = Ok None)"
    using op by (auto simp: del_utxo_def del_found_def got delete_utxo_by_outpoint_def execute_blocking_def
        wallet_get_utxo_def select_utxo_find tbl_find_delete_key)
qed

definition empty_wallet :: wallet_database where
  "empty_wallet =
     \<lparr>wd_tables = \<lparr>w_script_pubkeys = [], w_utxos = [], w_transactions = [], w_transaction_details = [],
        w_last_derivation_indices = [], w_checksums = [], w_sync_time = []\<rparr>,
      wd_begun = None, wd_closed = False\<rparr>"

text \<open>A codec for the examples: a transaction is a pair of an id and its witness.\<close>

definition sample_codec :: "(bytes \<times> bytes) wallet_codec" where
  "sample_codec =
     \<lparr>tx_txid = fst, tx_serialize = (\<lambda>(i, w). i @ w),
      tx_deserialize = (\<lambda>b. Ok (take 32 b, drop 32 b)), txid_deserialize = Ok,
      keychain_to_json = (\<lambda>k. Ok (case k of External \<Rightarrow> ''External'' | Internal \<Rightarrow> ''Internal'')),
      keychain_from_json = (\<lambda>s. if s = ''External'' then Ok External else if s = ''Internal'' then Ok Internal
        else Err (Msg ''unknown variant''))\<rparr>"

definition sample_utxo :: local_utxo where
  "sample_utxo =
     \<lparr>lu_txid = replicate 32 4, lu_vout = 1, lu_value = 50000, lu_script_pubkey = [0, 20], lu_keychain = Internal,
      lu_is_spent = False\<rparr>"

theorem utxo_read_back_witness:
  "\<exists>db'. set_utxo sample_codec sample_utxo empty_wallet = Ok db' \<and>
     wallet_get_utxo sample_codec (replicate 32 4) 1 db' = Ok (Some sample_utxo)"
proof -
  obtain db' where s: "set_utxo sample_codec sample_utxo empty_wallet = Ok db'"
    by (simp add: set_utxo_def insert_utxo_def sample_codec_def sample_utxo_def empty_wallet_def execute_blocking_def Let_def)
  have "keychain_to_json sample_codec (lu_keychain sample_utxo) = Ok ''Internal''"
    "keychain_from_json sample_codec ''Internal'' = Ok (lu_keychain sample_utxo)"
    "txid_deserialize sample_codec (lu_txid sample_utxo) = Ok (lu_txid sample_utxo)"
    by (simp_all add: sample_codec_def sample_utxo_def)
  from utxo_read_back [OF this s] s show ?thesis
    by (simp add: sample_utxo_def)
qed

section \<open>Derivation indices\<close>

text \<open>A wallet that asks for \<open>n\<close> new addresses of a keychain, one after the other.\<close>

fun derive_indices ::
  "'tx wallet_codec \<Rightarrow> keychain_kind \<Rightarrow> nat \<Rightarrow> wallet_database \<Rightarrow> (wallet_database \<times> u32 list) outcome" where
  "derive_indices codec keychain 0 db = Ok (db, [])"
| "derive_indices codec keychain (Suc n) db =
     bind_outcome (derive_indices codec keychain n db) (\<lambda>(db', is).
     bind_outcome (increment_last_index codec keychain db') (\<lambda>(db'', i). Ok (db'', is @ [i])))"

lemma select_index_find:
  "\<not> wd_closed db \<Longrightarrow> select_last_derivation_index_by_keychain k db =
    (case tbl_find ix_keychain k (w_last_derivation_indices (wd_tables db)) of
       Some row \<Rightarrow> bind_outcome (i64_try_u32 (ix_value row)) (\<lambda>v. Ok (Some v))
     | None \<Rightarrow> Ok None)"
  by (simp add: select_last_derivation_index_by_keychain_def first_row_filter)

text \<open>The index of a keychain, where the columns hold what the code writes.\<close>

definition index_of :: "wallet_database \<Rightarrow> string \<Rightarrow> u32 option" where
  "index_of db k = map_option (\<lambda>r. word_of_int (ix_value r)) (tbl_find ix_keychain k (w_last_derivation_indices (wd_tables db)))"

definition indices_wf :: "wallet_database \<Rightarrow> bool" where
  "indices_wf db \<longleftrightarrow> (\<forall>r \<in> set (w_last_derivation_indices (wd_tables db)). \<exists>v. ix_value r = u32_as_i64 v)"

lemma word_of_int_u32_as_i64 [simp]: "word_of_int (u32_as_i64 v) = v"
  by (simp add: u32_as_i64_def)

lemma select_index_of:
  assumes "\<not> wd_closed db" and "indices_wf db"
  shows "select_last_derivation_index_by_keychain k db = Ok (index_of db k)"
proof (cases "tbl_find ix_keychain k (w_last_derivation_indices (wd_tables db))")
  case None
  then show ?thesis using assms by (simp add: select_index_find index_of_def)
next
  case (Some r)
  with assms(2) obtain v where "ix_value r = u32_as_i64 v"
    by (auto simp: indices_wf_def dest: tbl_find_SomeD)
  with Some assms show ?thesis by (simp add: select_index_find index_of_def)
qed

lemma increment_step:
  assumes "\<not> wd_closed db" and "indices_wf db" and "keychain_to_json codec kc = Ok k"
  shows "\<exists>db'. increment_last_index codec kc db = Ok (db', case index_of db k of None \<Rightarrow> 0 | Some v \<Rightarrow> v + 1) \<and>
    index_of db' = (index_of db)(k \<mapsto> (case index_of db k of None \<Rightarrow> 0 | Some v \<Rightarrow> v + 1)) \<and>
    \<not> wd_closed db' \<and> indices_wf db'"
proof (cases "index_of db k")
  case None
  let ?row = "\<lparr>ix_keychain = k, ix_value = u32_as_i64 0\<rparr>" and ?rows = "w_last_derivation_indices (wd_tables db)"
  have none: "tbl_find ix_keychain k ?rows = None" using None by (simp add: index_of_def)
  then have ins: "tbl_insert ix_keychain ?row ?rows = Ok (?rows @ [?row])"
    by (simp add: tbl_insert_def tbl_find_None_iff image_iff)
  let ?db = "db\<lparr>wd_tables := (wd_tables db)\<lparr>w_last_derivation_indices := ?rows @ [?row]\<rparr>\<rparr>"
  have "increment_last_index codec kc db = Ok (?db, 0)"
    using assms None ins by (simp add: increment_last_index_def get_last_index_def select_index_of
        insert_last_derivation_index_def execute_blocking_def)
  moreover have "index_of ?db = (index_of db)(k \<mapsto> 0)"
    using none by (auto simp: index_of_def fun_eq_iff tbl_find_append split: option.splits)
  moreover have "indices_wf ?db" using assms(2) by (auto simp: indices_wf_def)
  ultimately show ?thesis using None assms(1) by simp
next
  case (Some v)
  let ?row = "\<lparr>ix_keychain = k, ix_value = u32_as_i64 (v + 1)\<rparr>" and ?rows = "w_last_derivation_indices (wd_tables db)"
  let ?new = "tbl_upsert ix_keychain k (\<lambda>_. ?row) ?row ?rows"
  let ?db = "db\<lparr>wd_tables := (wd_tables db)\<lparr>w_last_derivation_indices := ?new\<rparr>\<rparr>"
  have "increment_last_index codec kc db = Ok (?db, v + 1)"
    using assms Some by (simp add: increment_last_index_def get_last_index_def select_index_of
        update_last_derivation_index_def execute_blocking_def Let_def)
  moreover have "index_of ?db = (index_of db)(k \<mapsto> v + 1)"
    using indices_tbl.find_upsert_replaced [of _ ?row] by (auto simp: index_of_def fun_eq_iff)
  moreover have "indices_wf ?db"
    using assms(2) by (auto simp: indices_wf_def tbl_upsert_def)
  ultimately show ?thesis using Some assms(1) by simp
qed

lemma derive_indices_run:
  assumes "\<not> wd_closed db" and "indices_wf db" and "keychain_to_json codec kc = Ok k" and "index_of db k = None"
  shows "\<exists>db'. derive_indices codec kc n db = Ok (db', map of_nat [0..<n]) \<and> \<not> wd_closed db' \<and> indices_wf db' \<and>
    index_of db' k = (if n = 0 then None else Some (of_nat (n - 1))) \<and> (\<forall>k' \<noteq> k. index_of db' k' = index_of db k')"
proof (induction n)
  case 0
  then show ?case using assms by simp
next
  case (Suc n)
  then obtain db' where d: "derive_indices codec kc n db = Ok (db', map of_nat [0..<n])" "\<not> wd_closed db'"
    "indices_wf db'" "index_of db' k = (if n = 0 then None else Some (of_nat (n - 1)))"
    "\<forall>k' \<noteq> k. index_of db' k' = index_of db k'" by blast
  have nxt: "(case index_of db' k of None \<Rightarrow> 0 | Some v \<Rightarrow> v + 1) = (of_nat n :: u32)"
    using d(4) by (cases n) auto
  from increment_step [OF d(2,3) assms(3)] nxt obtain db'' where
    "increment_last_index codec kc db' = Ok (db'', of_nat n)" "index_of db'' = (index_of db')(k \<mapsto> of_nat n)"
    "\<not> wd_closed db''" "indices_wf db''" by auto
  with d show ?case by auto
qed

lemma distinct_u32_upto: "n \<le> 2 ^ 32 \<Longrightarrow> distinct (map (of_nat :: nat \<Rightarrow> u32) [0..<n])"
  by (auto simp: distinct_map inj_on_def word_of_nat_eq_iff take_bit_nat_eq_self)

text \<open>C10: From a keychain with no index, \<open>n\<close> calls of \<open>increment_last_index\<close> return the indices 0, 1,
  ..., \<open>n - 1\<close>; they differ from each other up to \<open>n = 2 ^ 32\<close>, so no address is handed out twice,
  and the other keychain is not affected.\<close>

theorem derived_indices_fresh:
  assumes "\<not> wd_closed db" and "indices_wf db" and "keychain_to_json codec kc = Ok k" and "index_of db k = None"
    and "n \<le> 2 ^ 32"
  shows "\<exists>db' is. derive_indices codec kc n db = Ok (db', is) \<and> is = map of_nat [0..<n] \<and> distinct is \<and>
    (\<forall>k' \<noteq> k. index_of db' k' = index_of db k')"
  using derive_indices_run [OF assms(1-4), of n] distinct_u32_upto [OF assms(5)] by blast

theorem derived_indices_fresh_witness:
  "\<exists>db' is. derive_indices sample_codec External 3 empty_wallet = Ok (db', is) \<and> is = [0, 1, 2]"
proof -
  have "\<not> wd_closed empty_wallet" "indices_wf empty_wallet" "keychain_to_json sample_codec External = Ok ''External''"
    "index_of empty_wallet ''External'' = None" "(3 :: nat) \<le> 2 ^ 32"
    by (simp_all add: empty_wallet_def indices_wf_def sample_codec_def index_of_def)
  from derived_indices_fresh [OF this] show ?thesis by (auto simp: upt_rec)
qed

section \<open>Checksums and the time of synchronisation\<close>

lemma select_checksum_find:
  "\<not> wd_closed db \<Longrightarrow> select_checksum_by_keychain k db =
     Ok (map_option ck_checksum (tbl_find ck_keychain k (w_checksums (wd_tables db))))"
  by (simp add: select_checksum_by_keychain_def first_row_filter)

text \<open>The first checksum that is checked for a keychain is kept: any later check of the same keychain
  succeeds with that checksum and leaves the database as it is, and fails with
  \<open>ChecksumMismatch\<close> with every other.\<close>

theorem checksum_pinned:
  assumes "check_descriptor_checksum codec kc c db = Ok db'"
  shows "check_descriptor_checksum codec kc c' db' = (if c' = c then Ok db' else Err (Msg ''ChecksumMismatch''))"
proof -
  from assms obtain k where k: "keychain_to_json codec kc = Ok k" by (auto simp: check_descriptor_checksum_def outcome_simps)
  from assms have op: "\<not> wd_closed db"
    by (auto simp: check_descriptor_checksum_def outcome_simps select_checksum_by_keychain_def query_blocking_def
        split: if_splits)
  show ?thesis
  proof (cases "tbl_find ck_keychain k (w_checksums (wd_tables db))")
    case None
    then have "db' = db\<lparr>wd_tables := (wd_tables db)\<lparr>w_checksums :=
        w_checksums (wd_tables db) @ [\<lparr>ck_keychain = k, ck_checksum = c\<rparr>]\<rparr>\<rparr>"
      using assms op k by (auto simp: check_descriptor_checksum_def select_checksum_find
          insert_checksum_def outcome_simps)
    with None op k show ?thesis
      by (auto simp: check_descriptor_checksum_def select_checksum_find tbl_find_append)
  next
    case (Some r)
    with assms op k show ?thesis
      by (auto simp: check_descriptor_checksum_def select_checksum_find split: if_splits)
  qed
qed

theorem checksum_pinned_witness:
  "\<exists>db'. check_descriptor_checksum sample_codec External [1, 2] empty_wallet = Ok db' \<and>
     check_descriptor_checksum sample_codec External [1, 3] db' = Err (Msg ''ChecksumMismatch'')"
proof -
  obtain db' where c: "check_descriptor_checksum sample_codec External [1, 2] empty_wallet = Ok db'"
    by (simp add: check_descriptor_checksum_def sample_codec_def empty_wallet_def select_checksum_by_keychain_def
        first_row_def insert_checksum_def execute_blocking_def)
  from checksum_pinned [OF c, of "[1, 3]"] c show ?thesis by simp
qed

lemma sync_time_read_back:
  assumes "set_sync_time t db = Ok db'" and "unat (bt_timestamp t) < 2 ^ 63"
  shows "get_sync_time db' = Ok (Some t) \<and> (\<exists>db''. del_sync_time db' = Ok (db'', Some t) \<and> get_sync_time db'' = Ok None)"
proof -
  let ?row = "\<lparr>sy_id = 0, sy_height = u32_as_i64 (bt_height t), sy_timestamp = u64_as_i64 (bt_timestamp t)\<rparr>"
  have op: "\<not> wd_closed db'" and rows: "w_sync_time (wd_tables db') = tbl_upsert sy_id 0 (\<lambda>_. ?row) ?row (w_sync_time (wd_tables db))"
    using assms(1) by (auto simp: set_sync_time_def update_sync_time_def Let_def outcome_simps)
  have "select_sync_time db' = Ok (Some t)"
    using op assms(2) sync_tbl.find_upsert_replaced [of 0 ?row "w_sync_time (wd_tables db)"]
    by (simp add: select_sync_time_def first_row_filter rows i64_try_u64_u64)
  then show ?thesis
    using op by (auto simp: get_sync_time_def del_sync_time_def del_found_def delete_sync_time_def execute_blocking_def
        select_sync_time_def first_row_filter tbl_find_delete_key)
qed

section \<open>Transactions\<close>

lemma select_transaction_find:
  "\<not> wd_closed db \<Longrightarrow> select_transaction_by_txid codec txid db =
    (case tbl_find wt_txid txid (w_transactions (wd_tables db)) of
       Some row \<Rightarrow> bind_outcome (tx_deserialize codec (wt_raw_tx row)) (\<lambda>tx. Ok (Some tx))
     | None \<Rightarrow> Ok None)"
  by (simp add: select_transaction_by_txid_def first_row_filter)

lemma update_transaction_no_match:
  assumes "\<not> wd_closed db" and "\<forall>r \<in> set (w_transactions (wd_tables db)). wt_txid r \<noteq> raw"
  shows "update_transaction txid raw db = Ok db"
proof -
  have "tbl_update (\<lambda>r. wt_txid r = raw) (\<lambda>r. r\<lparr>wt_raw_tx := txid\<rparr>) (w_transactions (wd_tables db)) = w_transactions (wd_tables db)"
    unfolding tbl_update_def using assms(2) by (intro map_idI) auto
  with assms(1) show ?thesis
    by (simp add: update_transaction_def update_transaction_statement_def execute_blocking_def)
qed

text \<open>A transaction that is stored already is never replaced: \<open>set_raw_tx\<close> with another version of it,
  such as one with its witness added, returns without an error and leaves the database unchanged. The
  \<open>UPDATE\<close> has its two parameters exchanged, so it looks for a row whose id is the serialised
  transaction; ids have 32 bytes and serialised transactions have not.\<close>

theorem set_raw_tx_keeps_old:
  assumes "\<forall>r \<in> set (w_transactions (wd_tables db)). length (wt_txid r) = 32"
    and "length (tx_serialize codec tx) \<noteq> 32"
    and "get_raw_tx codec (tx_txid codec tx) db = Ok (Some old)"
  shows "set_raw_tx codec tx db = Ok db"
proof -
  have "\<not> wd_closed db"
    using assms(3) by (auto simp: get_raw_tx_def select_transaction_by_txid_def query_blocking_def)
  moreover have "\<forall>r \<in> set (w_transactions (wd_tables db)). wt_txid r \<noteq> tx_serialize codec tx"
    using assms(1,2) by auto
  ultimately show ?thesis
    using assms(3) by (simp add: set_raw_tx_def Let_def get_raw_tx_def update_transaction_no_match)
qed

theorem set_raw_tx_keeps_old_witness:
  "\<exists>db. set_raw_tx sample_codec (replicate 32 1, []) empty_wallet = Ok db \<and>
     set_raw_tx sample_codec (replicate 32 1, [9, 9]) db = Ok db \<and>
     get_raw_tx sample_codec (replicate 32 1) db = Ok (Some (replicate 32 1, []))"
proof -
  let ?db = "empty_wallet\<lparr>wd_tables := (wd_tables empty_wallet)\<lparr>w_transactions :=
    [\<lparr>wt_txid = replicate 32 1, wt_raw_tx = replicate 32 1\<rparr>]\<rparr>\<rparr>"
  have set: "set_raw_tx sample_codec (replicate 32 1, []) empty_wallet = Ok ?db"
    by (simp add: set_raw_tx_def Let_def sample_codec_def empty_wallet_def select_transaction_by_txid_def first_row_def
        insert_transaction_def execute_blocking_def)
  have got: "get_raw_tx sample_codec (tx_txid sample_codec (replicate 32 1, [9, 9])) ?db = Ok (Some (replicate 32 1, []))"
    by (simp add: get_raw_tx_def select_transaction_find empty_wallet_def sample_codec_def)
  have "set_raw_tx sample_codec (replicate 32 1, [9, 9]) ?db = Ok ?db"
    by (rule set_raw_tx_keeps_old [OF _ _ got]) (simp_all add: sample_codec_def)
  moreover have "get_raw_tx sample_codec (replicate 32 1) ?db = Ok (Some (replicate 32 1, []))"
    using got by (simp add: sample_codec_def)
  ultimately show ?thesis using set by blast
qed

subsection \<open>Details\<close>

definition details_to_row :: "'tx transaction_details \<Rightarrow> details_row" where
  "details_to_row d =
     \<lparr>dt_txid = td_txid d, dt_timestamp = fst (confirmation_columns d), dt_received = u64_as_i64 (td_received d),
      dt_sent = u64_as_i64 (td_sent d), dt_fee = map_option u64_as_i64 (td_fee d), dt_height = snd (confirmation_columns d)\<rparr>"

text \<open>The amounts and times of a wallet transaction fit in 63 bits.\<close>

definition details_fit :: "'tx transaction_details \<Rightarrow> bool" where
  "details_fit d \<longleftrightarrow> unat (td_received d) < 2 ^ 63 \<and> unat (td_sent d) < 2 ^ 63 \<and>
     pred_option (\<lambda>f. unat f < 2 ^ 63) (td_fee d) \<and>
     pred_option (\<lambda>c. unat (bt_timestamp c) < 2 ^ 63) (td_confirmation_time d)"

lemma details_columns_row:
  "details_fit d \<Longrightarrow> details_columns (details_to_row d) =
     Ok (map_option bt_timestamp (td_confirmation_time d), td_received d, td_sent d, td_fee d,
         map_option bt_height (td_confirmation_time d))"
  by (cases "td_fee d"; cases "td_confirmation_time d")
    (simp_all add: details_columns_def details_to_row_def details_fit_def confirmation_columns_def i64_try_u64_u64)

lemma confirmation_of_columns [simp]:
  "confirmation_of (map_option bt_height c) (map_option bt_timestamp c) = c"
  by (cases c) (simp_all add: confirmation_of_def)

lemma insert_details_row:
  "insert_transaction_details d = execute_blocking (\<lambda>t. Ok (t\<lparr>w_transaction_details :=
     w_transaction_details t @ [details_to_row d]\<rparr>))"
  by (simp add: insert_transaction_details_def details_to_row_def case_prod_beta)

definition raw_stored :: "wallet_database \<Rightarrow> bytes \<Rightarrow> bool" where
  "raw_stored db txid \<longleftrightarrow> txid \<in> wt_txid ` set (w_transactions (wd_tables db))"

lemma details_join_no_raw:
  assumes "\<not> raw_stored db txid"
  shows "filter (\<lambda>(d, r). dt_txid d = txid) (details_join (wd_tables db)) = []"
  using assms by (auto simp: filter_empty_conv details_join_def raw_stored_def image_iff)

text \<open>The details of a transaction without its raw form are never found again by id: \<open>get_tx\<close> returns
  \<open>None\<close> for them, since the query joins them with \<open>wallet_transactions\<close>, and for the same reason
  each further \<open>set_tx\<close> adds one more row for the transaction, which has no primary key.\<close>

theorem details_without_raw_lost:
  assumes "\<not> raw_stored db (td_txid d)" and "td_transaction d = None" and "\<not> wd_closed db"
  shows "\<exists>db'. set_tx codec d db = Ok db' \<and> get_tx codec (td_txid d) raw db' = Ok None \<and>
    \<not> raw_stored db' (td_txid d) \<and>
    length (w_transaction_details (wd_tables db')) = Suc (length (w_transaction_details (wd_tables db)))"
proof -
  let ?db = "db\<lparr>wd_tables := (wd_tables db)\<lparr>w_transaction_details :=
    w_transaction_details (wd_tables db) @ [details_to_row d]\<rparr>\<rparr>"
  have none: "select_transaction_details_by_txid codec (td_txid d) x = Ok None"
    if "\<not> raw_stored x (td_txid d)" "\<not> wd_closed x" for x
    using that by (simp add: select_transaction_details_by_txid_def details_join_no_raw first_row_def)
  have raw: "\<not> raw_stored ?db (td_txid d)" using assms(1) by (simp add: raw_stored_def)
  have "set_tx codec d db = Ok ?db"
    using assms by (simp add: set_tx_def none insert_details_row execute_blocking_def)
  moreover have "get_tx codec (td_txid d) raw ?db = Ok None"
    using raw assms(3) by (simp add: get_tx_def none)
  ultimately show ?thesis using raw by auto
qed

definition sample_details :: "(bytes \<times> bytes) transaction_details" where
  "sample_details =
     \<lparr>td_transaction = None, td_txid = replicate 32 6, td_received = 1000, td_sent = 0, td_fee = Some 10,
      td_confirmation_time = Some \<lparr>bt_height = 800000, bt_timestamp = 1700000000\<rparr>\<rparr>"

theorem details_without_raw_lost_witness:
  "\<exists>db'. set_tx sample_codec sample_details empty_wallet = Ok db' \<and>
     get_tx sample_codec (replicate 32 6) False db' = Ok None \<and> length (w_transaction_details (wd_tables db')) = 1"
proof -
  have "\<not> raw_stored empty_wallet (td_txid sample_details)" "td_transaction sample_details = None"
    "\<not> wd_closed empty_wallet"
    by (simp_all add: raw_stored_def empty_wallet_def sample_details_def)
  from details_without_raw_lost [OF this, of sample_codec False] show ?thesis
    by (auto simp: empty_wallet_def sample_details_def)
qed

text \<open>The details of a new transaction with its raw form are read back as they were set, with or without
  the raw transaction as the caller asks.\<close>

theorem set_tx_read_back:
  assumes "td_transaction d = Some tx" and "td_txid d = tx_txid codec tx" and "details_fit d"
    and "tx_deserialize codec (tx_serialize codec tx) = Ok tx"
    and "txid_deserialize codec (td_txid d) = Ok (td_txid d)"
    and "\<not> raw_stored db (td_txid d)" and "\<forall>r \<in> set (w_transaction_details (wd_tables db)). dt_txid r \<noteq> td_txid d"
    and "\<not> wd_closed db"
  shows "\<exists>db'. set_tx codec d db = Ok db' \<and> get_tx codec (td_txid d) True db' = Ok (Some d) \<and>
    get_tx codec (td_txid d) False db' = Ok (Some (d\<lparr>td_transaction := None\<rparr>)) \<and>
    get_raw_tx codec (td_txid d) db' = Ok (Some tx)"
proof -
  let ?dets = "w_transaction_details (wd_tables db)" and ?txs = "w_transactions (wd_tables db)"
  let ?row = "\<lparr>wt_txid = td_txid d, wt_raw_tx = tx_serialize codec tx\<rparr>"
  let ?t = "(wd_tables db)\<lparr>w_transaction_details := ?dets @ [details_to_row d], w_transactions := ?txs @ [?row]\<rparr>"
  let ?db = "db\<lparr>wd_tables := ?t\<rparr>"
  have key: "dt_txid (details_to_row d) = td_txid d" by (simp add: details_to_row_def)
  have none: "tbl_find wt_txid (td_txid d) ?txs = None"
    using assms(6) by (simp add: tbl_find_None_iff raw_stored_def)
  have set: "set_tx codec d db = Ok ?db"
    using assms none by (simp add: set_tx_def select_transaction_details_by_txid_def details_join_no_raw first_row_def
        insert_details_row execute_blocking_def set_raw_tx_def select_transaction_find insert_transaction_def)
  have "filter (\<lambda>r. wt_txid r = td_txid d) ?txs = []"
    using assms(6) by (auto simp: filter_empty_conv raw_stored_def image_iff)
  moreover have "concat (map (\<lambda>x. filter (\<lambda>(d', r). dt_txid d' = td_txid d)
      (map (Pair x) (filter (\<lambda>r. wt_txid r = dt_txid x) (?txs @ [?row])))) ?dets) = []"
    using assms(7) by (auto simp: filter_empty_conv)
  ultimately have "filter (\<lambda>(d', r). dt_txid d' = td_txid d) (details_join ?t) = [(details_to_row d, ?row)]"
    by (simp add: details_join_def filter_concat comp_def key)
  then have "select_transaction_details_by_txid codec (td_txid d) ?db = Ok (Some d)"
    using assms by (simp add: select_transaction_details_by_txid_def first_row_def details_columns_row)
  moreover have "get_raw_tx codec (td_txid d) ?db = Ok (Some tx)"
    using assms(4,8) none by (simp add: get_raw_tx_def select_transaction_find tbl_find_append)
  ultimately show ?thesis
    by (intro exI [of _ ?db]) (simp add: set get_tx_def)
qed

theorem set_tx_read_back_witness:
  "\<exists>db'. set_tx sample_codec (sample_details\<lparr>td_transaction := Some (replicate 32 6, [1])\<rparr>) empty_wallet = Ok db' \<and>
     get_raw_tx sample_codec (replicate 32 6) db' = Ok (Some (replicate 32 6, [1]))"
proof -
  let ?d = "sample_details\<lparr>td_transaction := Some (replicate 32 6, [1])\<rparr>"
  have "td_transaction ?d = Some (replicate 32 6, [1])" "td_txid ?d = tx_txid sample_codec (replicate 32 6, [1])"
    "details_fit ?d"
    "tx_deserialize sample_codec (tx_serialize sample_codec (replicate 32 6, [1])) = Ok (replicate 32 6, [1])"
    "txid_deserialize sample_codec (td_txid ?d) = Ok (td_txid ?d)" "\<not> raw_stored empty_wallet (td_txid ?d)"
    "\<forall>r \<in> set (w_transaction_details (wd_tables empty_wallet)). dt_txid r \<noteq> td_txid ?d" "\<not> wd_closed empty_wallet"
    by (simp_all add: sample_details_def sample_codec_def details_fit_def raw_stored_def empty_wallet_def)
  from set_tx_read_back [OF this] show ?thesis by (auto simp: sample_details_def)
qed

section \<open>Batches\<close>

text \<open>The writes of a batch: any sequence of statements, each of which leaves the transaction open.\<close>

fun run_batch :: "(wallet_tables \<Rightarrow> wallet_tables outcome) list \<Rightarrow> wallet_database \<Rightarrow> wallet_database outcome" where
  "run_batch [] db = Ok db"
| "run_batch (f # fs) db = bind_outcome (execute_blocking f db) (run_batch fs)"

lemma run_batch_begun: "run_batch fs db = Ok db' \<Longrightarrow> wd_begun db' = wd_begun db"
  by (induction fs arbitrary: db) (auto simp: outcome_simps)

lemma run_batch_open: "run_batch fs db = Ok db' \<Longrightarrow> wd_closed db' = wd_closed db"
  by (induction fs arbitrary: db) (fastforce simp: outcome_simps)+



end
