(* ===== verification/Durable_Connection.thy ===== *)
theory Durable_Connection
  imports Ldk_Database
begin

text \<open>
  The connection to the database (\<^verbatim>\<open>database/mod.rs\<close>): the client in use, the task that drives it, the
  task that reconnects, and the events that change them.  Connections are numbered; a client is
  closed when the task of its connection has ended.
\<close>

section \<open>State and operations\<close>

record durable_connection =
  dc_client :: nat
    \<comment> \<open>the connection of the client under the lock\<close>
  dc_connection_task :: nat
    \<comment> \<open>the connection whose task the handle stands for\<close>
  dc_driven :: "nat list"
    \<comment> \<open>the connections whose task is running\<close>
  dc_reconnecting :: bool
    \<comment> \<open>the reconnect task has not been aborted\<close>

definition is_closed :: "durable_connection \<Rightarrow> bool" where
  "is_closed dc \<longleftrightarrow> dc_client dc \<notin> set (dc_driven dc)"

definition is_connected :: "durable_connection \<Rightarrow> bool" where
  "is_connected dc \<longleftrightarrow> \<not> is_closed dc"

text \<open>The attempts of \<open>create_connection\<close> are a list of results, \<open>Some n\<close> a new connection; \<open>new_migrate\<close>
  tries until one succeeds, and panics when the migrations fail.\<close>

fun new_migrate :: "nat option list \<Rightarrow> bool \<Rightarrow> durable_connection outcome option" where
  "new_migrate [] migrations_ok = None"
| "new_migrate (None # attempts) migrations_ok = new_migrate attempts migrations_ok"
| "new_migrate (Some n # attempts) migrations_ok =
     Some (if migrations_ok
       then Ok \<lparr>dc_client = n, dc_connection_task = n, dc_driven = [n], dc_reconnecting = True\<rparr>
       else Panic)"

text \<open>One turn of the loop of \<open>keep_connected\<close>, with the result of \<open>create_connection\<close> if it is called.\<close>

definition keep_connected_turn :: "nat option \<Rightarrow> durable_connection \<Rightarrow> durable_connection" where
  "keep_connected_turn attempt dc =
     (if \<not> dc_reconnecting dc \<or> \<not> is_closed dc then dc
      else case attempt of
        Some n \<Rightarrow> dc\<lparr>dc_client := n, dc_connection_task := n, dc_driven := n # dc_driven dc\<rparr>
      | None \<Rightarrow> dc)"

definition disconnect :: "durable_connection \<Rightarrow> durable_connection" where
  "disconnect dc = dc\<lparr>dc_reconnecting := False, dc_driven := removeAll (dc_connection_task dc) (dc_driven dc)\<rparr>"

text \<open>The server or the network ends a connection.\<close>

definition connection_ends :: "nat \<Rightarrow> durable_connection \<Rightarrow> durable_connection" where
  "connection_ends n dc = dc\<lparr>dc_driven := removeAll n (dc_driven dc)\<rparr>"

datatype connection_event = Reconnect "nat option" | Ends nat | Disconnect

fun apply_event :: "connection_event \<Rightarrow> durable_connection \<Rightarrow> durable_connection" where
  "apply_event (Reconnect attempt) dc = keep_connected_turn attempt dc"
| "apply_event (Ends n) dc = connection_ends n dc"
| "apply_event Disconnect dc = disconnect dc"

definition connection_events :: "connection_event list \<Rightarrow> durable_connection \<Rightarrow> durable_connection" where
  "connection_events es dc = fold apply_event es dc"

text \<open>\<open>wait\<close> looks at the client and sleeps while it is closed; each element of the list holds the events of
  one sleep. \<open>None\<close> is a call that has not returned yet.\<close>

fun wait :: "connection_event list list \<Rightarrow> durable_connection \<Rightarrow> durable_connection option" where
  "wait [] dc = (if is_closed dc then None else Some dc)"
| "wait (es # ess) dc = (if is_closed dc then wait ess (connection_events es dc) else Some dc)"

section \<open>Queries on the connection itself\<close>

definition open_channel_count :: "ldk_database \<Rightarrow> int outcome" where
  "open_channel_count db = on_conn db (Ok (int (length (filter ch_is_usable (t_channels db)))))"

definition fetch_scorer_update_time :: "ldk_database \<Rightarrow> offset_date_time outcome" where
  "fetch_scorer_update_time db =
     on_conn db (bind_outcome (query_one (t_scorer db)) (\<lambda>r. Ok (assume_utc (sr_timestamp r))))"

section \<open>Correctness\<close>

text \<open>A connection made by \<open>new_migrate\<close> and the events after it keep the handle on the task of the client
  and let no other connection run.\<close>

definition connection_inv :: "durable_connection \<Rightarrow> bool" where
  "connection_inv dc \<longleftrightarrow> dc_connection_task dc = dc_client dc \<and> set (dc_driven dc) \<subseteq> {dc_client dc}"

lemma connection_inv_event: "connection_inv dc \<Longrightarrow> connection_inv (apply_event e dc)"
  by (cases e) (auto simp: connection_inv_def keep_connected_turn_def disconnect_def connection_ends_def is_closed_def
      split: option.splits)

lemma connection_inv_events: "connection_inv dc \<Longrightarrow> connection_inv (connection_events es dc)"
  unfolding connection_events_def by (induction es arbitrary: dc) (auto intro: connection_inv_event)

lemma new_migrate_inv: "new_migrate attempts ok = Some (Ok dc) \<Longrightarrow> connection_inv dc"
  by (induction attempts ok rule: new_migrate.induct) (auto simp: connection_inv_def split: if_splits)

lemma closed_for_good:
  assumes "is_closed dc" and "\<not> dc_reconnecting dc"
  shows "is_closed (connection_events es dc) \<and> \<not> dc_reconnecting (connection_events es dc)"
  using assms unfolding connection_events_def
proof (induction es arbitrary: dc)
  case (Cons e es)
  then show ?case
    by (cases e) (simp_all add: keep_connected_turn_def disconnect_def connection_ends_def is_closed_def)
qed simp

lemma wait_closed_for_good: "is_closed dc \<Longrightarrow> \<not> dc_reconnecting dc \<Longrightarrow> wait ess dc = None"
  by (induction ess arbitrary: dc) (auto simp: closed_for_good)



text \<open>C17: As long as it has not been disconnected, a dropped connection comes back: \<open>wait\<close> returns an open
  client as soon as one turn of the reconnect task succeeds and the new connection is not ended at
  once, however many attempts failed before.\<close>

theorem wait_returns_after_reconnect:
  assumes "connection_inv dc" and "dc_reconnecting dc"
    and "\<forall>es \<in> set failed. \<forall>e \<in> set es. e \<noteq> Disconnect"
  shows "\<exists>dc'. wait (failed @ [[Reconnect (Some n)]]) dc = Some dc' \<and> \<not> is_closed dc' \<and> connection_inv dc'"
  using assms
proof (induction failed arbitrary: dc)
  case Nil
  then show ?case
    by (auto simp: connection_events_def keep_connected_turn_def is_closed_def connection_inv_def)
next
  case (Cons es failed)
  have "dc_reconnecting (connection_events es d) = dc_reconnecting d"
    if "\<forall>e \<in> set es. e \<noteq> Disconnect" for es d
    using that unfolding connection_events_def
  proof (induction es arbitrary: d)
    case (Cons e es)
    then show ?case
      by (cases e) (auto simp: keep_connected_turn_def connection_ends_def split: option.splits)
  qed simp
  then show ?case
    using Cons.prems Cons.IH [of "connection_events es dc"] by (auto intro: connection_inv_events)
qed

theorem wait_returns_after_reconnect_witness:
  "\<exists>dc'. wait [[Reconnect None], [Reconnect (Some 7)]]
     \<lparr>dc_client = 1, dc_connection_task = 1, dc_driven = [], dc_reconnecting = True\<rparr> = Some dc' \<and> \<not> is_closed dc'"
  using wait_returns_after_reconnect [of "\<lparr>dc_client = 1, dc_connection_task = 1, dc_driven = [], dc_reconnecting = True\<rparr>"
      "[[Reconnect None]]" 7]
  by (auto simp: connection_inv_def)

end
