(* ===== verification/Async_Requests.thy ===== *)
theory Async_Requests
  imports Kld_Prelude
begin

text \<open>
  The requests of the API that wait for an event of LDK (\<open>AsyncSenders\<close> of \<^verbatim>\<open>ldk/controller.rs\<close>): a map
  from a key to a value and the sending half of a one-shot channel.  A channel is a number; its
  state is waiting, answered, or dropped, when its sender is gone and it was never used.
\<close>

section \<open>One-shot channels and senders\<close>

datatype 'rv oneshot = Waiting | Answered 'rv | SenderDropped

record ('k, 'v, 'rv) async_senders =
  as_senders :: "'k \<rightharpoonup> 'v \<times> nat"
  as_channels :: "'rv oneshot list"

definition async_senders_new :: "('k, 'v, 'rv) async_senders" where
  "async_senders_new = \<lparr>as_senders = Map.empty, as_channels = []\<rparr>"

text \<open>\<open>insert\<close> opens a channel and returns its receiver. A sender that was there under the key is replaced, and
  so dropped.\<close>

definition drop_sender :: "nat \<Rightarrow> 'rv oneshot list \<Rightarrow> 'rv oneshot list" where
  "drop_sender c cs = (if c < length cs \<and> cs ! c = Waiting then cs[c := SenderDropped] else cs)"

definition senders_insert ::
  "'k \<Rightarrow> 'v \<Rightarrow> ('k, 'v, 'rv) async_senders \<Rightarrow> ('k, 'v, 'rv) async_senders \<times> nat" where
  "senders_insert k v s =
     (let c = length (as_channels s);
          cs = as_channels s @ [Waiting];
          cs' = (case as_senders s k of Some (_, old) \<Rightarrow> drop_sender old cs | None \<Rightarrow> cs)
      in (\<lparr>as_senders = (as_senders s)(k \<mapsto> (v, c)), as_channels = cs'\<rparr>, c))"

text \<open>\<open>get\<close> takes the sender out of the map and hands it to the caller, who answers on it with
  \<open>send_answer\<close>; a sender that is handed out and never used is dropped.\<close>

definition senders_get ::
  "'k \<Rightarrow> ('k, 'v, 'rv) async_senders \<Rightarrow> ('k, 'v, 'rv) async_senders \<times> ('v \<times> nat) option" where
  "senders_get k s = (s\<lparr>as_senders := (as_senders s)(k := None)\<rparr>, as_senders s k)"

definition send_answer :: "nat \<Rightarrow> 'rv \<Rightarrow> ('k, 'v, 'rv) async_senders \<Rightarrow> ('k, 'v, 'rv) async_senders" where
  "send_answer c rv s =
     (if c < length (as_channels s) \<and> as_channels s ! c = Waiting
      then s\<lparr>as_channels := (as_channels s)[c := Answered rv]\<rparr> else s)"

definition senders_respond :: "'k \<Rightarrow> 'rv \<Rightarrow> ('k, 'v, 'rv) async_senders \<Rightarrow> ('k, 'v, 'rv) async_senders" where
  "senders_respond k rv s =
     (case senders_get k s of
        (s', Some (_, c)) \<Rightarrow> send_answer c rv s'
      | (_, None) \<Rightarrow> s)"

text \<open>\<open>receiver.await\<close>: \<open>None\<close> while it waits.\<close>

definition receive :: "nat \<Rightarrow> ('k, 'v, 'rv) async_senders \<Rightarrow> 'rv outcome option" where
  "receive c s =
     (if c < length (as_channels s)
      then case as_channels s ! c of
        Waiting \<Rightarrow> None | Answered rv \<Rightarrow> Some (Ok rv) | SenderDropped \<Rightarrow> Some (Err (Msg ''channel closed''))
      else None)"

section \<open>What the senders promise\<close>

text \<open>Every sender of the map belongs to a channel of its own that is still waiting.\<close>

definition senders_inv :: "('k, 'v, 'rv) async_senders \<Rightarrow> bool" where
  "senders_inv s \<longleftrightarrow>
     (\<forall>k v c. as_senders s k = Some (v, c) \<longrightarrow> c < length (as_channels s) \<and> as_channels s ! c = Waiting) \<and>
     (\<forall>k k' v v' c. as_senders s k = Some (v, c) \<longrightarrow> as_senders s k' = Some (v', c) \<longrightarrow> k = k')"

lemma senders_invD:
  assumes "senders_inv s" and "as_senders s k = Some (v, c)"
  shows "c < length (as_channels s)" and "as_channels s ! c = Waiting"
    and "as_senders s k' = Some (v', c) \<Longrightarrow> k' = k"
  using assms by (auto simp: senders_inv_def)

lemma senders_inv_new: "senders_inv async_senders_new"
  by (simp add: senders_inv_def async_senders_new_def)

lemma senders_inv_get: "senders_inv s \<Longrightarrow> senders_inv (fst (senders_get k s))"
  by (auto simp: senders_inv_def senders_get_def)

lemma senders_inv_insert:
  assumes "senders_inv s"
  shows "senders_inv (fst (senders_insert k v s))"
proof -
  let ?n = "length (as_channels s)"
  have old: "(drop_sender o' (as_channels s @ [Waiting])) ! c = (as_channels s @ [Waiting]) ! c"
    if "c \<noteq> o'" for c o'
    using that by (simp add: drop_sender_def)
  have len: "length (drop_sender o' xs) = length xs" for o' and xs :: "'c oneshot list"
    by (simp add: drop_sender_def)
  show ?thesis
  proof (cases "as_senders s k")
    case None
    with assms show ?thesis
      by (auto simp: senders_inv_def senders_insert_def Let_def nth_append less_Suc_eq)
  next
    case (Some p)
    obtain v0 o' where p: "p = (v0, o')" by (cases p)
    have "o' < ?n" using senders_invD(1) [OF assms] Some p by auto
    then have new: "drop_sender o' (as_channels s @ [Waiting]) ! ?n = Waiting"
      using old [of ?n o'] by simp
    have others: "c \<noteq> o'" if "as_senders s k' = Some (v', c)" "k' \<noteq> k" for k' v' c
      using senders_invD(3) [OF assms, of k v0 o' k' v'] Some p that by auto
    show ?thesis
      unfolding senders_inv_def
    proof (intro conjI allI impI)
      fix k' v' c assume a: "as_senders (fst (senders_insert k v s)) k' = Some (v', c)"
      show "c < length (as_channels (fst (senders_insert k v s)))"
        using a Some p senders_invD(1) [OF assms] by (auto simp: senders_insert_def Let_def len less_Suc_eq split: if_splits)
      show "as_channels (fst (senders_insert k v s)) ! c = Waiting"
      proof (cases "k' = k")
        case True
        with a Some p new show ?thesis by (simp add: senders_insert_def Let_def)
      next
        case False
        with a have "as_senders s k' = Some (v', c)" by (simp add: senders_insert_def Let_def)
        then show ?thesis
          using Some p old [OF others [OF _ False]] senders_invD [OF assms]
          by (simp add: senders_insert_def Let_def nth_append)
      qed
    next
      fix k1 k2 v1 v2 c
      assume "as_senders (fst (senders_insert k v s)) k1 = Some (v1, c)"
        "as_senders (fst (senders_insert k v s)) k2 = Some (v2, c)"
      then show "k1 = k2"
        using senders_invD(1,3) [OF assms] by (fastforce simp: senders_insert_def Let_def split: if_splits)
    qed
  qed
qed

lemma senders_inv_respond:
  assumes "senders_inv s"
  shows "senders_inv (senders_respond k rv s)"
proof (cases "as_senders s k")
  case None
  with assms show ?thesis by (simp add: senders_respond_def senders_get_def)
next
  case (Some p)
  obtain v c where p: "p = (v, c)" by (cases p)
  have others: "c' \<noteq> c" if "as_senders s k' = Some (v', c')" "k' \<noteq> k" for k' v' c'
    using senders_invD(3) [OF assms, of k v c k' v'] Some p that by auto
  show ?thesis
    using assms Some p others
    by (auto simp: senders_inv_def senders_respond_def senders_get_def send_answer_def nth_list_update)
qed

text \<open>A request that was inserted is answered by the next response to its key, with the answer given.\<close>

lemma receive_after_insert:
  assumes "senders_inv s"
  shows "receive (snd (senders_insert k v s)) (fst (senders_insert k v s)) = None"
    and "as_senders (fst (senders_insert k v s)) k = Some (v, snd (senders_insert k v s))"
proof -
  have "c < length (as_channels s)" if "as_senders s k = Some (v', c)" for v' c
    using senders_invD(1) [OF assms that] .
  then show "receive (snd (senders_insert k v s)) (fst (senders_insert k v s)) = None"
    by (auto simp: senders_insert_def receive_def Let_def drop_sender_def nth_append split: option.splits)
  show "as_senders (fst (senders_insert k v s)) k = Some (v, snd (senders_insert k v s))"
    by (simp add: senders_insert_def Let_def)
qed

lemma receive_after_respond:
  assumes "senders_inv s" and "as_senders s k = Some (v, c)"
  shows "receive c (senders_respond k rv s) = Some (Ok rv)" and "as_senders (senders_respond k rv s) k = None"
  using senders_invD(1,2) [OF assms] assms(2)
  by (simp_all add: senders_respond_def senders_get_def send_answer_def receive_def)

text \<open>A response to a key that has no request is lost, and an answer to another key does not touch the
  channel of a request.\<close>

lemma respond_without_request: "as_senders s k = None \<Longrightarrow> senders_respond k rv s = s"
  by (simp add: senders_respond_def senders_get_def)

lemma receive_respond_other:
  assumes "senders_inv s" and "as_senders s k = Some (v, c)" and "k' \<noteq> k"
  shows "receive c (senders_respond k' rv s) = receive c s" and "as_senders (senders_respond k' rv s) k = Some (v, c)"
proof -
  have "c' \<noteq> c" if "as_senders s k' = Some (v', c')" for v' c'
    using senders_invD(3) [OF assms(1,2), of k' v'] assms(3) that by auto
  then show "receive c (senders_respond k' rv s) = receive c s"
    by (auto simp: senders_respond_def senders_get_def send_answer_def receive_def split: option.splits)
  show "as_senders (senders_respond k' rv s) k = Some (v, c)"
    using assms(2,3) by (auto simp: senders_respond_def senders_get_def send_answer_def split: option.splits)
qed

lemma insert_other_key:
  assumes "senders_inv s" and "as_senders s k = Some (v, c)" and "k' \<noteq> k"
  shows "receive c (fst (senders_insert k' v' s)) = receive c s"
    and "as_senders (fst (senders_insert k' v' s)) k = Some (v, c)"
proof -
  have "c' \<noteq> c" if "as_senders s k' = Some (v', c')" for v' c'
    using senders_invD(3) [OF assms(1,2), of k' v'] assms(3) that by auto
  moreover have "c < length (as_channels s)" using senders_invD(1) [OF assms(1,2)] .
  ultimately show "receive c (fst (senders_insert k' v' s)) = receive c s"
    by (auto simp: senders_insert_def Let_def receive_def drop_sender_def nth_append split: option.splits)
  show "as_senders (fst (senders_insert k' v' s)) k = Some (v, c)"
    using assms(2,3) by (simp add: senders_insert_def Let_def)
qed

section \<open>The interface of the requests\<close>

text \<open>What the callers of the API and the event handler rely on: a request table in which a request waits
  until the response to its key, whatever happens under other keys.\<close>

locale request_table =
  fixes good :: "'s \<Rightarrow> bool"
    and pending :: "'s \<Rightarrow> 'k \<Rightarrow> ('v \<times> 'c) option"
    and request :: "'k \<Rightarrow> 'v \<Rightarrow> 's \<Rightarrow> 's \<times> 'c"
    and respond :: "'k \<Rightarrow> 'rv \<Rightarrow> 's \<Rightarrow> 's"
    and result :: "'c \<Rightarrow> 's \<Rightarrow> 'rv outcome option"
  assumes good_request: "good s \<Longrightarrow> good (fst (request k v s))"
    and good_respond: "good s \<Longrightarrow> good (respond k rv s)"
    and requested: "good s \<Longrightarrow> pending (fst (request k v s)) k = Some (v, snd (request k v s))"
    and request_waits: "good s \<Longrightarrow> result (snd (request k v s)) (fst (request k v s)) = None"
    and request_pending: "k' \<noteq> k \<Longrightarrow> pending (fst (request k' v s)) k = pending s k"
    and respond_pending: "k' \<noteq> k \<Longrightarrow> pending (respond k' rv s) k = pending s k"
    and request_other: "good s \<Longrightarrow> pending s k = Some (v, c) \<Longrightarrow> k' \<noteq> k \<Longrightarrow>
      result c (fst (request k' v' s)) = result c s"
    and respond_other: "good s \<Longrightarrow> pending s k = Some (v, c) \<Longrightarrow> k' \<noteq> k \<Longrightarrow>
      result c (respond k' rv s) = result c s"
    and respond_same: "good s \<Longrightarrow> pending s k = Some (v, c) \<Longrightarrow> result c (respond k rv s) = Some (Ok rv)"
    and respond_none: "pending s k = None \<Longrightarrow> respond k rv s = s"
begin

text \<open>What other callers and the event handler do in between: requests and responses under other keys.\<close>

inductive elsewhere :: "'k \<Rightarrow> 's \<Rightarrow> 's \<Rightarrow> bool" for k where
  elsewhere_refl: "elsewhere k s s"
| elsewhere_request: "elsewhere k s s' \<Longrightarrow> k' \<noteq> k \<Longrightarrow> elsewhere k s (fst (request k' v s'))"
| elsewhere_respond: "elsewhere k s s' \<Longrightarrow> k' \<noteq> k \<Longrightarrow> elsewhere k s (respond k' rv s')"

lemma elsewhere_good: "elsewhere k s s' \<Longrightarrow> good s \<Longrightarrow> good s'"
  by (induction rule: elsewhere.induct) (auto intro: good_request good_respond)

lemma elsewhere_keeps: "elsewhere k s s' \<Longrightarrow> pending s' k = pending s k"
  by (induction rule: elsewhere.induct) (auto simp: request_pending respond_pending)

lemma elsewhere_result:
  "elsewhere k s s' \<Longrightarrow> good s \<Longrightarrow> pending s k = Some (v, c) \<Longrightarrow> result c s' = result c s"
proof (induction rule: elsewhere.induct)
  case (elsewhere_request s s' k' w)
  then show ?case
    using elsewhere_good elsewhere_keeps request_other [of s' k v c k' w] by simp
next
  case (elsewhere_respond s s' k' rv)
  then show ?case
    using elsewhere_good elsewhere_keeps respond_other [of s' k v c k' rv] by simp
qed simp

theorem answered:
  assumes "good s" and "elsewhere k (fst (request k v s)) s'"
  shows "result (snd (request k v s)) s' = None \<and> result (snd (request k v s)) (respond k rv s') = Some (Ok rv)"
proof -
  have g: "good (fst (request k v s))" using assms(1) by (rule good_request)
  show ?thesis
    using elsewhere_result [OF assms(2) g requested [OF assms(1)]] request_waits [OF assms(1)]
      respond_same [OF elsewhere_good [OF assms(2) g]] elsewhere_keeps [OF assms(2)] requested [OF assms(1)]
    by simp
qed

theorem early_response_lost:
  assumes "good s" and "elsewhere k (respond k rv s) s'" and "elsewhere k (fst (request k v s')) s''"
  shows "result (snd (request k v s')) s'' = None"
proof -
  have "good s'" using elsewhere_good [OF assms(2)] good_respond [OF assms(1)] by blast
  then show ?thesis
    using elsewhere_result [OF assms(3) good_request requested] request_waits by simp
qed

end

interpretation senders: request_table senders_inv as_senders senders_insert senders_respond receive
proof unfold_locales
  fix k k' :: 'a and v :: 'b and rv :: 'c and s :: "('a, 'b, 'c) async_senders"
  assume "k' \<noteq> k"
  then show "as_senders (fst (senders_insert k' v s)) k = as_senders s k"
    and "as_senders (senders_respond k' rv s) k = as_senders s k"
    by (auto simp: senders_insert_def Let_def senders_respond_def senders_get_def send_answer_def split: option.splits)
qed (auto simp: senders_inv_insert senders_inv_respond receive_after_insert insert_other_key receive_respond_other
    receive_after_respond respond_without_request)

end
