(* ===== verification/Fee_Rate.thy ===== *)
theory Fee_Rate
  imports Rust_Text
begin

text \<open>
  The fee rate of a request (\<open>FeeRate\<close> of \<^verbatim>\<open>api/payloads.rs\<close>), its text and the parser of the text.
\<close>

datatype fee_rate = Urgent | Normal | Slow | PerKw u32 | PerKb u32

definition fee_rate_default :: fee_rate where
  "fee_rate_default = Normal"

fun fee_rate_serialize :: "fee_rate \<Rightarrow> string" where
  "fee_rate_serialize Urgent = ''urgent''"
| "fee_rate_serialize Normal = ''normal''"
| "fee_rate_serialize Slow = ''slow''"
| "fee_rate_serialize (PerKw x) = u32_to_string x @ ''perkw''"
| "fee_rate_serialize (PerKb x) = u32_to_string x @ ''perkb''"

definition fee_rate_from_str :: "string \<Rightarrow> fee_rate outcome" where
  "fee_rate_from_str s =
     (if s = ''urgent'' then Ok Urgent
      else if s = ''normal'' then Ok Normal
      else if s = ''slow'' then Ok Slow
      else if ends_with s ''perkw''
        then bind_outcome (ok_or (Msg ''expected u32 for perkw'') (parse_u32 (trim_end_matches s ''perkw''))) (\<lambda>x. Ok (PerKw x))
      else if ends_with s ''perkb''
        then bind_outcome (ok_or (Msg ''expected u32 for perkb'') (parse_u32 (trim_end_matches s ''perkb''))) (\<lambda>x. Ok (PerKb x))
      else Err (Msg ''unknown fee rate. Expecting one of urgent/normal/slow/<sats>perkw/<sats>perkb''))"

lemma char_digit_letters [simp]:
  "char_digit CHR ''w'' = None" "char_digit CHR ''b'' = None" "char_digit CHR ''t'' = None" "char_digit CHR ''l'' = None"
  by (simp_all add: char_digit_def)

lemma not_ends_with_letter:
  assumes "p \<noteq> []" and "char_digit (last p) = None"
  shows "\<not> ends_with (u32_to_string x) p"
proof
  assume "ends_with (u32_to_string x) p"
  then have "last p \<in> set (u32_to_string x)"
    using ends_with_last [OF _ assms(1)] last_in_set by metis
  then show False
    using nat_to_string_not_mem [OF assms(2)] by (simp add: u32_to_string_def)
qed

lemma ends_with_other: "length p = length q \<Longrightarrow> ends_with (s @ q) p \<longleftrightarrow> p = q"
  by (auto simp: ends_with_def)

lemma fee_rate_text_names:
  "u32_to_string x @ p \<notin> {''urgent'', ''normal'', ''slow''}" if "p = ''perkw'' \<or> p = ''perkb''"
proof -
  have "last (u32_to_string x @ p) \<in> {CHR ''w'', CHR ''b''}" using that by auto
  moreover have "u32_to_string x @ p \<noteq> ''slow''"
  proof
    assume "u32_to_string x @ p = ''slow''"
    then have "length (u32_to_string x @ p) = 4" by simp
    with that show False by auto
  qed
  ultimately show ?thesis by auto
qed

text \<open>C18: The text of a fee rate parses to that fee rate: \<open>FeeRate::from_str\<close> inverts its serialisation, for
  the three names and for every number per kiloweight or per kilobyte.\<close>

theorem fee_rate_roundtrip: "fee_rate_from_str (fee_rate_serialize r) = Ok r"
proof (cases r)
  case (PerKw x)
  have "trim_end_matches (u32_to_string x @ ''perkw'') ''perkw'' = u32_to_string x"
    by (rule trim_end_matches_once) (simp_all add: not_ends_with_letter)
  with PerKw fee_rate_text_names [of "''perkw''" x] show ?thesis
    by (simp add: fee_rate_from_str_def)
next
  case (PerKb x)
  have "trim_end_matches (u32_to_string x @ ''perkb'') ''perkb'' = u32_to_string x"
    by (rule trim_end_matches_once) (simp_all add: not_ends_with_letter)
  with PerKb fee_rate_text_names [of "''perkb''" x] show ?thesis
    by (simp add: fee_rate_from_str_def ends_with_other)
qed (simp_all add: fee_rate_from_str_def)

end
