(* ===== verification/Event_Handler.thy ===== *)
theory Event_Handler
  imports Channel_Persistence Async_Requests Fee_Rate
begin

unbundle bit_operations_syntax

text \<open>
  The handler of the events of LDK (\<^verbatim>\<open>ldk/event_handler.rs\<close>).  Its state is the database, the two tables
  of waiting API requests, the forwards it has handed to the runtime to be stored, and the calls it
  has made to LDK, to the liquidity service, to the bitcoin node and to the peers, in order.
  What these return, the clock and the random ids are the fields of an environment, an argument of
  the handler.
\<close>

section \<open>Events\<close>

datatype payment_purpose =
    InvoicePayment "bytes option" bytes
    \<comment> \<open>preimage and secret\<close>
  | SpontaneousPayment bytes

datatype path_failure = InitialSend string | OnPath "bytes option"

text \<open>The fields of an event that the handler uses beyond its log messages.\<close>

datatype ldk_event =
    FundingGenerationReady bytes pubkey u64 bytes u128
    \<comment> \<open>temporary channel id, counterparty, value, script, user channel id\<close>
  | ChannelPending bytes u128 "bytes option" pubkey u32
    \<comment> \<open>channel id, user channel id, former temporary channel id, counterparty, output index of the funding\<close>
  | ChannelReady bytes u128 pubkey
  | ChannelClosed bytes u128 string
    \<comment> \<open>channel id, user channel id, reason as text\<close>
  | DiscardFunding bytes bytes
    \<comment> \<open>channel id, id of the transaction\<close>
  | OpenChannelRequest
  | PaymentClaimable bytes payment_purpose u64
    \<comment> \<open>hash, purpose, amount\<close>
  | PaymentClaimed bytes payment_purpose u64
  | PaymentSent "bytes option" bytes bytes "u64 option"
    \<comment> \<open>id, preimage, hash, fee\<close>
  | PaymentPathSuccessful bytes
  | PaymentPathFailed path_failure
  | PaymentFailed bytes bytes "failure_reason option"
    \<comment> \<open>id, hash, reason\<close>
  | PaymentForwarded "bytes option" "bytes option" "u64 option" bool "u64 option"
    \<comment> \<open>previous and next channel id, fee earned, claimed on chain, outbound amount\<close>
  | ProbeSuccessful
  | ProbeFailed
  | HTLCHandlingFailed bytes htlc_destination
  | PendingHTLCsForwardable u64
    \<comment> \<open>milliseconds\<close>
  | SpendableOutputs "spendable_output_descriptor list" "bytes option"
  | HTLCIntercepted bytes u64 bytes u64
    \<comment> \<open>intercept id, requested next hop, hash, expected outbound amount\<close>
  | InvoiceRequestFailed bytes
  | BumpTransaction
  | ConnectionNeeded pubkey

text \<open>A transaction is its serialised form.\<close>

type_synonym raw_tx = bytes

datatype node_call =
    FundingTransactionGenerated bytes pubkey raw_tx
  | LspsChannelReady u128 bytes pubkey
  | LspsPaymentForwarded bytes
  | LspsHtlcHandlingFailed htlc_destination
  | LspsHtlcIntercepted u64 bytes u64 bytes
  | ClaimFunds bytes
  | HandleNetworkUpdate bytes
  | ProcessPendingForwards u64
    \<comment> \<open>after so many milliseconds\<close>
  | BroadcastTransaction raw_tx
  | BroadcastNodeAnnouncement

section \<open>State and environment\<close>

record node =
  n_db :: ldk_database
  n_funding :: "(u64, fee_rate, raw_tx outcome) async_senders"
  n_payments :: "(bytes, payment, payment outcome) async_senders"
  n_forwards :: "forward list"
    \<comment> \<open>forwards handed to the runtime and not stored yet\<close>
  n_calls :: "node_call list"

record event_env =
  ee_now :: offset_date_time
  ee_server_now :: primitive_date_time
  ee_random :: bytes
    \<comment> \<open>the id of a new payment or forward\<close>
  ee_channels :: "channel_details list"
    \<comment> \<open>\<open>channel_manager.list_channels()\<close>\<close>
  ee_fund_tx :: "bytes \<Rightarrow> u64 \<Rightarrow> fee_rate \<Rightarrow> raw_tx outcome"
  ee_funding_generated :: "bytes \<Rightarrow> pubkey \<Rightarrow> raw_tx \<Rightarrow> unit outcome"
  ee_forward_delay :: "u64 \<Rightarrow> u64 \<Rightarrow> u64"
    \<comment> \<open>\<open>gen_range(low..high)\<close> on a range that is not empty\<close>
  ee_new_internal_address :: "bytes outcome"
  ee_sweep_feerate :: u32
  ee_block_height :: "u64 outcome"
  ee_lock_time :: "u32 \<Rightarrow> u32 outcome"
  ee_spend :: "spendable_output_descriptor list \<Rightarrow> bytes \<Rightarrow> u32 \<Rightarrow> u32 \<Rightarrow> raw_tx option"
  ee_details_encode :: "channel_details \<Rightarrow> bytes"
  ee_output_encode :: "spendable_output_descriptor \<Rightarrow> bytes"

section \<open>Steps that change the state and may fail\<close>

type_synonym 'a node_step = "node \<Rightarrow> node \<times> 'a outcome"

definition node_return :: "'a \<Rightarrow> 'a node_step" where
  "node_return x n = (n, Ok x)"

definition node_bind :: "'a node_step \<Rightarrow> ('a \<Rightarrow> 'b node_step) \<Rightarrow> 'b node_step" where
  "node_bind m f n = (case m n of (n', Ok x) \<Rightarrow> f x n' | (n', Err e) \<Rightarrow> (n', Err e) | (n', Panic) \<Rightarrow> (n', Panic))"

definition node_lift :: "'a outcome \<Rightarrow> 'a node_step" where
  "node_lift r n = (n, r)"

definition node_call :: "node_call \<Rightarrow> unit node_step" where
  "node_call c n = (n\<lparr>n_calls := n_calls n @ [c]\<rparr>, Ok ())"

text \<open>A write that is followed by \<open>?\<close>, and one whose error is only logged.\<close>

definition db_write :: "(ldk_database \<Rightarrow> ldk_database outcome) \<Rightarrow> unit node_step" where
  "db_write f n = (case f (n_db n) of
     Ok db \<Rightarrow> (n\<lparr>n_db := db\<rparr>, Ok ()) | Err e \<Rightarrow> (n, Err e) | Panic \<Rightarrow> (n, Panic))"

definition db_write_logged :: "(ldk_database \<Rightarrow> ldk_database outcome) \<Rightarrow> unit node_step" where
  "db_write_logged f n = (case f (n_db n) of
     Ok db \<Rightarrow> (n\<lparr>n_db := db\<rparr>, Ok ()) | Err e \<Rightarrow> (n, Ok ()) | Panic \<Rightarrow> (n, Panic))"

definition take_funding :: "u64 \<Rightarrow> (fee_rate \<times> nat) node_step" where
  "take_funding k n = (case senders_get k (n_funding n) of (s, r) \<Rightarrow>
     (n\<lparr>n_funding := s\<rparr>, ok_or (Msg ''Can't find funding transaction for user_channel_id'') r))"

definition answer_funding :: "nat \<Rightarrow> raw_tx outcome \<Rightarrow> unit node_step" where
  "answer_funding c rv n = (n\<lparr>n_funding := send_answer c rv (n_funding n)\<rparr>, Ok ())"

definition take_payment :: "bytes \<Rightarrow> (payment \<times> nat) node_step" where
  "take_payment k n = (case senders_get k (n_payments n) of (s, r) \<Rightarrow>
     (n\<lparr>n_payments := s\<rparr>, ok_or (Msg ''Can't find payment'') r))"

definition answer_payment :: "nat \<Rightarrow> payment outcome \<Rightarrow> unit node_step" where
  "answer_payment c rv n = (n\<lparr>n_payments := send_answer c rv (n_payments n)\<rparr>, Ok ())"

definition spawn_forward :: "forward \<Rightarrow> unit node_step" where
  "spawn_forward f n = (n\<lparr>n_forwards := n_forwards n @ [f]\<rparr>, Ok ())"

section \<open>The handlers\<close>

definition funding_generation_ready :: "event_env \<Rightarrow> bytes \<Rightarrow> pubkey \<Rightarrow> u64 \<Rightarrow> bytes \<Rightarrow> u128 \<Rightarrow> unit node_step" where
  "funding_generation_ready env tmp_id counterparty val script user_channel_id =
     node_bind (take_funding (ucast user_channel_id)) (\<lambda>(fee_rate, c).
       case ee_fund_tx env script val fee_rate of
         Ok tx \<Rightarrow>
           node_bind (node_call (FundingTransactionGenerated tmp_id counterparty tx)) (\<lambda>_.
             case ee_funding_generated env tmp_id counterparty tx of
               Ok _ \<Rightarrow>
                 node_bind (db_write_logged (update_initializing_channel (ee_now env) tmp_id None
                   (Some (''Channel with user channel id '' @ nat_to_string (unat user_channel_id) @ '' has been funded''))))
                 (\<lambda>_. answer_funding c (Ok tx))
             | Err e \<Rightarrow> node_bind (answer_funding c (Err (Msg ''Failed opening channel'')))
                       (\<lambda>_. node_lift (Err e))
             | Panic \<Rightarrow> node_lift Panic)
       | Err e \<Rightarrow> node_bind (answer_funding c (Err (Msg ''Failed funding transaction'')))
                 (\<lambda>_. node_lift (Err (Msg ''Failed funding transaction'')))
       | Panic \<Rightarrow> node_lift Panic)"

definition find_details :: "event_env \<Rightarrow> bytes \<Rightarrow> channel_details option" where
  "find_details env channel_id = List.find (\<lambda>c. cd_channel_id c = channel_id) (ee_channels env)"

definition channel_pending ::
  "event_env \<Rightarrow> bytes \<Rightarrow> bytes option \<Rightarrow> pubkey \<Rightarrow> u32 \<Rightarrow> unit node_step" where
  "channel_pending env channel_id former counterparty vout =
     node_bind (case former of
         Some tmp_id \<Rightarrow> db_write (update_initializing_channel (ee_now env) tmp_id
                          (Some (channel_id, vout)) None)
       | None \<Rightarrow> node_return ())
     (\<lambda>_. case find_details env channel_id of
         Some details \<Rightarrow> db_write (persist_channel (ee_details_encode env) (ee_now env) (ee_server_now env) details)
       | None \<Rightarrow> db_write (create_channel (ee_server_now env) channel_id True counterparty))"

definition channel_ready :: "event_env \<Rightarrow> bytes \<Rightarrow> u128 \<Rightarrow> pubkey \<Rightarrow> unit node_step" where
  "channel_ready env channel_id user_channel_id counterparty =
     node_bind (if 9223372036854775808 < user_channel_id
                then node_call (LspsChannelReady user_channel_id channel_id counterparty) else node_return ())
     (\<lambda>_. node_bind (case find_details env channel_id of
         Some details \<Rightarrow> db_write (persist_channel (ee_details_encode env) (ee_now env) (ee_server_now env) details)
       | None \<Rightarrow> db_write (close_channel (ee_now env) channel_id ''Channel detail missing when receiving ChannelReady''))
     (\<lambda>_. node_call BroadcastNodeAnnouncement))"

definition channel_closed :: "event_env \<Rightarrow> bytes \<Rightarrow> u128 \<Rightarrow> string \<Rightarrow> unit node_step" where
  "channel_closed env channel_id user_channel_id reason =
     node_bind (\<lambda>n. (n\<lparr>n_funding := senders_respond (ucast user_channel_id)
         (Err (Msg (''Channel closed due to '' @ reason))) (n_funding n)\<rparr>, Ok ()))
     (\<lambda>_. db_write (close_channel (ee_now env) channel_id reason))"

definition claim_payment :: "payment_purpose \<Rightarrow> unit node_step" where
  "claim_payment purpose =
     (case purpose of
        InvoicePayment (Some preimage) _ \<Rightarrow> node_call (ClaimFunds preimage)
      | InvoicePayment None _ \<Rightarrow> node_return ()
      | SpontaneousPayment preimage \<Rightarrow> node_call (ClaimFunds preimage))"

definition payment_claimed :: "event_env \<Rightarrow> bytes \<Rightarrow> payment_purpose \<Rightarrow> u64 \<Rightarrow> unit node_step" where
  "payment_claimed env hash purpose amount =
     db_write (persist_payment (case purpose of
        InvoicePayment preimage secret \<Rightarrow> of_invoice_inbound (ee_random env) (ee_now env) hash preimage secret amount
      | SpontaneousPayment preimage \<Rightarrow> spontaneous_inbound (ee_random env) (ee_now env) hash preimage amount))"

definition payment_sent :: "bytes option \<Rightarrow> bytes \<Rightarrow> bytes \<Rightarrow> u64 option \<Rightarrow> unit node_step" where
  "payment_sent payment_id preimage hash fee =
     node_bind (node_lift (ok_or (Msg ''Failed to update payment'') payment_id)) (\<lambda>i.
     node_bind (take_payment i) (\<lambda>(payment, c).
       answer_payment c (Ok (payment_succeeded hash preimage fee payment))))"

definition payment_failed_event :: "bytes \<Rightarrow> failure_reason option \<Rightarrow> unit node_step" where
  "payment_failed_event payment_id reason =
     node_bind (take_payment payment_id) (\<lambda>(payment, c). answer_payment c (Ok (payment_failed reason payment)))"

definition payment_forwarded ::
  "event_env \<Rightarrow> bytes option \<Rightarrow> bytes option \<Rightarrow> u64 option \<Rightarrow> u64 option \<Rightarrow> unit node_step" where
  "payment_forwarded env prev next fee amount =
     node_bind (case next of Some c \<Rightarrow> node_call (LspsPaymentForwarded c) | None \<Rightarrow> node_return ())
     (\<lambda>_. case (prev, next, amount, fee) of
        (Some inbound, Some outbound, Some a, Some f) \<Rightarrow>
          spawn_forward (forward_success (ee_random env) (ee_now env) inbound outbound a f)
      | _ \<Rightarrow> node_return ())"

definition htlc_handling_failed :: "event_env \<Rightarrow> bytes \<Rightarrow> htlc_destination \<Rightarrow> unit node_step" where
  "htlc_handling_failed env prev dest =
     node_bind (node_call (LspsHtlcHandlingFailed dest)) (\<lambda>_.
       spawn_forward (forward_failure (ee_random env) (ee_now env) prev dest))"

text \<open>The range \<open>min..min * 5\<close> is made in a task of its own; an empty range makes that task panic, and the
  forwards are not processed. The multiplication wraps around in a release build.\<close>

definition pending_htlcs_forwardable :: "event_env \<Rightarrow> u64 \<Rightarrow> unit node_step" where
  "pending_htlcs_forwardable env min_millis =
     (if min_millis < min_millis * 5
      then node_call (ProcessPendingForwards (ee_forward_delay env min_millis (min_millis * 5)))
      else node_return ())"

fun persist_outputs ::
  "event_env \<Rightarrow> bytes option \<Rightarrow> bool \<Rightarrow> spendable_output_descriptor list \<Rightarrow> unit node_step" where
  "persist_outputs env channel_id is_spent [] = node_return ()"
| "persist_outputs env channel_id is_spent (d # ds) =
     node_bind (db_write_logged (persist_spendable_output (ee_output_encode env) d channel_id is_spent))
       (\<lambda>_. persist_outputs env channel_id is_spent ds)"

definition spendable_outputs ::
  "event_env \<Rightarrow> spendable_output_descriptor list \<Rightarrow> bytes option \<Rightarrow> unit node_step" where
  "spendable_outputs env outputs channel_id =
     node_bind (persist_outputs env channel_id False outputs) (\<lambda>_.
     node_bind (node_lift (ee_new_internal_address env)) (\<lambda>script.
     node_bind (node_lift (ee_block_height env)) (\<lambda>height.
     node_bind (node_lift (ee_lock_time env (ucast height))) (\<lambda>lock_time.
     node_bind (node_lift (ok_or (Msg ''Failed to build spending transaction'')
         (ee_spend env outputs script (ee_sweep_feerate env) lock_time))) (\<lambda>tx.
     node_bind (node_call (BroadcastTransaction tx)) (\<lambda>_.
       persist_outputs env channel_id True outputs))))))"

text \<open>A failure to close the channel is only logged.\<close>

definition discard_funding :: "event_env \<Rightarrow> bytes \<Rightarrow> bytes \<Rightarrow> unit node_step" where
  "discard_funding env channel_id txid =
     db_write_logged (close_channel (ee_now env) channel_id (''Funding discarded for channel, txid: '' @ hex_encode (rev txid)))"

definition payment_path_failed :: "path_failure \<Rightarrow> unit node_step" where
  "payment_path_failed failure =
     (case failure of OnPath (Some update) \<Rightarrow> node_call (HandleNetworkUpdate update) | _ \<Rightarrow> node_return ())"

definition htlc_intercepted :: "bytes \<Rightarrow> u64 \<Rightarrow> bytes \<Rightarrow> u64 \<Rightarrow> unit node_step" where
  "htlc_intercepted intercept_id scid hash amount = node_call (LspsHtlcIntercepted scid intercept_id amount hash)"

fun handle_event :: "event_env \<Rightarrow> ldk_event \<Rightarrow> unit node_step" where
  "handle_event env (FundingGenerationReady tmp_id counterparty val script user_channel_id) =
     funding_generation_ready env tmp_id counterparty val script user_channel_id"
| "handle_event env (ChannelPending channel_id user_channel_id former counterparty vout) =
     channel_pending env channel_id former counterparty vout"
| "handle_event env (ChannelReady channel_id user_channel_id counterparty) =
     channel_ready env channel_id user_channel_id counterparty"
| "handle_event env (ChannelClosed channel_id user_channel_id reason) =
     channel_closed env channel_id user_channel_id reason"
| "handle_event env (DiscardFunding channel_id txid) = discard_funding env channel_id txid"
| "handle_event env OpenChannelRequest = node_lift Panic"
| "handle_event env (PaymentClaimable hash purpose amount) = claim_payment purpose"
| "handle_event env (PaymentClaimed hash purpose amount) = payment_claimed env hash purpose amount"
| "handle_event env (PaymentSent payment_id preimage hash fee) = payment_sent payment_id preimage hash fee"
| "handle_event env (PaymentPathSuccessful payment_id) = node_return ()"
| "handle_event env (PaymentPathFailed failure) = payment_path_failed failure"
| "handle_event env (PaymentFailed payment_id hash reason) = payment_failed_event payment_id reason"
| "handle_event env (PaymentForwarded prev next fee onchain amount) = payment_forwarded env prev next fee amount"
| "handle_event env ProbeSuccessful = node_return ()"
| "handle_event env ProbeFailed = node_return ()"
| "handle_event env (HTLCHandlingFailed prev dest) = htlc_handling_failed env prev dest"
| "handle_event env (PendingHTLCsForwardable millis) = pending_htlcs_forwardable env millis"
| "handle_event env (SpendableOutputs outputs channel_id) = spendable_outputs env outputs channel_id"
| "handle_event env (HTLCIntercepted intercept_id scid hash amount) = htlc_intercepted intercept_id scid hash amount"
| "handle_event env (InvoiceRequestFailed payment_id) = node_return ()"
| "handle_event env BumpTransaction = node_lift Panic"
| "handle_event env (ConnectionNeeded node_id) = node_return ()"

text \<open>The task that stores a forward: its error is only logged.\<close>

definition run_forward :: "(htlc_destination \<Rightarrow> bytes) \<Rightarrow> node \<Rightarrow> node" where
  "run_forward dest_encode n =
     (case n_forwards n of
        [] \<Rightarrow> n
      | f # fs \<Rightarrow> n\<lparr>n_forwards := fs,
                    n_db := (case persist_forward dest_encode f (n_db n) of Ok db \<Rightarrow> db | _ \<Rightarrow> n_db n)\<rparr>)"

end
