(* ===== verification/Bitcoind.thy ===== *)
theory Bitcoind
  imports Rust_Text Complex_Main
begin

unbundle bit_operations_syntax

text \<open>
  The client of the bitcoin node (\<^verbatim>\<open>bitcoind/bitcoind_client.rs\<close>): the check of the network, the test of
  synchronisation, the fee rates by confirmation target and their estimation, the filter on
  broadcast errors; short channel ids (\<^verbatim>\<open>ldk/channel_utils.rs\<close>) and the lookup of the output they name
  (\<^verbatim>\<open>bitcoind/utxo_lookup.rs\<close>).  What the node answers to a call is an argument of the function
  that makes the call.
\<close>

section \<open>Network and synchronisation\<close>

datatype network = Bitcoin | Testnet | Signet | Regtest

definition network_matches :: "string \<Rightarrow> network \<Rightarrow> bool" where
  "network_matches chain net \<longleftrightarrow>
     (chain, net) \<in> {(''main'', Bitcoin), (''signet'', Signet), (''test'', Testnet), (''regtest'', Regtest)}"

record blockchain_info =
  bi_chain :: string
  bi_blocks :: u64
  bi_headers :: u64
  bi_median_time :: u64
  bi_verification_progress :: real

text \<open>The chain check of \<open>BitcoindClient::new\<close>, on the answer to \<open>getblockchaininfo\<close>.\<close>

definition bitcoind_client_new :: "network \<Rightarrow> blockchain_info outcome \<Rightarrow> unit outcome" where
  "bitcoind_client_new net answer =
     bind_outcome answer (\<lambda>info.
       if network_matches (bi_chain info) net then Ok ()
       else Err (Msg ''Chain argument didn't match bitcoind chain''))"

text \<open>\<open>now\<close> is the system time in seconds since the epoch.\<close>

definition is_synchronised :: "int \<Rightarrow> blockchain_info outcome \<Rightarrow> bool outcome" where
  "is_synchronised now answer =
     (let one_week_ago = now - 60 * 60 * 24 * 7 in
      if one_week_ago < 0 then Panic
      else case answer of
        Ok info \<Rightarrow> Ok (bi_blocks info = bi_headers info \<and> one_week_ago < uint (bi_median_time info) \<and>
                      99 / 100 < bi_verification_progress info)
      | _ \<Rightarrow> Ok False)"

text \<open>The loop of \<open>wait_for_blockchain_synchronisation\<close>: the answers to its successive tests, up to the quit
  signal where the list ends. The result is whether it returned because the chain is synchronised.\<close>

fun wait_for_blockchain_synchronisation :: "bool list \<Rightarrow> bool" where
  "wait_for_blockchain_synchronisation [] = False"
| "wait_for_blockchain_synchronisation (synced # rest) = (synced \<or> wait_for_blockchain_synchronisation rest)"

section \<open>Fee rates\<close>

definition MIN_FEERATE :: u32 where
  "MIN_FEERATE = 2000"

datatype confirmation_target =
    OnChainSweep | MinAllowedAnchorChannelRemoteFee | MinAllowedNonAnchorChannelRemoteFee
  | AnchorChannelFee | NonAnchorChannelFee | ChannelCloseMinimum

record priority_class =
  pc_fee_rate :: u32
  pc_default_fee_rate :: u32
  pc_n_blocks :: u16

record priorities =
  pr_background :: priority_class
  pr_normal :: priority_class
  pr_high :: priority_class

text \<open>The classes are shared between the client and the polling task (\<open>Arc\<close>), so a class is named by its
  place in the structure.\<close>

datatype class_ref = ClassBackground | ClassNormal | ClassHigh

fun class_at :: "priorities \<Rightarrow> class_ref \<Rightarrow> priority_class" where
  "class_at p ClassBackground = pr_background p"
| "class_at p ClassNormal = pr_normal p"
| "class_at p ClassHigh = pr_high p"

definition priorities_new :: priorities where
  "priorities_new =
     \<lparr>pr_background = \<lparr>pc_fee_rate = MIN_FEERATE, pc_default_fee_rate = MIN_FEERATE, pc_n_blocks = 72\<rparr>,
      pr_normal = \<lparr>pc_fee_rate = 5000, pc_default_fee_rate = 5000, pc_n_blocks = 18\<rparr>,
      pr_high = \<lparr>pc_fee_rate = 10000, pc_default_fee_rate = 10000, pc_n_blocks = 6\<rparr>\<rparr>"

text \<open>The multiplier of a class is \<open>None\<close> for every target.\<close>

fun priority_of :: "confirmation_target \<Rightarrow> class_ref" where
  "priority_of OnChainSweep = ClassHigh"
| "priority_of NonAnchorChannelFee = ClassNormal"
| "priority_of ChannelCloseMinimum = ClassBackground"
| "priority_of AnchorChannelFee = ClassBackground"
| "priority_of MinAllowedAnchorChannelRemoteFee = ClassBackground"
| "priority_of MinAllowedNonAnchorChannelRemoteFee = ClassBackground"

definition priorities_get :: "priorities \<Rightarrow> confirmation_target \<Rightarrow> u32" where
  "priorities_get p target = pc_fee_rate (class_at p (priority_of target))"

fun priorities_store :: "class_ref \<Rightarrow> u32 \<Rightarrow> priorities \<Rightarrow> priorities" where
  "priorities_store ClassBackground fee p = p\<lparr>pr_background := (pr_background p)\<lparr>pc_fee_rate := fee\<rparr>\<rparr>"
| "priorities_store ClassNormal fee p = p\<lparr>pr_normal := (pr_normal p)\<lparr>pc_fee_rate := fee\<rparr>\<rparr>"
| "priorities_store ClassHigh fee p = p\<lparr>pr_high := (pr_high p)\<lparr>pc_fee_rate := fee\<rparr>\<rparr>"

definition list_class :: "class_ref list" where
  "list_class = [ClassBackground, ClassNormal, ClassHigh]"

text \<open>The answer to \<open>estimatesmartfee\<close> for a number of blocks: \<open>None\<close> when the call or the parsing fails,
  else the fee rate in satoshis, if the node has an estimate.\<close>

type_synonym smart_fee_rpc = "u16 \<Rightarrow> u64 option option"

definition estimated_fee :: "priority_class \<Rightarrow> u64 option \<Rightarrow> u32" where
  "estimated_fee class rate =
     max (ucast ((case rate of Some sat \<Rightarrow> sat | None \<Rightarrow> ucast (pc_default_fee_rate class)) div 4)) MIN_FEERATE"

definition estimate_class :: "smart_fee_rpc \<Rightarrow> class_ref \<Rightarrow> priorities \<Rightarrow> priorities" where
  "estimate_class rpc c p =
     (case rpc (pc_n_blocks (class_at p c)) of
        Some result \<Rightarrow> priorities_store c (estimated_fee (class_at p c) result) p
      | None \<Rightarrow> p)"

definition estimate_fee :: "smart_fee_rpc \<Rightarrow> priorities \<Rightarrow> priorities" where
  "estimate_fee rpc p = fold (estimate_class rpc) list_class p"

text \<open>\<open>poll_for_fee_estimates\<close>: one estimation a minute, for ever; the list holds the answers of each.\<close>

definition poll_for_fee_estimates :: "smart_fee_rpc list \<Rightarrow> priorities \<Rightarrow> priorities" where
  "poll_for_fee_estimates rpcs p = fold estimate_fee rpcs p"

definition set_lowest_fee_estimates :: "priorities \<Rightarrow> priorities" where
  "set_lowest_fee_estimates p = fold (\<lambda>c. priorities_store c 253) list_class p"

definition fee_rates_kw :: "priorities \<Rightarrow> u32 \<times> u32 \<times> u32" where
  "fee_rates_kw p =
     (priorities_get p OnChainSweep, priorities_get p NonAnchorChannelFee, priorities_get p ChannelCloseMinimum)"

section \<open>Broadcasting\<close>

definition expected_broadcast_errors :: "string list" where
  "expected_broadcast_errors =
     [''Transaction already in block chain'', ''Inputs missing or spent'', ''bad-txns-inputs-missingorspent'',
      ''txn-mempool-conflict'', ''non-BIP68-final'', ''insufficient fee, rejecting replacement '']"

text \<open>Whether the error of a broadcast is logged.\<close>

definition broadcast_error_logged :: "string \<Rightarrow> bool" where
  "broadcast_error_logged err \<longleftrightarrow> \<not> list_ex (str_contains err) expected_broadcast_errors"

section \<open>Short channel ids\<close>

definition block_from_scid :: "u64 \<Rightarrow> u32" where
  "block_from_scid scid = ucast (drop_bit 40 scid)"

definition tx_index_from_scid :: "u64 \<Rightarrow> u32" where
  "tx_index_from_scid scid = ucast (drop_bit 16 scid AND 0x00ffffff)"

definition vout_from_scid :: "u64 \<Rightarrow> u16" where
  "vout_from_scid scid = ucast (scid AND 0xffff)"

datatype utxo_lookup_error = UnknownChain | UnknownTx

datatype 'o utxo_result = SyncResult "utxo_lookup_error + 'o" | AsyncResult "utxo_lookup_error + 'o"

text \<open>The transactions of a block are the lists of their outputs.\<close>

datatype 'o block_data = FullBlock "'o list list" | HeaderOnly

definition list_get :: "'a list \<Rightarrow> nat \<Rightarrow> 'a option" where
  "list_get xs i = (if i < length xs then Some (xs ! i) else None)"

definition lookup_scid :: "(u32 \<Rightarrow> 'h outcome) \<Rightarrow> ('h \<Rightarrow> 'o block_data outcome) \<Rightarrow> u64 \<Rightarrow> utxo_lookup_error + 'o" where
  "lookup_scid get_block_hash get_block scid =
     (case get_block_hash (block_from_scid scid) of
        Ok hash \<Rightarrow>
          (case get_block hash of
             Ok (FullBlock txs) \<Rightarrow>
               (case list_get txs (unat (tx_index_from_scid scid)) of
                  Some outs \<Rightarrow>
                    (case list_get outs (unat (vout_from_scid scid)) of
                       Some utxo \<Rightarrow> Inr utxo
                     | None \<Rightarrow> Inl UnknownTx)
                | None \<Rightarrow> Inl UnknownTx)
           | _ \<Rightarrow> Inl UnknownTx)
      | _ \<Rightarrow> Inl UnknownTx)"

definition get_utxo ::
  "bytes \<Rightarrow> (u32 \<Rightarrow> 'h outcome) \<Rightarrow> ('h \<Rightarrow> 'o block_data outcome) \<Rightarrow> bytes \<Rightarrow> u64 \<Rightarrow> 'o utxo_result" where
  "get_utxo genesis get_block_hash get_block genesis_hash scid =
     (if genesis_hash \<noteq> genesis then SyncResult (Inl UnknownChain)
      else AsyncResult (lookup_scid get_block_hash get_block scid))"

section \<open>Correctness of the fee rates\<close>

lemma class_at_store:
  "class_at (priorities_store c fee p) c' = (if c' = c then (class_at p c)\<lparr>pc_fee_rate := fee\<rparr> else class_at p c')"
  by (cases c; cases c') simp_all

lemma class_at_estimate_class:
  "class_at (estimate_class rpc c p) c' =
     (if c' = c then (case rpc (pc_n_blocks (class_at p c)) of
        Some r \<Rightarrow> (class_at p c)\<lparr>pc_fee_rate := estimated_fee (class_at p c) r\<rparr> | None \<Rightarrow> class_at p c)
      else class_at p c')"
  by (simp add: estimate_class_def class_at_store split: option.split)

lemma class_at_estimate_fee:
  "class_at (estimate_fee rpc p) c = (case rpc (pc_n_blocks (class_at p c)) of
     Some r \<Rightarrow> (class_at p c)\<lparr>pc_fee_rate := estimated_fee (class_at p c) r\<rparr> | None \<Rightarrow> class_at p c)"
  by (cases c) (simp_all add: estimate_fee_def list_class_def class_at_estimate_class split: option.split del: class_at.simps)

lemma estimated_fee_floor: "MIN_FEERATE \<le> estimated_fee class r"
  by (simp add: estimated_fee_def)

lemma estimate_fee_floor:
  "(\<forall>c. MIN_FEERATE \<le> pc_fee_rate (class_at p c)) \<Longrightarrow> MIN_FEERATE \<le> pc_fee_rate (class_at (estimate_fee rpc p) c)"
  by (simp add: class_at_estimate_fee estimated_fee_floor split: option.splits)

lemma poll_floor:
  "(\<forall>c. MIN_FEERATE \<le> pc_fee_rate (class_at p c)) \<Longrightarrow>
   \<forall>c. MIN_FEERATE \<le> pc_fee_rate (class_at (poll_for_fee_estimates rpcs p) c)"
  unfolding poll_for_fee_estimates_def
  by (induction rpcs arbitrary: p) (simp_all add: estimate_fee_floor)

lemma new_floor: "MIN_FEERATE \<le> pc_fee_rate (class_at priorities_new c)"
  by (cases c) (simp_all add: priorities_new_def MIN_FEERATE_def)

lemma unat_div_4: "unat (x div 4 :: u64) = unat x div 4"
  by (simp add: unat_div)

lemma estimated_fee_unat:
  assumes "unat sat div 4 < 2 ^ 32"
  shows "unat (estimated_fee class (Some sat)) = max (unat sat div 4) 2000"
proof -
  have "unat (ucast (sat div 4) :: u32) = unat sat div 4"
    using assms by (simp add: unat_div_4 unsigned_ucast_eq take_bit_nat_eq_self)
  then show ?thesis
    by (simp add: estimated_fee_def MIN_FEERATE_def max_def word_le_nat_alt)
qed

text \<open>The fee rates after any number of rounds of \<open>poll_for_fee_estimates\<close>, with whatever answers and
  failures of the bitcoin node: every confirmation target has a rate of at least \<open>MIN_FEERATE\<close>.\<close>

theorem polled_fee_at_least_minimum:
  "MIN_FEERATE \<le> priorities_get (poll_for_fee_estimates rpcs priorities_new) target"
  using poll_floor [of priorities_new rpcs] new_floor by (simp add: priorities_get_def)

text \<open>One round of \<open>estimate_fee\<close>: the rate of a target becomes a quarter of the answer of the node for the
  number of blocks of its class (from satoshis per 1000 bytes to satoshis per 1000 weight units),
  not below 2000, as long as the quarter fits in 32 bits; a failed call leaves the rate alone.\<close>

theorem estimate_fee_rate:
  assumes "rpc (pc_n_blocks (class_at p (priority_of target))) = answer"
    and "\<forall>sat. answer = Some (Some sat) \<longrightarrow> unat sat div 4 < 2 ^ 32"
  shows "(\<forall>sat. answer = Some (Some sat) \<longrightarrow>
      unat (priorities_get (estimate_fee rpc p) target) = max (unat sat div 4) 2000) \<and>
    (answer = None \<longrightarrow> priorities_get (estimate_fee rpc p) target = priorities_get p target)"
  using assms by (auto simp: priorities_get_def class_at_estimate_fee estimated_fee_unat)

theorem estimate_fee_rate_witness:
  "unat (priorities_get (estimate_fee (\<lambda>n. if n = 6 then Some (Some 80000) else None) priorities_new) OnChainSweep) = 20000"
  using estimate_fee_rate [of "\<lambda>n. if n = 6 then Some (Some 80000) else None" priorities_new OnChainSweep "Some (Some 80000)"]
  by (simp add: priorities_new_def)

text \<open>A bitcoin node that has no estimate makes the rates fall to a quarter of their defaults: the default
  of a class is in satoshis per 1000 weight units, and it is divided by 4 as if it were the answer
  of the node, in satoshis per 1000 bytes. The urgent rate falls from its default of 10000 to 2500, the
  normal one from 5000 to the minimum of 2000.\<close>

theorem no_estimate_quarters_default:
  "fee_rates_kw priorities_new = (10000, 5000, 2000) \<and>
   fee_rates_kw (estimate_fee (\<lambda>_. Some None) priorities_new) = (2500, 2000, 2000)"
  by (simp add: fee_rates_kw_def priorities_get_def estimate_fee_def list_class_def estimate_class_def
      estimated_fee_def priorities_new_def MIN_FEERATE_def)

lemma lowest_below_minimum: "priorities_get (set_lowest_fee_estimates p) target = 253"
  by (cases target) (simp_all add: priorities_get_def set_lowest_fee_estimates_def list_class_def)

section \<open>Correctness of the short channel ids\<close>

definition scid_from_parts :: "nat \<Rightarrow> nat \<Rightarrow> nat \<Rightarrow> u64" where
  "scid_from_parts block tx vout = of_nat (block * 2 ^ 40 + tx * 2 ^ 16 + vout)"

lemma unat_block_from_scid: "unat (block_from_scid scid) = unat scid div 2 ^ 40"
proof -
  have "unat scid < 2 ^ 64" using unsigned_less [of scid, where 'a = nat] by simp
  then have "unat scid div 2 ^ 40 < 2 ^ 32" by (simp add: div_less_iff_less_mult)
  then show ?thesis
    by (simp add: block_from_scid_def unsigned_ucast_eq unsigned_drop_bit_eq drop_bit_eq_div take_bit_nat_eq_self
        take_bit_eq_mod unat_div)
qed

lemma unat_tx_index_from_scid: "unat (tx_index_from_scid scid) = unat scid div 2 ^ 16 mod 2 ^ 24"
proof -
  have "(0x00ffffff :: u64) = mask 24" by (simp add: mask_eq_exp_minus_1)
  then have "unat (tx_index_from_scid scid) = take_bit 32 (take_bit 24 (unat scid div 2 ^ 16))"
    by (simp only: tx_index_from_scid_def take_bit_eq_mask [symmetric])
      (simp add: unsigned_ucast_eq unsigned_drop_bit_eq unsigned_take_bit_eq drop_bit_eq_div take_bit_eq_mod
        unat_div unat_mod del: take_bit_take_bit)
  then show ?thesis by (simp add: take_bit_eq_mod mod_mod_cancel)
qed

lemma unat_vout_from_scid: "unat (vout_from_scid scid) = unat scid mod 2 ^ 16"
proof -
  have "(0xffff :: u64) = mask 16" by (simp add: mask_eq_exp_minus_1)
  then have "unat (vout_from_scid scid) = take_bit 16 (take_bit 16 (unat scid))"
    by (simp only: vout_from_scid_def take_bit_eq_mask [symmetric])
      (simp add: unsigned_ucast_eq unsigned_take_bit_eq take_bit_eq_mod unat_mod)
  then show ?thesis by (simp add: take_bit_eq_mod)
qed

lemmas scid_parts = unat_block_from_scid unat_tx_index_from_scid unat_vout_from_scid

lemma parts_from_scid:
  assumes "block < 2 ^ 24" and "tx < 2 ^ 24" and "vout < 2 ^ 16"
  shows "unat (block_from_scid (scid_from_parts block tx vout)) = block"
    and "unat (tx_index_from_scid (scid_from_parts block tx vout)) = tx"
    and "unat (vout_from_scid (scid_from_parts block tx vout)) = vout"
proof -
  let ?n = "block * 2 ^ 40 + tx * 2 ^ 16 + vout"
  have "?n < 2 ^ 64" using assms by simp
  then have n: "unat (scid_from_parts block tx vout) = ?n"
    by (simp only: scid_from_parts_def unsigned_of_nat take_bit_nat_eq_self) (simp add: take_bit_nat_eq_self)
  show "unat (block_from_scid (scid_from_parts block tx vout)) = block"
    using assms by (simp add: scid_parts n)
  have split: "?n = (block * 2 ^ 24 + tx) * 2 ^ 16 + vout" by (simp add: algebra_simps)
  show "unat (vout_from_scid (scid_from_parts block tx vout)) = vout"
    unfolding scid_parts n split using assms(3) by (simp only: mod_mult_self3) simp
  have "?n div 2 ^ 16 = block * 2 ^ 24 + tx"
    unfolding split using assms(3) by (simp only: div_mult_self3 div_less)
  then show "unat (tx_index_from_scid (scid_from_parts block tx vout)) = tx"
    unfolding scid_parts n using assms(2) by (simp only: mod_mult_self3) simp
qed

lemma nat_parts: "n div 2 ^ 40 * 2 ^ 40 + n div 2 ^ 16 mod 2 ^ 24 * 2 ^ 16 + n mod 2 ^ 16 = (n :: nat)"
proof -
  have "n div 2 ^ 40 = n div 2 ^ 16 div 2 ^ 24"
    by (simp add: div_mult2_eq [symmetric])
  then have "n div 2 ^ 40 * 2 ^ 24 + n div 2 ^ 16 mod 2 ^ 24 = n div 2 ^ 16"
    by (simp only: div_mult_mod_eq)
  then have "(n div 2 ^ 40 * 2 ^ 24 + n div 2 ^ 16 mod 2 ^ 24) * 2 ^ 16 + n mod 2 ^ 16 = n"
    by (simp only: div_mult_mod_eq)
  then show ?thesis by (simp add: algebra_simps)
qed

text \<open>The three parts of a short channel id determine it: put together again as 3 bytes of block height, 3
  bytes of transaction index and 2 bytes of output index they give the id, and each stays within its
  bytes.\<close>

theorem scid_roundtrip:
  "scid_from_parts (unat (block_from_scid scid)) (unat (tx_index_from_scid scid)) (unat (vout_from_scid scid)) = scid \<and>
   unat (block_from_scid scid) < 2 ^ 24 \<and> unat (tx_index_from_scid scid) < 2 ^ 24 \<and> unat (vout_from_scid scid) < 2 ^ 16"
proof -
  have "unat scid < 2 ^ 64" using unsigned_less [of scid, where 'a = nat] by simp
  then have "unat scid div 2 ^ 40 < 2 ^ 24" by (simp add: div_less_iff_less_mult)
  moreover have "scid_from_parts (unat scid div 2 ^ 40) (unat scid div 2 ^ 16 mod 2 ^ 24) (unat scid mod 2 ^ 16) = scid"
    by (simp only: scid_from_parts_def nat_parts) simp
  ultimately show ?thesis
    by (simp only: scid_parts) simp
qed

text \<open>C12: The lookup behind gossip validation: for a short channel id of the genesis block that is asked for,
  \<open>get_utxo\<close> resolves to the output with the index of the id, of the transaction with its index, in
  the block at its height; it resolves to \<open>UnknownTx\<close> when the block cannot be fetched or has no such
  transaction or output, and refuses every other chain.\<close>

theorem get_utxo_resolves:
  assumes "block < 2 ^ 24" and "tx < 2 ^ 24" and "vout < 2 ^ 16"
    and "get_block_hash (of_nat block) = Ok hash" and "get_block hash = Ok (FullBlock txs)"
  shows "get_utxo genesis get_block_hash get_block genesis' (scid_from_parts block tx vout) =
    (if genesis' \<noteq> genesis then SyncResult (Inl UnknownChain)
     else AsyncResult (if tx < length txs \<and> vout < length (txs ! tx) then Inr (txs ! tx ! vout) else Inl UnknownTx))"
proof -
  have "block_from_scid (scid_from_parts block tx vout) = of_nat block"
    using parts_from_scid(1) [OF assms(1-3)] by (metis of_nat_unat ucast_id)
  then show ?thesis
    using assms(4,5) parts_from_scid(2,3) [OF assms(1-3)] by (simp add: get_utxo_def lookup_scid_def list_get_def)
qed

theorem get_utxo_resolves_witness:
  "get_utxo [1] (\<lambda>h. if h = 700000 then Ok h else Err DbClosed) (\<lambda>_. Ok (FullBlock [[10], [20, 21 :: nat]])) [1]
     (scid_from_parts 700000 1 1) = AsyncResult (Inr 21)"
  using get_utxo_resolves [of 700000 1 1 "\<lambda>h. if h = 700000 then Ok h else Err DbClosed" 700000
      "\<lambda>_. Ok (FullBlock [[10], [20, 21 :: nat]])" "[[10], [20, 21]]" "[1]" "[1]"]
  by simp

section \<open>Synchronisation\<close>

lemma synchronised_needs_all_blocks:
  "is_synchronised now answer = Ok True \<Longrightarrow> \<exists>info. answer = Ok info \<and> bi_blocks info = bi_headers info"
  by (auto simp: is_synchronised_def Let_def split: outcome.splits if_splits)

end
