(* ===== verification/Peer_Manager.thy ===== *)
theory Peer_Manager
  imports Ldk_Database_Correct
begin

text \<open>
  Addresses of peers (\<^verbatim>\<open>api/skt_addr.rs\<close>) and the connections to them (\<^verbatim>\<open>ldk/peer_manager.rs\<close>).  The
  connected peers are those that LDK's peer manager lists, each with the address of its connection,
  which an inbound connection lacks; whether an outgoing connection can be made is an argument.
\<close>

section \<open>Addresses\<close>

definition is_ipv4 :: "socket_address \<Rightarrow> bool" where
  "is_ipv4 a = (case a of TcpIpV4 _ _ \<Rightarrow> True | _ \<Rightarrow> False)"

definition is_ipv6 :: "socket_address \<Rightarrow> bool" where
  "is_ipv6 a = (case a of TcpIpV6 _ _ \<Rightarrow> True | _ \<Rightarrow> False)"

datatype socket_address_helper =
    HelperIPv4 "bytes \<times> u16"
  | HelperIPv6 "bytes \<times> u16"
  | HelperOnionV2 bytes
  | HelperOnionV3 "bytes \<times> u16 \<times> u8 \<times> u16"
  | HelperHostname "u16 \<times> string"

fun socket_address_serialize :: "socket_address \<Rightarrow> socket_address_helper" where
  "socket_address_serialize (TcpIpV4 addr port) = HelperIPv4 (addr, port)"
| "socket_address_serialize (TcpIpV6 addr port) = HelperIPv6 (addr, port)"
| "socket_address_serialize (OnionV2 b) = HelperOnionV2 b"
| "socket_address_serialize (OnionV3 key checksum version port) = HelperOnionV3 (key, checksum, version, port)"
| "socket_address_serialize (Hostname hostname port) = HelperHostname (port, hostname)"

text \<open>\<open>hostname_ok\<close> is the test of LDK's \<open>Hostname::try_from\<close>; a name that fails it becomes the empty one.\<close>

fun socket_address_deserialize :: "(string \<Rightarrow> bool) \<Rightarrow> socket_address_helper \<Rightarrow> socket_address" where
  "socket_address_deserialize hostname_ok (HelperIPv4 (addr, port)) = TcpIpV4 addr port"
| "socket_address_deserialize hostname_ok (HelperIPv6 (addr, port)) = TcpIpV6 addr port"
| "socket_address_deserialize hostname_ok (HelperOnionV2 b) = OnionV2 b"
| "socket_address_deserialize hostname_ok (HelperOnionV3 (key, checksum, version, port)) = OnionV3 key checksum version port"
| "socket_address_deserialize hostname_ok (HelperHostname (port, hostname)) =
     Hostname (if hostname_ok hostname then hostname else []) port"

datatype socket_addr = SocketV4 bytes u16 | SocketV6 bytes u16 u32 u32

fun socket_addr_try_from :: "socket_address \<Rightarrow> socket_addr outcome" where
  "socket_addr_try_from (TcpIpV4 addr port) = Ok (SocketV4 addr port)"
| "socket_addr_try_from (TcpIpV6 addr port) = Ok (SocketV6 addr port 0 0)"
| "socket_addr_try_from _ = Err (Msg ''unsupported address type'')"

section \<open>Connections\<close>

type_synonym peer_list = "(pubkey \<times> socket_address option) list"

definition peer_is_connected :: "peer_list \<Rightarrow> pubkey \<Rightarrow> bool" where
  "peer_is_connected peers k \<longleftrightarrow> (\<exists>p \<in> set peers. fst p = k)"

text \<open>The function \<open>connect_peer\<close>: convert the address, connect, store the peer.\<close>

definition connect_outbound_peer ::
  "(socket_address \<Rightarrow> bytes) \<Rightarrow> (pubkey \<Rightarrow> socket_addr \<Rightarrow> bool) \<Rightarrow> pubkey \<Rightarrow> socket_address \<Rightarrow> ldk_database \<Rightarrow>
   ldk_database outcome" where
  "connect_outbound_peer enc outbound k address db =
     bind_outcome (socket_addr_try_from address) (\<lambda>skt.
       if outbound k skt then persist_peer enc \<lparr>peer_public_key = k, peer_address = address\<rparr> db
       else Err (Msg ''Could not connect to peer''))"

text \<open>The wait of the method \<open>connect_peer\<close>: what each turn of its loop sees, whether the peer is connected
  and whether the task of the connection has finished. \<open>None\<close> is a call that still waits.\<close>

fun await_connected :: "(bool \<times> bool) list \<Rightarrow> unit outcome option" where
  "await_connected [] = None"
| "await_connected ((conn, finished) # rest) =
     (if conn then Some (Ok ()) else if finished then Some (Err (Msg ''Peer disconnected'')) else await_connected rest)"

definition connect_peer ::
  "(socket_address \<Rightarrow> bytes) \<Rightarrow> (pubkey \<Rightarrow> socket_addr \<Rightarrow> bool) \<Rightarrow> peer_list \<Rightarrow> (bool \<times> bool) list \<Rightarrow>
   pubkey \<Rightarrow> socket_address \<Rightarrow> ldk_database \<Rightarrow> ldk_database \<times> unit outcome option" where
  "connect_peer enc outbound peers turns k address db =
     (if peer_is_connected peers k then (db, Some (Ok ()))
      else case connect_outbound_peer enc outbound k address db of
        Ok db' \<Rightarrow> (db', await_connected turns)
      | Err e \<Rightarrow> (db, Some (Err e))
      | Panic \<Rightarrow> (db, Some Panic))"

text \<open>One turn of \<open>keep_channel_peers_connected\<close>: the peers of the channels that are not connected, in the
  order of the channels, with repetitions. The result lists the addresses that were tried.\<close>

definition unconnected_channel_peers :: "peer_list \<Rightarrow> channel_details list \<Rightarrow> pubkey list" where
  "unconnected_channel_peers peers channels =
     filter (\<lambda>k. \<not> peer_is_connected peers k) (map cd_counterparty_node_id channels)"

fun reconnect_peers ::
  "(socket_address \<Rightarrow> bytes) \<Rightarrow> (bytes \<Rightarrow> pubkey option) \<Rightarrow> (bytes \<Rightarrow> socket_address option outcome) \<Rightarrow>
   (pubkey \<Rightarrow> socket_addr \<Rightarrow> bool) \<Rightarrow> pubkey list \<Rightarrow> ldk_database \<Rightarrow>
   ldk_database \<times> (pubkey \<times> socket_address) list" where
  "reconnect_peers enc from_slice addr_read outbound [] db = (db, [])"
| "reconnect_peers enc from_slice addr_read outbound (k # ks) db =
     (case fetch_peer from_slice addr_read k db of
        Ok (Some p) \<Rightarrow>
          (let db' = (case connect_outbound_peer enc outbound (peer_public_key p) (peer_address p) db of
                        Ok d \<Rightarrow> d | _ \<Rightarrow> db)
           in case reconnect_peers enc from_slice addr_read outbound ks db' of
                (db'', tried) \<Rightarrow> (db'', (peer_public_key p, peer_address p) # tried))
      | _ \<Rightarrow> reconnect_peers enc from_slice addr_read outbound ks db)"

definition keep_channel_peers_turn ::
  "(socket_address \<Rightarrow> bytes) \<Rightarrow> (bytes \<Rightarrow> pubkey option) \<Rightarrow> (bytes \<Rightarrow> socket_address option outcome) \<Rightarrow>
   (pubkey \<Rightarrow> socket_addr \<Rightarrow> bool) \<Rightarrow> peer_list \<Rightarrow> channel_details list \<Rightarrow> ldk_database \<Rightarrow>
   ldk_database \<times> (pubkey \<times> socket_address) list" where
  "keep_channel_peers_turn enc from_slice addr_read outbound peers channels db =
     reconnect_peers enc from_slice addr_read outbound (unconnected_channel_peers peers channels) db"

definition disconnect_and_drop_by_node_id :: "pubkey \<Rightarrow> peer_list \<Rightarrow> ldk_database \<Rightarrow> peer_list \<times> ldk_database outcome" where
  "disconnect_and_drop_by_node_id k peers db = (filter (\<lambda>p. fst p \<noteq> k) peers, delete_peer k db)"

text \<open>The announcement of the node. \<open>from_hex\<close> decodes the text of three bytes.\<close>

definition broadcast_node_announcement_from_settings ::
  "(string \<Rightarrow> bytes option) \<Rightarrow> bytes \<Rightarrow> string \<Rightarrow> socket_address list \<Rightarrow> (bytes \<times> bytes \<times> socket_address list) outcome" where
  "broadcast_node_announcement_from_settings from_hex node_alias color addresses =
     (if 32 < length node_alias then Panic
      else Ok (case from_hex color of Some c \<Rightarrow> c | None \<Rightarrow> [110, 44, 247],
               node_alias @ replicate (32 - length node_alias) 0, addresses))"

section \<open>Correctness\<close>

lemma socket_address_roundtrip:
  "(\<forall>h p. a = Hostname h p \<longrightarrow> hostname_ok h) \<Longrightarrow> socket_address_deserialize hostname_ok (socket_address_serialize a) = a"
  by (cases a) simp_all

lemma persist_peer_same:
  assumes "db_inv db" and "tbl_find peer_row_key (k, enc a) (t_peers db) = Some r" and "\<not> db_closed db"
  shows "persist_peer enc \<lparr>peer_public_key = k, peer_address = a\<rparr> db = Ok db"
proof -
  have r: "r \<in> set (t_peers db)" "peer_row_key r = (k, enc a)"
    using tbl_find_SomeD [OF assms(2)] by auto
  then have mem: "(k, enc a) \<in> peer_row_key ` set (t_peers db)" by force
  have "map (\<lambda>x. if peer_row_key x = (k, enc a) then \<lparr>pe_public_key = k, pe_address = enc a\<rparr> else x) (t_peers db) = t_peers db"
    by (rule map_idI) (auto simp: peer_row_key_def)
  with mem assms(3) show ?thesis
    by (simp add: persist_peer_def Let_def tbl_upsert_def peer_row_key_def)
qed

text \<open>The rows of \<open>peers\<close> hold what the code wrote: a public key, and the encoding of an address.\<close>

definition peers_wf ::
  "(socket_address \<Rightarrow> bytes) \<Rightarrow> (bytes \<Rightarrow> pubkey option) \<Rightarrow> (bytes \<Rightarrow> socket_address option outcome) \<Rightarrow> ldk_database \<Rightarrow> bool" where
  "peers_wf enc from_slice addr_read db \<longleftrightarrow> (\<forall>r \<in> set (t_peers db).
     from_slice (pe_public_key r) = Some (pe_public_key r) \<and>
     (\<exists>a. addr_read (pe_address r) = Ok (Some a) \<and> enc a = pe_address r))"

text \<open>The address a turn tries for a peer: the stored one, when there is exactly one.\<close>

definition reconnect_target ::
  "(bytes \<Rightarrow> socket_address option outcome) \<Rightarrow> ldk_database \<Rightarrow> pubkey \<Rightarrow> (pubkey \<times> socket_address) list" where
  "reconnect_target addr_read db k =
     (case filter (\<lambda>r. pe_public_key r = k) (t_peers db) of
        [r] \<Rightarrow> (case addr_read (pe_address r) of Ok (Some a) \<Rightarrow> [(k, a)] | _ \<Rightarrow> [])
      | _ \<Rightarrow> [])"

lemma filter_single: "filter P xs = [x] \<Longrightarrow> x \<in> set xs \<and> P x"
  by (auto simp: filter_eq_Cons_iff)

lemma connect_stored_peer:
  assumes "db_inv db" and "\<not> db_closed db" and "r \<in> set (t_peers db)" and "enc a = pe_address r"
    and "connect_outbound_peer enc outbound (pe_public_key r) a db = Ok db'"
  shows "db' = db"
proof -
  have d: "keys_distinct peer_row_key (t_peers db)" using assms(1) by (simp add: db_inv_def)
  have "tbl_find peer_row_key (pe_public_key r, enc a) (t_peers db) = Some r"
    using tbl_find_distinct [OF d assms(3)] assms(4) by (simp add: peer_row_key_def)
  from persist_peer_same [where enc = enc, OF assms(1) this assms(2)] assms(5) show ?thesis
    by (auto simp: connect_outbound_peer_def outcome_simps split: if_splits)
qed

lemma reconnect_peers_tried:
  assumes "db_inv db" and "\<not> db_closed db" and "peers_wf enc from_slice addr_read db"
  shows "reconnect_peers enc from_slice addr_read outbound ks db = (db, concat (map (reconnect_target addr_read db) ks))"
proof (induction ks)
  case (Cons k ks)
  let ?rows = "filter (\<lambda>r. pe_public_key r = k) (t_peers db)"
  consider (one) r where "?rows = [r]" | (none) "?rows = []" | (more) x y zs where "?rows = x # y # zs"
    by (metis list.exhaust)
  then show ?case
  proof cases
    case one
    with filter_single [OF one] assms(3) obtain a where
      r: "r \<in> set (t_peers db)" "pe_public_key r = k" "from_slice k = Some k" "addr_read (pe_address r) = Ok (Some a)"
        "enc a = pe_address r"
      unfolding peers_wf_def by blast
    have "fetch_peer from_slice addr_read k db = Ok (Some \<lparr>peer_public_key = k, peer_address = a\<rparr>)"
      using assms(2) one r by (simp add: fetch_peer_def query_opt_def peer_deserialize_def)
    moreover have "(case connect_outbound_peer enc outbound k a db of Ok d \<Rightarrow> d | _ \<Rightarrow> db) = db"
      using connect_stored_peer [where enc = enc, OF assms(1,2) r(1,5)] r(2) by (auto split: outcome.splits)
    ultimately show ?thesis
      using Cons one r by (simp add: Let_def reconnect_target_def)
  next
    case none
    then have "fetch_peer from_slice addr_read k db = Ok None"
      using assms(2) by (simp add: fetch_peer_def query_opt_def)
    with Cons none show ?thesis by (simp add: reconnect_target_def)
  next
    case more
    then have "fetch_peer from_slice addr_read k db = Err DbRowCount"
      using assms(2) by (simp add: fetch_peer_def query_opt_def)
    with Cons more show ?thesis by (simp add: reconnect_target_def)
  qed
qed simp

text \<open>A turn of \<open>keep_channel_peers_connected\<close> tries every peer of a channel that is not connected and has
  exactly one stored address, at that address, and no other peer; it leaves the database as it is. A
  peer with two stored addresses is never tried.\<close>

theorem keep_channel_peers_tries:
  assumes "db_inv db" and "\<not> db_closed db" and "peers_wf enc from_slice addr_read db"
  shows "keep_channel_peers_turn enc from_slice addr_read outbound peers channels db =
    (db, concat (map (reconnect_target addr_read db) (unconnected_channel_peers peers channels)))"
  by (simp add: keep_channel_peers_turn_def reconnect_peers_tried [OF assms])

definition sample_peer_db :: ldk_database where
  "sample_peer_db = empty_db\<lparr>t_peers :=
     [\<lparr>pe_public_key = [2], pe_address = [1, 127, 0, 0, 1]\<rparr>, \<lparr>pe_public_key = [3], pe_address = [1, 10, 0, 0, 1]\<rparr>,
      \<lparr>pe_public_key = [3], pe_address = [1, 10, 0, 0, 2]\<rparr>]\<rparr>"

definition sample_channel_with :: "pubkey \<Rightarrow> channel_details" where
  "sample_channel_with k =
     \<lparr>cd_channel_id = replicate 32 3, cd_counterparty_node_id = k, cd_counterparty_reserve = 1000,
      cd_funding_txo = None, cd_short_channel_id = Some 42, cd_channel_value_satoshis = 100000, cd_reserve = None,
      cd_user_channel_id = 1, cd_balance_msat = 60000000, cd_outbound_capacity_msat = 59000000,
      cd_inbound_capacity_msat = 39000000, cd_is_outbound = True, cd_is_channel_ready = True, cd_is_usable = True,
      cd_is_public = True, cd_config = None\<rparr>"

theorem keep_channel_peers_tries_witness:
  "keep_channel_peers_turn sample_addr_encode Some (\<lambda>b. Ok (Some (TcpIpV4 (tl b) 80))) (\<lambda>_ _. True) []
     [sample_channel_with [2], sample_channel_with [3]] sample_peer_db = (sample_peer_db, [([2], TcpIpV4 [127, 0, 0, 1] 80)])"
proof -
  have i: "db_inv sample_peer_db"
    by (simp add: sample_peer_db_def empty_db_def db_inv_def keys_distinct_def peer_row_key_def labels_unique_def)
  have o: "\<not> db_closed sample_peer_db" by (simp add: sample_peer_db_def empty_db_def)
  have w: "peers_wf sample_addr_encode Some (\<lambda>b. Ok (Some (TcpIpV4 (tl b) 80))) sample_peer_db"
    by (simp add: peers_wf_def sample_peer_db_def sample_addr_encode_def)
  show ?thesis
    unfolding keep_channel_peers_tries [OF i o w]
    by (simp add: unconnected_channel_peers_def peer_is_connected_def sample_channel_with_def reconnect_target_def
        sample_peer_db_def)
qed

end
