(* ===== verification/Controller.thy ===== *)
theory Controller
  imports Event_Handler Bitcoind Peer_Manager
begin

text \<open>
  The operations of the node that the API calls (\<open>Controller\<close> of \<^verbatim>\<open>ldk/controller.rs\<close>).  Those that wait
  for an event are given as the steps between their \<open>await\<close>s, so that events and other requests
  can come in between: \<open>pay_invoice\<close>, \<open>keysend_payment\<close> and \<open>open_channel\<close> first call LDK, then
  store what they have to, and only then register the request that the event will answer.
  What LDK returns is an argument.
\<close>

section \<open>Channel counts, fees and closing\<close>

definition num_active_channels :: "channel_details list \<Rightarrow> nat" where
  "num_active_channels cs = length (filter cd_is_usable cs)"

definition num_inactive_channels :: "channel_details list \<Rightarrow> nat" where
  "num_inactive_channels cs = length (filter (\<lambda>c. cd_is_channel_ready c \<and> \<not> cd_is_usable c) cs)"

definition num_pending_channels :: "channel_details list \<Rightarrow> nat" where
  "num_pending_channels cs = length (filter (\<lambda>c. \<not> cd_is_channel_ready c) cs)"

text \<open>The call that \<open>close_channel\<close> and \<open>force_close_channel\<close> make to LDK, once the bitcoin node is
  synchronised.\<close>

datatype close_call =
    CloseWithFeerate bytes pubkey u32
  | CloseCooperative bytes pubkey
  | ForceCloseBroadcasting bytes pubkey
  | ForceCloseSilently bytes pubkey

definition controller_close_channel ::
  "bool \<Rightarrow> (close_call \<Rightarrow> unit outcome) \<Rightarrow> bytes \<Rightarrow> pubkey \<Rightarrow> u32 option \<Rightarrow> unit outcome" where
  "controller_close_channel synchronised ldk channel_id counterparty rate =
     (if \<not> synchronised then Err (Msg ''Bitcoind is synchronising blockchain'')
      else case rate of
        Some r \<Rightarrow> ldk (CloseWithFeerate channel_id counterparty r)
      | None \<Rightarrow> ldk (CloseCooperative channel_id counterparty))"

definition force_close_channel ::
  "bool \<Rightarrow> (close_call \<Rightarrow> unit outcome) \<Rightarrow> bytes \<Rightarrow> pubkey \<Rightarrow> bool \<Rightarrow> unit outcome" where
  "force_close_channel synchronised ldk channel_id counterparty with_broadcast =
     (if \<not> synchronised then Err (Msg ''Bitcoind is synchronising blockchain'')
      else if with_broadcast then ldk (ForceCloseBroadcasting channel_id counterparty)
      else ldk (ForceCloseSilently channel_id counterparty))"

text \<open>\<open>set_channel_fee\<close> starts from the default configuration of the node, not from that of the channels.\<close>

definition set_channel_fee ::
  "channel_config \<Rightarrow> (pubkey \<Rightarrow> bytes list \<Rightarrow> channel_config \<Rightarrow> unit outcome) \<Rightarrow> pubkey \<Rightarrow> bytes list \<Rightarrow>
   u32 option \<Rightarrow> u32 option \<Rightarrow> (u32 \<times> u32) outcome" where
  "set_channel_fee defaults update counterparty channel_ids ppm base =
     (let c1 = (case ppm of Some fee \<Rightarrow> defaults\<lparr>cfg_forwarding_fee_proportional_millionths := fee\<rparr> | None \<Rightarrow> defaults);
          c2 = (case base of Some fee \<Rightarrow> c1\<lparr>cfg_forwarding_fee_base_msat := fee\<rparr> | None \<Rightarrow> c1)
      in bind_outcome (update counterparty channel_ids c2) (\<lambda>_.
           Ok (cfg_forwarding_fee_base_msat c2, cfg_forwarding_fee_proportional_millionths c2)))"

section \<open>Peers\<close>

datatype peer_status = Connected | Disconnected

record peer_info =
  pi_public_key :: pubkey
  pi_net_address :: "socket_address option"
  pi_status :: peer_status
  pi_alias :: string

text \<open>The connected peers are pairs of a key and the address of the connection, which an inbound connection may
  lack. The set of keys is listed in some order; the model takes the order of first occurrence.\<close>

definition peer_response ::
  "(pubkey \<times> socket_address option) list \<Rightarrow> (pubkey \<Rightarrow> string option) \<Rightarrow> pubkey \<Rightarrow> peer_info" where
  "peer_response peers alias_of k =
     (let addr = Option.bind (List.find (\<lambda>p. fst p = k) peers) snd
      in \<lparr>pi_public_key = k, pi_net_address = addr,
          pi_status = (if addr \<noteq> None then Connected else Disconnected),
          pi_alias = (case alias_of k of Some a \<Rightarrow> a | None \<Rightarrow> [])\<rparr>)"

definition list_peers ::
  "(pubkey \<times> socket_address option) list \<Rightarrow> channel_details list \<Rightarrow> (pubkey \<Rightarrow> string option) \<Rightarrow>
   pubkey list outcome \<Rightarrow> peer_info list outcome" where
  "list_peers peers channels alias_of persistent =
     bind_outcome persistent (\<lambda>stored.
       Ok (map (peer_response peers alias_of)
         (remdups (map fst peers @ map cd_counterparty_node_id channels @ stored))))"

text \<open>\<open>connect_peer\<close> without an address tries the IPv4 addresses of the graph one by one; \<open>connect\<close> is
  \<open>PeerManager::connect_peer\<close>, whose attempts the result lists.\<close>

fun try_addresses :: "(socket_address \<Rightarrow> unit outcome) \<Rightarrow> socket_address list \<Rightarrow> unit outcome" where
  "try_addresses connect [] = Err (Msg ''Could not connect to any peer addresses.'')"
| "try_addresses connect (a # as) = (case connect a of Ok u \<Rightarrow> Ok u | Err e \<Rightarrow> try_addresses connect as | Panic \<Rightarrow> Panic)"

definition controller_connect_peer ::
  "(pubkey \<Rightarrow> socket_address list option) \<Rightarrow> (socket_address \<Rightarrow> unit outcome) \<Rightarrow> pubkey \<Rightarrow> socket_address option \<Rightarrow>
   unit outcome" where
  "controller_connect_peer graph_addresses connect k addr =
     (case addr of
        Some a \<Rightarrow> connect a
      | None \<Rightarrow> bind_outcome (ok_or (Msg ''No addresses found for node'') (graph_addresses k)) (\<lambda>as.
          try_addresses connect (filter is_ipv4 as)))"

section \<open>Payments\<close>

text \<open>The place of a payment request between two \<open>await\<close>s. \<open>PayDone\<close> holds what the caller gets.\<close>

datatype payment_call =
    PaySent "invoice option" payment
    \<comment> \<open>given to LDK; the invoice, if any, is still to be stored\<close>
  | PayInvoiceStored payment
  | PayStored payment
  | PayWaiting nat
  | PayAnswered payment
  | PayDone "payment outcome"

text \<open>The first step of \<open>pay_invoice\<close>: \<open>send\<close> is the result of LDK's \<open>send_payment\<close>.\<close>

definition pay_invoice_start ::
  "event_env \<Rightarrow> (bytes \<Rightarrow> u64 \<Rightarrow> unit outcome) \<Rightarrow> invoice \<Rightarrow> string option \<Rightarrow> payment_call" where
  "pay_invoice_start env send i label =
     (let payment = of_invoice_outbound (ee_random env) (ee_now env) (inv_bolt11 i) label
      in case inv_amount i of
        None \<Rightarrow> PayDone (Err (Msg ''amount missing from invoice''))
      | Some amount \<Rightarrow>
          (case send (pay_id payment) amount of
             Ok _ \<Rightarrow> PaySent (Some i) payment
           | Err e \<Rightarrow> PayDone (Err e)
           | Panic \<Rightarrow> PayDone Panic))"

text \<open>The result of LDK's \<open>send_spontaneous_payment\<close>; of a partial failure, whether each path is well or only
  waits for its monitor, which is stored asynchronously.\<close>

datatype path_result = PathOk | PathMonitorInProgress | PathError

datatype send_result = SendOk | SendPartialFailure "path_result list" | SendOther

definition keysend_start ::
  "event_env \<Rightarrow> unit outcome \<Rightarrow> (bytes \<Rightarrow> send_result) \<Rightarrow> u64 \<Rightarrow> payment_call" where
  "keysend_start env route send amount =
     (case route of
        Err e \<Rightarrow> PayDone (Err e)
      | Panic \<Rightarrow> PayDone Panic
      | Ok _ \<Rightarrow>
          (let pid = ee_random env; go = PaySent None (spontaneous_outbound (ee_now env) pid amount)
           in case send pid of
             SendOk \<Rightarrow> go
           | SendPartialFailure rs \<Rightarrow>
               if \<forall>r \<in> set rs. r \<noteq> PathError then go
               else PayDone (Err (Msg ''Payment failed: Partial failure. Check logs for more details.''))
           | SendOther \<Rightarrow> PayDone (Err (Msg ''Payment failure''))))"

text \<open>The rest of \<open>pay_invoice\<close> and \<open>keysend_payment\<close>, one step for each \<open>await\<close>. A step of a call that
  waits leaves everything as it is until the answer is there.\<close>

fun payment_step :: "payment_call \<Rightarrow> node \<Rightarrow> payment_call \<times> node" where
  "payment_step (PaySent (Some i) p) n =
     (case persist_invoice i (n_db n) of
        Ok db \<Rightarrow> (PayInvoiceStored p, n\<lparr>n_db := db\<rparr>) | Err e \<Rightarrow> (PayDone (Err e), n) | Panic \<Rightarrow> (PayDone Panic, n))"
| "payment_step (PaySent None p) n = (PayInvoiceStored p, n)"
| "payment_step (PayInvoiceStored p) n =
     (case persist_payment p (n_db n) of
        Ok db \<Rightarrow> (PayStored p, n\<lparr>n_db := db\<rparr>) | Err e \<Rightarrow> (PayDone (Err e), n) | Panic \<Rightarrow> (PayDone Panic, n))"
| "payment_step (PayStored p) n =
     (case senders_insert (pay_id p) p (n_payments n) of (s, c) \<Rightarrow> (PayWaiting c, n\<lparr>n_payments := s\<rparr>))"
| "payment_step (PayWaiting c) n =
     (case receive c (n_payments n) of
        None \<Rightarrow> (PayWaiting c, n)
      | Some (Ok (Ok p)) \<Rightarrow> (PayAnswered p, n)
      | Some (Ok (Err e)) \<Rightarrow> (PayDone (Err e), n)
      | Some (Ok Panic) \<Rightarrow> (PayDone Panic, n)
      | Some (Err e) \<Rightarrow> (PayDone (Err e), n)
      | Some Panic \<Rightarrow> (PayDone Panic, n))"
| "payment_step (PayAnswered p) n =
     (case persist_payment p (n_db n) of
        Ok db \<Rightarrow> (PayDone (Ok p), n\<lparr>n_db := db\<rparr>) | Err e \<Rightarrow> (PayDone (Err e), n) | Panic \<Rightarrow> (PayDone Panic, n))"
| "payment_step (PayDone r) n = (PayDone r, n)"

section \<open>Opening a channel\<close>

datatype open_call =
    OpenCreated bytes bool pubkey u64 fee_rate
    \<comment> \<open>channel id, public, counterparty, user channel id\<close>
  | OpenWaiting nat bytes bool pubkey
  | OpenFunded raw_tx bytes bool pubkey
  | OpenDone "(raw_tx \<times> bytes \<times> bytes) outcome"
    \<comment> \<open>transaction, its id, channel id\<close>

definition open_channel_start ::
  "bool \<Rightarrow> bool \<Rightarrow> u64 \<Rightarrow> (pubkey \<Rightarrow> u64 \<Rightarrow> u64 \<Rightarrow> u128 \<Rightarrow> bytes outcome) \<Rightarrow> pubkey \<Rightarrow> u64 \<Rightarrow> u64 option \<Rightarrow>
   fee_rate option \<Rightarrow> bool option \<Rightarrow> open_call" where
  "open_channel_start synchronised peer_connected random ldk_create counterparty val push_msat rate announced =
     (if \<not> synchronised then OpenDone (Err (Msg ''Bitcoind is synchronising blockchain''))
      else if \<not> peer_connected then OpenDone (Err (Msg ''Peer not connected''))
      else
        (let user_channel_id = random div 2;
             is_public = (case announced of Some b \<Rightarrow> b | None \<Rightarrow> False)
         in case ldk_create counterparty val (case push_msat of Some m \<Rightarrow> m | None \<Rightarrow> 0) (ucast user_channel_id) of
              Ok channel_id \<Rightarrow> OpenCreated channel_id is_public counterparty user_channel_id
                  (case rate of Some r \<Rightarrow> r | None \<Rightarrow> fee_rate_default)
            | Err e \<Rightarrow> OpenDone (Err e)
            | Panic \<Rightarrow> OpenDone Panic))"

fun open_step :: "(raw_tx \<Rightarrow> bytes) \<Rightarrow> primitive_date_time \<Rightarrow> open_call \<Rightarrow> node \<Rightarrow> open_call \<times> node" where
  "open_step txid_of server_now (OpenCreated channel_id is_public counterparty user_channel_id rate) n =
     (case senders_insert user_channel_id rate (n_funding n) of
        (s, c) \<Rightarrow> (OpenWaiting c channel_id is_public counterparty, n\<lparr>n_funding := s\<rparr>))"
| "open_step txid_of server_now (OpenWaiting c channel_id is_public counterparty) n =
     (case receive c (n_funding n) of
        None \<Rightarrow> (OpenWaiting c channel_id is_public counterparty, n)
      | Some (Ok (Ok tx)) \<Rightarrow> (OpenFunded tx channel_id is_public counterparty, n)
      | Some (Ok (Err e)) \<Rightarrow> (OpenDone (Err e), n)
      | Some (Ok Panic) \<Rightarrow> (OpenDone Panic, n)
      | Some (Err e) \<Rightarrow> (OpenDone (Err e), n)
      | Some Panic \<Rightarrow> (OpenDone Panic, n))"
| "open_step txid_of server_now (OpenFunded tx channel_id is_public counterparty) n =
     (OpenDone (Ok (tx, txid_of tx, channel_id)),
      n\<lparr>n_db := (case persist_initializing_channel server_now channel_id is_public counterparty (txid_of tx) (n_db n) of
                   Ok db \<Rightarrow> db | _ \<Rightarrow> n_db n)\<rparr>)"
| "open_step txid_of server_now (OpenDone r) n = (OpenDone r, n)"

section \<open>Invoices and channel records\<close>

definition DEFAULT_EXPIRY_TIME :: u32 where
  "DEFAULT_EXPIRY_TIME = 3600"

definition generate_invoice ::
  "(u64 option \<Rightarrow> string \<Rightarrow> u32 \<Rightarrow> bolt11_invoice outcome) \<Rightarrow> string \<Rightarrow> u64 option \<Rightarrow> string \<Rightarrow> u32 option \<Rightarrow> ldk_database \<Rightarrow> (ldk_database \<times> invoice) outcome" where
  "generate_invoice create label amount description expiry db =
     bind_outcome (create amount description (case expiry of Some e \<Rightarrow> e | None \<Rightarrow> DEFAULT_EXPIRY_TIME)) (\<lambda>bolt11.
     bind_outcome (invoice_new (Some label) bolt11) (\<lambda>i.
     bind_outcome (persist_invoice i db) (\<lambda>db'. Ok (db', i))))"

fun update_channels ::
  "(channel_details \<Rightarrow> bytes) \<Rightarrow> offset_date_time \<Rightarrow> primitive_date_time \<Rightarrow> channel_details list \<Rightarrow> ldk_database \<Rightarrow>
   ldk_database" where
  "update_channels enc now server_now [] db = db"
| "update_channels enc now server_now (c # cs) db =
     update_channels enc now server_now cs
       (case persist_channel enc now server_now c db of Ok db' \<Rightarrow> db' | _ \<Rightarrow> db)"

section \<open>The liquidity service\<close>

datatype lsps2_event =
    GetInfo bytes pubkey "string option"
    \<comment> \<open>request id, counterparty, token\<close>
  | BuyRequest bytes pubkey "u64 option"
    \<comment> \<open>request id, counterparty, payment size\<close>
  | OtherLspsEvent

record opening_fee_params =
  of_min_fee_msat :: u64
  of_proportional :: u32
  of_valid_until :: int
  of_min_lifetime :: u32
  of_max_client_to_self_delay :: u32
  of_min_payment_size_msat :: u64
  of_max_payment_size_msat :: u64

datatype lsps2_call =
    OpeningFeeParamsGenerated pubkey bytes opening_fee_params
  | InvalidTokenProvided pubkey bytes
  | InvoiceParametersGenerated pubkey bytes u64 u32 bool u128
    \<comment> \<open>counterparty, request id, scid, cltv delta, client trusts lsp, user channel id\<close>

definition jit_user_channel_id :: "u64 \<Rightarrow> u128" where
  "jit_user_channel_id random = ucast (random div 2 + 9223372036854775808)"

text \<open>The order of \<open>Option\<close>: \<open>None\<close> is below every \<open>Some\<close>.\<close>

definition option_le :: "u64 option \<Rightarrow> u64 option \<Rightarrow> bool" where
  "option_le a b = (case (a, b) of (None, _) \<Rightarrow> True | (Some _, None) \<Rightarrow> False | (Some x, Some y) \<Rightarrow> x \<le> y)"

definition lsps2_respond :: "int \<Rightarrow> u64 \<Rightarrow> u64 \<Rightarrow> lsps2_event \<Rightarrow> lsps2_call option" where
  "lsps2_respond now_secs random intercept_scid e =
     (case e of
        GetInfo request_id counterparty token \<Rightarrow>
          if token = Some ''kuutamo''
          then Some (OpeningFeeParamsGenerated counterparty request_id
            \<lparr>of_min_fee_msat = 0, of_proportional = 0, of_valid_until = now_secs + 600, of_min_lifetime = - 1,
             of_max_client_to_self_delay = 3600, of_min_payment_size_msat = 0, of_max_payment_size_msat = 1000001\<rparr>)
          else Some (InvalidTokenProvided counterparty request_id)
      | BuyRequest request_id counterparty payment_size \<Rightarrow>
          if option_le payment_size (Some 1000001)
          then Some (InvoiceParametersGenerated counterparty request_id intercept_scid 9 True (jit_user_channel_id random))
          else None
      | OtherLspsEvent \<Rightarrow> None)"

section \<open>Probing\<close>

text \<open>What \<open>send_probe\<close> tells the scorer about a path: the hops are short channel ids. \<open>send\<close> is whether LDK
  sends the probe.\<close>

datatype probe_report =
    ProbeSucceeded "u64 list"
  | ProbeFailedAt "u64 list" u64
    \<comment> \<open>the path up to the channel, the channel\<close>
  | ProbeUnknown

text \<open>The loop after a failure, on the hops that remain: the last hop is taken off, and when the rest is not empty
  and can be probed, the hop is blamed.\<close>

function probe_backwards :: "(u64 list \<Rightarrow> bool) \<Rightarrow> u64 list \<Rightarrow> probe_report" where
  "probe_backwards send hops =
     (if hops = [] then ProbeUnknown
      else let popped = last hops; rest = butlast hops
        in if rest \<noteq> [] \<and> send rest then ProbeFailedAt (rest @ [popped]) popped
           else probe_backwards send rest)"
  by pat_completeness auto
termination
  by (relation "measure (\<lambda>(send, hops). length hops)") auto

declare probe_backwards.simps [simp del]

definition probe_path :: "(u64 list \<Rightarrow> bool) \<Rightarrow> u64 list \<Rightarrow> probe_report" where
  "probe_path send hops = (if send hops then ProbeSucceeded hops else probe_backwards send hops)"

text \<open>The counters of probes in total, sent, and failed.\<close>

record probe_metrics =
  pm_total :: u64
  pm_successful :: u64
  pm_failed :: u64

fun send_probe ::
  "(u64 list \<Rightarrow> bool) \<Rightarrow> u64 list list \<Rightarrow> probe_metrics \<Rightarrow> probe_metrics \<times> probe_report list" where
  "send_probe send [] m = (m, [])"
| "send_probe send (path # paths) m =
     (let m' = m\<lparr>pm_total := pm_total m + 1\<rparr>;
          m'' = (if send path then m'\<lparr>pm_successful := pm_successful m' + 1\<rparr> else m'\<lparr>pm_failed := pm_failed m' + 1\<rparr>)
      in case send_probe send paths m'' of (m3, rs) \<Rightarrow> (m3, probe_path send path # rs))"

end
