(* ===== verification/Controller_Correct.thy ===== *)
theory Controller_Correct
  imports Controller
begin

text \<open>
  Payments and channel openings from the request to its answer, with any number of other requests and
  events in between, and what the event handler leaves in the database.
\<close>

section \<open>What the steps of the handler keep\<close>

lemma node_bind_fst: "fst (node_bind m f n) = (case m n of (n', Ok x) \<Rightarrow> fst (f x n') | (n', _) \<Rightarrow> n')"
  by (simp add: node_bind_def split: prod.splits outcome.splits)

lemma node_bind_lift_Ok: "node_bind (node_lift (Ok x)) f = f x"
  by (simp add: fun_eq_iff node_bind_def node_lift_def)

text \<open>A step keeps a part of the state.\<close>

definition keeps :: "(node \<Rightarrow> 'p) \<Rightarrow> 'a node_step \<Rightarrow> bool" where
  "keeps part m \<longleftrightarrow> (\<forall>n. part (fst (m n)) = part n)"

named_theorems keeps_intros "steps that keep a part of the state"

lemma keepsD: "keeps part m \<Longrightarrow> part (fst (m n)) = part n"
  by (simp add: keeps_def)

lemma keeps_return [keeps_intros]: "keeps part (node_return x)"
  by (simp add: keeps_def node_return_def)

lemma keeps_lift [keeps_intros]: "keeps part (node_lift r)"
  by (simp add: keeps_def node_lift_def)

lemma keeps_bind [keeps_intros]:
  assumes "keeps part m" and "\<And>x. keeps part (f x)"
  shows "keeps part (node_bind m f)"
  unfolding keeps_def node_bind_fst using assms
  by (auto simp: keeps_def split: prod.splits outcome.splits) (metis fst_conv)+

lemma keeps_option [keeps_intros]:
  "keeps part g \<Longrightarrow> (\<And>x. keeps part (f x)) \<Longrightarrow> keeps part (case o' of None \<Rightarrow> g | Some x \<Rightarrow> f x)"
  by (cases o') simp_all

lemma keeps_outcome [keeps_intros]:
  "(\<And>x. keeps part (f x)) \<Longrightarrow> (\<And>e. keeps part (g e)) \<Longrightarrow> keeps part h \<Longrightarrow>
   keeps part (case r of Ok x \<Rightarrow> f x | Err e \<Rightarrow> g e | Panic \<Rightarrow> h)"
  by (cases r) simp_all

lemma keeps_prod [keeps_intros]: "(\<And>x y. keeps part (f x y)) \<Longrightarrow> keeps part (case p of (x, y) \<Rightarrow> f x y)"
  by (cases p) simp_all

lemma keeps_if [keeps_intros]: "keeps part f \<Longrightarrow> keeps part g \<Longrightarrow> keeps part (if b then f else g)"
  by simp

lemma keeps_purpose [keeps_intros]:
  "(\<And>x y. keeps part (f x y)) \<Longrightarrow> (\<And>x. keeps part (g x)) \<Longrightarrow>
   keeps part (case p of InvoicePayment x y \<Rightarrow> f x y | SpontaneousPayment x \<Rightarrow> g x)"
  by (cases p) simp_all

lemma keeps_failure [keeps_intros]:
  "(\<And>x. keeps part (f x)) \<Longrightarrow> (\<And>x. keeps part (g x)) \<Longrightarrow>
   keeps part (case p of InitialSend x \<Rightarrow> f x | OnPath x \<Rightarrow> g x)"
  by (cases p) simp_all

lemma keeps_payments_basic [keeps_intros]:
  "keeps n_payments (node_call c)" "keeps n_payments (db_write f)" "keeps n_payments (db_write_logged f)"
  "keeps n_payments (take_funding k)" "keeps n_payments (answer_funding ch rv)" "keeps n_payments (spawn_forward fwd)"
  by (auto simp: keeps_def node_call_def db_write_def db_write_logged_def take_funding_def answer_funding_def
      spawn_forward_def senders_get_def split: outcome.splits)

lemma keeps_funding_basic [keeps_intros]:
  "keeps n_funding (node_call c)" "keeps n_funding (db_write f)" "keeps n_funding (db_write_logged f)"
  "keeps n_funding (take_payment i)" "keeps n_funding (answer_payment ch prv)" "keeps n_funding (spawn_forward fwd)"
  by (auto simp: keeps_def node_call_def db_write_def db_write_logged_def take_payment_def answer_payment_def
      spawn_forward_def senders_get_def split: outcome.splits)

lemma keeps_payments_outputs [keeps_intros]: "keeps n_payments (persist_outputs env cid spent ds)"
  by (induction ds) (auto intro: keeps_intros)

definition event_payment_id :: "ldk_event \<Rightarrow> bytes option" where
  "event_payment_id e =
     (case e of PaymentSent i _ _ _ \<Rightarrow> i | PaymentFailed i _ _ \<Rightarrow> Some i | _ \<Rightarrow> None)"

lemmas handler_defs =
  funding_generation_ready_def channel_pending_def channel_ready_def claim_payment_def payment_claimed_def
  payment_forwarded_def htlc_handling_failed_def pending_htlcs_forwardable_def spendable_outputs_def
  discard_funding_def payment_path_failed_def htlc_intercepted_def

lemma keeps_payments_closed [keeps_intros]: "keeps n_payments (channel_closed env cid uid reason)"
  unfolding channel_closed_def by (intro keeps_intros) (simp add: keeps_def)

lemma keeps_payments_handlers [keeps_intros]:
  "keeps n_payments (funding_generation_ready env tmp k v script uid)"
  "keeps n_payments (channel_pending env cid former k vout)"
  "keeps n_payments (channel_ready env cid uid k)"
  "keeps n_payments (claim_payment purpose)"
  "keeps n_payments (payment_claimed env h purpose a)"
  "keeps n_payments (payment_forwarded env pchan next fee amt)"
  "keeps n_payments (htlc_handling_failed env prev dest)"
  "keeps n_payments (pending_htlcs_forwardable env m)"
  "keeps n_payments (spendable_outputs env ds ochan)"
  "keeps n_payments (discard_funding env cid txid)"
  "keeps n_payments (payment_path_failed failure)"
  "keeps n_payments (htlc_intercepted iid scid h msat)"
  unfolding handler_defs by (intro keeps_intros)+

lemma payment_sent_none: "payment_sent None preimage hash fee = node_lift (Err (Msg ''Failed to update payment''))"
  by (simp add: payment_sent_def node_bind_def node_lift_def fun_eq_iff)

lemma keeps_payments_event:
  assumes "event_payment_id e = None"
  shows "keeps n_payments (handle_event env e)"
  using assms by (cases e) (simp_all add: event_payment_id_def payment_sent_none keeps_intros)

text \<open>The answer an event gives to the request of a payment.\<close>

fun event_answer :: "ldk_event \<Rightarrow> payment \<Rightarrow> payment" where
  "event_answer (PaymentSent i preimage hash fee) p = payment_succeeded hash preimage fee p"
| "event_answer (PaymentFailed i hash reason) p = payment_failed reason p"
| "event_answer _ p = p"

lemma take_answer:
  "node_bind (take_payment i) (\<lambda>(p, c). answer_payment c (Ok (g p))) n =
    (n\<lparr>n_payments := (case as_senders (n_payments n) i of
        None \<Rightarrow> n_payments n | Some (p, c) \<Rightarrow> senders_respond i (Ok (g p)) (n_payments n))\<rparr>,
     case as_senders (n_payments n) i of None \<Rightarrow> Err (Msg ''Can't find payment'') | Some _ \<Rightarrow> Ok ())"
  by (simp add: node_bind_def take_payment_def answer_payment_def senders_get_def senders_respond_def fun_upd_idem
      split: option.splits)

lemma payment_event_step:
  assumes "event_payment_id e = Some i"
  shows "handle_event env e = node_bind (take_payment i) (\<lambda>(p, c). answer_payment c (Ok (event_answer e p)))"
proof (cases e)
  case (PaymentSent i' preimage hash fee)
  with assms show ?thesis
    by (simp add: event_payment_id_def payment_sent_def node_bind_lift_Ok)
qed (use assms in \<open>simp_all add: event_payment_id_def payment_failed_event_def\<close>)

lemma payments_after_event:
  assumes "event_payment_id e = Some i"
  shows "n_payments (fst (handle_event env e n)) = (case as_senders (n_payments n) i of
      None \<Rightarrow> n_payments n | Some (p, c) \<Rightarrow> senders_respond i (Ok (event_answer e p)) (n_payments n))"
    and "snd (handle_event env e n) = (case as_senders (n_payments n) i of
      None \<Rightarrow> Err (Msg ''Can't find payment'') | Some _ \<Rightarrow> Ok ())"
    and "n_db (fst (handle_event env e n)) = n_db n"
  by (simp_all add: payment_event_step [OF assms] take_answer)

lemma pay_id_failed [simp]: "pay_id (payment_failed reason p) = pay_id p"
  by (cases "(reason, p)" rule: payment_failed.cases) auto

lemma pay_id_event_answer [simp]: "pay_id (event_answer e p) = pay_id p"
  by (cases e) (simp_all add: payment_succeeded_def)

section \<open>Other activity of the node\<close>

definition inserts_payment :: "payment_call \<Rightarrow> bytes option" where
  "inserts_payment call = (case call of PayStored p \<Rightarrow> Some (pay_id p) | _ \<Rightarrow> None)"

text \<open>Everything the node may do between two steps of a payment: events that are not about it, steps of other
  payments, steps of channel openings, and the storing of forwards.\<close>

inductive others :: "bytes \<Rightarrow> node \<Rightarrow> node \<Rightarrow> bool" for pid where
  others_refl: "others pid n n"
| others_event: "others pid n n' \<Longrightarrow> event_payment_id e \<noteq> Some pid \<Longrightarrow> others pid n (fst (handle_event env e n'))"
| others_payment: "others pid n n' \<Longrightarrow> inserts_payment call \<noteq> Some pid \<Longrightarrow> others pid n (snd (payment_step call n'))"
| others_open: "others pid n n' \<Longrightarrow> others pid n (snd (open_step txid_of sn op n'))"
| others_forward: "others pid n n' \<Longrightarrow> others pid n (run_forward enc n')"

lemma payment_step_payments:
  "inserts_payment call = None \<Longrightarrow> n_payments (snd (payment_step call n)) = n_payments n"
  by (cases "(call, n)" rule: payment_step.cases)
    (auto simp: inserts_payment_def split: outcome.splits option.splits)

lemma payment_step_elsewhere:
  assumes "inserts_payment call \<noteq> Some pid"
  shows "senders.elsewhere pid s (n_payments n) \<Longrightarrow> senders.elsewhere pid s (n_payments (snd (payment_step call n)))"
proof (cases "inserts_payment call")
  case (Some i)
  then obtain p where "call = PayStored p" "i = pay_id p"
    by (auto simp: inserts_payment_def split: payment_call.splits)
  with assms Some show "senders.elsewhere pid s (n_payments n) \<Longrightarrow> ?thesis"
    by (auto simp: case_prod_beta intro: senders.elsewhere_request)
qed (simp add: payment_step_payments)

lemma open_step_payments: "n_payments (snd (open_step txid_of sn op n)) = n_payments n"
  by (cases "(txid_of, sn, op, n)" rule: open_step.cases) (auto split: prod.splits outcome.splits option.splits)

lemma run_forward_payments: "n_payments (run_forward enc n) = n_payments n"
  by (simp add: run_forward_def split: list.splits)

lemma event_elsewhere:
  assumes "event_payment_id e \<noteq> Some pid"
  shows "senders.elsewhere pid s (n_payments n) \<Longrightarrow> senders.elsewhere pid s (n_payments (fst (handle_event env e n)))"
proof (cases "event_payment_id e")
  case None
  then show "senders.elsewhere pid s (n_payments n) \<Longrightarrow> ?thesis"
    by (simp add: keepsD [OF keeps_payments_event])
next
  case (Some i)
  with assms show "senders.elsewhere pid s (n_payments n) \<Longrightarrow> ?thesis"
    by (auto simp: payments_after_event intro: senders.elsewhere_respond split: option.splits)
qed

lemma others_elsewhere: "others pid n n' \<Longrightarrow> senders.elsewhere pid (n_payments n) (n_payments n')"
  by (induction rule: others.induct)
    (simp_all add: senders.elsewhere_refl event_elsewhere payment_step_elsewhere open_step_payments run_forward_payments)

section \<open>Payments\<close>

lemma registered:
  assumes "payment_step (PayStored p) n0 = (call, n1)"
  shows "call = PayWaiting (snd (senders_insert (pay_id p) p (n_payments n0)))"
    and "n_payments n1 = fst (senders_insert (pay_id p) p (n_payments n0))"
  using assms by (auto simp: case_prod_beta)

text \<open>C1: A payment whose request is registered completes: however many other payments, openings and events
  come before it, the call waits until the event of the payment, \<open>PaymentSent\<close> or
  \<open>PaymentFailed\<close>; then it returns the payment as the event changes it, and the database holds it
  so under its id.\<close>

theorem payment_completes:
  assumes "senders_inv (n_payments n0)" and "payment_step (PayStored p) n0 = (call, n1)" and "others (pay_id p) n1 n2"
    and "event_payment_id e = Some (pay_id p)" and "handle_event env e n2 = (n3, r)" and "\<not> db_closed (n_db n2)"
  shows "payment_step call n2 = (call, n2) \<and> r = Ok () \<and>
    (\<exists>n5. payment_step (fst (payment_step call n3)) (snd (payment_step call n3)) = (PayDone (Ok (event_answer e p)), n5) \<and>
      tbl_find pr_id (pay_id p) (t_payments (n_db n5)) = Some (payment_to_row (event_answer e p)))"
proof -
  let ?c = "snd (senders_insert (pay_id p) p (n_payments n0))"
  note reg = registered [OF assms(2)]
  have el: "senders.elsewhere (pay_id p) (fst (senders_insert (pay_id p) p (n_payments n0))) (n_payments n2)"
    using others_elsewhere [OF assms(3)] reg(2) by simp
  have pend: "as_senders (n_payments n2) (pay_id p) = Some (p, ?c)"
    using senders.elsewhere_keeps [OF el] senders.requested [OF assms(1)] by simp
  have n3: "n_payments n3 = senders_respond (pay_id p) (Ok (event_answer e p)) (n_payments n2)" "n_db n3 = n_db n2" "r = Ok ()"
    using payments_after_event [OF assms(4), of env n2] assms(5) pend by simp_all
  have wait: "receive ?c (n_payments n2) = None" and got: "receive ?c (n_payments n3) = Some (Ok (Ok (event_answer e p)))"
    using senders.answered [OF assms(1) el] n3(1) by simp_all
  let ?db = "n_db n2\<lparr>t_payments := tbl_upsert pr_id (pay_id p) (\<lambda>_. payment_to_row (event_answer e p))
    (payment_to_row (event_answer e p)) (t_payments (n_db n2))\<rparr>"
  have "persist_payment (event_answer e p) (n_db n3) = Ok ?db"
    using assms(6) n3(2) by (simp add: persist_payment_def)
  moreover have "tbl_find pr_id (pay_id p) (t_payments ?db) = Some (payment_to_row (event_answer e p))"
    using payments_tbl.find_upsert_replaced [of "pay_id p" "event_answer e p"] by simp
  ultimately show ?thesis
    using wait got n3(3) by (simp add: reg(1))
qed

definition empty_node :: node where
  "empty_node =
     \<lparr>n_db = empty_db, n_funding = async_senders_new, n_payments = async_senders_new, n_forwards = [], n_calls = []\<rparr>"

definition sample_env :: event_env where
  "sample_env =
     \<lparr>ee_now = sample_time, ee_server_now = to_primitive sample_time, ee_random = replicate 32 5, ee_channels = [],
      ee_fund_tx = (\<lambda>script val rate. Ok [1, 2]), ee_funding_generated = (\<lambda>_ _ _. Ok ()),
      ee_forward_delay = (\<lambda>low high. low), ee_new_internal_address = Ok [0, 20], ee_sweep_feerate = 2000,
      ee_block_height = Ok 800000, ee_lock_time = Ok, ee_spend = (\<lambda>_ _ _ _. Some [3]),
      ee_details_encode = (\<lambda>_. [1]), ee_output_encode = (\<lambda>_. [2])\<rparr>"

theorem payment_completes_witness:
  "\<exists>call n1 n3 n5. payment_step (PayStored sample_payment) empty_node = (call, n1) \<and>
     handle_event sample_env (PaymentSent (Some (pay_id sample_payment)) [1] [2] (Some 3)) n1 = (n3, Ok ()) \<and>
     payment_step (fst (payment_step call n3)) (snd (payment_step call n3)) =
       (PayDone (Ok (payment_succeeded [2] [1] (Some 3) sample_payment)), n5)"
proof -
  let ?e = "PaymentSent (Some (pay_id sample_payment)) [1] [2] (Some 3)"
  obtain call n1 where reg: "payment_step (PayStored sample_payment) empty_node = (call, n1)" by fastforce
  obtain n3 r where ev: "handle_event sample_env ?e n1 = (n3, r)" by fastforce
  have "senders_inv (n_payments empty_node)" by (simp add: empty_node_def senders_inv_new)
  moreover have "\<not> db_closed (n_db n1)" using reg by (auto simp: case_prod_beta empty_node_def empty_db_def)
  ultimately show ?thesis
    using payment_completes [OF _ reg others_refl _ ev] reg ev by (auto simp: event_payment_id_def)
qed

text \<open>C4: The request is registered after the payment was given to LDK and stored, and the event may come first:
  an event that is handled before the registration ends in an error and changes nothing, and the
  call then waits through everything that is not a second event of the payment, which LDK does not
  send. The stored payment is left as it was, pending.\<close>

theorem early_event_blocks_payment:
  assumes "senders_inv (n_payments n0)" and "as_senders (n_payments n0) (pay_id p) = None"
    and "event_payment_id e = Some (pay_id p)" and "handle_event env e n0 = (n1, r)"
    and "others (pay_id p) n1 n2" and "payment_step (PayStored p) n2 = (call, n3)" and "others (pay_id p) n3 n4"
  shows "r = Err (Msg ''Can't find payment'') \<and> n_db n1 = n_db n0 \<and> payment_step call n4 = (call, n4)"
proof -
  have n1: "n_payments n1 = n_payments n0" "n_db n1 = n_db n0" "r = Err (Msg ''Can't find payment'')"
    using payments_after_event [OF assms(3), of env n0] assms(2,4) by simp_all
  note reg = registered [OF assms(6)]
  have "senders.elsewhere (pay_id p) (senders_respond (pay_id p) (Ok p) (n_payments n0)) (n_payments n2)"
    using others_elsewhere [OF assms(5)] n1(1) senders.respond_none [OF assms(2)] by simp
  moreover have "senders.elsewhere (pay_id p) (fst (senders_insert (pay_id p) p (n_payments n2))) (n_payments n4)"
    using others_elsewhere [OF assms(7)] reg(2) by simp
  ultimately have "receive (snd (senders_insert (pay_id p) p (n_payments n2))) (n_payments n4) = None"
    using senders.early_response_lost [OF assms(1)] by blast
  then show ?thesis using n1 by (simp add: reg(1))
qed

theorem early_event_blocks_payment_witness:
  "\<exists>n1 call n3. handle_event sample_env (PaymentSent (Some (pay_id sample_payment)) [1] [2] None) empty_node =
       (n1, Err (Msg ''Can't find payment'')) \<and>
     payment_step (PayStored sample_payment) n1 = (call, n3) \<and> payment_step call n3 = (call, n3)"
proof -
  let ?e = "PaymentSent (Some (pay_id sample_payment)) [1] [2] None"
  obtain n1 r where ev: "handle_event sample_env ?e empty_node = (n1, r)" by fastforce
  obtain call n3 where reg: "payment_step (PayStored sample_payment) n1 = (call, n3)" by fastforce
  have "senders_inv (n_payments empty_node)" "as_senders (n_payments empty_node) (pay_id sample_payment) = None"
    by (simp_all add: empty_node_def senders_inv_new) (simp add: async_senders_new_def)
  then show ?thesis
    using early_event_blocks_payment [OF _ _ _ ev others_refl reg others_refl] ev reg
    by (auto simp: event_payment_id_def)
qed

lemma find_persist_payment:
  assumes "persist_payment p db = Ok db'"
  shows "tbl_find pr_id (pay_id p) (t_payments db') = Some (payment_to_row p)"
  using assms payments_tbl.find_upsert_replaced [of "pay_id p" p "t_payments db"]
  by (auto simp: persist_payment_def outcome_simps)

text \<open>C19: What a claimed payment is stored as: one of an invoice as succeeded, but a spontaneous one as pending,
  although its funds have been claimed; its id is a fresh one that no other event names, so nothing
  changes it later.\<close>

theorem claimed_payment_stored:
  assumes "handle_event env (PaymentClaimed hash purpose amount) n = (n', Ok ())"
  shows "\<exists>row. tbl_find pr_id (ee_random env) (t_payments (n_db n')) = Some row \<and> pr_hash row = Some hash \<and>
    pr_direction row = Inbound \<and> pr_amount row = u64_as_i64 amount \<and>
    pr_status row = (case purpose of InvoicePayment _ _ \<Rightarrow> Succeeded | SpontaneousPayment _ \<Rightarrow> Pending)"
proof -
  define p where "p = (case purpose of
      InvoicePayment preimage secret \<Rightarrow> of_invoice_inbound (ee_random env) (ee_now env) hash preimage secret amount
    | SpontaneousPayment preimage \<Rightarrow> spontaneous_inbound (ee_random env) (ee_now env) hash preimage amount)"
  have "persist_payment p (n_db n) = Ok (n_db n')"
    using assms by (auto simp: payment_claimed_def db_write_def p_def split: outcome.splits)
  then have "tbl_find pr_id (pay_id p) (t_payments (n_db n')) = Some (payment_to_row p)"
    by (rule find_persist_payment)
  then show ?thesis
    by (cases purpose)
      (auto simp: p_def of_invoice_inbound_def spontaneous_inbound_def payment_to_row_def)
qed

theorem claimed_payment_stored_witness:
  "\<exists>n' row. handle_event sample_env (PaymentClaimed (replicate 32 1) (SpontaneousPayment (replicate 32 2)) 1000) empty_node = (n', Ok ()) \<and>
     tbl_find pr_id (replicate 32 5) (t_payments (n_db n')) = Some row \<and> pr_status row = Pending"
proof -
  obtain n' where h: "handle_event sample_env (PaymentClaimed (replicate 32 1) (SpontaneousPayment (replicate 32 2)) 1000) empty_node = (n', Ok ())"
    by (simp add: payment_claimed_def db_write_def persist_payment_def empty_node_def empty_db_def)
  from claimed_payment_stored [OF h] h show ?thesis by (auto simp: sample_env_def)
qed

section \<open>Channels of the liquidity service\<close>

lemma unat_jit: "unat (jit_user_channel_id random) = unat random div 2 + 2 ^ 63"
proof -
  have r: "unat random < 2 ^ 64" using unsigned_less [of random, where 'a = nat] by simp
  have "unat (random div 2 + 9223372036854775808) = unat random div 2 + 2 ^ 63"
    by (subst unat_add_lem [THEN iffD1]) (use r in \<open>simp_all add: unat_div\<close>)
  then show ?thesis
    using r by (simp add: jit_user_channel_id_def unsigned_ucast_eq take_bit_nat_eq_self)
qed

text \<open>The liquidity service is told of every channel it opened when the channel is ready, and of no channel
  that the node opened itself, except that it is not told of its own channels whose random number is 0
  or 1: their user channel id is \<open>2 ^ 63\<close>, and the handler asks for a larger one.\<close>

theorem jit_channel_ready:
  assumes "handle_event env (ChannelReady cid uid counterparty) n = (n', Ok ())"
  shows "(uid = ucast (random div 2 :: u64) \<longrightarrow> n_calls n' = n_calls n @ [BroadcastNodeAnnouncement]) \<and>
    (uid = jit_user_channel_id random \<longrightarrow> n_calls n' = n_calls n @
      (if random \<in> {0, 1} then [] else [LspsChannelReady uid cid counterparty]) @ [BroadcastNodeAnnouncement])"
proof -
  have calls: "n_calls n' = n_calls n @ (if 9223372036854775808 < uid then [LspsChannelReady uid cid counterparty] else [])
      @ [BroadcastNodeAnnouncement]"
    using assms by (auto simp: channel_ready_def node_bind_def node_call_def node_return_def db_write_def
        split: if_splits option.splits outcome.splits)
  have "\<not> 9223372036854775808 < (ucast (random div 2 :: u64) :: u128)"
  proof -
    have "unat random div 2 < 2 ^ 63"
      using unsigned_less [of random, where 'a = nat] by simp
    then show ?thesis
      by (simp add: word_less_nat_alt unsigned_ucast_eq unat_div take_bit_nat_eq_self not_less)
  qed
  moreover have "9223372036854775808 < jit_user_channel_id random \<longleftrightarrow> random \<notin> {0, 1}"
  proof -
    have "9223372036854775808 < jit_user_channel_id random \<longleftrightarrow> 0 < unat random div 2"
      by (simp add: word_less_nat_alt unat_jit)
    also have "\<dots> \<longleftrightarrow> \<not> unat random < 2" by auto
    also have "\<dots> \<longleftrightarrow> random \<notin> {0, 1}"
      using word_eq_iff_unsigned [of random 0, where 'a = nat] word_eq_iff_unsigned [of random 1, where 'a = nat]
      by (simp add: less_2_cases_iff)
    finally show ?thesis .
  qed
  ultimately show ?thesis using calls by auto
qed

theorem jit_channel_ready_witness:
  "\<exists>n'. handle_event sample_env (ChannelReady (replicate 32 3) (jit_user_channel_id 1) (replicate 33 2)) empty_node = (n', Ok ()) \<and>
     n_calls n' = [BroadcastNodeAnnouncement]"
proof -
  obtain n' where h: "handle_event sample_env (ChannelReady (replicate 32 3) (jit_user_channel_id 1) (replicate 33 2)) empty_node = (n', Ok ())"
    by (simp add: channel_ready_def node_bind_def node_call_def node_return_def db_write_def find_details_def
        sample_env_def close_channel_def empty_node_def empty_db_def jit_user_channel_id_def)
  from jit_channel_ready [OF h, of 1] h show ?thesis by (simp add: empty_node_def)
qed

section \<open>Funding of a channel\<close>

lemma receive_send_answer:
  assumes "senders_inv s" and "as_senders s k = Some (v, c)"
  shows "receive c (send_answer c rv (fst (senders_get k s))) = Some (Ok rv)"
  using senders_invD(1,2) [OF assms] by (simp add: senders_get_def send_answer_def receive_def)

lemma ucast_user_channel_id: "ucast (ucast (x :: u64) :: u128) = x"
  by (rule bit_word_eqI) (simp add: bit_simps)

text \<open>C5: \<open>FundingGenerationReady\<close> answers the request that waits for it on each of its branches: with the
  transaction when the wallet makes one and LDK takes it, and with an error when the wallet cannot
  make it or LDK refuses it, so that \<open>open_channel\<close> never waits on after the event. LDK gets the
  transaction exactly when the wallet made one.\<close>

theorem funding_event_answers:
  assumes "senders_inv (n_funding n)" and "as_senders (n_funding n) uid = Some (rate, c)"
    and "handle_event env (FundingGenerationReady tmp k v script (ucast uid)) n = (n', r)"
    and "ee_fund_tx env script v rate \<noteq> Panic" and "\<And>tx. ee_funding_generated env tmp k tx \<noteq> Panic"
  shows "fst (open_step txid_of sn (OpenWaiting c cid pub k) n') =
      (case ee_fund_tx env script v rate of
         Ok tx \<Rightarrow> (case ee_funding_generated env tmp k tx of
             Ok _ \<Rightarrow> OpenFunded tx cid pub k | _ \<Rightarrow> OpenDone (Err (Msg ''Failed opening channel'')))
       | _ \<Rightarrow> OpenDone (Err (Msg ''Failed funding transaction''))) \<and>
    n_calls n' = n_calls n @ (case ee_fund_tx env script v rate of
         Ok tx \<Rightarrow> [FundingTransactionGenerated tmp k tx] | _ \<Rightarrow> [])"
proof -
  have recv: "receive c (send_answer c rv (fst (senders_get uid (n_funding n)))) = Some (Ok rv)" for rv
    using receive_send_answer [OF assms(1,2)] .
  have got: "take_funding uid n = (n\<lparr>n_funding := fst (senders_get uid (n_funding n))\<rparr>, Ok (rate, c))"
    using assms(2) by (simp add: take_funding_def senders_get_def)
  show ?thesis
    using assms(3-5) recv got
    by (auto simp: funding_generation_ready_def ucast_user_channel_id node_bind_def node_call_def answer_funding_def
        node_lift_def db_write_logged_def update_initializing_channel_def on_conn_def Let_def
        split: outcome.splits if_splits)
qed

theorem funding_event_answers_witness:
  "\<exists>call n1 n' r. open_step (\<lambda>tx. tx) (to_primitive sample_time) (OpenCreated [7] True [2] 42 Normal) empty_node = (OpenWaiting 0 [7] True [2], n1) \<and>
     handle_event sample_env (FundingGenerationReady [7] [2] 100000 [0, 32] (ucast (42 :: u64))) n1 = (n', r) \<and>
     fst (open_step (\<lambda>tx. tx) (to_primitive sample_time) (OpenWaiting 0 [7] True [2]) n') = OpenFunded [1, 2] [7] True [2]"
proof -
  let ?n1 = "empty_node\<lparr>n_funding := fst (senders_insert 42 Normal async_senders_new)\<rparr>"
  have o: "open_step (\<lambda>tx. tx) (to_primitive sample_time) (OpenCreated [7] True [2] 42 Normal) empty_node = (OpenWaiting 0 [7] True [2], ?n1)"
    by (simp add: empty_node_def senders_insert_def async_senders_new_def Let_def)
  obtain n' r where h: "handle_event sample_env (FundingGenerationReady [7] [2] 100000 [0, 32] (ucast (42 :: u64))) ?n1 = (n', r)"
    by fastforce
  have "senders_inv (n_funding ?n1)" using senders_inv_insert [OF senders_inv_new, of "42 :: u64" Normal] by simp
  moreover have "as_senders (n_funding ?n1) 42 = Some (Normal, 0)"
    by (simp add: senders_insert_def async_senders_new_def Let_def)
  ultimately have "fst (open_step (\<lambda>tx. tx) (to_primitive sample_time) (OpenWaiting 0 [7] True [2]) n') = OpenFunded [1, 2] [7] True [2]"
    using funding_event_answers [OF _ _ h, of Normal 0 "\<lambda>tx. tx" "to_primitive sample_time" "[7]" True]
    by (simp add: sample_env_def)
  with o h show ?thesis by blast
qed

section \<open>Probing\<close>

lemma probe_backwards_snoc:
  "probe_backwards send (xs @ [x]) =
     (if xs \<noteq> [] \<and> send xs then ProbeFailedAt (xs @ [x]) x else probe_backwards send xs)"
  by (subst probe_backwards.simps) (simp add: Let_def)

lemma probe_backwards_Nil: "probe_backwards send [] = ProbeUnknown"
  by (simp add: probe_backwards.simps)

definition probe_cut :: "(u64 list \<Rightarrow> bool) \<Rightarrow> u64 list \<Rightarrow> nat \<Rightarrow> bool" where
  "probe_cut send hops i \<longleftrightarrow> 0 < i \<and> i < length hops \<and> send (take i hops) \<and>
     (\<forall>j. i < j \<and> j < length hops \<longrightarrow> \<not> send (take j hops))"

lemma probe_cut_unique: "probe_cut send hops i \<Longrightarrow> probe_cut send hops j \<Longrightarrow> i = j"
  by (metis linorder_neqE_nat probe_cut_def)

lemma probe_backwards_cases:
  "(\<exists>i. probe_cut send hops i \<and> probe_backwards send hops = ProbeFailedAt (take (Suc i) hops) (hops ! i)) \<or>
   (probe_backwards send hops = ProbeUnknown \<and> (\<forall>i. 0 < i \<and> i < length hops \<longrightarrow> \<not> send (take i hops)))"
proof (induction hops rule: rev_induct)
  case Nil
  then show ?case by (simp add: probe_backwards_Nil)
next
  case (snoc x xs)
  show ?case
  proof (cases "xs \<noteq> [] \<and> send xs")
    case True
    then have "probe_cut send (xs @ [x]) (length xs)" by (simp add: probe_cut_def)
    with True show ?thesis by (intro disjI1 exI [of _ "length xs"]) (simp add: probe_backwards_snoc)
  next
    case False
    have step: "probe_backwards send (xs @ [x]) = probe_backwards send xs"
      using False by (auto simp: probe_backwards_snoc)
    have full: "xs = [] \<or> \<not> send xs" using False by auto
    from snoc.IH show ?thesis
    proof (elim disjE exE conjE)
      fix i assume i: "probe_cut send xs i" "probe_backwards send xs = ProbeFailedAt (take (Suc i) xs) (xs ! i)"
      then have "probe_cut send (xs @ [x]) i"
        using full by (auto simp: probe_cut_def less_Suc_eq)
      with i show ?thesis
        by (intro disjI1 exI [of _ i]) (auto simp: step probe_cut_def nth_append)
    next
      assume "probe_backwards send xs = ProbeUnknown" "\<forall>i. 0 < i \<and> i < length xs \<longrightarrow> \<not> send (take i xs)"
      then show ?thesis using full by (intro disjI2) (auto simp: step less_Suc_eq)
    qed
  qed
qed

text \<open>A probe that cannot be sent along the whole path blames the hop after the longest shorter part of the
  path that can be probed: this part is not empty, no longer proper part can be probed, and the
  reported path ends with the blamed channel. When no part can be probed, nothing is blamed.\<close>

theorem probe_blames_first_failing_hop:
  assumes "\<not> send hops"
  shows "(\<forall>path scid. probe_path send hops = ProbeFailedAt path scid \<longleftrightarrow>
      (\<exists>i. 0 < i \<and> i < length hops \<and> send (take i hops) \<and> (\<forall>j. i < j \<and> j < length hops \<longrightarrow> \<not> send (take j hops)) \<and>
        path = take (Suc i) hops \<and> scid = hops ! i)) \<and>
    (probe_path send hops = ProbeUnknown \<longleftrightarrow> (\<forall>i. 0 < i \<and> i < length hops \<longrightarrow> \<not> send (take i hops)))"
proof -
  have p: "probe_path send hops = probe_backwards send hops" using assms by (simp add: probe_path_def)
  have cut: "(\<exists>i. 0 < i \<and> i < length hops \<and> send (take i hops) \<and> (\<forall>j. i < j \<and> j < length hops \<longrightarrow> \<not> send (take j hops)) \<and>
      path = take (Suc i) hops \<and> scid = hops ! i) \<longleftrightarrow>
      (\<exists>i. probe_cut send hops i \<and> path = take (Suc i) hops \<and> scid = hops ! i)" for path scid
    unfolding probe_cut_def by blast
  from probe_backwards_cases [of send hops] show ?thesis
    unfolding p cut
  proof (elim disjE exE conjE)
    fix i assume "probe_cut send hops i" "probe_backwards send hops = ProbeFailedAt (take (Suc i) hops) (hops ! i)"
    then show "(\<forall>path scid. probe_backwards send hops = ProbeFailedAt path scid \<longleftrightarrow>
        (\<exists>i. probe_cut send hops i \<and> path = take (Suc i) hops \<and> scid = hops ! i)) \<and>
      (probe_backwards send hops = ProbeUnknown \<longleftrightarrow> (\<forall>i. 0 < i \<and> i < length hops \<longrightarrow> \<not> send (take i hops)))"
      using probe_cut_unique [of send hops] by (auto simp: probe_cut_def)
  qed (auto simp: probe_cut_def)
qed

theorem probe_blames_first_failing_hop_witness:
  "probe_path (\<lambda>hs. length hs \<le> 2) [11, 12, 13, 14] = ProbeFailedAt [11, 12, 13] 13"
proof -
  have "\<exists>i. 0 < i \<and> i < length [11, 12, 13, 14 :: u64] \<and> length (take i [11, 12, 13, 14 :: u64]) \<le> 2 \<and>
      (\<forall>j. i < j \<and> j < length [11, 12, 13, 14 :: u64] \<longrightarrow> \<not> length (take j [11, 12, 13, 14 :: u64]) \<le> 2) \<and>
      [11, 12, 13] = take (Suc i) [11, 12, 13, 14 :: u64] \<and> 13 = [11, 12, 13, 14 :: u64] ! i"
    by (rule exI [of _ 2]) (auto simp: numeral_2_eq_2)
  then show ?thesis
    using probe_blames_first_failing_hop [of "\<lambda>hs. length hs \<le> 2" "[11, 12, 13, 14]"] by simp
qed

end
