(* ===== verification/Macaroon_Auth.thy ===== *)
theory Macaroon_Auth
  imports Rust_Text
begin

text \<open>
  Authorisation of the API (\<^verbatim>\<open>api/macaroon_auth.rs\<close>, the route tables of \<^verbatim>\<open>api/mod.rs\<close> and
  \<^verbatim>\<open>api/routes.rs\<close>).  Macaroons are those of a library: creating one under a key, adding a caveat,
  verifying, and reading the text or the bytes of a header are the fields of \<open>macaroon_lib\<close>.  A
  caveat is a byte string, and a byte is a \<open>char\<close>.
\<close>

section \<open>Roles in caveats\<close>

definition cont_byte :: "nat \<Rightarrow> bool" where
  "cont_byte b \<longleftrightarrow> 128 \<le> b \<and> b \<le> 191"

text \<open>\<open>std::str::from_utf8\<close>: the well-formed byte sequences.\<close>

fun utf8_ok :: "nat list \<Rightarrow> bool" where
  "utf8_ok [] = True"
| "utf8_ok (a # as) =
     (if a \<le> 127 then utf8_ok as
      else case as of
        [] \<Rightarrow> False
      | b # bs \<Rightarrow>
          if 194 \<le> a \<and> a \<le> 223 then cont_byte b \<and> utf8_ok bs
          else case bs of
            [] \<Rightarrow> False
          | c # cs \<Rightarrow>
              if 224 \<le> a \<and> a \<le> 239
              then (if a = 224 then 160 \<le> b \<and> b \<le> 191 else if a = 237 then 128 \<le> b \<and> b \<le> 159 else cont_byte b) \<and>
                   cont_byte c \<and> utf8_ok cs
              else case cs of
                [] \<Rightarrow> False
              | d # ds \<Rightarrow>
                  240 \<le> a \<and> a \<le> 244 \<and>
                  (if a = 240 then 144 \<le> b \<and> b \<le> 191 else if a = 244 then 128 \<le> b \<and> b \<le> 143 else cont_byte b) \<and>
                  cont_byte c \<and> cont_byte d \<and> utf8_ok ds)"

definition verify_role :: "string \<Rightarrow> string \<Rightarrow> bool" where
  "verify_role caveat expected_role \<longleftrightarrow>
     starts_with caveat ''roles = '' \<and> utf8_ok (map of_char caveat) \<and>
     (\<exists>r \<in> set (split_char (CHR ''|'') (drop 8 caveat)). r = expected_role)"

section \<open>Macaroons\<close>

record ('k, 'm) macaroon_lib =
  ml_create :: "'k \<Rightarrow> string \<Rightarrow> 'm"
  ml_add_caveat :: "'m \<Rightarrow> string \<Rightarrow> 'm"
  ml_verify :: "(string \<Rightarrow> bool) \<Rightarrow> 'm \<Rightarrow> 'k \<Rightarrow> bool"
  ml_deserialize :: "string \<Rightarrow> 'm option"
  ml_deserialize_binary :: "bytes \<Rightarrow> 'm option"

definition admin_macaroon :: "('k, 'm) macaroon_lib \<Rightarrow> 'k \<Rightarrow> 'm" where
  "admin_macaroon lib key = ml_add_caveat lib (ml_create lib key ''admin'') ''roles = admin|readonly''"

definition readonly_macaroon :: "('k, 'm) macaroon_lib \<Rightarrow> 'k \<Rightarrow> 'm" where
  "readonly_macaroon lib key = ml_add_caveat lib (ml_create lib key ''readonly'') ''roles = readonly''"

definition verify_admin_macaroon :: "('k, 'm) macaroon_lib \<Rightarrow> 'k \<Rightarrow> 'm \<Rightarrow> bool" where
  "verify_admin_macaroon lib key m = ml_verify lib (\<lambda>c. verify_role c ''admin'') m key"

definition verify_readonly_macaroon :: "('k, 'm) macaroon_lib \<Rightarrow> 'k \<Rightarrow> 'm \<Rightarrow> bool" where
  "verify_readonly_macaroon lib key m = ml_verify lib (\<lambda>c. verify_role c ''readonly'') m key"

text \<open>\<open>KldMacaroon::from_request_parts\<close>: the headers of a request by their lower case names; \<open>to_str\<close> reads
  a header value as text and \<open>from_hex\<close> decodes a text of hexadecimal digits.\<close>

definition macaroon_from_request ::
  "('k, 'm) macaroon_lib \<Rightarrow> (bytes \<Rightarrow> string option) \<Rightarrow> (string \<Rightarrow> bytes option) \<Rightarrow> (string \<Rightarrow> bytes option) \<Rightarrow>
   'm outcome" where
  "macaroon_from_request lib to_str from_hex headers =
     bind_outcome (case headers ''sec-websocket-protocol'' of
         Some v \<Rightarrow> bind_outcome (ok_or (Msg ''Unable to deserialize macaroon'') (to_str v)) (\<lambda>s.
                    Ok (case split_once (CHR '','') s of Some (a, _) \<Rightarrow> a | None \<Rightarrow> []))
       | None \<Rightarrow>
           bind_outcome (ok_or (Msg ''Missing macaroon header'')
             (case headers ''macaroon'' of Some v \<Rightarrow> Some v | None \<Rightarrow> headers ''grpc-metadata-macaroon'')) (\<lambda>v.
             ok_or (Msg ''Unable to deserialize macaroon'') (to_str v)))
     (\<lambda>s. case ml_deserialize lib s of
         Some m \<Rightarrow> Ok m
       | None \<Rightarrow> ok_or (Msg ''Unable to deserialize macaroon'')
                   (Option.bind (from_hex s) (ml_deserialize_binary lib)))"

section \<open>Routes\<close>

datatype http_method = GET | POST | DELETE

datatype auth_layer = ReadonlyAuth | AdminAuth

definition readonly_routes :: "(http_method \<times> string) list" where
  "readonly_routes =
     [(GET, ''/''), (GET, ''/v1/getinfo''), (GET, ''/v1/estimateChannelLiquidity''), (GET, ''/v1/getBalance''),
      (GET, ''/v1/listFunds''), (GET, ''/v1/channel/listPeerChannels''), (GET, ''/v1/peer/listPeers''),
      (GET, ''/v1/network/listNode/:id''), (GET, ''/v1/network/listNode''), (GET, ''/v1/network/listChannel/:id''),
      (GET, ''/v1/network/listChannel''), (GET, ''/v1/network/feeRates/:style''), (GET, ''/v1/invoice/listInvoices''),
      (GET, ''/v1/pay/listPayments''), (GET, ''/v1/channel/localremotebal''), (GET, ''/v1/getFees''),
      (GET, ''/v1/channel/listForwards''), (GET, ''/v1/channel/history''), (GET, ''/kld/channels''),
      (GET, ''/v1/utility/decode/:invoice''), (GET, ''/kld/scorer'')]"

definition admin_routes :: "(http_method \<times> string) list" where
  "admin_routes =
     [(POST, ''/v1/utility/signMessage''), (POST, ''/v1/channel/openChannel''), (POST, ''/v1/channel/setChannelFee''),
      (DELETE, ''/v1/channel/closeChannel/:id''), (DELETE, ''/v1/channel/closeChannel/:id/:fee_rate''),
      (DELETE, ''/v1/channel/forceCloseChannelWithBoradCast/:id''),
      (DELETE, ''/v1/channel/forceCloseChannelWithoutBoradCast/:id''), (GET, ''/v1/newaddr''), (POST, ''/v1/withdraw''),
      (POST, ''/v1/peer/connect''), (DELETE, ''/v1/peer/disconnect/:id''), (POST, ''/v1/pay/keysend''),
      (POST, ''/v1/invoice/genInvoice''), (POST, ''/v1/pay''), (GET, ''/v1/ws'')]"

definition route_layer :: "http_method \<times> string \<Rightarrow> auth_layer option" where
  "route_layer r =
     (if r \<in> set readonly_routes then Some ReadonlyAuth else if r \<in> set admin_routes then Some AdminAuth else None)"

text \<open>Whether a request with a macaroon reaches the handler of its route (\<open>readonly_auth\<close> and
  \<open>admin_auth\<close>): \<open>Ok True\<close>, or \<open>Ok False\<close> for the answer \<open>NotFound\<close> of the fallback.\<close>

definition request_allowed :: "('k, 'm) macaroon_lib \<Rightarrow> 'k \<Rightarrow> 'm outcome \<Rightarrow> http_method \<times> string \<Rightarrow> bool outcome" where
  "request_allowed lib key macaroon r =
     (case route_layer r of
        None \<Rightarrow> Ok False
      | Some layer \<Rightarrow>
          bind_outcome macaroon (\<lambda>m.
            if (case layer of ReadonlyAuth \<Rightarrow> verify_readonly_macaroon lib key m | AdminAuth \<Rightarrow> verify_admin_macaroon lib key m)
            then Ok True else Err (Msg ''Failed to verify macaroon'')))"

section \<open>Correctness\<close>

text \<open>What the library documents: a macaroon verifies under the key it was created with when the verifier accepts
  every one of its caveats.\<close>

definition macaroons_verify :: "('k, 'm) macaroon_lib \<Rightarrow> 'k \<Rightarrow> bool" where
  "macaroons_verify lib key \<longleftrightarrow>
     (\<forall>p i. ml_verify lib p (ml_create lib key i) key) \<and>
     (\<forall>p m c. ml_verify lib p (ml_add_caveat lib m c) key \<longleftrightarrow> ml_verify lib p m key \<and> p c)"

lemma split_readonly: "split_char (CHR ''|'') ''readonly'' = [''readonly'']"
  by simp

lemma verify_role_values:
  "verify_role ''roles = readonly'' ''readonly''" "\<not> verify_role ''roles = readonly'' ''admin''"
  "verify_role ''roles = admin|readonly'' ''readonly''" "verify_role ''roles = admin|readonly'' ''admin''"
  by (simp_all add: verify_role_def starts_with_def)

lemma verify_attenuated:
  "macaroons_verify lib key \<Longrightarrow> ml_verify lib p (foldl (ml_add_caveat lib) m cs) key \<longleftrightarrow>
     ml_verify lib p m key \<and> (\<forall>c \<in> set cs. p c)"
  by (induction cs arbitrary: m) (auto simp: macaroons_verify_def)

lemma own_macaroons:
  assumes "macaroons_verify lib key"
  shows "verify_admin_macaroon lib key (admin_macaroon lib key)" "verify_readonly_macaroon lib key (admin_macaroon lib key)"
    "verify_readonly_macaroon lib key (readonly_macaroon lib key)"
    "\<not> verify_admin_macaroon lib key (foldl (ml_add_caveat lib) (readonly_macaroon lib key) cs)"
proof -
  show "verify_admin_macaroon lib key (admin_macaroon lib key)" "verify_readonly_macaroon lib key (admin_macaroon lib key)"
    "verify_readonly_macaroon lib key (readonly_macaroon lib key)"
    using assms verify_role_values
    by (simp_all add: macaroons_verify_def verify_admin_macaroon_def verify_readonly_macaroon_def admin_macaroon_def
        readonly_macaroon_def)
  have "\<not> ml_verify lib (\<lambda>c. verify_role c ''admin'') (readonly_macaroon lib key) key"
    using assms verify_role_values(2) by (simp add: macaroons_verify_def readonly_macaroon_def)
  then show "\<not> verify_admin_macaroon lib key (foldl (ml_add_caveat lib) (readonly_macaroon lib key) cs)"
    by (simp add: verify_admin_macaroon_def verify_attenuated [OF assms])
qed

lemma routes_disjoint: "set readonly_routes \<inter> set admin_routes = {}"
  by (simp add: readonly_routes_def admin_routes_def)

lemma roles_admin:
  "macaroons_verify lib key \<Longrightarrow> r \<in> set readonly_routes \<union> set admin_routes \<Longrightarrow>
     request_allowed lib key (Ok (admin_macaroon lib key)) r = Ok True"
  using routes_disjoint by (auto simp: request_allowed_def route_layer_def own_macaroons)

lemma roles_readonly:
  "macaroons_verify lib key \<Longrightarrow> r \<in> set readonly_routes \<Longrightarrow>
     request_allowed lib key (Ok (readonly_macaroon lib key)) r = Ok True"
  by (simp add: request_allowed_def route_layer_def own_macaroons)

lemma roles_refused:
  "macaroons_verify lib key \<Longrightarrow> r \<in> set admin_routes \<Longrightarrow>
     request_allowed lib key (Ok (foldl (ml_add_caveat lib) (readonly_macaroon lib key) cs)) r =
       Err (Msg ''Failed to verify macaroon'')"
  using routes_disjoint by (auto simp: request_allowed_def route_layer_def own_macaroons)

text \<open>C20: The two macaroons of the node do what they are for: with the admin macaroon every route of the API is
  reached, with the readonly macaroon exactly the readonly ones, and whatever caveats its holder adds
  to the readonly macaroon, no admin route, such as opening a channel or paying, is ever reached.\<close>

theorem macaroon_roles:
  assumes "macaroons_verify lib key"
  shows "(\<forall>r \<in> set readonly_routes \<union> set admin_routes. request_allowed lib key (Ok (admin_macaroon lib key)) r = Ok True) \<and>
    (\<forall>r \<in> set readonly_routes. request_allowed lib key (Ok (readonly_macaroon lib key)) r = Ok True) \<and>
    (\<forall>r \<in> set admin_routes. \<forall>cs. request_allowed lib key
       (Ok (foldl (ml_add_caveat lib) (readonly_macaroon lib key) cs)) r = Err (Msg ''Failed to verify macaroon''))"
  using roles_admin [OF assms] roles_readonly [OF assms] roles_refused [OF assms] by blast

text \<open>A library for the example: a macaroon is its key with the list of its caveats.\<close>

definition sample_macaroon_lib :: "(nat, nat \<times> string list) macaroon_lib" where
  "sample_macaroon_lib =
     \<lparr>ml_create = (\<lambda>k i. (k, [])), ml_add_caveat = (\<lambda>(k, cs) c. (k, cs @ [c])),
      ml_verify = (\<lambda>p (k, cs) key. k = key \<and> list_all p cs), ml_deserialize = (\<lambda>_. None),
      ml_deserialize_binary = (\<lambda>_. None)\<rparr>"

theorem macaroon_roles_witness:
  "request_allowed sample_macaroon_lib 7 (Ok (readonly_macaroon sample_macaroon_lib 7)) (POST, ''/v1/pay'') =
     Err (Msg ''Failed to verify macaroon'') \<and>
   request_allowed sample_macaroon_lib 7 (Ok (admin_macaroon sample_macaroon_lib 7)) (POST, ''/v1/pay'') = Ok True"
proof -
  have l: "macaroons_verify sample_macaroon_lib 7"
    by (auto simp: macaroons_verify_def sample_macaroon_lib_def)
  have r: "(POST, ''/v1/pay'') \<in> set admin_routes" by (simp add: admin_routes_def)
  have "request_allowed sample_macaroon_lib 7
      (Ok (foldl (ml_add_caveat sample_macaroon_lib) (readonly_macaroon sample_macaroon_lib 7) [])) (POST, ''/v1/pay'') =
    Err (Msg ''Failed to verify macaroon'')"
    using macaroon_roles [OF l] r by blast
  then show ?thesis using macaroon_roles [OF l] r by simp
qed

end
