(* ===== verification/Api_Channels.thy ===== *)
theory Api_Channels
  imports Controller "HOL-Library.Multiset"
begin

text \<open>
  The handlers of the channel routes (\<^verbatim>\<open>api/channels.rs\<close>) and their errors (\<^verbatim>\<open>api/mod.rs\<close>).  A handler gets
  what the lightning interface answers as arguments and returns the body of the response or an
  \<open>api_error\<close>.  The fields of a response that are copied from one \<open>ChannelDetails\<close> are kept as
  that value.
\<close>

section \<open>Errors of the API\<close>

text \<open>\<open>HandlerPanic\<close> is a panic in a call of the handler, which ends the request without a response.\<close>

datatype api_error = BadRequest kld_error | NotFound string | InternalServer kld_error | HandlerPanic

type_synonym 'a response = "api_error + 'a"

fun internal_server :: "'a outcome \<Rightarrow> 'a response" where
  "internal_server (Ok x) = Inr x"
| "internal_server (Err e) = Inl (InternalServer e)"
| "internal_server Panic = Inl HandlerPanic"

fun bad_request :: "'a outcome \<Rightarrow> 'a response" where
  "bad_request (Ok x) = Inr x"
| "bad_request (Err e) = Inl (BadRequest e)"
| "bad_request Panic = Inl HandlerPanic"

definition bind_response :: "'a response \<Rightarrow> ('a \<Rightarrow> 'b response) \<Rightarrow> 'b response" where
  "bind_response r f = (case r of Inl e \<Rightarrow> Inl e | Inr x \<Rightarrow> f x)"

lemma bind_response_simps [simp]: "bind_response (Inl e) f = Inl e" "bind_response (Inr x) f = f x"
  by (simp_all add: bind_response_def)

definition to_string_empty :: "u64 option \<Rightarrow> string" where
  "to_string_empty v = (case v of None \<Rightarrow> [] | Some x \<Rightarrow> u64_to_string x)"

section \<open>The list of channels\<close>

record channel_item =
  ci_channel_id :: string
  ci_counterparty_node_id :: string
  ci_detail :: "channel_details option"
    \<comment> \<open>the source of the copied fields; \<open>None\<close> where they have their default\<close>
  ci_config :: "channel_config option"
  ci_has_monitor :: bool
  ci_open_timestamp :: int
  ci_update_timestamp :: int
  ci_closure_reason :: "string option"

text \<open>The scan of the channels in memory keeps the index of the last match.\<close>

fun scan_index :: "nat \<Rightarrow> bytes \<Rightarrow> channel_details list \<Rightarrow> nat option \<Rightarrow> nat option" where
  "scan_index idx cid [] is_found = is_found"
| "scan_index idx cid (c # cs) is_found =
     scan_index (Suc idx) cid cs (if cd_channel_id c = cid then Some idx else is_found)"

definition config_or :: "channel_config \<Rightarrow> channel_details \<Rightarrow> channel_config" where
  "config_or defaults d = (case cd_config d of Some c \<Rightarrow> c | None \<Rightarrow> defaults)"

text \<open>The item of a record of the database, and the channels in memory that are left. The configuration is read
  before the details are replaced by those in memory.\<close>

definition record_item ::
  "channel_config \<Rightarrow> channel_record \<Rightarrow> channel_details list \<Rightarrow> channel_item \<times> channel_details list" where
  "record_item defaults r mem =
     (case cr_detail r of
        None \<Rightarrow>
          (\<lparr>ci_channel_id = cr_channel_id r, ci_counterparty_node_id = cr_counterparty r, ci_detail = None,
            ci_config = None, ci_has_monitor = False, ci_open_timestamp = unix_timestamp (cr_open_timestamp r),
            ci_update_timestamp = unix_timestamp (cr_update_timestamp r), ci_closure_reason = cr_closure_reason r\<rparr>, mem)
      | Some detail0 \<Rightarrow>
          let config = config_or defaults detail0;
              (detail, has_monitor, rest) =
                (case scan_index 0 (cd_channel_id detail0) mem None of
                   Some idx \<Rightarrow> (mem ! idx, True, take idx mem @ drop (Suc idx) mem)
                 | None \<Rightarrow> (detail0, False, mem))
          in (\<lparr>ci_channel_id = hex_encode (cd_channel_id detail),
               ci_counterparty_node_id = hex_encode (cd_counterparty_node_id detail), ci_detail = Some detail,
               ci_config = Some config, ci_has_monitor = has_monitor,
               ci_open_timestamp = unix_timestamp (cr_open_timestamp r),
               ci_update_timestamp = unix_timestamp (cr_update_timestamp r),
               ci_closure_reason = cr_closure_reason r\<rparr>, rest))"

definition unrecorded_item :: "channel_config \<Rightarrow> channel_details \<Rightarrow> channel_item" where
  "unrecorded_item defaults detail =
     \<lparr>ci_channel_id = hex_encode (cd_channel_id detail),
      ci_counterparty_node_id = hex_encode (cd_counterparty_node_id detail), ci_detail = Some detail,
      ci_config = Some (config_or defaults detail), ci_has_monitor = True, ci_open_timestamp = 0,
      ci_update_timestamp = 0, ci_closure_reason = Some ''** Invalid Channel Record **''\<rparr>"

fun merge_channels :: "channel_config \<Rightarrow> channel_record list \<Rightarrow> channel_details list \<Rightarrow> channel_item list" where
  "merge_channels defaults [] mem = map (unrecorded_item defaults) mem"
| "merge_channels defaults (r # rs) mem =
     (case record_item defaults r mem of (item, mem') \<Rightarrow> item # merge_channels defaults rs mem')"

text \<open>The handler with the database it leaves: when the records cannot be read, the channels in memory are stored
  again and the response has those only.\<close>

definition list_channels ::
  "(channel_details \<Rightarrow> bytes) \<Rightarrow> offset_date_time \<Rightarrow> primitive_date_time \<Rightarrow> channel_config \<Rightarrow> channel_details list \<Rightarrow>
   channel_record list outcome \<Rightarrow> ldk_database \<Rightarrow> ldk_database \<times> channel_item list response" where
  "list_channels enc now server_now defaults channels_in_mem channels_in_db db =
     (case channels_in_db of
        Ok records \<Rightarrow> (db, Inr (merge_channels defaults records channels_in_mem))
      | Err e \<Rightarrow> (update_channels enc now server_now channels_in_mem db, Inr (merge_channels defaults [] channels_in_mem))
      | Panic \<Rightarrow> (db, Inl HandlerPanic))"

section \<open>Closing a channel and its fee\<close>

definition channel_matches :: "string \<Rightarrow> channel_details \<Rightarrow> bool" where
  "channel_matches cid c \<longleftrightarrow> hex_encode (cd_channel_id c) = cid \<or>
     u64_to_string (case cd_short_channel_id c of Some x \<Rightarrow> x | None \<Rightarrow> 0) = cid"

text \<open>\<open>close_channel\<close> and \<open>close_channel_with_fee\<close>: the call of the lightning interface on the channel that is
  found.\<close>

definition api_close_channel ::
  "(bytes \<Rightarrow> pubkey \<Rightarrow> u32 option \<Rightarrow> unit outcome) \<Rightarrow> channel_details list \<Rightarrow> string \<Rightarrow> u32 option \<Rightarrow> unit response" where
  "api_close_channel close channels channel_id fee =
     (case List.find (channel_matches channel_id) channels of
        Some c \<Rightarrow> internal_server (close (cd_channel_id c) (cd_counterparty_node_id c) fee)
      | None \<Rightarrow> Inl (NotFound channel_id))"

text \<open>The handlers \<open>force_close_channel_with_broadcast\<close> and \<open>force_close_channel_without_broadcast\<close>.\<close>

definition api_force_close_channel ::
  "(bytes \<Rightarrow> pubkey \<Rightarrow> bool \<Rightarrow> unit outcome) \<Rightarrow> channel_details list \<Rightarrow> string \<Rightarrow> bool \<Rightarrow> unit response" where
  "api_force_close_channel force_close channels channel_id broadcast =
     (case List.find (channel_matches channel_id) channels of
        Some c \<Rightarrow> internal_server (force_close (cd_channel_id c) (cd_counterparty_node_id c) broadcast)
      | None \<Rightarrow> Inl (NotFound channel_id))"

record set_fee_item =
  sf_base :: u32
  sf_ppm :: u32
  sf_peer_id :: string
  sf_channel_id :: string
  sf_short_channel_id :: string

definition set_fee_item_of :: "u32 \<times> u32 \<Rightarrow> channel_details \<Rightarrow> set_fee_item" where
  "set_fee_item_of fee c =
     \<lparr>sf_base = fst fee, sf_ppm = snd fee, sf_peer_id = hex_encode (cd_counterparty_node_id c),
      sf_channel_id = hex_encode (cd_channel_id c), sf_short_channel_id = to_string_empty (cd_short_channel_id c)\<rparr>"

text \<open>The map from a peer to its channels, as an association list.\<close>

fun add_peer_channel :: "channel_details \<Rightarrow> (pubkey \<times> channel_details list) list \<Rightarrow> (pubkey \<times> channel_details list) list" where
  "add_peer_channel c [] = [(cd_counterparty_node_id c, [c])]"
| "add_peer_channel c ((k, cs) # m) =
     (if k = cd_counterparty_node_id c then (k, cs @ [c]) # m else (k, cs) # add_peer_channel c m)"

definition peer_channels :: "channel_details list \<Rightarrow> (pubkey \<times> channel_details list) list" where
  "peer_channels cs = fold add_peer_channel cs []"

text \<open>\<open>set_fee\<close> is \<open>set_channel_fee\<close> of the lightning interface. The hash map is iterated in an order of its own;
  \<open>iter\<close> gives that order.\<close>

fun set_fee_groups ::
  "(pubkey \<Rightarrow> bytes list \<Rightarrow> (u32 \<times> u32) outcome) \<Rightarrow> (pubkey \<times> channel_details list) list \<Rightarrow> set_fee_item list response" where
  "set_fee_groups set_fee [] = Inr []"
| "set_fee_groups set_fee ((k, cs) # m) =
     bind_response (internal_server (set_fee k (map cd_channel_id cs))) (\<lambda>fee.
     bind_response (set_fee_groups set_fee m) (\<lambda>items. Inr (map (set_fee_item_of fee) cs @ items)))"

definition api_set_channel_fee ::
  "((pubkey \<times> channel_details list) list \<Rightarrow> (pubkey \<times> channel_details list) list) \<Rightarrow>
   (pubkey \<Rightarrow> bytes list \<Rightarrow> (u32 \<times> u32) outcome) \<Rightarrow> channel_details list \<Rightarrow> string \<Rightarrow> set_fee_item list response" where
  "api_set_channel_fee iter set_fee channels cid =
     (if cid = ''all'' then set_fee_groups set_fee (iter (peer_channels channels))
      else case List.find (channel_matches cid) channels of
        Some c \<Rightarrow> bind_response (internal_server (set_fee (cd_counterparty_node_id c) [cd_channel_id c])) (\<lambda>fee.
          Inr [set_fee_item_of fee c])
      | None \<Rightarrow> Inl (NotFound cid))"

section \<open>Channels of the peers\<close>

record peer_channel =
  pc_alias :: string
  pc_channel_id :: string
  pc_dust_limit_msat :: u64
  pc_fee_base_msat :: u32
  pc_fee_proportional_millionths :: u32
  pc_opener_local :: bool
  pc_peer_connected :: bool
  pc_peer_id :: string
  pc_private :: bool
  pc_receivable_msat :: u64
  pc_short_channel_id :: "string option"
  pc_spendable_msat :: u64
  pc_state_normal :: bool
  pc_our_reserve_msat :: "u64 option"
  pc_their_reserve_msat :: u64
  pc_to_them_msat :: u64
  pc_to_us_msat :: u64
  pc_total_msat :: u64

definition peer_shown_connected :: "peer_info list \<Rightarrow> pubkey \<Rightarrow> bool" where
  "peer_shown_connected peers k =
     (case List.find (\<lambda>p. pi_public_key p = k) peers of Some p \<Rightarrow> pi_status p = Connected | None \<Rightarrow> False)"

definition peer_channel_of ::
  "(pubkey \<Rightarrow> string option) \<Rightarrow> peer_info list \<Rightarrow> channel_details \<Rightarrow> peer_channel response" where
  "peer_channel_of alias_of peers c =
     bind_response (internal_server (ok_or (Msg ''expected channel config'') (cd_config c))) (\<lambda>config. Inr
       \<lparr>pc_alias = (case alias_of (cd_counterparty_node_id c) of Some a \<Rightarrow> a | None \<Rightarrow> []),
        pc_channel_id = hex_encode (cd_channel_id c),
        pc_dust_limit_msat = (case cfg_max_dust_htlc_exposure config of FixedLimitMsat x \<Rightarrow> x | FeeRateMultiplier x \<Rightarrow> x),
        pc_fee_base_msat = cfg_forwarding_fee_base_msat config,
        pc_fee_proportional_millionths = cfg_forwarding_fee_proportional_millionths config,
        pc_opener_local = cd_is_outbound c,
        pc_peer_connected = peer_shown_connected peers (cd_counterparty_node_id c),
        pc_peer_id = hex_encode (cd_counterparty_node_id c), pc_private = (\<not> cd_is_public c),
        pc_receivable_msat = cd_inbound_capacity_msat c,
        pc_short_channel_id = map_option u64_to_string (cd_short_channel_id c),
        pc_spendable_msat = cd_outbound_capacity_msat c, pc_state_normal = cd_is_usable c,
        pc_our_reserve_msat = map_option (\<lambda>x. x * 1000) (cd_reserve c),
        pc_their_reserve_msat = cd_counterparty_reserve c * 1000,
        pc_to_them_msat = cd_channel_value_satoshis c * 1000 - cd_balance_msat c,
        pc_to_us_msat = cd_balance_msat c, pc_total_msat = cd_channel_value_satoshis c * 1000\<rparr>)"

fun collect_response :: "('a \<Rightarrow> 'b response) \<Rightarrow> 'a list \<Rightarrow> 'b list response" where
  "collect_response f [] = Inr []"
| "collect_response f (x # xs) =
     bind_response (f x) (\<lambda>y. bind_response (collect_response f xs) (\<lambda>ys. Inr (y # ys)))"

definition list_peer_channels ::
  "(pubkey \<Rightarrow> string option) \<Rightarrow> peer_info list outcome \<Rightarrow> channel_details list \<Rightarrow> peer_channel list response" where
  "list_peer_channels alias_of peers channels =
     bind_response (internal_server peers) (\<lambda>ps. collect_response (peer_channel_of alias_of ps) channels)"

section \<open>Opening a channel\<close>

record fund_channel =
  fc_id :: string
  fc_satoshis :: string
  fc_push_msat :: "string option"
  fc_fee_rate :: "fee_rate option"
  fc_announce :: "bool option"

text \<open>\<open>parse_key\<close> and \<open>parse_address\<close> are the parsers of \<open>PublicKey\<close> and of \<open>api/skt_addr.rs\<close>; \<open>connect\<close> and
  \<open>open_chan\<close> are \<open>connect_peer\<close> and \<open>open_channel\<close> of the lightning interface. The peer is connected before
  the amounts are read.\<close>

definition api_open_channel ::
  "(string \<Rightarrow> pubkey outcome) \<Rightarrow> (string \<Rightarrow> 'addr outcome) \<Rightarrow> (pubkey \<Rightarrow> 'addr option \<Rightarrow> unit outcome) \<Rightarrow>
   (pubkey \<Rightarrow> u64 \<Rightarrow> u64 option \<Rightarrow> fee_rate option \<Rightarrow> bool \<Rightarrow> 'r outcome) \<Rightarrow> bool \<Rightarrow> fund_channel \<Rightarrow> 'r response" where
  "api_open_channel parse_key parse_address connect open_chan announced_default f =
     bind_response (case split_once (CHR ''@'') (fc_id f) of
         Some (k, a) \<Rightarrow> bind_response (bad_request (parse_key k)) (\<lambda>pk.
                        bind_response (bad_request (parse_address a)) (\<lambda>addr. Inr (pk, Some addr)))
       | None \<Rightarrow> bind_response (bad_request (parse_key (fc_id f))) (\<lambda>pk. Inr (pk, None))) (\<lambda>(pk, addr).
     bind_response (internal_server (connect pk addr)) (\<lambda>_.
     bind_response (bad_request (ok_or (Msg ''invalid digit found in string'') (parse_u64 (fc_satoshis f)))) (\<lambda>val.
     bind_response (case fc_push_msat f of
         None \<Rightarrow> Inr None
       | Some s \<Rightarrow> bind_response (bad_request (ok_or (Msg ''invalid digit found in string'') (parse_u64 s))) (\<lambda>x. Inr (Some x))) (\<lambda>push.
     internal_server (open_chan pk val push (fc_fee_rate f)
       (case fc_announce f of Some a \<Rightarrow> a | None \<Rightarrow> announced_default))))))"

section \<open>Balances, forwards and history\<close>

record channel_balances =
  cb_local :: u64
  cb_remote :: u64
  cb_pending :: u64
  cb_inactive :: u64

definition add_balance :: "channel_balances \<Rightarrow> channel_details \<Rightarrow> channel_balances" where
  "add_balance b c =
     (if cd_is_usable c
      then b\<lparr>cb_local := cb_local b + cd_balance_msat c,
             cb_remote := cb_remote b + (cd_channel_value_satoshis c * 1000 - cd_balance_msat c)\<rparr>
      else if cd_is_channel_ready c then b\<lparr>cb_inactive := cb_inactive b + cd_balance_msat c\<rparr>
      else b\<lparr>cb_pending := cb_pending b + cd_balance_msat c\<rparr>)"

definition local_remote_balance :: "channel_details list \<Rightarrow> channel_balances" where
  "local_remote_balance cs =
     (let b = foldl add_balance \<lparr>cb_local = 0, cb_remote = 0, cb_pending = 0, cb_inactive = 0\<rparr> cs
      in \<lparr>cb_local = cb_local b div 1000, cb_remote = cb_remote b div 1000,
          cb_pending = cb_pending b div 1000, cb_inactive = cb_inactive b div 1000\<rparr>)"

datatype forward_item_status = Settled | Offered | LocalFailed | ForwardItemFailed

record forward_item =
  fi_failcode :: "string option"
  fi_failreason :: "string option"
  fi_fee_msat :: "u64 option"
  fi_in_channel :: string
  fi_in_msat :: "u64 option"
  fi_out_channel :: "string option"
  fi_out_msat :: "u64 option"
  fi_payment_hash :: "string option"
  fi_received_timestamp :: int
  fi_resolved_timestamp :: int
  fi_status :: forward_item_status

fun forward_filter :: "forward_item_status option \<Rightarrow> forward_status option" where
  "forward_filter None = None"
| "forward_filter (Some Settled) = Some FwdSucceeded"
| "forward_filter (Some Offered) = Some FwdSucceeded"
| "forward_filter _ = Some FwdFailed"

fun failcode :: "htlc_destination \<Rightarrow> string" where
  "failcode (NextHopChannel _ _) = ''NextHopChannel''"
| "failcode (UnknownNextHop _) = ''UnknownNextHop''"
| "failcode (InvalidForward _) = ''InvalidFormat''"
| "failcode (FailedPayment _) = ''FailedPayment''"

text \<open>\<open>htlc_destination_to_string\<close> of \<^verbatim>\<open>ldk/mod.rs\<close>.\<close>

fun htlc_destination_to_string :: "htlc_destination \<Rightarrow> string" where
  "htlc_destination_to_string (NextHopChannel _ channel_id) = ''Next hop channel ID '' @ hex_encode channel_id"
| "htlc_destination_to_string (UnknownNextHop scid) = ''Unknown next hop to requested SCID '' @ u64_to_string scid"
| "htlc_destination_to_string (InvalidForward scid) = ''Invalid forward to requested SCID '' @ u64_to_string scid"
| "htlc_destination_to_string (FailedPayment payment_hash) = ''Failed payment with hash '' @ hex_encode payment_hash"

definition forward_item_of :: "forward \<Rightarrow> forward_item" where
  "forward_item_of f =
     \<lparr>fi_failcode = map_option failcode (fwd_htlc_destination f),
      fi_failreason = map_option htlc_destination_to_string (fwd_htlc_destination f), fi_fee_msat = fwd_fee f,
      fi_in_channel = hex_encode (fwd_inbound_channel_id f), fi_in_msat = fwd_amount f,
      fi_out_channel = map_option hex_encode (fwd_outbound_channel_id f),
      fi_out_msat = Option.bind (fwd_amount f) (\<lambda>a. map_option (\<lambda>x. a - x) (fwd_fee f)),
      fi_payment_hash = (case fwd_htlc_destination f of Some (FailedPayment h) \<Rightarrow> Some (hex_encode h) | _ \<Rightarrow> None),
      fi_received_timestamp = unix_timestamp (fwd_timestamp f),
      fi_resolved_timestamp = unix_timestamp (fwd_timestamp f),
      fi_status = (case fwd_status f of FwdSucceeded \<Rightarrow> Settled | FwdFailed \<Rightarrow> ForwardItemFailed)\<rparr>"

definition api_list_forwards ::
  "(forward_status option \<Rightarrow> forward list outcome) \<Rightarrow> forward_item_status option \<Rightarrow> forward_item list response" where
  "api_list_forwards fetch status =
     bind_response (internal_server (fetch (forward_filter status))) (\<lambda>fs. Inr (map forward_item_of fs))"

record history_item =
  hi_close_timestamp :: int
  hi_closure_reason :: string
  hi_detail :: channel_details
    \<comment> \<open>the source of the copied fields\<close>
  hi_open_timestamp :: int
  hi_scid :: u64

definition history_item_of :: "channel_record \<Rightarrow> history_item option" where
  "history_item_of r = map_option (\<lambda>d.
     \<lparr>hi_close_timestamp = unix_timestamp (cr_update_timestamp r),
      hi_closure_reason = (case cr_closure_reason r of Some s \<Rightarrow> s | None \<Rightarrow> []), hi_detail = d,
      hi_open_timestamp = unix_timestamp (cr_open_timestamp r),
      hi_scid = (case cd_short_channel_id d of Some x \<Rightarrow> x | None \<Rightarrow> 0)\<rparr>) (cr_detail r)"

definition channel_history :: "channel_record list outcome \<Rightarrow> history_item list response" where
  "channel_history records = bind_response (internal_server records) (\<lambda>rs. Inr (List.map_filter history_item_of rs))"

end
