(* ===== verification/Api_Channels_Correct.thy ===== *)
theory Api_Channels_Correct
  imports Api_Channels
begin

text \<open>
  What the channel routes show and change: the merge of the recorded channels with those in memory, the lookup
  of a channel by the id of a request, and the fee of all channels at once.
\<close>

section \<open>The list of channels\<close>

lemma scan_index_Some:
  "scan_index i cid cs f = Some k \<Longrightarrow> f = Some k \<or> (i \<le> k \<and> k < i + length cs \<and> cd_channel_id (cs ! (k - i)) = cid)"
proof (induction cs arbitrary: i f)
  case (Cons c cs)
  define f' where "f' = (if cd_channel_id c = cid then Some i else f)"
  have "f' = Some k \<or> (Suc i \<le> k \<and> k < Suc i + length cs \<and> cd_channel_id (cs ! (k - Suc i)) = cid)"
    by (rule Cons.IH) (use Cons.prems in \<open>simp add: f'_def\<close>)
  then show ?case
  proof
    assume "f' = Some k"
    then show ?thesis by (auto simp: f'_def split: if_splits)
  next
    assume k: "Suc i \<le> k \<and> k < Suc i + length cs \<and> cd_channel_id (cs ! (k - Suc i)) = cid"
    then have "k - i = Suc (k - Suc i)" by arith
    with k show ?thesis by simp
  qed
qed simp

lemma scan_index_None: "scan_index i cid cs f = None \<longleftrightarrow> f = None \<and> cid \<notin> cd_channel_id ` set cs"
  by (induction cs arbitrary: i f) auto

lemma mset_remove_nth: "k < length xs \<Longrightarrow> mset xs = add_mset (xs ! k) (mset (take k xs @ drop (Suc k) xs))"
  by (metis id_take_nth_drop mset_append union_code union_mset_add_mset_right mset.simps(2))

text \<open>An item with a monitor takes its details out of memory, any other one takes nothing.\<close>

lemma record_item_memory:
  assumes "record_item defaults r mem = (item, rest)"
  shows "if ci_has_monitor item then \<exists>c. ci_detail item = Some c \<and> mset mem = add_mset c (mset rest) else rest = mem"
proof (cases "cr_detail r")
  case (Some d)
  show ?thesis
  proof (cases "scan_index 0 (cd_channel_id d) mem None")
    case (Some k)
    then have "k < length mem" by (auto dest: scan_index_Some)
    then show ?thesis
      using assms Some \<open>cr_detail r = Some d\<close> by (auto simp: record_item_def Let_def mset_remove_nth)
  qed (use assms Some in \<open>auto simp: record_item_def Let_def\<close>)
qed (use assms in \<open>auto simp: record_item_def\<close>)

lemma record_item_fields:
  assumes "record_item defaults r mem = (item, rest)" and "cr_detail r = Some d"
  shows "ci_channel_id item = hex_encode (cd_channel_id d) \<and> ci_config item = Some (config_or defaults d) \<and>
    ci_closure_reason item = cr_closure_reason r"
proof (cases "scan_index 0 (cd_channel_id d) mem None")
  case (Some k)
  then have "cd_channel_id (mem ! k) = cd_channel_id d" by (auto dest: scan_index_Some)
  then show ?thesis using assms Some by (auto simp: record_item_def Let_def)
qed (use assms in \<open>auto simp: record_item_def Let_def\<close>)

lemma merge_channels_memory:
  "mset (map ci_detail (filter ci_has_monitor (merge_channels defaults rs mem))) = mset (map Some mem)"
proof (induction rs arbitrary: mem)
  case Nil
  have "filter ci_has_monitor (map (unrecorded_item defaults) mem) = map (unrecorded_item defaults) mem"
    by (simp add: filter_map comp_def unrecorded_item_def)
  then show ?case
    by (simp del: mset_map add: comp_def unrecorded_item_def)
next
  case (Cons r rs)
  obtain item rest where r: "record_item defaults r mem = (item, rest)" by force
  show ?case
  proof (cases "ci_has_monitor item")
    case True
    then obtain c where "ci_detail item = Some c" "mset mem = add_mset c (mset rest)"
      using record_item_memory [OF r] by auto
    then show ?thesis using r True Cons.IH [of rest] by simp
  next
    case False
    then show ?thesis using r record_item_memory [OF r] Cons.IH [of mem] by simp
  qed
qed

lemma merge_channels_nth:
  "i < length rs \<Longrightarrow> cr_detail (rs ! i) = Some d \<Longrightarrow>
    ci_channel_id (merge_channels defaults rs mem ! i) = hex_encode (cd_channel_id d) \<and>
    ci_config (merge_channels defaults rs mem ! i) = Some (config_or defaults d) \<and>
    ci_closure_reason (merge_channels defaults rs mem ! i) = cr_closure_reason (rs ! i)"
proof (induction rs arbitrary: i mem)
  case (Cons r rs)
  obtain item rest where r: "record_item defaults r mem = (item, rest)" by force
  show ?case
  proof (cases i)
    case 0
    then show ?thesis using r record_item_fields [OF r] Cons.prems by simp
  next
    case (Suc j)
    then show ?thesis using r Cons.IH [of j rest] Cons.prems by simp
  qed
qed simp

text \<open>C21: Whatever the database holds, the list of channels shows every channel in memory exactly once with its
  current details and marked as monitored, and keeps the recorded channels first, in their order, with
  their reason of closure. The configuration shown beside the current details is the recorded one,
  though: a fee that was set after the channel was recorded does not appear.\<close>

theorem list_channels_complete:
  assumes "list_channels enc now server_now defaults mem (Ok rs) db = (db', Inr items)"
  shows "mset (map ci_detail (filter ci_has_monitor items)) = mset (map Some mem) \<and>
    (\<forall>i < length rs. \<forall>d. cr_detail (rs ! i) = Some d \<longrightarrow>
       ci_channel_id (items ! i) = hex_encode (cd_channel_id d) \<and>
       ci_config (items ! i) = Some (config_or defaults d) \<and>
       ci_closure_reason (items ! i) = cr_closure_reason (rs ! i))"
  using assms merge_channels_memory merge_channels_nth by (auto simp: list_channels_def)

definition listed_channel_config :: channel_config where
  "listed_channel_config =
     \<lparr>cfg_forwarding_fee_proportional_millionths = 0, cfg_forwarding_fee_base_msat = 1000, cfg_cltv_expiry_delta = 72,
      cfg_max_dust_htlc_exposure = FixedLimitMsat 5000000\<rparr>"

definition listed_channel :: channel_details where
  "listed_channel =
     \<lparr>cd_channel_id = replicate 32 1, cd_counterparty_node_id = replicate 33 2, cd_counterparty_reserve = 0,
      cd_funding_txo = None, cd_short_channel_id = None, cd_channel_value_satoshis = 1000000, cd_reserve = None,
      cd_user_channel_id = 0, cd_balance_msat = 7000, cd_outbound_capacity_msat = 0, cd_inbound_capacity_msat = 0,
      cd_is_outbound = True, cd_is_channel_ready = True, cd_is_usable = True, cd_is_public = True,
      cd_config = Some listed_channel_config\<rparr>"

definition listed_channel_record :: channel_record where
  "listed_channel_record =
     \<lparr>cr_channel_id = [], cr_counterparty = [], cr_open_timestamp = \<lparr>odt_secs = 0, odt_nanosecond = 0, odt_offset = 0\<rparr>,
      cr_update_timestamp = \<lparr>odt_secs = 0, odt_nanosecond = 0, odt_offset = 0\<rparr>, cr_closure_reason = None,
      cr_detail = Some listed_channel\<rparr>"

text \<open>The fee of the channel in memory was set to 5000, its record still has 1000.\<close>

theorem list_channels_complete_witness:
  "let live = listed_channel\<lparr>cd_config := Some (listed_channel_config\<lparr>cfg_forwarding_fee_base_msat := 5000\<rparr>)\<rparr>;
       items = merge_channels listed_channel_config [listed_channel_record] [live]
   in map ci_detail (filter ci_has_monitor items) = [Some live] \<and>
      map_option cfg_forwarding_fee_base_msat (ci_config (items ! 0)) = Some 1000"
proof -
  let ?live = "listed_channel\<lparr>cd_config := Some (listed_channel_config\<lparr>cfg_forwarding_fee_base_msat := 5000\<rparr>)\<rparr>"
  let ?items = "merge_channels listed_channel_config [listed_channel_record] [?live]"
  have l: "list_channels (\<lambda>_. []) now server_now listed_channel_config [?live] (Ok [listed_channel_record]) db =
      (db, Inr ?items)" for now server_now db
    by (simp add: list_channels_def)
  have d: "cr_detail listed_channel_record = Some listed_channel" by (simp add: listed_channel_record_def)
  have "mset (map ci_detail (filter ci_has_monitor ?items)) = {#Some ?live#}"
    and "ci_config (?items ! 0) = Some (config_or listed_channel_config listed_channel)"
    using list_channels_complete [OF l] d by (simp_all del: merge_channels.simps)
  moreover have "config_or listed_channel_config listed_channel = listed_channel_config"
    by (simp add: config_or_def listed_channel_def)
  ultimately show ?thesis
    by (simp del: merge_channels.simps mset_map add: Let_def listed_channel_config_def)
qed

section \<open>Looking up a channel\<close>

lemma length_dec_digits: "n < 10 ^ k \<Longrightarrow> 0 < k \<Longrightarrow> length (dec_digits n) \<le> k"
proof (induction n arbitrary: k rule: dec_digits.induct)
  case (1 n)
  show ?case
  proof (cases "n < 10")
    case False
    then obtain j where k: "k = Suc j" "0 < j" "n div 10 < 10 ^ j"
      using 1 by (cases k) (auto simp: less_mult_imp_div_less mult.commute intro: Suc_leI, cases "k - 1", auto)
    then show ?thesis
      using "1.IH" [OF False k(3) k(2)] by (simp add: dec_digits.simps [of n])
  qed (use 1 in \<open>simp add: dec_digits.simps [of n]\<close>)
qed

lemma length_u64_to_string: "length (u64_to_string x) \<le> 20"
proof -
  have "unat x < 2 ^ 64" using unsigned_less [of x, where 'a = nat] by simp
  then have "unat x < 10 ^ 20" by simp
  then show ?thesis
    using length_dec_digits [of "unat x" 20] by (simp add: u64_to_string_def nat_to_string_def)
qed

lemma hex_id_not_decimal: "len32 b \<Longrightarrow> hex_encode b \<noteq> u64_to_string x"
  using length_u64_to_string [of x] by (auto simp: len32_def dest!: arg_cong [where f = length])

lemma channel_matches_hex:
  "len32 b \<Longrightarrow> channel_matches (hex_encode b) c \<longleftrightarrow> cd_channel_id c = b"
  by (metis channel_matches_def hex_encode_inject hex_id_not_decimal)

lemma channel_matches_scid:
  "len32 (cd_channel_id c) \<Longrightarrow> channel_matches (u64_to_string x) c \<longleftrightarrow>
     cd_short_channel_id c = Some x \<or> x = 0 \<and> cd_short_channel_id c = None"
  using hex_id_not_decimal [of "cd_channel_id c" x]
  by (auto simp: channel_matches_def split: option.splits)

lemma find_by_id:
  "distinct (map f cs) \<Longrightarrow> c \<in> set cs \<Longrightarrow> List.find (\<lambda>d. f d = f c) cs = Some c"
  by (induction cs) (auto simp: image_iff)

lemma find_cong_set: "(\<And>c. c \<in> set cs \<Longrightarrow> p c = q c) \<Longrightarrow> List.find p cs = List.find q cs"
  by (induction cs) auto

text \<open>A close request that names a channel by its id closes that channel and no other; one that names it by its
  short channel id closes the first channel with that short channel id, and when there is none the answer
  is \<open>NotFound\<close> and nothing is closed. The id 0 is the exception: it closes the first channel that has no
  short channel id yet.\<close>

theorem close_channel_by_id:
  assumes "distinct (map cd_channel_id cs)" and "\<forall>c \<in> set cs. len32 (cd_channel_id c)" and "c \<in> set cs"
  shows "api_close_channel close cs (hex_encode (cd_channel_id c)) fee =
      internal_server (close (cd_channel_id c) (cd_counterparty_node_id c) fee) \<and>
    api_close_channel close cs (u64_to_string x) fee =
      (case List.find (\<lambda>d. cd_short_channel_id d = Some x \<or> x = 0 \<and> cd_short_channel_id d = None) cs of
         Some d \<Rightarrow> internal_server (close (cd_channel_id d) (cd_counterparty_node_id d) fee)
       | None \<Rightarrow> Inl (NotFound (u64_to_string x)))"
proof -
  have "channel_matches (hex_encode (cd_channel_id c)) = (\<lambda>d. cd_channel_id d = cd_channel_id c)"
    using assms by (auto simp: channel_matches_hex)
  then have "List.find (channel_matches (hex_encode (cd_channel_id c))) cs = Some c"
    using find_by_id [OF assms(1,3)] by simp
  moreover have "List.find (channel_matches (u64_to_string x)) cs =
      List.find (\<lambda>d. cd_short_channel_id d = Some x \<or> x = 0 \<and> cd_short_channel_id d = None) cs"
    using assms(2) by (intro find_cong_set) (simp add: channel_matches_scid)
  ultimately show ?thesis by (simp add: api_close_channel_def)
qed

text \<open>Two channels, the first with no short channel id: the request to close 0 closes it.\<close>

theorem close_channel_by_id_witness:
  "let c1 = listed_channel; c2 = listed_channel\<lparr>cd_channel_id := replicate 32 9, cd_short_channel_id := Some 77\<rparr>;
       close = (\<lambda>i k fee. if i = replicate 32 9 then Ok () else Err (Msg ''first''))
   in api_close_channel close [c1, c2] (hex_encode (replicate 32 9)) None = Inr () \<and>
      api_close_channel close [c1, c2] (u64_to_string 77) None = Inr () \<and>
      api_close_channel close [c1, c2] (u64_to_string 0) None = Inl (InternalServer (Msg ''first''))"
proof -
  let ?c2 = "listed_channel\<lparr>cd_channel_id := replicate 32 9, cd_short_channel_id := Some 77\<rparr>"
  have ids: "cd_channel_id listed_channel = replicate 32 1" "cd_short_channel_id listed_channel = None"
    by (simp_all add: listed_channel_def)
  have "replicate 32 1 \<noteq> (replicate 32 9 :: u8 list)" by (simp add: replicate_eq_replicate)
  then have d: "distinct (map cd_channel_id [listed_channel, ?c2])"
    and l: "\<forall>c \<in> set [listed_channel, ?c2]. len32 (cd_channel_id c)"
    by (simp_all add: ids len32_def)
  show ?thesis
    using close_channel_by_id [OF d l, of ?c2 "\<lambda>i k fee. if i = replicate 32 9 then Ok () else Err (Msg ''first'')" None 77]
      close_channel_by_id [OF d l, of ?c2 "\<lambda>i k fee. if i = replicate 32 9 then Ok () else Err (Msg ''first'')" None 0]
    by (simp add: ids Let_def \<open>replicate 32 1 \<noteq> replicate 32 9\<close>)
qed

section \<open>The fee of all channels\<close>

lemma add_peer_channel_mset:
  "mset (concat (map snd (add_peer_channel c m))) = add_mset c (mset (concat (map snd m)))"
  by (induction m) auto

definition grouped :: "(pubkey \<times> channel_details list) list \<Rightarrow> bool" where
  "grouped m \<longleftrightarrow> distinct (map fst m) \<and> (\<forall>(k, cs) \<in> set m. cs \<noteq> [] \<and> (\<forall>c \<in> set cs. cd_counterparty_node_id c = k))"

lemma map_fst_add_peer_channel:
  "map fst (add_peer_channel c m) =
     (if cd_counterparty_node_id c \<in> set (map fst m) then map fst m else map fst m @ [cd_counterparty_node_id c])"
proof (induction m)
  case (Cons p m)
  then show ?case by (cases p) (simp del: set_map)
qed simp

lemma add_peer_channel_groups:
  "\<forall>(k, cs) \<in> set m. cs \<noteq> [] \<and> (\<forall>c \<in> set cs. cd_counterparty_node_id c = k) \<Longrightarrow>
    \<forall>(k, cs) \<in> set (add_peer_channel c m). cs \<noteq> [] \<and> (\<forall>c \<in> set cs. cd_counterparty_node_id c = k)"
proof (induction m)
  case (Cons p m)
  then show ?case by (cases p) simp
qed simp

lemma grouped_add: "grouped m \<Longrightarrow> grouped (add_peer_channel c m)"
  unfolding grouped_def using add_peer_channel_groups [of m c] by (simp del: set_map add: map_fst_add_peer_channel)

lemma peer_channels_grouped: "grouped m \<Longrightarrow> grouped (fold add_peer_channel cs m)"
  by (induction cs arbitrary: m) (simp_all add: grouped_add)

lemma peer_channels_mset:
  "mset (concat (map snd (fold add_peer_channel cs m))) = mset cs + mset (concat (map snd m))"
  by (induction cs arbitrary: m) (simp_all add: add_peer_channel_mset)

lemma set_fee_groups_ok:
  "(\<And>k cs. (k, cs) \<in> set m \<Longrightarrow> set_fee k (map cd_channel_id cs) = Ok fee) \<Longrightarrow>
    set_fee_groups set_fee m = Inr (map (set_fee_item_of fee) (concat (map snd m)))"
proof (induction m)
  case (Cons p m)
  obtain k cs where p: "p = (k, cs)" by force
  have "set_fee k (map cd_channel_id cs) = Ok fee" using Cons.prems p by simp
  moreover have "set_fee_groups set_fee m = Inr (map (set_fee_item_of fee) (concat (map snd m)))"
    using Cons by (metis list.set_intros(2))
  ultimately show ?case using p by simp
qed simp

lemma mset_concat_perm: "mset m = mset m' \<Longrightarrow> mset (concat (map snd m)) = mset (concat (map snd m'))"
  by (metis mset_concat map_map mset_map sum_mset_sum_list)

lemma grouped_perm: "mset m = mset m' \<Longrightarrow> grouped m \<longleftrightarrow> grouped m'"
  using mset_eq_imp_distinct_iff [of "map fst m" "map fst m'"] mset_eq_setD [of m m'] by (simp add: grouped_def)

text \<open>In a grouping the channels of a peer are those of its group.\<close>

lemma filter_concat_grouped:
  "grouped m \<Longrightarrow> k \<notin> fst ` set m \<Longrightarrow> filter (\<lambda>c. cd_counterparty_node_id c = k) (concat (map snd m)) = []"
  by (force simp: grouped_def filter_empty_conv)

lemma grouped_group:
  "grouped m \<Longrightarrow> (k, grp) \<in> set m \<Longrightarrow> grp = filter (\<lambda>c. cd_counterparty_node_id c = k) (concat (map snd m))"
proof (induction m)
  case (Cons p m)
  have g: "grouped m" using Cons.prems(1) by (auto simp: grouped_def)
  show ?case
  proof (cases "p = (k, grp)")
    case True
    then have "k \<notin> fst ` set m" and "filter (\<lambda>c. cd_counterparty_node_id c = k) grp = grp"
      using Cons.prems(1) by (auto simp: grouped_def filter_id_conv)
    then show ?thesis using True filter_concat_grouped [OF g] by simp
  next
    case False
    then have "(k, grp) \<in> set m" using Cons.prems(2) by simp
    moreover from this have "fst p \<noteq> k" using Cons.prems(1) by (auto simp: grouped_def image_iff)
    moreover from this have "filter (\<lambda>c. cd_counterparty_node_id c = k) (snd p) = []"
      using Cons.prems(1) by (cases p) (simp add: grouped_def filter_empty_conv)
    ultimately show ?thesis using Cons.IH [OF g] by simp
  qed
qed simp

text \<open>A request to set the fee of \<open>all\<close> asks LDK once for every peer, naming exactly its channels, in whatever order the
  hash map of the peers is iterated; when LDK accepts, the response lists every channel once, with the
  new fee. The fee that was not part of the request is not kept but set to that of the node's defaults.\<close>

theorem set_fee_of_all:
  assumes "mset (iter (peer_channels cs)) = mset (peer_channels cs)"
    and "\<And>k ids cfg. update k ids cfg = Ok ()"
  shows "\<exists>items. api_set_channel_fee iter (\<lambda>k ids. set_channel_fee defaults update k ids ppm base) cs ''all'' = Inr items \<and>
    mset items = mset (map (set_fee_item_of
      (case base of Some b \<Rightarrow> b | None \<Rightarrow> cfg_forwarding_fee_base_msat defaults,
       case ppm of Some p \<Rightarrow> p | None \<Rightarrow> cfg_forwarding_fee_proportional_millionths defaults)) cs) \<and>
    distinct (map fst (iter (peer_channels cs))) \<and>
    (\<forall>(k, grp) \<in> set (iter (peer_channels cs)). mset grp = mset (filter (\<lambda>c. cd_counterparty_node_id c = k) cs))"
proof -
  define fee where "fee = (case base of Some b \<Rightarrow> b | None \<Rightarrow> cfg_forwarding_fee_base_msat defaults,
    case ppm of Some p \<Rightarrow> p | None \<Rightarrow> cfg_forwarding_fee_proportional_millionths defaults)"
  define m where "m = iter (peer_channels cs)"
  have "set_channel_fee defaults update k ids ppm base = Ok fee" for k ids
    using assms(2) by (simp add: set_channel_fee_def fee_def Let_def split: option.splits)
  then have items: "set_fee_groups (\<lambda>k ids. set_channel_fee defaults update k ids ppm base) m =
      Inr (map (set_fee_item_of fee) (concat (map snd m)))"
    by (intro set_fee_groups_ok)
  have all: "mset (concat (map snd m)) = mset cs"
    using mset_concat_perm [OF assms(1)] peer_channels_mset [of cs "[]"] by (simp add: m_def peer_channels_def)
  have "grouped (peer_channels cs)"
    using peer_channels_grouped [of "[]" cs] by (simp add: peer_channels_def grouped_def)
  then have g: "grouped m"
    using grouped_perm assms(1) by (metis m_def)
  have "mset grp = mset (filter (\<lambda>c. cd_counterparty_node_id c = k) cs)" if "(k, grp) \<in> set m" for k grp
    using grouped_group [OF g that] all by (metis mset_filter)
  then show ?thesis
    using items all g
    by (simp add: api_set_channel_fee_def m_def [symmetric] fee_def [symmetric] grouped_def case_prod_unfold)
qed

text \<open>Three channels with two peers, and a hash map that is iterated backwards.\<close>

theorem set_fee_of_all_witness:
  "let c1 = listed_channel; c2 = listed_channel\<lparr>cd_counterparty_node_id := [5]\<rparr>; c3 = listed_channel\<lparr>cd_reserve := Some 3\<rparr>;
       defaults = listed_channel_config
   in \<exists>items. api_set_channel_fee rev
        (\<lambda>k ids. set_channel_fee defaults (\<lambda>_ _ _. Ok ()) k ids (Some 9) None) [c1, c2, c3] ''all'' = Inr items \<and>
      mset (map sf_base items) = {#1000, 1000, 1000#}"
proof -
  let ?cs = "[listed_channel, listed_channel\<lparr>cd_counterparty_node_id := [5]\<rparr>, listed_channel\<lparr>cd_reserve := Some 3\<rparr>]"
  obtain items where i: "api_set_channel_fee rev (\<lambda>k ids. set_channel_fee listed_channel_config (\<lambda>_ _ _. Ok ()) k ids (Some 9) None)
      ?cs ''all'' = Inr items"
    and m: "mset items = mset (map (set_fee_item_of (1000, 9)) ?cs)"
    using set_fee_of_all [of rev ?cs "\<lambda>_ _ _. Ok ()" listed_channel_config "Some 9" None]
    by (auto simp: listed_channel_config_def)
  have "mset (map sf_base items) = image_mset sf_base (mset (map (set_fee_item_of (1000, 9)) ?cs))"
    by (simp only: mset_map m)
  then show ?thesis using i by (auto simp: Let_def set_fee_item_of_def)
qed

end
