(* ===== verification/Api_Payments.thy ===== *)
theory Api_Payments
  imports Api_Channels
begin

text \<open>
  The handlers of invoices and payments (\<^verbatim>\<open>api/invoices.rs\<close>, \<^verbatim>\<open>api/payments.rs\<close>).  What the lightning
  interface answers is an argument, and so is what the invoice library reads out of an invoice beyond the
  fields of \<open>bolt11_invoice\<close>.  A \<open>Duration\<close> that is compared with whole seconds is its seconds.
\<close>

section \<open>Invoices\<close>

datatype invoice_description = DirectDescription string | HashDescription bytes

record bolt11_lib =
  bl_description :: "bolt11_invoice \<Rightarrow> invoice_description"
  bl_expires_at :: "bolt11_invoice \<Rightarrow> u64 option"
  bl_payee :: "bolt11_invoice \<Rightarrow> pubkey option"

record generate_invoice_request =
  gi_amount :: u64
  gi_label :: string
  gi_description :: string
  gi_expiry :: "u32 option"

record generate_invoice_response =
  gr_payment_hash :: string
  gr_expires_at :: u32
  gr_bolt11 :: string

definition LABEL_MAX :: nat where
  "LABEL_MAX = 100"

definition api_generate_invoice ::
  "bolt11_lib \<Rightarrow> (string \<Rightarrow> u64 option \<Rightarrow> string \<Rightarrow> u32 option \<Rightarrow> invoice outcome) \<Rightarrow> generate_invoice_request \<Rightarrow>
   generate_invoice_response response" where
  "api_generate_invoice lib generate r =
     (if length (gi_label r) > LABEL_MAX then Inl (BadRequest (Msg ''Label max length is 100 chars''))
      else bind_response (internal_server (generate (gi_label r) (Some (gi_amount r)) (gi_description r) (gi_expiry r))) (\<lambda>i.
        bind_response (bad_request (ok_or (Msg ''expiry is too far in the future'') (bl_expires_at lib (inv_bolt11 i)))) (\<lambda>e.
          Inr \<lparr>gr_payment_hash = b11_text (inv_bolt11 i), gr_expires_at = ucast e, gr_bolt11 = b11_text (inv_bolt11 i)\<rparr>)))"

datatype invoice_status = Unpaid | Paid | InvoiceExpired

record invoice_item =
  ii_label :: "string option"
  ii_bolt11 :: string
  ii_payment_hash :: string
  ii_amount_msat :: "u64 option"
  ii_status :: invoice_status
  ii_amount_received_msat :: "u64 option"
  ii_paid_at :: "u32 option"
  ii_description :: string
  ii_expires_at :: "u64 option"

text \<open>\<open>now\<close> is the time since the epoch in seconds. The second test compares the time an invoice is valid for with it.\<close>

definition invoice_status_at :: "nat \<Rightarrow> invoice \<Rightarrow> invoice_status" where
  "invoice_status_at now i =
     (if inv_payments i \<noteq> [] then Paid
      else if unat (b11_expiry_secs (inv_bolt11 i)) > now then InvoiceExpired
      else Unpaid)"

definition amount_received :: "invoice \<Rightarrow> u64" where
  "amount_received i = foldl (\<lambda>sum p. sum + pay_amount p) 0 (inv_payments i)"

definition invoice_item_of :: "bolt11_lib \<Rightarrow> nat \<Rightarrow> invoice \<Rightarrow> invoice_item" where
  "invoice_item_of lib now i =
     \<lparr>ii_label = inv_label i, ii_bolt11 = b11_text (inv_bolt11 i),
      ii_payment_hash = hex_encode (b11_payment_hash (inv_bolt11 i)), ii_amount_msat = b11_amount_msat (inv_bolt11 i),
      ii_status = invoice_status_at now i,
      ii_amount_received_msat = (if amount_received i > 0 then Some (amount_received i) else None),
      ii_paid_at = (case inv_payments i of [] \<Rightarrow> None | p # _ \<Rightarrow> Some (word_of_int (unix_timestamp (pay_timestamp p)))),
      ii_description = (case bl_description lib (inv_bolt11 i) of DirectDescription d \<Rightarrow> d | HashDescription h \<Rightarrow> hex_encode h),
      ii_expires_at = bl_expires_at lib (inv_bolt11 i)\<rparr>"

definition api_list_invoices ::
  "bolt11_lib \<Rightarrow> nat \<Rightarrow> (string option \<Rightarrow> invoice list outcome) \<Rightarrow> string option \<Rightarrow> invoice_item list response" where
  "api_list_invoices lib now fetch label =
     (if (case label of Some l \<Rightarrow> length l > LABEL_MAX | None \<Rightarrow> False)
      then Inl (BadRequest (Msg ''Label max length is 100 chars''))
      else bind_response (internal_server (fetch label)) (\<lambda>is. Inr (map (invoice_item_of lib now) is)))"

record decoded_invoice =
  di_valid :: bool
  di_amount_msat :: "u64 option"
  di_created_at :: nat
  di_expiry :: u64
  di_payee :: "string option"
  di_payment_hash :: string

text \<open>\<open>decode_invoice\<close>; currency, description and signature are copied from the library.\<close>

definition decode_invoice :: "bolt11_lib \<Rightarrow> (string \<Rightarrow> bolt11_invoice option) \<Rightarrow> string \<Rightarrow> decoded_invoice response" where
  "decode_invoice lib from_str s =
     (case from_str s of
        Some b \<Rightarrow> Inr \<lparr>di_valid = b11_signature_ok b, di_amount_msat = b11_amount_msat b, di_created_at = b11_timestamp b,
           di_expiry = b11_expiry_secs b, di_payee = map_option hex_encode (bl_payee lib b),
           di_payment_hash = hex_encode (b11_payment_hash b)\<rparr>
      | None \<Rightarrow> Inl (BadRequest (Msg ''Invoice could not be decoded'')))"

section \<open>Payments\<close>

record payment_response =
  pp_destination :: string
  pp_payment_hash :: string
  pp_created_at :: u64
  pp_parts :: u64
  pp_amount_msat :: "u64 option"
  pp_amount_sent_msat :: u64
  pp_payment_preimage :: string
  pp_status :: string

definition payment_response_of :: "string \<Rightarrow> u64 option \<Rightarrow> u64 \<Rightarrow> payment \<Rightarrow> payment_response response" where
  "payment_response_of destination amount sent p =
     bind_response (internal_server (ok_or (Msg ''missing payment hash'') (pay_hash p))) (\<lambda>h. Inr
       \<lparr>pp_destination = destination, pp_payment_hash = hex_encode h,
        pp_created_at = word_of_int (unix_timestamp (pay_timestamp p)), pp_parts = 1, pp_amount_msat = amount,
        pp_amount_sent_msat = sent,
        pp_payment_preimage = (case pay_preimage p of Some i \<Rightarrow> hex_encode i | None \<Rightarrow> []),
        pp_status = payment_status_fmt (pay_status p)\<rparr>)"

text \<open>\<open>node_id\<close> is the parser of a node id, \<open>send\<close> is \<open>keysend_payment\<close> of the lightning interface.\<close>

definition api_keysend ::
  "(string \<Rightarrow> pubkey option) \<Rightarrow> (pubkey \<Rightarrow> u64 \<Rightarrow> payment outcome) \<Rightarrow> string \<Rightarrow> u64 \<Rightarrow> payment_response response" where
  "api_keysend node_id send pubkey amount =
     bind_response (bad_request (ok_or (Msg ''node id decode error'') (node_id pubkey))) (\<lambda>k.
     bind_response (internal_server (send k amount)) (\<lambda>p.
       payment_response_of pubkey (Some amount) (amount * 1000) p))"

definition api_pay_invoice ::
  "(string \<Rightarrow> bolt11_invoice option) \<Rightarrow> (invoice \<Rightarrow> string option \<Rightarrow> payment outcome) \<Rightarrow> string \<Rightarrow> string option \<Rightarrow>
   payment_response response" where
  "api_pay_invoice from_str pay s label =
     bind_response (bad_request (invoice_try_from from_str s)) (\<lambda>i.
     bind_response (internal_server (pay i label)) (\<lambda>p.
       payment_response_of (hex_encode (inv_payee_pub_key i)) (inv_amount i) (pay_amount p) p))"

datatype payment_item_status = ItemPending | ItemComplete | ItemFailed

fun payment_item_status_of :: "payment_status \<Rightarrow> payment_item_status" where
  "payment_item_status_of Pending = ItemPending"
| "payment_item_status_of Succeeded = ItemComplete"
| "payment_item_status_of _ = ItemFailed"

record payment_item =
  pt_bolt11 :: "string option"
  pt_status :: payment_item_status
  pt_payment_preimage :: "string option"
  pt_amount_sent_msat :: u64
  pt_amount_msat :: "u64 option"
  pt_created_at :: u64
  pt_destination :: "string option"
  pt_id :: string
  pt_memo :: "string option"
  pt_payment_hash :: "string option"

definition payment_item_of :: "bolt11_lib \<Rightarrow> payment \<Rightarrow> payment_item" where
  "payment_item_of lib p =
     \<lparr>pt_bolt11 = map_option b11_text (pay_bolt11 p), pt_status = payment_item_status_of (pay_status p),
      pt_payment_preimage = map_option hex_encode (pay_preimage p), pt_amount_sent_msat = pay_amount p,
      pt_amount_msat = Option.bind (pay_bolt11 p) b11_amount_msat,
      pt_created_at = word_of_int (unix_timestamp (pay_timestamp p)),
      pt_destination = Option.bind (pay_bolt11 p) (\<lambda>b. map_option hex_encode (bl_payee lib b)),
      pt_id = hex_encode (pay_id p), pt_memo = pay_label p, pt_payment_hash = map_option hex_encode (pay_hash p)\<rparr>"

definition api_list_payments ::
  "bolt11_lib \<Rightarrow> (string \<Rightarrow> bolt11_invoice option) \<Rightarrow>
   (invoice option \<Rightarrow> payment_direction option \<Rightarrow> payment list outcome) \<Rightarrow> string option \<Rightarrow> string option \<Rightarrow>
   payment_item list response" where
  "api_list_payments lib from_str fetch inv_text direction =
     bind_response (case inv_text of None \<Rightarrow> Inr None
       | Some s \<Rightarrow> bind_response (bad_request (invoice_try_from from_str s)) (\<lambda>i. Inr (Some i))) (\<lambda>i.
     bind_response (case direction of None \<Rightarrow> Inr None
       | Some s \<Rightarrow> bind_response (bad_request (payment_direction_from_str s)) (\<lambda>d. Inr (Some d))) (\<lambda>d.
     bind_response (internal_server (fetch i d)) (\<lambda>ps. Inr (map (payment_item_of lib) ps))))"

section \<open>Correctness\<close>

text \<open>The status that the list of invoices shows is \<open>Paid\<close> exactly for invoices with a payment. For the others it
  compares the period of validity with the present time since the epoch, so that an invoice which has in
  fact expired is never shown as expired, and one shown as expired has not expired.\<close>

theorem expired_invoice_shown_unpaid:
  assumes "api_list_invoices lib now fetch label = Inr items" and "fetch label = Ok invoices"
  shows "length items = length invoices \<and>
    (\<forall>n < length invoices.
       (ii_status (items ! n) = Paid \<longleftrightarrow> inv_payments (invoices ! n) \<noteq> []) \<and>
       (b11_timestamp (inv_bolt11 (invoices ! n)) + unat (b11_expiry_secs (inv_bolt11 (invoices ! n))) \<le> now \<longrightarrow>
          ii_status (items ! n) \<noteq> InvoiceExpired))"
proof -
  have "items = map (invoice_item_of lib now) invoices"
    using assms by (simp add: api_list_invoices_def split: if_splits)
  then show ?thesis
    by (auto simp: invoice_item_of_def invoice_status_at_def)
qed

definition hour_bolt11 :: bolt11_invoice where
  "hour_bolt11 =
     \<lparr>b11_text = ''lnbc1'', b11_payment_hash = replicate 32 1, b11_payment_secret = replicate 32 2,
      b11_amount_msat = Some 5000, b11_expiry_secs = 3600, b11_timestamp = 1700000000, b11_raw_expiry = None,
      b11_raw_amount_pico = None, b11_raw_payment_hash = None, b11_recovered_payee = None, b11_signature_ok = True\<rparr>"

definition hour_invoice :: invoice where
  "hour_invoice =
     \<lparr>inv_payment_hash = replicate 32 1, inv_label = None, inv_bolt11 = hour_bolt11, inv_payee_pub_key = replicate 33 2,
      inv_expiry = None, inv_amount = None, inv_timestamp = 1700000000, inv_payments = []\<rparr>"

definition sample_bolt11_lib :: bolt11_lib where
  "sample_bolt11_lib = \<lparr>bl_description = (\<lambda>_. DirectDescription []), bl_expires_at = (\<lambda>_. None), bl_payee = (\<lambda>_. None)\<rparr>"

text \<open>An invoice of 2023 that was valid for an hour, in 2024.\<close>

theorem expired_invoice_shown_unpaid_witness:
  "\<exists>item. api_list_invoices sample_bolt11_lib 1720000000 (\<lambda>_. Ok [hour_invoice]) None = Inr [item] \<and>
     ii_status item = Unpaid"
proof -
  have l: "api_list_invoices sample_bolt11_lib 1720000000 (\<lambda>_. Ok [hour_invoice]) None =
      Inr [invoice_item_of sample_bolt11_lib 1720000000 hour_invoice]" (is "_ = Inr [?item]")
    by (simp add: api_list_invoices_def)
  have "ii_status ?item \<noteq> Paid" and "ii_status ?item \<noteq> InvoiceExpired"
    using expired_invoice_shown_unpaid [OF l refl] by (simp_all add: hour_invoice_def hour_bolt11_def)
  then have "ii_status ?item = Unpaid" by (cases "ii_status ?item") simp_all
  then show ?thesis using l by auto
qed

end
