(* ===== verification/Wallet_Service.thy ===== *)
theory Wallet_Service
  imports Fee_Rate Bitcoind
begin

text \<open>
  The on-chain wallet of the node (\<open>Wallet\<close> of \<^verbatim>\<open>wallet/bdk_wallet.rs\<close>).  The wallet library is behind a
  mutex; what its calls answer is a record of functions, and a transaction is described by the calls
  that the code makes on the library's builder.  A call that finds the mutex held by the
  synchronisation either waits for it or gives up, as the code chooses.
\<close>

section \<open>Fee rates\<close>

text \<open>The constructor of the library's fee rate that is called, with its argument before the cast to \<open>f32\<close>.\<close>

datatype bdk_fee_rate = FromSatPerKwu u32 | FromSatPerKvb u32

fun to_bdk_fee_rate :: "(confirmation_target \<Rightarrow> u32) \<Rightarrow> fee_rate \<Rightarrow> bdk_fee_rate" where
  "to_bdk_fee_rate est Urgent = FromSatPerKwu (est OnChainSweep)"
| "to_bdk_fee_rate est Normal = FromSatPerKwu (est NonAnchorChannelFee)"
| "to_bdk_fee_rate est Slow = FromSatPerKwu (est ChannelCloseMinimum)"
| "to_bdk_fee_rate est (PerKw s) = FromSatPerKwu s"
| "to_bdk_fee_rate est (PerKb s) = FromSatPerKvb s"

section \<open>The library\<close>

text \<open>What is asked of the builder: \<open>add_recipient\<close>, \<open>drain_wallet\<close>, \<open>drain_to\<close>, \<open>add_utxos\<close>,
  \<open>current_height\<close>, \<open>fee_rate\<close> and \<open>enable_rbf\<close>.\<close>

record tx_request =
  tr_recipients :: "(bytes \<times> u64) list"
  tr_drain_wallet :: bool
  tr_drain_to :: "bytes option"
  tr_utxos :: "(bytes \<times> u32) list"
  tr_current_height :: "u32 option"
  tr_fee_rate :: "bdk_fee_rate option"
  tr_enable_rbf :: bool

definition build_tx :: tx_request where
  "build_tx =
     \<lparr>tr_recipients = [], tr_drain_wallet = False, tr_drain_to = None, tr_utxos = [], tr_current_height = None,
      tr_fee_rate = None, tr_enable_rbf = False\<rparr>"

record balance =
  bal_immature :: u64
  bal_trusted_pending :: u64
  bal_untrusted_pending :: u64
  bal_confirmed :: u64

definition balance_default :: balance where
  "balance_default = \<lparr>bal_immature = 0, bal_trusted_pending = 0, bal_untrusted_pending = 0, bal_confirmed = 0\<rparr>"

text \<open>\<open>'t\<close> is a transaction, \<open>'d\<close> its details, \<open>'u\<close> an output, \<open>'a\<close> an address. \<open>wl_finish\<close> is \<open>finish\<close> and
  \<open>wl_sign\<close> is \<open>sign\<close> with \<open>extract_tx\<close>; \<open>wl_add_utxos\<close> tells whether the outputs are known.\<close>

record ('t, 'd, 'u, 'a) bdk_wallet =
  wl_balance :: "balance outcome"
  wl_add_utxos :: "(bytes \<times> u32) list \<Rightarrow> unit outcome"
  wl_finish :: "tx_request \<Rightarrow> ('t \<times> 'd) outcome"
  wl_sign :: "'t \<Rightarrow> 't outcome"
  wl_external :: "'a outcome"
  wl_internal :: "'a outcome"
  wl_unspent :: "'u list outcome"
  wl_get_tx :: "'u \<Rightarrow> 'd option outcome"
  wl_sync_height :: "u32 option outcome"

text \<open>The mutex as a call finds it. A thread that panicked with it left it poisoned.\<close>

datatype lock_state = Free | Held | Poisoned

section \<open>Operations\<close>

definition wallet_balance :: "lock_state \<Rightarrow> ('t, 'd, 'u, 'a) bdk_wallet \<Rightarrow> balance outcome" where
  "wallet_balance l w = (if l = Free then wl_balance w else Ok balance_default)"

text \<open>\<open>transfer\<close> with the transactions it broadcasts. \<open>synced\<close> and \<open>best_height\<close> are what the bitcoin node answers,
  \<open>require_network\<close> is the script of the address when it is of the network. A held mutex is waited for.\<close>

definition transfer_request :: "(confirmation_target \<Rightarrow> u32) \<Rightarrow> u32 \<Rightarrow> bytes \<Rightarrow> u64 \<Rightarrow> fee_rate option \<Rightarrow> u8 option \<Rightarrow>
    (bytes \<times> u32) list \<Rightarrow> tx_request" where
  "transfer_request est height script amount rate min_conf utxos =
     (let r = (if amount = - 1 then build_tx\<lparr>tr_drain_wallet := True, tr_drain_to := Some script\<rparr>
               else build_tx\<lparr>tr_recipients := [(script, amount)], tr_drain_wallet := True, tr_utxos := utxos\<rparr>)
      in r\<lparr>tr_current_height := Some (case min_conf of None \<Rightarrow> height | Some c \<Rightarrow> height - ucast c),
           tr_fee_rate := map_option (to_bdk_fee_rate est) rate\<rparr>)"

definition wallet_transfer ::
  "lock_state \<Rightarrow> ('t, 'd, 'u, 'a) bdk_wallet \<Rightarrow> bool \<Rightarrow> u32 option \<Rightarrow> (confirmation_target \<Rightarrow> u32) \<Rightarrow> ('addr \<Rightarrow> bytes outcome) \<Rightarrow>
   'addr \<Rightarrow> u64 \<Rightarrow> fee_rate option \<Rightarrow> u8 option \<Rightarrow> (bytes \<times> u32) list \<Rightarrow> 't list \<times> ('t \<times> 'd) outcome" where
  "wallet_transfer l w synced best_height est require_network address amount rate min_conf utxos =
     (if \<not> synced then ([], Err (Msg ''Bitcoind is synchronising the blockchain''))
      else case best_height of None \<Rightarrow> ([], Err (Msg ''Failed to fetch best block''))
      | Some height \<Rightarrow>
          (case bind_outcome (require_network address) (\<lambda>script.
             if l = Poisoned then Err (Msg ''Wallet is still syncing with chain'')
             else bind_outcome (if amount = - 1 then Ok () else wl_add_utxos w utxos) (\<lambda>_.
               bind_outcome (wl_finish w (transfer_request est height script amount rate min_conf utxos)) (\<lambda>(psbt, details).
               bind_outcome (wl_sign w psbt) (\<lambda>tx. Ok (tx, details)))))
           of Ok (tx, details) \<Rightarrow> ([tx], Ok (tx, details)) | Err e \<Rightarrow> ([], Err e) | Panic \<Rightarrow> ([], Panic)))"

definition new_external_address :: "lock_state \<Rightarrow> ('t, 'd, 'u, 'a) bdk_wallet \<Rightarrow> 'a outcome" where
  "new_external_address l w = (if l = Poisoned then Panic else wl_external w)"

definition new_internal_address :: "lock_state \<Rightarrow> ('t, 'd, 'u, 'a) bdk_wallet \<Rightarrow> 'a outcome" where
  "new_internal_address l w = (if l = Poisoned then Panic else wl_internal w)"

fun utxos_with_details :: "('u \<Rightarrow> 'd option outcome) \<Rightarrow> 'u list \<Rightarrow> ('u \<times> 'd) list outcome" where
  "utxos_with_details get_tx [] = Ok []"
| "utxos_with_details get_tx (u # us) =
     bind_outcome (get_tx u) (\<lambda>d. bind_outcome (utxos_with_details get_tx us) (\<lambda>rest.
       Ok (case d of Some d \<Rightarrow> (u, d) # rest | None \<Rightarrow> rest)))"

definition list_utxos :: "lock_state \<Rightarrow> ('t, 'd, 'u, 'a) bdk_wallet \<Rightarrow> ('u \<times> 'd) list outcome" where
  "list_utxos l w =
     (if l = Free then bind_outcome (wl_unspent w) (\<lambda>us. utxos_with_details (wl_get_tx w) us) else Ok [])"

definition wallet_synced :: "lock_state \<Rightarrow> ('t, 'd, 'u, 'a) bdk_wallet \<Rightarrow> u32 option \<Rightarrow> bool" where
  "wallet_synced l w best_height =
     (case best_height of None \<Rightarrow> False
      | Some h \<Rightarrow> l = Free \<and> (case wl_sync_height w of Ok (Some s) \<Rightarrow> s = h | _ \<Rightarrow> False))"

definition fund_tx ::
  "lock_state \<Rightarrow> ('t, 'd, 'u, 'a) bdk_wallet \<Rightarrow> (confirmation_target \<Rightarrow> u32) \<Rightarrow> bytes \<Rightarrow> u64 \<Rightarrow> fee_rate \<Rightarrow> 't outcome" where
  "fund_tx l w est output_script channel_value_satoshis rate =
     (if l = Poisoned then Panic
      else bind_outcome (wl_finish w (build_tx\<lparr>tr_recipients := [(output_script, channel_value_satoshis)],
          tr_fee_rate := Some (to_bdk_fee_rate est rate), tr_enable_rbf := True\<rparr>)) (\<lambda>(psbt, _). wl_sign w psbt))"

section \<open>Keeping in step with the chain\<close>

text \<open>The state of the loop of \<open>keep_sync_with_chain\<close>: whether the connection to electrs has been made, and the height of
  the last synchronisation in the database. \<open>None\<close> for the height is one that was never stored.\<close>

record sync_state =
  ss_connected :: bool
  ss_height :: "u32 option"

text \<open>What a turn meets: whether electrs can be reached for a first connection, the height it answers, the mutex, the read
  of the last height, and the outcome of \<open>sync\<close>.\<close>

record sync_turn =
  st_client :: bool
  st_get_height :: "u32 outcome"
  st_lock :: lock_state
  st_read :: bool
  st_sync :: bool

text \<open>A successful \<open>sync\<close> of the library stores the height it has reached, that of the chain at the time.\<close>

definition sync_once :: "sync_turn \<Rightarrow> sync_state \<Rightarrow> sync_state" where
  "sync_once t s =
     (if \<not> ss_connected s \<and> \<not> st_client t then s
      else let s1 = s\<lparr>ss_connected := True\<rparr> in
        case st_get_height t of
          Ok height \<Rightarrow>
            if st_lock t = Poisoned \<or> \<not> st_read t then s1
            else if (case ss_height s1 of Some h \<Rightarrow> h | None \<Rightarrow> 0) < height \<and> st_sync t
              then s1\<lparr>ss_height := Some height\<rparr>
              else s1
        | _ \<Rightarrow> s1)"

definition keep_sync_with_chain :: "sync_turn list \<Rightarrow> sync_state \<Rightarrow> sync_state" where
  "keep_sync_with_chain turns s = fold sync_once turns s"

section \<open>Correctness\<close>

text \<open>A transfer broadcasts the transaction that it returns and no other, and broadcasts nothing when it fails.  It
  succeeds only when the bitcoin node is synchronised, the address is of the network and the wallet
  has built and signed exactly the transaction asked for: everything to the address when the amount
  is the largest there is, else the amount to the address with the rest coming back as change.\<close>

theorem transfer_broadcasts_returned:
  "(case wallet_transfer l w synced best est net address amount rate min_conf utxos of
      (sent, Ok (tx, details)) \<Rightarrow> sent = [tx] \<and> synced \<and> l \<noteq> Poisoned \<and>
        (\<exists>height script psbt. best = Some height \<and> net address = Ok script \<and>
          wl_finish w (transfer_request est height script amount rate min_conf utxos) = Ok (psbt, details) \<and>
          wl_sign w psbt = Ok tx \<and>
          (if amount = - 1 then tr_drain_to (transfer_request est height script amount rate min_conf utxos) = Some script \<and>
             tr_recipients (transfer_request est height script amount rate min_conf utxos) = []
           else tr_recipients (transfer_request est height script amount rate min_conf utxos) = [(script, amount)] \<and>
             tr_drain_to (transfer_request est height script amount rate min_conf utxos) = None))
    | (sent, _) \<Rightarrow> sent = [])"
proof (cases "snd (wallet_transfer l w synced best est net address amount rate min_conf utxos)")
  case (Ok p)
  then show ?thesis
    by (auto simp: wallet_transfer_def outcome_simps transfer_request_def build_tx_def Let_def
        split: if_splits option.splits outcome.splits prod.splits)
qed (auto simp: wallet_transfer_def split: if_splits option.splits outcome.splits prod.splits)

text \<open>The height of the last synchronisation, as the loop reads it.\<close>

definition sync_height :: "sync_state \<Rightarrow> u32" where
  "sync_height s = (case ss_height s of Some h \<Rightarrow> h | None \<Rightarrow> 0)"

definition turn_works :: "sync_turn \<Rightarrow> sync_state \<Rightarrow> bool" where
  "turn_works t s \<longleftrightarrow> (ss_connected s \<or> st_client t) \<and> is_ok (st_get_height t) \<and> st_lock t \<noteq> Poisoned \<and> st_read t \<and> st_sync t"

lemma sync_once_monotone: "sync_height s \<le> sync_height (sync_once t s)"
  by (auto simp: sync_once_def sync_height_def Let_def split: outcome.splits option.splits)

lemma keep_sync_monotone: "sync_height s \<le> sync_height (keep_sync_with_chain turns s)"
proof (induction turns arbitrary: s)
  case (Cons t turns)
  have "sync_height s \<le> sync_height (sync_once t s)" by (rule sync_once_monotone)
  also have "\<dots> \<le> sync_height (keep_sync_with_chain turns (sync_once t s))" by (rule Cons.IH)
  finally show ?case by (simp add: keep_sync_with_chain_def)
qed (simp add: keep_sync_with_chain_def)

lemma sync_once_reaches:
  "turn_works t s \<Longrightarrow> st_get_height t = Ok g \<Longrightarrow> g \<le> sync_height (sync_once t s)"
  by (auto simp: turn_works_def sync_once_def sync_height_def Let_def word_gt_0 split: option.splits)

text \<open>C22: The loop that keeps the wallet in step with the chain never goes back, and it survives every failure: whatever
  turns went before and after, one turn in which electrs answers, the mutex is sound and the
  synchronisation succeeds brings the wallet to the height that electrs gave, for good.\<close>

theorem keep_sync_catches_up:
  assumes "turn_works t (keep_sync_with_chain earlier s)" and "st_get_height t = Ok g"
  shows "g \<le> sync_height (keep_sync_with_chain (earlier @ t # later) s)"
proof -
  let ?s = "keep_sync_with_chain earlier s"
  have "g \<le> sync_height (sync_once t ?s)" using assms by (rule sync_once_reaches)
  also have "\<dots> \<le> sync_height (keep_sync_with_chain later (sync_once t ?s))" by (rule keep_sync_monotone)
  finally show ?thesis by (simp add: keep_sync_with_chain_def)
qed

definition sample_turn :: sync_turn where
  "sample_turn = \<lparr>st_client = True, st_get_height = Ok 100, st_lock = Free, st_read = True, st_sync = True\<rparr>"

text \<open>Electrs is down at first, then the wallet catches up, and a later failure does no harm.\<close>

theorem keep_sync_catches_up_witness:
  "100 \<le> sync_height (keep_sync_with_chain [sample_turn\<lparr>st_client := False\<rparr>, sample_turn, sample_turn\<lparr>st_sync := False\<rparr>]
     \<lparr>ss_connected = False, ss_height = None\<rparr>)"
proof -
  let ?s = "\<lparr>ss_connected = False, ss_height = None\<rparr>"
  have "turn_works sample_turn (keep_sync_with_chain [sample_turn\<lparr>st_client := False\<rparr>] ?s)"
    and "st_get_height sample_turn = Ok 100"
    by (simp_all add: turn_works_def sample_turn_def)
  from keep_sync_catches_up [OF this, of "[sample_turn\<lparr>st_sync := False\<rparr>]"] show ?thesis by simp
qed

end
