(* ===== verification/Api_Node.thy ===== *)
theory Api_Node
  imports Api_Payments Wallet_Service
begin

text \<open>
  The remaining handlers of the API: the wallet (\<^verbatim>\<open>api/wallet.rs\<close>), the peers (\<^verbatim>\<open>api/peers.rs\<close>), the network
  graph (\<^verbatim>\<open>api/network.rs\<close>) and the node itself (\<^verbatim>\<open>api/utility.rs\<close>).  The parsers of keys and addresses and
  what the node, the wallet and the graph answer are arguments.
\<close>

section \<open>Wallet\<close>

record balance_response =
  br_total_balance :: u64
  br_conf_balance :: u64
  br_unconf_balance :: u64

definition api_get_balance :: "balance outcome \<Rightarrow> balance_response response" where
  "api_get_balance b =
     bind_response (internal_server b) (\<lambda>b.
       let unconf = bal_untrusted_pending b + bal_trusted_pending b
       in Inr \<lparr>br_total_balance = unconf + bal_confirmed b, br_conf_balance = bal_confirmed b, br_unconf_balance = unconf\<rparr>)"

definition api_new_address :: "string outcome \<Rightarrow> string option \<Rightarrow> string response" where
  "api_new_address new_external address_type =
     (if address_type \<noteq> None \<and> address_type \<noteq> Some ''bech32'' then Inl (BadRequest (Msg ''Unsupported address type''))
      else internal_server new_external)"

record wallet_transfer_request =
  wt_address :: string
  wt_satoshis :: string
  wt_fee_rate :: "fee_rate option"
  wt_min_conf :: "string option"
  wt_utxos :: "string list"

text \<open>\<open>transfer\<close> of the wallet is called with no minimum of confirmations and no outputs.\<close>

definition api_transfer ::
  "(string \<Rightarrow> 'addr outcome) \<Rightarrow> ('addr \<Rightarrow> u64 \<Rightarrow> fee_rate option \<Rightarrow> u8 option \<Rightarrow> (bytes \<times> u32) list \<Rightarrow> ('t \<times> 'd) outcome) \<Rightarrow>
   wallet_transfer_request \<Rightarrow> ('t \<times> 'd) response" where
  "api_transfer parse_address transfer r =
     bind_response (bad_request (parse_address (wt_address r))) (\<lambda>a.
     bind_response (if wt_satoshis r = ''all'' then Inr (- 1)
       else bad_request (ok_or (Msg ''invalid digit found in string'') (parse_u64 (wt_satoshis r)))) (\<lambda>amount.
     internal_server (transfer a amount (wt_fee_rate r) None [])))"

datatype channel_state = Usable | Ready | ChannelPending

record funds_channel =
  fu_peer_id :: string
  fu_connected :: bool
  fu_state :: channel_state
  fu_short_channel_id :: string
  fu_our_amount_msat :: u64
  fu_channel_sat :: u64
  fu_amount_msat :: u64
  fu_funding :: "bytes \<times> u16"

definition funds_channel_of :: "peer_info list \<Rightarrow> channel_details \<Rightarrow> funds_channel option" where
  "funds_channel_of peers c = map_option (\<lambda>txo.
     \<lparr>fu_peer_id = hex_encode (cd_counterparty_node_id c),
      fu_connected = peer_shown_connected peers (cd_counterparty_node_id c),
      fu_state = (if cd_is_usable c then Usable else if cd_is_channel_ready c then Ready else ChannelPending),
      fu_short_channel_id = to_string_empty (cd_short_channel_id c), fu_our_amount_msat = cd_balance_msat c,
      fu_channel_sat = cd_channel_value_satoshis c, fu_amount_msat = cd_channel_value_satoshis c * 1000,
      fu_funding = txo\<rparr>) (cd_funding_txo c)"

record funds_output =
  fo_outpoint :: "bytes \<times> u32"
  fo_amount_msat :: u64
  fo_address :: string
  fo_confirmed :: bool
  fo_block_height :: "u32 option"

text \<open>An output of the wallet: its outpoint, value and script, and the height that confirmed its transaction.\<close>

definition funds_output_of ::
  "(bytes \<Rightarrow> string outcome) \<Rightarrow> ((bytes \<times> u32) \<times> u64 \<times> bytes) \<times> u32 option \<Rightarrow> funds_output response" where
  "funds_output_of address_of u =
     (case u of ((outpoint, val, script), height) \<Rightarrow>
        bind_response (internal_server (address_of script)) (\<lambda>a. Inr
          \<lparr>fo_outpoint = outpoint, fo_amount_msat = val * 1000, fo_address = a, fo_confirmed = (height \<noteq> None),
           fo_block_height = height\<rparr>))"

definition api_list_funds ::
  "(bytes \<Rightarrow> string outcome) \<Rightarrow> (((bytes \<times> u32) \<times> u64 \<times> bytes) \<times> u32 option) list outcome \<Rightarrow> peer_info list outcome \<Rightarrow>
   channel_details list \<Rightarrow> (funds_output list \<times> funds_channel list) response" where
  "api_list_funds address_of utxos peers channels =
     bind_response (internal_server utxos) (\<lambda>us.
     bind_response (collect_response (funds_output_of address_of) us) (\<lambda>outputs.
     bind_response (internal_server peers) (\<lambda>ps.
       Inr (outputs, List.map_filter (funds_channel_of ps) channels))))"

section \<open>Peers\<close>

definition api_connect_peer ::
  "(string \<Rightarrow> pubkey outcome) \<Rightarrow> (string \<Rightarrow> 'addr outcome) \<Rightarrow> (pubkey \<Rightarrow> 'addr option \<Rightarrow> unit outcome) \<Rightarrow> string \<Rightarrow> string response" where
  "api_connect_peer parse_key parse_address connect cid =
     bind_response (case split_once (CHR ''@'') cid of
         Some (k, a) \<Rightarrow> bind_response (bad_request (parse_key k)) (\<lambda>pk.
                        bind_response (bad_request (parse_address a)) (\<lambda>addr. Inr (pk, Some addr)))
       | None \<Rightarrow> bind_response (bad_request (parse_key cid)) (\<lambda>pk. Inr (pk, None))) (\<lambda>(pk, addr).
     bind_response (internal_server (connect pk addr)) (\<lambda>_. Inr (hex_encode pk)))"

definition api_disconnect_peer ::
  "(string \<Rightarrow> pubkey outcome) \<Rightarrow> (pubkey \<Rightarrow> unit outcome) \<Rightarrow> string \<Rightarrow> unit response" where
  "api_disconnect_peer parse_key disconnect cid =
     bind_response (bad_request (parse_key cid)) (\<lambda>pk. internal_server (disconnect pk))"

record peer_item =
  pe_id :: string
  pe_connected :: bool
  pe_netaddr :: "string option"
  pe_alias :: string

definition api_list_peers :: "(socket_address \<Rightarrow> string) \<Rightarrow> peer_info list outcome \<Rightarrow> peer_item list response" where
  "api_list_peers show_address peers =
     bind_response (internal_server peers) (\<lambda>ps. Inr (map (\<lambda>p.
       \<lparr>pe_id = hex_encode (pi_public_key p), pe_connected = (pi_status p = Connected),
        pe_netaddr = map_option show_address (pi_net_address p), pe_alias = pi_alias p\<rparr>) ps))"

section \<open>The network graph\<close>

record channel_update_info =
  cu_enabled :: bool
  cu_last_update :: u32
  cu_base_msat :: u32
  cu_proportional_millionths :: u32
  cu_cltv_expiry_delta :: u16
  cu_htlc_minimum_msat :: u64
  cu_htlc_maximum_msat :: u64
  cu_flags :: "u8 option"
    \<comment> \<open>of the last update message, if it was kept\<close>

record channel_info =
  gi_node_one :: bytes
  gi_node_two :: bytes
  gi_capacity_sats :: "u64 option"
  gi_one_to_two :: "channel_update_info option"
  gi_two_to_one :: "channel_update_info option"

record network_channel =
  nc_source :: string
  nc_destination :: string
  nc_short_channel_id :: u64
  nc_satoshis :: u64
  nc_amount_msat :: u64
  nc_channel_flags :: u8
  nc_update :: channel_update_info
    \<comment> \<open>the source of the copied fields\<close>

definition make_channel :: "u64 \<Rightarrow> channel_info \<Rightarrow> bytes \<Rightarrow> bytes \<Rightarrow> channel_update_info \<Rightarrow> network_channel" where
  "make_channel scid info node_one node_two u =
     \<lparr>nc_source = hex_encode node_one, nc_destination = hex_encode node_two, nc_short_channel_id = scid,
      nc_satoshis = (case gi_capacity_sats info of Some s \<Rightarrow> s | None \<Rightarrow> 0),
      nc_amount_msat = (case gi_capacity_sats info of Some s \<Rightarrow> s * 1000 | None \<Rightarrow> 0),
      nc_channel_flags = (case cu_flags u of Some f \<Rightarrow> f | None \<Rightarrow> 0), nc_update = u\<rparr>"

definition to_api_channel :: "u64 \<Rightarrow> channel_info \<Rightarrow> network_channel list" where
  "to_api_channel scid info =
     (case gi_one_to_two info of Some u \<Rightarrow> [make_channel scid info (gi_node_one info) (gi_node_two info) u] | None \<Rightarrow> []) @
     (case gi_two_to_one info of Some u \<Rightarrow> [make_channel scid info (gi_node_two info) (gi_node_one info) u] | None \<Rightarrow> [])"

definition get_network_channel :: "(u64 \<Rightarrow> channel_info option) \<Rightarrow> string \<Rightarrow> network_channel list response" where
  "get_network_channel graph cid =
     bind_response (bad_request (ok_or (Msg ''invalid digit found in string'') (parse_u64 cid))) (\<lambda>scid.
       case graph scid of Some info \<Rightarrow> Inr (to_api_channel scid info) | None \<Rightarrow> Inl (NotFound cid))"

definition list_network_channels :: "(u64 \<times> channel_info) list \<Rightarrow> network_channel list" where
  "list_network_channels graph = concat (map (\<lambda>(scid, info). to_api_channel scid info) graph)"

text \<open>A node is shown when it was announced; its announcement is copied.\<close>

definition to_api_node :: "bytes \<Rightarrow> 'ann option \<Rightarrow> (string \<times> 'ann) option" where
  "to_api_node node_id announcement = map_option (\<lambda>a. (hex_encode node_id, a)) announcement"

definition get_network_node ::
  "(string \<Rightarrow> pubkey outcome) \<Rightarrow> (pubkey \<Rightarrow> 'ann option option) \<Rightarrow> string \<Rightarrow> (string \<times> 'ann) list response" where
  "get_network_node parse_key graph cid =
     bind_response (bad_request (parse_key cid)) (\<lambda>k.
       case Option.bind (graph k) (to_api_node k) of Some n \<Rightarrow> Inr [n] | None \<Rightarrow> Inl (NotFound cid))"

definition list_network_nodes :: "(bytes \<times> 'ann option) list \<Rightarrow> (string \<times> 'ann) list" where
  "list_network_nodes graph = List.map_filter (\<lambda>(n, a). to_api_node n a) graph"

record fee_rates =
  fr_urgent :: u32
  fr_normal :: u32
  fr_slow :: u32
  fr_min_acceptable :: u32
  fr_max_acceptable :: u32

text \<open>The response to \<open>fee_rates\<close>: the rates per 1000 bytes or per 1000 weight units. \<open>mempool_min f\<close> is the casted
  product of the minimum fee of the mempool, a floating point number, with \<open>f\<close>; the estimates of the
  cost of transactions, which are floating point too, are left out.\<close>

definition api_fee_rates :: "u32 \<times> u32 \<times> u32 \<Rightarrow> (nat \<Rightarrow> u32) outcome \<Rightarrow> string \<Rightarrow> fee_rates response" where
  "api_fee_rates rates mempool style =
     (case rates of (urgent, normal, slow) \<Rightarrow>
        bind_response (internal_server mempool) (\<lambda>mempool_min.
          if style = ''perkb'' then Inr \<lparr>fr_urgent = urgent * 4, fr_normal = normal * 4, fr_slow = slow * 4,
            fr_min_acceptable = mempool_min 100000000, fr_max_acceptable = urgent * 4\<rparr>
          else if style = ''perkw'' then Inr \<lparr>fr_urgent = urgent, fr_normal = normal, fr_slow = slow,
            fr_min_acceptable = mempool_min 25000000, fr_max_acceptable = urgent\<rparr>
          else Inl (BadRequest (Msg (''unknown fee style '' @ style)))))"

section \<open>The node\<close>

definition MESSAGE_MAX_LENGTH :: u16 where
  "MESSAGE_MAX_LENGTH = 65535"

definition api_sign :: "(string \<Rightarrow> string outcome) \<Rightarrow> string \<Rightarrow> string response" where
  "api_sign sign message =
     (if length message > unat MESSAGE_MAX_LENGTH then Inl (BadRequest (Msg ''Max message length is 65535''))
      else internal_server (sign message))"

definition estimate_channel_liquidity_range ::
  "(string \<Rightarrow> pubkey option) \<Rightarrow> (u64 \<Rightarrow> pubkey \<Rightarrow> (u64 \<times> u64) option outcome) \<Rightarrow> u64 \<Rightarrow> string \<Rightarrow> (u64 \<times> u64) response" where
  "estimate_channel_liquidity_range node_id estimate scid target =
     bind_response (bad_request (ok_or (Msg ''node iddecode error'') (node_id target))) (\<lambda>k.
     bind_response (internal_server (estimate scid k)) (\<lambda>r.
       case r of Some mm \<Rightarrow> Inr mm | None \<Rightarrow> Inl (NotFound (u64_to_string scid))))"

definition api_get_fees :: "total_forwards outcome \<Rightarrow> u64 response" where
  "api_get_fees totals = bind_response (internal_server totals) (\<lambda>t. Inr (tf_fee t))"

record node_info =
  ni_num_pending_channels :: nat
  ni_num_active_channels :: nat
  ni_num_inactive_channels :: nat
  ni_num_peers :: nat
  ni_block_height :: u64
  ni_synced_to_chain :: bool
  ni_testnet :: bool
  ni_fees_collected_msat :: u64

text \<open>\<open>get_info\<close>; the texts of the response (names, versions, addresses) are left out.\<close>

definition get_info ::
  "bool outcome \<Rightarrow> total_forwards outcome \<Rightarrow> u64 outcome \<Rightarrow> channel_details list \<Rightarrow> nat \<Rightarrow> bool \<Rightarrow> node_info response" where
  "get_info synced totals height channels num_peers mainnet =
     bind_response (internal_server synced) (\<lambda>s.
     bind_response (internal_server totals) (\<lambda>t.
     bind_response (internal_server height) (\<lambda>h. Inr
       \<lparr>ni_num_pending_channels = num_pending_channels channels, ni_num_active_channels = num_active_channels channels,
        ni_num_inactive_channels = num_inactive_channels channels, ni_num_peers = num_peers, ni_block_height = h,
        ni_synced_to_chain = s, ni_testnet = (\<not> mainnet), ni_fees_collected_msat = tf_fee t\<rparr>)))"

section \<open>Correctness\<close>

text \<open>The three kinds of channels of \<open>get_info\<close> are all there are when no channel is usable before it is ready.\<close>

lemma channel_kinds_partition:
  "(\<And>c. c \<in> set cs \<Longrightarrow> cd_is_usable c \<Longrightarrow> cd_is_channel_ready c) \<Longrightarrow>
    num_pending_channels cs + num_active_channels cs + num_inactive_channels cs = length cs"
proof (induction cs)
  case (Cons c cs)
  then have "num_pending_channels cs + num_active_channels cs + num_inactive_channels cs = length cs"
    and "cd_is_usable c \<Longrightarrow> cd_is_channel_ready c" by simp_all
  then show ?case
    by (auto simp: num_pending_channels_def num_active_channels_def num_inactive_channels_def)
qed (simp add: num_pending_channels_def num_active_channels_def num_inactive_channels_def)

lemma get_network_channel_of_id:
  "graph scid = Some info \<Longrightarrow> get_network_channel graph (u64_to_string scid) = Inr (to_api_channel scid info)"
  by (simp add: get_network_channel_def)

text \<open>A transfer request is answered with success only for a transaction that was broadcast, and for the amount of
  the request, given as \<open>all\<close> or as a number; but the outputs that the request names and its minimum of
  confirmations are ignored: the wallet may spend anything it has, and the result is the same as for a
  request without them.\<close>

theorem transfer_ignores_utxos:
  "api_transfer parse (\<lambda>a amount rate min_conf utxos.
      snd (wallet_transfer l w synced best est net a amount rate min_conf utxos)) r =
    api_transfer parse (\<lambda>a amount rate min_conf utxos.
      snd (wallet_transfer l w synced best est net a amount rate min_conf utxos))
      (r\<lparr>wt_utxos := utxos', wt_min_conf := min_conf'\<rparr>) \<and>
   (\<forall>tx d. api_transfer parse (\<lambda>a amount rate min_conf utxos.
        snd (wallet_transfer l w synced best est net a amount rate min_conf utxos)) r = Inr (tx, d) \<longrightarrow>
      (\<exists>a amount. parse (wt_address r) = Ok a \<and>
        (if wt_satoshis r = ''all'' then amount = - 1 else parse_u64 (wt_satoshis r) = Some amount) \<and>
        wallet_transfer l w synced best est net a amount (wt_fee_rate r) None [] = ([tx], Ok (tx, d))))"
proof (intro conjI allI impI)
  fix tx d
  assume r: "api_transfer parse (\<lambda>a amount rate min_conf utxos.
        snd (wallet_transfer l w synced best est net a amount rate min_conf utxos)) r = Inr (tx, d)"
  have ok: "fst (wallet_transfer l w synced best est net a amount rate c u) = [fst p]"
    if "snd (wallet_transfer l w synced best est net a amount rate c u) = Ok p" for a amount rate c u p
    using that by (cases p) (auto simp: wallet_transfer_def split: if_splits option.splits outcome.splits prod.splits)
  obtain a where a: "parse (wt_address r) = Ok a"
    using r by (cases "parse (wt_address r)") (simp_all add: api_transfer_def)
  obtain amount where amount: "if wt_satoshis r = ''all'' then amount = - 1 else parse_u64 (wt_satoshis r) = Some amount"
    and s: "internal_server (snd (wallet_transfer l w synced best est net a amount (wt_fee_rate r) None [])) = Inr (tx, d)"
    using r a by (cases "parse_u64 (wt_satoshis r)") (auto simp: api_transfer_def split: if_splits)
  then have "snd (wallet_transfer l w synced best est net a amount (wt_fee_rate r) None []) = Ok (tx, d)"
    by (cases "snd (wallet_transfer l w synced best est net a amount (wt_fee_rate r) None [])") auto
  with ok [OF this] have "wallet_transfer l w synced best est net a amount (wt_fee_rate r) None [] = ([tx], Ok (tx, d))"
    by (metis fst_conv prod.collapse)
  with a amount show "\<exists>a amount. parse (wt_address r) = Ok a \<and>
      (if wt_satoshis r = ''all'' then amount = - 1 else parse_u64 (wt_satoshis r) = Some amount) \<and>
      wallet_transfer l w synced best est net a amount (wt_fee_rate r) None [] = ([tx], Ok (tx, d))"
    by blast
qed (simp add: api_transfer_def)

text \<open>A wallet that builds any transaction, for the example.\<close>

definition sample_wallet :: "(tx_request, unit, unit, unit) bdk_wallet" where
  "sample_wallet =
     \<lparr>wl_balance = Ok balance_default, wl_add_utxos = (\<lambda>_. Ok ()), wl_finish = (\<lambda>r. Ok (r, ())), wl_sign = Ok,
      wl_external = Ok (), wl_internal = Ok (), wl_unspent = Ok [], wl_get_tx = (\<lambda>_. Ok None), wl_sync_height = Ok None\<rparr>"

definition sample_transfer :: wallet_transfer_request where
  "sample_transfer =
     \<lparr>wt_address = ''bcrt1'', wt_satoshis = u64_to_string 7000, wt_fee_rate = None, wt_min_conf = Some ''6'',
      wt_utxos = [''aa:0'']\<rparr>"

theorem transfer_ignores_utxos_witness:
  "\<exists>tx. wallet_transfer Free sample_wallet True (Some 100) (\<lambda>_. 2000) (\<lambda>_. Ok [1]) () 7000 None None [] = ([tx], Ok (tx, ())) \<and>
     tr_utxos tx = []"
proof -
  let ?api = "api_transfer (\<lambda>_. Ok ()) (\<lambda>a amount rate min_conf utxos.
    snd (wallet_transfer Free sample_wallet True (Some 100) (\<lambda>_. 2000) (\<lambda>_. Ok [1]) a amount rate min_conf utxos)) sample_transfer"
  let ?tx = "transfer_request (\<lambda>_. 2000) 100 [1] 7000 None None []"
  have n: "u64_to_string 7000 \<noteq> ''all''"
    using u64_to_string_inject parse_u64_to_string [of 7000] by (auto simp: parse_u64_def parse_uint_def char_digit_def)
  then have r: "?api = Inr (?tx, ())"
    by (simp add: api_transfer_def sample_transfer_def wallet_transfer_def sample_wallet_def)
  obtain a :: unit and amount where "if wt_satoshis sample_transfer = ''all'' then amount = - 1
      else parse_u64 (wt_satoshis sample_transfer) = Some amount"
    and t: "wallet_transfer Free sample_wallet True (Some 100) (\<lambda>_. 2000) (\<lambda>_. Ok [1]) a amount (wt_fee_rate sample_transfer) None []
      = ([?tx], Ok (?tx, ()))"
    using transfer_ignores_utxos [where parse = "\<lambda>_. Ok ()" and l = Free and w = sample_wallet and synced = True
        and best = "Some 100" and est = "\<lambda>_. 2000" and net = "\<lambda>_. Ok [1]" and r = sample_transfer,
        THEN conjunct2, rule_format, OF r] by blast
  then have "amount = 7000" using n by (simp add: sample_transfer_def)
  with t show ?thesis
    by (auto simp: sample_transfer_def transfer_request_def build_tx_def)
qed

end
