(* ===== verification/Mgr_Config.thy ===== *)
theory Mgr_Config
  imports Macaroon_Auth "HOL-Library.List_Lexorder" "HOL-Library.Char_ord"
begin

text \<open>
  The configuration of a cluster that the manager deploys (\<^verbatim>\<open>mgr/src/config.rs\<close>): the records of the
  file, the validation of a host against the defaults, the validation of the whole, and the secrets that
  are copied to a host.  The file has been parsed by the TOML library.  What lies outside is
  a record of functions: the text of an address and its parser, the test of a public key, the content of
  files, the base64 decoder, the hash of a value, the answers of \<^verbatim>\<open>nix\<close> and of the monitoring server.
  A path is its text.
\<close>

section \<open>Data\<close>

datatype ip_addr = IpV4 bytes | IpV6 bytes

definition ip_is_v4 :: "ip_addr \<Rightarrow> bool" where
  "ip_is_v4 a = (case a of IpV4 _ \<Rightarrow> True | IpV6 _ \<Rightarrow> False)"

definition ip_is_v6 :: "ip_addr \<Rightarrow> bool" where
  "ip_is_v6 a = (case a of IpV6 _ \<Rightarrow> True | IpV4 _ \<Rightarrow> False)"

datatype log_level = LogError | LogWarn | LogInfo | LogDebug | LogTrace

record telegraf_config =
  tg_url :: "string option"
  tg_username :: string
  tg_password :: string

record kmonitor_config =
  km_telegraf :: "telegraf_config option"
  km_promtail :: "string option"

record host_default_config =
  df_ipv4_gateway :: "ip_addr option"
  df_ipv4_cidr :: "u8 option"
  df_ipv6_gateway :: "ip_addr option"
  df_ipv6_cidr :: "u8 option"
  df_public_ssh_keys :: "string list"
  df_install_ssh_user :: "string option"
  df_extra_nixos_modules :: "string list"
  df_disks :: "string list option"
  df_kuutamo_monitoring_token_file :: "string option"
  df_self_monitoring_url :: "string option"
  df_self_monitoring_username :: "string option"
  df_self_monitoring_password :: "string option"
  df_promtail_client :: "string option"
  df_kld_node_alias_color :: "string option"
  df_probe_interval :: "u64 option"
  df_probe_amt_msat :: "u64 option"
  df_probe_targets :: "string list option"
  df_shutdown_graceful_sec :: "u64 option"

record host_config =
  hc_ipv4_address :: "ip_addr option"
  hc_ipv4_gateway :: "ip_addr option"
  hc_ipv4_cidr :: "u8 option"
  hc_nixos_module :: string
  hc_mac_address :: "string option"
  hc_ipv6_address :: "string option"
  hc_ipv6_gateway :: "ip_addr option"
  hc_ipv6_cidr :: "u8 option"
  hc_public_ssh_keys :: "string list"
  hc_install_ssh_user :: "string option"
  hc_hostname :: "string option"
  hc_disks :: "string list option"
  hc_bitcoind_disks :: "string list option"
  hc_kld_node_alias :: "string option"
  hc_kld_node_alias_color :: "string option"
  hc_kld_log_level :: "log_level option"
  hc_kuutamo_monitoring_token_file :: "string option"
  hc_self_monitoring_url :: "string option"
  hc_self_monitoring_username :: "string option"
  hc_self_monitoring_password :: "string option"
  hc_promtail_client :: "string option"
  hc_kld_rest_api_port :: "u16 option"
  hc_kld_api_ip_access_list :: "ip_addr list"
  hc_network_interface :: "string option"
  hc_upgrade_schedule :: "string option"
  hc_probe_interval :: "u64 option"
  hc_probe_amt_msat :: "u64 option"
  hc_probe_targets :: "string list"
  hc_shutdown_graceful_sec :: "u64 option"
  hc_others :: "string list"
    \<comment> \<open>the keys of the table that no field has\<close>

record cockroach_peer =
  cp_name :: string
  cp_ipv4_address :: "ip_addr option"
  cp_ipv6_address :: "ip_addr option"

record host =
  ho_name :: string
  ho_nixos_module :: string
  ho_extra_nixos_modules :: "string list"
  ho_mac_address :: "string option"
  ho_ipv4_address :: "ip_addr option"
  ho_ipv4_cidr :: "u8 option"
  ho_ipv4_gateway :: "ip_addr option"
  ho_ipv6_address :: "ip_addr option"
  ho_ipv6_cidr :: "u8 option"
  ho_ipv6_gateway :: "ip_addr option"
  ho_install_ssh_user :: string
  ho_hostname :: string
  ho_public_ssh_keys :: "string list"
  ho_disks :: "string list"
  ho_bitcoind_disks :: "string list"
  ho_cockroach_peers :: "cockroach_peer list"
  ho_kld_node_alias :: "string option"
  ho_kld_node_alias_color :: "string option"
  ho_kld_log_level :: "log_level option"
  ho_kmonitor_config :: "kmonitor_config option"
  ho_rest_api_port :: "u16 option"
  ho_api_ip_access_list :: "ip_addr list"
  ho_telegraf_has_monitoring :: bool
  ho_promtail_has_client :: bool
  ho_monitor_config_hash :: string
  ho_network_interface :: "string option"
  ho_kld_preset_mnemonic :: "bool option"
  ho_upgrade_schedule :: "string option"
  ho_probe_interval :: "u64 option"
  ho_probe_amt_msat :: "u64 option"
  ho_probe_targets :: "string list"
  ho_shutdown_graceful_sec :: "u64 option"

record global_config =
  gl_deployment_flake :: string
  gl_access_tokens :: string
  gl_knd_flake :: string
  gl_secret_directory :: string

record config_file =
  cf_global :: global_config
  cf_host_defaults :: host_default_config
  cf_hosts :: "(string \<times> host_config) list"
    \<comment> \<open>a hash map, in the order of its iteration\<close>

record config =
  co_hosts :: "(string \<times> host) list"
    \<comment> \<open>a B-tree map, in the order of its keys\<close>
  co_global :: global_config

record mgr_env =
  me_parse_ip :: "string \<Rightarrow> ip_addr option"
  me_show_ip :: "ip_addr \<Rightarrow> string"
  me_is_public_key :: "string \<Rightarrow> bool"
  me_read_file :: "string \<Rightarrow> string option"
  me_base64_decode :: "string \<Rightarrow> string option"
  me_monitor_status :: "string \<Rightarrow> string \<Rightarrow> nat option"
    \<comment> \<open>the status that the monitoring server answers to a user and a password\<close>
  me_hash :: "kmonitor_config option \<Rightarrow> u64"

section \<open>Texts\<close>

definition option_or :: "'a option \<Rightarrow> 'a option \<Rightarrow> 'a option" where
  "option_or a b = (case a of Some x \<Rightarrow> Some x | None \<Rightarrow> b)"

lemma option_or_simps [simp]: "option_or (Some x) b = Some x" "option_or None b = b" "option_or a None = a"
  by (simp_all add: option_or_def split: option.splits)

definition in_range :: "char \<Rightarrow> char \<Rightarrow> char \<Rightarrow> bool" where
  "in_range a b c \<longleftrightarrow> (of_char a :: nat) \<le> of_char c \<and> (of_char c :: nat) \<le> of_char b"

definition name_start :: "char \<Rightarrow> bool" where
  "name_start c \<longleftrightarrow> in_range CHR ''a'' CHR ''z'' c \<or> in_range CHR ''0'' CHR ''9'' c"

text \<open>The regular expression of a host's name: a letter or digit, then up to 62 letters, digits and hyphens.\<close>

definition hostname_regex :: "string \<Rightarrow> bool" where
  "hostname_regex s =
     (case s of [] \<Rightarrow> False
      | c # cs \<Rightarrow> name_start c \<and> length cs \<le> 62 \<and> list_all (\<lambda>x. name_start x \<or> x = CHR ''-'') cs)"

definition hex_digit_char :: "char \<Rightarrow> bool" where
  "hex_digit_char c \<longleftrightarrow> in_range CHR ''0'' CHR ''9'' c \<or> in_range CHR ''A'' CHR ''F'' c \<or> in_range CHR ''a'' CHR ''f'' c"

text \<open>Five pairs of hexadecimal digits, each followed by a colon or a hyphen, and a last pair.\<close>

fun mac_regex_from :: "nat \<Rightarrow> string \<Rightarrow> bool" where
  "mac_regex_from 0 [a, b] = (hex_digit_char a \<and> hex_digit_char b)"
| "mac_regex_from (Suc n) (a # b # c # cs) =
     (hex_digit_char a \<and> hex_digit_char b \<and> (c = CHR '':'' \<or> c = CHR ''-'') \<and> mac_regex_from n cs)"
| "mac_regex_from _ _ = False"

definition mac_address_regex :: "string \<Rightarrow> bool" where
  "mac_address_regex s = mac_regex_from 5 s"

text \<open>\<open><[u8; 3]>::from_hex\<close>.\<close>

definition color_ok :: "string \<Rightarrow> bool" where
  "color_ok s \<longleftrightarrow> length s = 6 \<and> list_all hex_digit_char s"

definition parse_u8 :: "string \<Rightarrow> u8 option" where
  "parse_u8 s = map_option of_nat (parse_uint 8 s)"

text \<open>White space as \<open>trim\<close> removes it, in ASCII.\<close>

definition is_space :: "char \<Rightarrow> bool" where
  "is_space c \<longleftrightarrow> c = CHR '' '' \<or> in_range (CHR 0x09) (CHR 0x0D) c"

definition trim_matches :: "(char \<Rightarrow> bool) \<Rightarrow> string \<Rightarrow> string" where
  "trim_matches p s = rev (dropWhile p (rev (dropWhile p s)))"

section \<open>Addresses and tokens\<close>

text \<open>\<open>normalize\<close>: the address of a text with or without a subnet, and the subnet.\<close>

definition ipv6_normalize :: "mgr_env \<Rightarrow> string \<Rightarrow> (ip_addr \<times> u8 option) outcome" where
  "ipv6_normalize env s =
     (case split_once (CHR ''/'') s of
        Some (addr, subnet) \<Rightarrow>
          (case parse_u8 subnet of
             Some m \<Rightarrow> bind_outcome (ok_or (Msg ''ipv6_address is not invalid'') (me_parse_ip env addr)) (\<lambda>a. Ok (a, Some m))
           | None \<Rightarrow> Err (Msg ''ipv6_address is not invalid''))
      | None \<Rightarrow> bind_outcome (ok_or (Msg ''invalid IP address syntax'') (me_parse_ip env s)) (\<lambda>a. Ok (a, None)))"

definition decode_token :: "mgr_env \<Rightarrow> string \<Rightarrow> (string \<times> string) outcome" where
  "decode_token env s =
     bind_outcome (ok_or (Msg ''Invalid base64'')
       (me_base64_decode env (trim_matches (\<lambda>c. c = CHR ''='' \<or> c = CHR 0x0A) s))) (\<lambda>binding.
     if \<not> utf8_ok (map of_char binding) then Err (Msg ''invalid utf-8'')
     else ok_or (Msg ''token should be `username: password` pair'')
       (map_option (\<lambda>(u, p). (trim_matches is_space u, trim_matches is_space p)) (split_once (CHR '':'') binding)))"

definition try_verify_kuutamo_monitoring_config :: "mgr_env \<Rightarrow> string \<Rightarrow> string \<Rightarrow> telegraf_config option" where
  "try_verify_kuutamo_monitoring_config env user_id password =
     (let username = ''kld-'' @ user_id
      in if me_monitor_status env username password = Some 401 then None
         else Some \<lparr>tg_url = None, tg_username = username, tg_password = password\<rparr>)"

section \<open>Validation of a host\<close>

definition check :: "bool \<Rightarrow> string \<Rightarrow> unit outcome" where
  "check b msg = (if b then Ok () else Err (Msg msg))"

lemma check_eq_Ok [outcome_simps]: "check b msg = Ok u \<longleftrightarrow> b"
  by (simp add: check_def)

definition validate_mac_address :: "string option \<Rightarrow> string option outcome" where
  "validate_mac_address mac =
     (case mac of None \<Rightarrow> Ok None
      | Some a \<Rightarrow> bind_outcome (check (mac_address_regex a) ''mac address does match a valid format'') (\<lambda>_. Ok (Some a)))"

definition validate_ipv4_address :: "ip_addr option \<Rightarrow> ip_addr option outcome" where
  "validate_ipv4_address address =
     (case address of None \<Rightarrow> Ok None
      | Some a \<Rightarrow> bind_outcome (check (ip_is_v4 a) ''ipv4_address is not an ipv4 address'') (\<lambda>_. Ok (Some a)))"

definition validate_ipv4_cidr :: "u8 option \<Rightarrow> u8 option outcome" where
  "validate_ipv4_cidr cidr =
     (case cidr of None \<Rightarrow> Ok None
      | Some c \<Rightarrow> bind_outcome (check (c < 33) ''ipv4_cidr is not between 0 and 32'') (\<lambda>_. Ok (Some c)))"

text \<open>The address of version 6 with the subnet of its text: the configured prefix length is checked, that of the text
  is not.\<close>

definition validate_ipv6_address ::
  "mgr_env \<Rightarrow> string option \<Rightarrow> u8 option \<Rightarrow> ip_addr option \<Rightarrow> (ip_addr option \<times> u8 option) outcome" where
  "validate_ipv6_address env address cidr gateway =
     (case address of None \<Rightarrow> Ok (None, None)
      | Some s \<Rightarrow>
          bind_outcome (ipv6_normalize env s) (\<lambda>(a, subnet).
          bind_outcome (check (ip_is_v6 a) ''value provided in ipv6_address is not an ipv6 address'') (\<lambda>_.
          bind_outcome (case cidr of
              Some c \<Rightarrow> check (c < 129) ''ipv6_cidr is not between 0 and 128''
            | None \<Rightarrow> check (subnet \<noteq> None) ''no ipv6_cidr provided'') (\<lambda>_.
          bind_outcome (check (gateway \<noteq> None) ''no ipv6_gateway provided'') (\<lambda>_. Ok (Some a, subnet))))))"

text \<open>The monitoring account: of the host's own server, else of the token for the one of the vendor.\<close>

definition monitoring_token :: "mgr_env \<Rightarrow> host_config \<Rightarrow> host_default_config \<Rightarrow> (string \<times> string) option" where
  "monitoring_token env h d =
     (let path = (case option_or (hc_kuutamo_monitoring_token_file h) (df_kuutamo_monitoring_token_file d) of
                    Some f \<Rightarrow> f | None \<Rightarrow> ''kuutamo-monitoring.token'')
      in case me_read_file env path of None \<Rightarrow> None
         | Some t \<Rightarrow> (case decode_token env (trim_matches is_space t) of Ok up \<Rightarrow> Some up | _ \<Rightarrow> None))"

definition validate_telegraf ::
  "mgr_env \<Rightarrow> string option \<Rightarrow> string option \<Rightarrow> string option \<Rightarrow> (string \<times> string) option \<Rightarrow> telegraf_config option outcome" where
  "validate_telegraf env url user pass token =
     (case (url, user, pass, token) of
        (Some u, Some n, Some p, _) \<Rightarrow> Ok (Some \<lparr>tg_url = Some u, tg_username = n, tg_password = p\<rparr>)
      | (Some u, _, _, Some (user_id, p)) \<Rightarrow> Ok (Some \<lparr>tg_url = Some u, tg_username = user_id, tg_password = p\<rparr>)
      | (None, _, _, Some (user_id, p)) \<Rightarrow> Ok (try_verify_kuutamo_monitoring_config env user_id p)
      | (None, Some _, _, None) \<Rightarrow> Err (Msg ''The monitoring config is incomplete, please check'')
      | (None, None, Some _, None) \<Rightarrow> Err (Msg ''The monitoring config is incomplete, please check'')
      | _ \<Rightarrow> Ok None)"

definition validate_kmonitor :: "telegraf_config option \<Rightarrow> string option \<Rightarrow> string option \<Rightarrow> kmonitor_config option" where
  "validate_kmonitor telegraf host_client default_client =
     (if telegraf \<noteq> None \<or> host_client \<noteq> None \<or> default_client \<noteq> None
      then Some \<lparr>km_telegraf = telegraf, km_promtail = option_or host_client default_client\<rparr>
      else None)"

definition default_disks :: "string list" where
  "default_disks = [''/dev/nvme0n1'', ''/dev/nvme1n1'']"

definition get_or :: "'a \<Rightarrow> 'a option \<Rightarrow> 'a" where
  "get_or x v = (case v of Some y \<Rightarrow> y | None \<Rightarrow> x)"

definition is_kld :: "host_config \<Rightarrow> bool" where
  "is_kld h \<longleftrightarrow> starts_with (hc_nixos_module h) ''kld''"

definition host_probe_targets :: "host_config \<Rightarrow> host_default_config \<Rightarrow> string list" where
  "host_probe_targets h d =
     (if is_kld h then get_or [] (df_probe_targets d) @ hc_probe_targets h else [])"

text \<open>The record that \<open>validate_host\<close> returns, from the values it has computed.\<close>

definition host_of ::
  "mgr_env \<Rightarrow> string \<Rightarrow> host_config \<Rightarrow> host_default_config \<Rightarrow> bool \<Rightarrow> ip_addr option \<Rightarrow> u8 option \<Rightarrow> ip_addr \<Rightarrow>
   telegraf_config option \<Rightarrow> host" where
  "host_of env name h d preset_mnemonic ipv6_address subnet address telegraf =
     (let kmonitor = validate_kmonitor telegraf (hc_promtail_client h) (df_promtail_client d)
      in \<lparr>ho_name = name, ho_nixos_module = hc_nixos_module h, ho_extra_nixos_modules = df_extra_nixos_modules d,
          ho_mac_address = hc_mac_address h, ho_ipv4_address = hc_ipv4_address h,
          ho_ipv4_cidr = option_or (hc_ipv4_cidr h) (df_ipv4_cidr d),
          ho_ipv4_gateway = option_or (hc_ipv4_gateway h) (df_ipv4_gateway d), ho_ipv6_address = ipv6_address,
          ho_ipv6_cidr = option_or subnet (option_or (hc_ipv6_cidr h) (df_ipv6_cidr d)),
          ho_ipv6_gateway = option_or (hc_ipv6_gateway h) (df_ipv6_gateway d),
          ho_install_ssh_user = get_or ''root'' (option_or (hc_install_ssh_user h) (df_install_ssh_user d)),
          ho_hostname = get_or (me_show_ip env address) (hc_hostname h),
          ho_public_ssh_keys = hc_public_ssh_keys h @ df_public_ssh_keys d,
          ho_disks = get_or default_disks (option_or (hc_disks h) (df_disks d)),
          ho_bitcoind_disks = get_or [] (hc_bitcoind_disks h), ho_cockroach_peers = [],
          ho_kld_node_alias = hc_kld_node_alias h,
          ho_kld_node_alias_color = option_or (hc_kld_node_alias_color h) (df_kld_node_alias_color d),
          ho_kld_log_level = hc_kld_log_level h, ho_kmonitor_config = kmonitor,
          ho_rest_api_port = hc_kld_rest_api_port h, ho_api_ip_access_list = hc_kld_api_ip_access_list h,
          ho_telegraf_has_monitoring = (case kmonitor of Some k \<Rightarrow> km_telegraf k \<noteq> None | None \<Rightarrow> False),
          ho_promtail_has_client = (case kmonitor of Some k \<Rightarrow> km_promtail k \<noteq> None | None \<Rightarrow> False),
          ho_monitor_config_hash = u64_to_string (me_hash env kmonitor), ho_network_interface = hc_network_interface h,
          ho_kld_preset_mnemonic = Some preset_mnemonic, ho_upgrade_schedule = hc_upgrade_schedule h,
          ho_probe_interval = (if is_kld h then option_or (hc_probe_interval h) (df_probe_interval d) else None),
          ho_probe_amt_msat = (if is_kld h then option_or (hc_probe_amt_msat h) (df_probe_amt_msat d) else None),
          ho_probe_targets = host_probe_targets h d,
          ho_shutdown_graceful_sec = option_or (hc_shutdown_graceful_sec h) (df_shutdown_graceful_sec d)\<rparr>)"

definition validate_host ::
  "mgr_env \<Rightarrow> string \<Rightarrow> host_config \<Rightarrow> host_default_config \<Rightarrow> bool \<Rightarrow> host outcome" where
  "validate_host env name h d preset_mnemonic =
     bind_outcome (check (hc_others h = []) ''not allowed fields'') (\<lambda>_.
     bind_outcome (check (name \<noteq> [] \<and> length name \<le> 63) ''a host's name must be between 1 and 63 characters long'') (\<lambda>_.
     bind_outcome (check (hostname_regex name) ''a host's name must only contain letters, digits and hyphens'') (\<lambda>_.
     bind_outcome (validate_mac_address (hc_mac_address h)) (\<lambda>_.
     bind_outcome (validate_ipv4_address (hc_ipv4_address h)) (\<lambda>ipv4_address.
     bind_outcome (validate_ipv4_cidr (option_or (hc_ipv4_cidr h) (df_ipv4_cidr d))) (\<lambda>_.
     bind_outcome (validate_ipv6_address env (hc_ipv6_address h) (option_or (hc_ipv6_cidr h) (df_ipv6_cidr d))
         (option_or (hc_ipv6_gateway h) (df_ipv6_gateway d))) (\<lambda>(ipv6_address, subnet).
     bind_outcome (ok_or (Msg ''no ipv4_address or ipv6_address provided'') (option_or ipv4_address ipv6_address)) (\<lambda>address.
     bind_outcome (check (option_or (hc_ipv4_gateway h) (df_ipv4_gateway d) \<noteq> None \<or>
         option_or (hc_ipv6_gateway h) (df_ipv6_gateway d) \<noteq> None) ''no ipv4_gateway or ipv6_gateway provided'') (\<lambda>_.
     bind_outcome (check (hc_public_ssh_keys h @ df_public_ssh_keys d \<noteq> []) ''no public_ssh_keys provided'') (\<lambda>_.
     bind_outcome (check (get_or default_disks (option_or (hc_disks h) (df_disks d)) \<noteq> []) ''no disks specified'') (\<lambda>_.
     bind_outcome (validate_telegraf env
         (option_or (hc_self_monitoring_url h) (df_self_monitoring_url d))
         (option_or (hc_self_monitoring_username h) (df_self_monitoring_username d))
         (option_or (hc_self_monitoring_password h) (df_self_monitoring_password d))
         (monitoring_token env h d)) (\<lambda>telegraf.
     bind_outcome (check (pred_option (\<lambda>a. length a \<le> 32) (hc_kld_node_alias h)) ''alias should be less then 32 bytes'') (\<lambda>_.
     bind_outcome (check (pred_option color_ok (option_or (hc_kld_node_alias_color h) (df_kld_node_alias_color d)))
         ''alias color should be in hex format'') (\<lambda>_.
     bind_outcome (check (list_all (me_is_public_key env) (host_probe_targets h d))
         ''not a valid public key to be the target of probe'') (\<lambda>_.
     Ok (host_of env name h d preset_mnemonic ipv6_address subnet address telegraf))))))))))))))))"

section \<open>Validation of the whole\<close>

definition path_join :: "string \<Rightarrow> string \<Rightarrow> string" where
  "path_join a b =
     (if starts_with b ''/'' then b else if a = [] \<or> last a = CHR ''/'' then a @ b else a @ CHR ''/'' # b)"

text \<open>\<open>nix\<close> is the success of \<open>nix flake show\<close>, if the command could be run; \<open>flake_check\<close> whether the variable of
  the environment is set.\<close>

definition validate_global ::
  "(string \<Rightarrow> string \<Rightarrow> bool option) \<Rightarrow> bool \<Rightarrow> global_config \<Rightarrow> string \<Rightarrow> bool \<Rightarrow> global_config outcome" where
  "validate_global nix flake_check gl working_directory check_deployment_repo =
     (let g = (if starts_with (gl_secret_directory gl) ''/'' then gl
               else gl\<lparr>gl_secret_directory := path_join working_directory (gl_secret_directory gl)\<rparr>)
      in if nix (gl_access_tokens g) (gl_deployment_flake g) = Some False \<and> \<not> flake_check \<and> check_deployment_repo
         then Err (Msg ''deployment flake is not accessible'') else Ok g)"

definition cockroach_peer_of :: "string \<times> host \<Rightarrow> cockroach_peer" where
  "cockroach_peer_of nh =
     \<lparr>cp_name = fst nh, cp_ipv4_address = ho_ipv4_address (snd nh), cp_ipv6_address = ho_ipv6_address (snd nh)\<rparr>"

definition count_module :: "string \<Rightarrow> (string \<times> host) list \<Rightarrow> nat" where
  "count_module m hosts = length (filter (\<lambda>(_, h). ho_nixos_module h = m) hosts)"

text \<open>\<open>parse_config\<close>, of the parsed file.\<close>

definition parse_config ::
  "mgr_env \<Rightarrow> (string \<Rightarrow> string \<Rightarrow> bool option) \<Rightarrow> bool \<Rightarrow> config_file \<Rightarrow> string \<Rightarrow> bool \<Rightarrow> bool \<Rightarrow> config outcome" where
  "parse_config env nix flake_check f working_directory preset_mnemonic check_deployment_repo =
     bind_outcome (collect (\<lambda>(name, h). bind_outcome (validate_host env name h (cf_host_defaults f) preset_mnemonic)
         (\<lambda>v. Ok (name, v))) (cf_hosts f)) (\<lambda>validated.
     let hosts = sort_key fst validated;
         peers = map cockroach_peer_of hosts;
         hosts' = map (\<lambda>(name, h). (name, h\<lparr>ho_cockroach_peers := peers\<rparr>)) hosts
     in bind_outcome (check (count_module ''kld-node'' hosts' = 1) ''Exactly one kld-node is required'') (\<lambda>_.
        bind_outcome (check (\<not> (count_module ''cockroachdb-node'' hosts' \<noteq> 0 \<and> count_module ''cockroachdb-node'' hosts' < 2))
            ''Either zero or two cockroach-nodes are required'') (\<lambda>_.
        bind_outcome (validate_global nix flake_check (cf_global f) working_directory check_deployment_repo) (\<lambda>g.
          Ok \<lparr>co_hosts = hosts', co_global = g\<rparr>))))"

text \<open>\<open>load_configuration\<close>: reading the file and its directory, and parsing it; \<open>toml\<close> is the parser of the library.\<close>

definition load_configuration ::
  "mgr_env \<Rightarrow> (string \<Rightarrow> string \<Rightarrow> bool option) \<Rightarrow> bool \<Rightarrow> (string \<Rightarrow> config_file outcome) \<Rightarrow> (string \<Rightarrow> string option) \<Rightarrow>
   (string \<Rightarrow> string option) \<Rightarrow> string \<Rightarrow> bool \<Rightarrow> bool \<Rightarrow> config outcome" where
  "load_configuration env nix flake_check toml read_text parent path preset_mnemonic check_deployment_repo =
     bind_outcome (ok_or (Msg ''Cannot read file'') (read_text path)) (\<lambda>content.
     bind_outcome (ok_or (Msg (''Cannot determine working directory from path: '' @ path)) (parent path)) (\<lambda>dir.
     bind_outcome (toml content) (\<lambda>f.
       parse_config env nix flake_check f dir preset_mnemonic check_deployment_repo)))"

section \<open>Secrets\<close>

text \<open>\<open>Host::secrets\<close>: the files to copy to a host. The first list gives the place of a file on the host, its source
  below the directory of the secrets, the error when it cannot be read and its mode, \<open>0o600\<close> or \<open>0o644\<close>.\<close>

definition MODE_PRIVATE :: nat where
  "MODE_PRIVATE = 6 * 64"

definition MODE_PUBLIC :: nat where
  "MODE_PUBLIC = 6 * 64 + 4 * 8 + 4"

record secret_file =
  sc_path :: string
  sc_content :: string
  sc_mode :: nat

definition secret_sources :: "string \<Rightarrow> (string \<times> string \<times> string \<times> nat) list" where
  "secret_sources name =
     [(''/var/lib/secrets/kld/ca.pem'', ''lightning/ca.pem'', ''failed to read ca.pem'', MODE_PRIVATE),
      (''/var/lib/secrets/kld/kld.pem'', ''lightning/'' @ name @ ''.pem'', ''failed to read kld.pem'', MODE_PRIVATE),
      (''/var/lib/secrets/kld/kld.key'', ''lightning/'' @ name @ ''.key'', ''failed to read kld.key'', MODE_PRIVATE),
      (''/var/lib/secrets/kld/client.kld.crt'', ''cockroachdb/client.kld.crt'', ''failed to read client.kld.crt'', MODE_PRIVATE),
      (''/var/lib/secrets/kld/client.kld.key'', ''cockroachdb/client.kld.key'', ''failed to read client.kld.key'', MODE_PRIVATE),
      (''/var/lib/secrets/cockroachdb/ca.crt'', ''cockroachdb/ca.crt'', ''failed to read ca.crt'', MODE_PRIVATE),
      (''/var/lib/secrets/cockroachdb/client.root.crt'', ''cockroachdb/client.root.crt'', ''failed to read client.root.crt'', MODE_PRIVATE),
      (''/var/lib/secrets/cockroachdb/client.root.key'', ''cockroachdb/client.root.key'', ''failed to read client.root.key'', MODE_PRIVATE),
      (''/var/lib/secrets/cockroachdb/node.crt'', ''cockroachdb/'' @ name @ ''.node.crt'', ''failed to read node.crt'', MODE_PRIVATE),
      (''/var/lib/secrets/cockroachdb/node.key'', ''cockroachdb/'' @ name @ ''.node.key'', ''failed to read node.key'', MODE_PRIVATE),
      (''/root/.ssh/id_ed25519'', ''ssh/id_ed25519'', ''failed to read deploy key'', MODE_PRIVATE),
      (''/root/.ssh/id_ed25519.pub'', ''ssh/id_ed25519.pub'', ''failed to read deploy pub key'', MODE_PUBLIC),
      (''/var/lib/secrets/sshd_key'', ''sshd/'' @ name, ''failed to read sshd server key'', MODE_PRIVATE)]"

definition read_secret ::
  "(string \<Rightarrow> string option) \<Rightarrow> string \<Rightarrow> string \<times> string \<times> string \<times> nat \<Rightarrow> secret_file outcome" where
  "read_secret read dir e = (case e of (path, source, msg, mode) \<Rightarrow>
     bind_outcome (ok_or (Msg msg) (read (path_join dir source))) (\<lambda>c. Ok \<lparr>sc_path = path, sc_content = c, sc_mode = mode\<rparr>))"

definition telegraf_secret :: "telegraf_config \<Rightarrow> secret_file" where
  "telegraf_secret t =
     \<lparr>sc_path = ''/var/lib/secrets/telegraf'',
      sc_content = ''MONITORING_URL='' @
        get_or ''https://mimir.monitoring-00-cluster.kuutamo.computer/api/v1/push'' (tg_url t) @ CHR 0x0A #
        ''MONITORING_USERNAME='' @ tg_username t @ CHR 0x0A # ''MONITORING_PASSWORD='' @ tg_password t,
      sc_mode = MODE_PRIVATE\<rparr>"

definition promtail_secret :: "string \<Rightarrow> secret_file" where
  "promtail_secret client =
     \<lparr>sc_path = ''/var/lib/secrets/promtail'', sc_content = ''CLIENT_URL='' @ client, sc_mode = MODE_PRIVATE\<rparr>"

definition host_secrets :: "(string \<Rightarrow> string option) \<Rightarrow> (string \<Rightarrow> bool) \<Rightarrow> host \<Rightarrow> string \<Rightarrow> string \<Rightarrow> secret_file list outcome" where
  "host_secrets read exists h dir access_tokens =
     bind_outcome (collect (read_secret read dir) (secret_sources (ho_name h))) (\<lambda>files.
     bind_outcome (read_secret read dir (''/var/lib/secrets/disk_encryption_key'', ''disk_encryption_key'',
         ''failed to read disk_encrypted_key'', MODE_PRIVATE)) (\<lambda>disk.
     bind_outcome (if exists (path_join dir ''mnemonic'')
         then bind_outcome (read_secret read dir (''/var/lib/secrets/mnemonic'', ''mnemonic'', ''failed to read mnemonic'', MODE_PRIVATE))
           (\<lambda>f. Ok [f])
         else Ok []) (\<lambda>mnemonic.
       Ok (files @
         [\<lparr>sc_path = ''/var/lib/secrets/access-tokens'', sc_content = ''ACCESS_TOKENS='' @ access_tokens, sc_mode = MODE_PRIVATE\<rparr>] @
         [disk] @ mnemonic @
         (case ho_kmonitor_config h of None \<Rightarrow> []
          | Some k \<Rightarrow> (case km_telegraf k of Some t \<Rightarrow> [telegraf_secret t] | None \<Rightarrow> []) @
                      (case km_promtail k of Some c \<Rightarrow> [promtail_secret c] | None \<Rightarrow> []))))))"

definition deploy_ssh_target :: "host \<Rightarrow> string" where
  "deploy_ssh_target h = ''root@'' @ ho_hostname h"

definition flake_uri :: "host \<Rightarrow> string \<Rightarrow> string" where
  "flake_uri h flake_path = flake_path @ ''#'' @ ho_name h"

end
