(* ===== verification/Mgr_Config_Correct.thy ===== *)
theory Mgr_Config_Correct
  imports Mgr_Config
begin

text \<open>
  What a validated configuration guarantees: every host is well formed, and the cluster has one lightning node,
  none or at least two further database nodes, and the same list of database peers on every host.
\<close>

section \<open>Hosts\<close>

definition host_wf :: "mgr_env \<Rightarrow> host \<Rightarrow> bool" where
  "host_wf env h \<longleftrightarrow>
     hostname_regex (ho_name h) \<and> length (ho_name h) \<le> 63 \<and>
     pred_option mac_address_regex (ho_mac_address h) \<and>
     pred_option ip_is_v4 (ho_ipv4_address h) \<and> pred_option ip_is_v6 (ho_ipv6_address h) \<and>
     (ho_ipv4_address h \<noteq> None \<or> ho_ipv6_address h \<noteq> None) \<and>
     pred_option (\<lambda>c. c \<le> 32) (ho_ipv4_cidr h) \<and>
     (ho_ipv6_address h \<noteq> None \<longrightarrow> ho_ipv6_cidr h \<noteq> None \<and> ho_ipv6_gateway h \<noteq> None) \<and>
     (ho_ipv4_gateway h \<noteq> None \<or> ho_ipv6_gateway h \<noteq> None) \<and>
     ho_public_ssh_keys h \<noteq> [] \<and> ho_disks h \<noteq> [] \<and>
     pred_option (\<lambda>a. length a \<le> 32) (ho_kld_node_alias h) \<and> pred_option color_ok (ho_kld_node_alias_color h) \<and>
     (\<forall>t \<in> set (ho_probe_targets h). me_is_public_key env t) \<and>
     ho_telegraf_has_monitoring h = (Option.bind (ho_kmonitor_config h) km_telegraf \<noteq> None) \<and>
     ho_promtail_has_client h = (Option.bind (ho_kmonitor_config h) km_promtail \<noteq> None)"

lemma validate_mac_address_Ok: "validate_mac_address m = Ok r \<longleftrightarrow> r = m \<and> pred_option mac_address_regex m"
  by (cases m) (auto simp: validate_mac_address_def outcome_simps)

lemma validate_ipv4_address_Ok: "validate_ipv4_address a = Ok r \<longleftrightarrow> r = a \<and> pred_option ip_is_v4 a"
  by (cases a) (auto simp: validate_ipv4_address_def outcome_simps)

lemma validate_ipv4_cidr_Ok: "validate_ipv4_cidr c = Ok r \<longleftrightarrow> r = c \<and> pred_option (\<lambda>c. c < 33) c"
  by (cases c) (auto simp: validate_ipv4_cidr_def outcome_simps)

lemma validate_ipv6_address_Ok:
  "validate_ipv6_address env address cidr gateway = Ok (a, subnet) \<longleftrightarrow>
     (case address of None \<Rightarrow> a = None \<and> subnet = None
      | Some s \<Rightarrow> (\<exists>ip. ipv6_normalize env s = Ok (ip, subnet) \<and> a = Some ip \<and> ip_is_v6 ip) \<and>
          (case cidr of Some c \<Rightarrow> c < 129 | None \<Rightarrow> subnet \<noteq> None) \<and> gateway \<noteq> None)"
  by (cases address; cases cidr) (auto simp: validate_ipv6_address_def outcome_simps)

lemmas validate_host_steps =
  validate_mac_address_Ok validate_ipv4_address_Ok validate_ipv4_cidr_Ok validate_ipv6_address_Ok

lemma word_less_33: "(c :: u8) < 33 \<longleftrightarrow> c \<le> 32"
proof -
  have "unat c < 33 \<longleftrightarrow> unat c \<le> 32" by arith
  then show ?thesis by (simp add: word_less_nat_alt word_le_nat_alt)
qed

text \<open>What the checks of \<open>validate_host\<close> leave behind.\<close>

lemma validate_host_Ok:
  assumes "validate_host env name h d preset = Ok v"
  obtains ip6 subnet address telegraf where
    "v = host_of env name h d preset ip6 subnet address telegraf"
    "hc_others h = []" "hostname_regex name" "length name \<le> 63"
    "pred_option mac_address_regex (hc_mac_address h)" "pred_option ip_is_v4 (hc_ipv4_address h)"
    "pred_option (\<lambda>c. c < 33) (option_or (hc_ipv4_cidr h) (df_ipv4_cidr d))"
    "validate_ipv6_address env (hc_ipv6_address h) (option_or (hc_ipv6_cidr h) (df_ipv6_cidr d))
       (option_or (hc_ipv6_gateway h) (df_ipv6_gateway d)) = Ok (ip6, subnet)"
    "option_or (hc_ipv4_address h) ip6 = Some address"
    "option_or (hc_ipv4_gateway h) (df_ipv4_gateway d) \<noteq> None \<or> option_or (hc_ipv6_gateway h) (df_ipv6_gateway d) \<noteq> None"
    "hc_public_ssh_keys h @ df_public_ssh_keys d \<noteq> []" "get_or default_disks (option_or (hc_disks h) (df_disks d)) \<noteq> []"
    "pred_option (\<lambda>a. length a \<le> 32) (hc_kld_node_alias h)"
    "pred_option color_ok (option_or (hc_kld_node_alias_color h) (df_kld_node_alias_color d))"
    "list_all (me_is_public_key env) (host_probe_targets h d)"
proof -
  show thesis
    using assms unfolding validate_host_def
    apply (simp only: outcome_simps validate_mac_address_Ok validate_ipv4_address_Ok validate_ipv4_cidr_Ok split_paired_Ex prod.case outcome.inject)
    apply (elim exE conjE)
    apply hypsubst
    apply (rule that)
    apply assumption+
    done
qed

lemma host_of_sel [simp]:
  "ho_name (host_of env name h d p i s a t) = name"
  "ho_mac_address (host_of env name h d p i s a t) = hc_mac_address h"
  "ho_ipv4_address (host_of env name h d p i s a t) = hc_ipv4_address h"
  "ho_ipv4_cidr (host_of env name h d p i s a t) = option_or (hc_ipv4_cidr h) (df_ipv4_cidr d)"
  "ho_ipv4_gateway (host_of env name h d p i s a t) = option_or (hc_ipv4_gateway h) (df_ipv4_gateway d)"
  "ho_ipv6_address (host_of env name h d p i s a t) = i"
  "ho_ipv6_cidr (host_of env name h d p i s a t) = option_or s (option_or (hc_ipv6_cidr h) (df_ipv6_cidr d))"
  "ho_ipv6_gateway (host_of env name h d p i s a t) = option_or (hc_ipv6_gateway h) (df_ipv6_gateway d)"
  "ho_public_ssh_keys (host_of env name h d p i s a t) = hc_public_ssh_keys h @ df_public_ssh_keys d"
  "ho_disks (host_of env name h d p i s a t) = get_or default_disks (option_or (hc_disks h) (df_disks d))"
  "ho_kld_node_alias (host_of env name h d p i s a t) = hc_kld_node_alias h"
  "ho_kld_node_alias_color (host_of env name h d p i s a t) = option_or (hc_kld_node_alias_color h) (df_kld_node_alias_color d)"
  "ho_probe_targets (host_of env name h d p i s a t) = host_probe_targets h d"
  by (simp_all add: host_of_def Let_def)

lemma host_of_flags:
  "ho_telegraf_has_monitoring (host_of env name h d p i s a t) =
     (Option.bind (ho_kmonitor_config (host_of env name h d p i s a t)) km_telegraf \<noteq> None)"
  "ho_promtail_has_client (host_of env name h d p i s a t) =
     (Option.bind (ho_kmonitor_config (host_of env name h d p i s a t)) km_promtail \<noteq> None)"
  by (simp_all add: host_of_def Let_def split: option.splits)

lemma validated_ipv6:
  assumes "validate_ipv6_address env address cidr gateway = Ok (i, subnet)"
  shows "pred_option ip_is_v6 i" and "i \<noteq> None \<Longrightarrow> option_or subnet cidr \<noteq> None \<and> gateway \<noteq> None"
  using assms by (cases address; cases cidr; auto simp: validate_ipv6_address_Ok option_or_def split: option.splits)+

lemma validate_host_wf:
  assumes "validate_host env name h d preset = Ok v"
  shows "host_wf env v"
  using assms
proof (rule validate_host_Ok)
  fix i subnet address telegraf
  assume v: "v = host_of env name h d preset i subnet address telegraf"
    and checks: "hostname_regex name" "length name \<le> 63"
      "pred_option mac_address_regex (hc_mac_address h)" "pred_option ip_is_v4 (hc_ipv4_address h)"
      "pred_option (\<lambda>c. c < 33) (option_or (hc_ipv4_cidr h) (df_ipv4_cidr d))"
      "option_or (hc_ipv4_gateway h) (df_ipv4_gateway d) \<noteq> None \<or> option_or (hc_ipv6_gateway h) (df_ipv6_gateway d) \<noteq> None"
      "hc_public_ssh_keys h @ df_public_ssh_keys d \<noteq> []" "get_or default_disks (option_or (hc_disks h) (df_disks d)) \<noteq> []"
      "pred_option (\<lambda>a. length a \<le> 32) (hc_kld_node_alias h)"
      "pred_option color_ok (option_or (hc_kld_node_alias_color h) (df_kld_node_alias_color d))"
      "list_all (me_is_public_key env) (host_probe_targets h d)"
    and ip6: "validate_ipv6_address env (hc_ipv6_address h) (option_or (hc_ipv6_cidr h) (df_ipv6_cidr d))
       (option_or (hc_ipv6_gateway h) (df_ipv6_gateway d)) = Ok (i, subnet)"
    and address: "option_or (hc_ipv4_address h) i = Some address"
  have "hc_ipv4_address h \<noteq> None \<or> i \<noteq> None" using address by auto
  moreover have "pred_option (\<lambda>c. c \<le> 32) (option_or (hc_ipv4_cidr h) (df_ipv4_cidr d))"
    using checks(5) by (simp add: word_less_33)
  ultimately show ?thesis
    unfolding host_wf_def v host_of_flags host_of_sel
    using checks validated_ipv6 [OF ip6] by (simp add: list_all_iff)
qed

lemma validate_host_name: "validate_host env name h d preset = Ok v \<Longrightarrow> ho_name v = name"
  by (rule validate_host_Ok) auto

lemma normalize_subnet:
  "CHR ''/'' \<notin> set addr \<Longrightarrow> ipv6_normalize env (addr @ CHR ''/'' # subnet) = Ok (ip, m) \<Longrightarrow>
    \<exists>x. parse_u8 subnet = Some x \<and> m = Some x"
proof -
  assume "CHR ''/'' \<notin> set addr"
  then have s: "split_once (CHR ''/'') (addr @ CHR ''/'' # subnet) = Some (addr, subnet)"
    by (simp add: split_once_Some)
  assume n: "ipv6_normalize env (addr @ CHR ''/'' # subnet) = Ok (ip, m)"
  with s obtain x where x: "parse_u8 subnet = Some x"
    by (cases "parse_u8 subnet") (simp_all add: ipv6_normalize_def)
  with n s have "m = Some x"
    by (auto simp: ipv6_normalize_def outcome_simps)
  with x show ?thesis by simp
qed

lemma validated_subnet:
  assumes "validate_host env name h d preset = Ok v"
    and "hc_ipv6_address h = Some (addr @ CHR ''/'' # subnet)" and "CHR ''/'' \<notin> set addr"
  shows "ho_ipv6_cidr v = parse_u8 subnet"
  using assms(1)
proof (rule validate_host_Ok)
  fix i m address telegraf
  assume v: "v = host_of env name h d preset i m address telegraf"
    and "validate_ipv6_address env (hc_ipv6_address h) (option_or (hc_ipv6_cidr h) (df_ipv6_cidr d))
       (option_or (hc_ipv6_gateway h) (df_ipv6_gateway d)) = Ok (i, m)"
  then obtain ip where ip: "ipv6_normalize env (addr @ CHR ''/'' # subnet) = Ok (ip, m)"
    using assms(2) by (auto simp: validate_ipv6_address_Ok)
  then show ?thesis using normalize_subnet [OF assms(3) ip] by (auto simp: v)
qed


definition sample_mgr_env :: mgr_env where
  "sample_mgr_env =
     \<lparr>me_parse_ip = (\<lambda>s. if s = ''2605::1'' then Some (IpV6 (replicate 16 1)) else None), me_show_ip = (\<lambda>_. ''10.0.0.1''),
      me_is_public_key = (\<lambda>_. True), me_read_file = (\<lambda>_. None), me_base64_decode = (\<lambda>_. None),
      me_monitor_status = (\<lambda>_ _. None), me_hash = (\<lambda>_. 7)\<rparr>"

definition sample_defaults :: host_default_config where
  "sample_defaults =
     \<lparr>df_ipv4_gateway = Some (IpV4 [10, 0, 0, 254]), df_ipv4_cidr = Some 24, df_ipv6_gateway = Some (IpV6 (replicate 16 2)),
      df_ipv6_cidr = Some 48, df_public_ssh_keys = [''ssh-ed25519''], df_install_ssh_user = None,
      df_extra_nixos_modules = [], df_disks = None, df_kuutamo_monitoring_token_file = None,
      df_self_monitoring_url = None, df_self_monitoring_username = None, df_self_monitoring_password = None,
      df_promtail_client = None, df_kld_node_alias_color = None, df_probe_interval = None, df_probe_amt_msat = None,
      df_probe_targets = None, df_shutdown_graceful_sec = None\<rparr>"

definition sample_host_config :: host_config where
  "sample_host_config =
     \<lparr>hc_ipv4_address = Some (IpV4 [10, 0, 0, 1]), hc_ipv4_gateway = None, hc_ipv4_cidr = None,
      hc_nixos_module = ''kld-node'', hc_mac_address = None, hc_ipv6_address = Some ''2605::1/200'', hc_ipv6_gateway = None,
      hc_ipv6_cidr = None, hc_public_ssh_keys = [], hc_install_ssh_user = None, hc_hostname = None, hc_disks = None,
      hc_bitcoind_disks = None, hc_kld_node_alias = None, hc_kld_node_alias_color = None, hc_kld_log_level = None,
      hc_kuutamo_monitoring_token_file = None, hc_self_monitoring_url = None, hc_self_monitoring_username = None,
      hc_self_monitoring_password = None, hc_promtail_client = None, hc_kld_rest_api_port = None,
      hc_kld_api_ip_access_list = [], hc_network_interface = None, hc_upgrade_schedule = None, hc_probe_interval = None,
      hc_probe_amt_msat = None, hc_probe_targets = [], hc_shutdown_graceful_sec = None, hc_others = []\<rparr>"

definition sample_kld_host :: host where
  "sample_kld_host = host_of sample_mgr_env ''kld-00'' sample_host_config sample_defaults False
     (Some (IpV6 (replicate 16 1))) (Some 200) (IpV4 [10, 0, 0, 1]) None"

lemma sample_host_validates:
  "validate_host sample_mgr_env ''kld-00'' sample_host_config sample_defaults False = Ok sample_kld_host"
proof -
  have p: "parse_u8 ''200'' = Some 200" by (simp add: parse_u8_def parse_uint_def char_digit_def)
  have n: "hostname_regex ''kld-00''" by (simp add: hostname_regex_def name_start_def in_range_def)
  have t: "monitoring_token sample_mgr_env sample_host_config sample_defaults = None"
    by (simp add: monitoring_token_def sample_mgr_env_def Let_def)
  show ?thesis
    unfolding validate_host_def t
    by (simp add: n p validate_mac_address_def validate_ipv4_address_def validate_ipv4_cidr_def validate_ipv6_address_def
        ipv6_normalize_def validate_telegraf_def check_def sample_host_config_def sample_defaults_def sample_mgr_env_def
        get_or_def default_disks_def host_probe_targets_def is_kld_def starts_with_def ip_is_v4_def ip_is_v6_def
        sample_kld_host_def word_less_nat_alt)
qed


section \<open>The cluster\<close>

lemma list_all2_hosts:
  assumes "list_all2 (\<lambda>x y. (case x of (name, h) \<Rightarrow> bind_outcome (validate_host env name h d p) (\<lambda>v. Ok (name, v))) = Ok y) xs ys"
  shows "map fst ys = map fst xs \<and> (\<forall>(n, v) \<in> set ys. host_wf env v \<and> ho_name v = n)"
  using assms
proof (induction rule: list_all2_induct)
  case (Cons x xs y ys)
  obtain name h where x: "x = (name, h)" by force
  with Cons.hyps obtain v where "validate_host env name h d p = Ok v" and y: "y = (name, v)"
    by (auto simp: outcome_simps)
  then have "host_wf env v \<and> ho_name v = name"
    using validate_host_wf validate_host_name by blast
  then show ?case using Cons.IH x y by simp
qed simp

lemma host_wf_peers [simp]: "host_wf env (h\<lparr>ho_cockroach_peers := ps\<rparr>) \<longleftrightarrow> host_wf env h"
  by (simp add: host_wf_def)

lemma map_insort_key: "map f (insort_key f x xs) = insort (f x) (map f xs)"
  by (induction xs) simp_all

lemma map_sort_key: "map f (sort_key f xs) = sort (map f xs)"
  by (induction xs) (simp_all add: map_insort_key)

lemma parse_config_Ok:
  assumes "parse_config env nix fc f wd preset chk = Ok c"
  obtains hosts where
    "map fst hosts = sort (map fst (cf_hosts f))" "\<forall>(n, v) \<in> set hosts. host_wf env v \<and> ho_name v = n"
    "co_hosts c = map (\<lambda>(n, h). (n, h\<lparr>ho_cockroach_peers := map cockroach_peer_of hosts\<rparr>)) hosts"
    "count_module ''kld-node'' (co_hosts c) = 1" "count_module ''cockroachdb-node'' (co_hosts c) \<noteq> 1"
proof -
  let ?validate = "\<lambda>(name, h). bind_outcome (validate_host env name h (cf_host_defaults f) preset) (\<lambda>v. Ok (name, v))"
  let ?with_peers = "\<lambda>hosts. map (\<lambda>(n, h). (n, h\<lparr>ho_cockroach_peers := map cockroach_peer_of hosts\<rparr>)) hosts"
  have "\<exists>validated. collect ?validate (cf_hosts f) = Ok validated \<and> co_hosts c = ?with_peers (sort_key fst validated) \<and>
      count_module ''kld-node'' (co_hosts c) = 1 \<and>
      \<not> (count_module ''cockroachdb-node'' (co_hosts c) \<noteq> 0 \<and> count_module ''cockroachdb-node'' (co_hosts c) < 2)"
    using assms unfolding parse_config_def Let_def
    by (simp only: bind_outcome_eq_Ok check_eq_Ok outcome.inject) (elim exE conjE, hypsubst, simp only: config.simps, blast)
  then obtain validated where v: "collect ?validate (cf_hosts f) = Ok validated"
    and c: "co_hosts c = ?with_peers (sort_key fst validated)" "count_module ''kld-node'' (co_hosts c) = 1"
      "count_module ''cockroachdb-node'' (co_hosts c) \<noteq> 1"
    by auto
  have all2: "list_all2 (\<lambda>x y. ?validate x = Ok y) (cf_hosts f) validated"
    using v by (simp only: collect_eq_Ok)
  have "map fst (sort_key fst validated) = sort (map fst validated)"
    by (rule map_sort_key)
  then show thesis
    using that [of "sort_key fst validated"] list_all2_hosts [OF all2] c by simp
qed

text \<open>C24: A configuration that is accepted has every host of the file exactly once, in the order of the names and well
  formed; exactly one of them is a lightning node and not exactly one is a further database node; and
  every host has the same list of database peers, which names every host with its addresses.\<close>

theorem parse_config_cluster:
  assumes "parse_config env nix flake_check f wd preset chk = Ok c" and "distinct (map fst (cf_hosts f))"
  shows "map fst (co_hosts c) = sorted_list_of_set (fst ` set (cf_hosts f)) \<and>
    (\<forall>(name, h) \<in> set (co_hosts c). host_wf env h \<and> ho_name h = name \<and>
       map cp_name (ho_cockroach_peers h) = map fst (co_hosts c) \<and>
       map cp_ipv4_address (ho_cockroach_peers h) = map (ho_ipv4_address \<circ> snd) (co_hosts c) \<and>
       map cp_ipv6_address (ho_cockroach_peers h) = map (ho_ipv6_address \<circ> snd) (co_hosts c)) \<and>
    count_module ''kld-node'' (co_hosts c) = 1 \<and> count_module ''cockroachdb-node'' (co_hosts c) \<noteq> 1"
  using assms(1)
proof (rule parse_config_Ok)
  fix hosts
  assume names: "map fst hosts = sort (map fst (cf_hosts f))"
    and wf: "\<forall>(n, v) \<in> set hosts. host_wf env v \<and> ho_name v = n"
    and hosts: "co_hosts c = map (\<lambda>(n, h). (n, h\<lparr>ho_cockroach_peers := map cockroach_peer_of hosts\<rparr>)) hosts"
    and counts: "count_module ''kld-node'' (co_hosts c) = 1" "count_module ''cockroachdb-node'' (co_hosts c) \<noteq> 1"
  have "map fst (co_hosts c) = map fst hosts" by (simp add: hosts case_prod_unfold comp_def)
  moreover have "map fst hosts = sorted_list_of_set (fst ` set (cf_hosts f))"
    using names sorted_list_of_set_sort_remdups [of "map fst (cf_hosts f)"] assms(2) by (simp add: distinct_remdups_id)
  moreover have "map cp_name (map cockroach_peer_of hosts) = map fst hosts"
    "map cp_ipv4_address (map cockroach_peer_of hosts) = map (ho_ipv4_address \<circ> snd) (co_hosts c)"
    "map cp_ipv6_address (map cockroach_peer_of hosts) = map (ho_ipv6_address \<circ> snd) (co_hosts c)"
    by (simp_all add: hosts cockroach_peer_of_def case_prod_unfold comp_def)
  moreover have "host_wf env h \<and> ho_name h = name \<and> ho_cockroach_peers h = map cockroach_peer_of hosts"
    if "(name, h) \<in> set (co_hosts c)" for name h
    using that wf by (auto simp: hosts)
  ultimately show ?thesis
    using counts by auto
qed

definition sample_config_file :: config_file where
  "sample_config_file =
     \<lparr>cf_global = \<lparr>gl_deployment_flake = [], gl_access_tokens = [], gl_knd_flake = [], gl_secret_directory = ''secrets''\<rparr>,
      cf_host_defaults = sample_defaults, cf_hosts = [(''kld-00'', sample_host_config)]\<rparr>"

theorem parse_config_cluster_witness:
  "\<exists>c. parse_config sample_mgr_env (\<lambda>_ _. Some True) False sample_config_file ''/etc'' False True = Ok c \<and>
     map fst (co_hosts c) = [''kld-00'']"
proof -
  have "ho_nixos_module sample_kld_host = ''kld-node''"
    by (simp add: sample_kld_host_def host_of_def sample_host_config_def Let_def)
  then have "parse_config sample_mgr_env (\<lambda>_ _. Some True) False sample_config_file ''/etc'' False True =
    Ok \<lparr>co_hosts = [(''kld-00'', sample_kld_host\<lparr>ho_cockroach_peers := [cockroach_peer_of (''kld-00'', sample_kld_host)]\<rparr>)],
        co_global = (cf_global sample_config_file)\<lparr>gl_secret_directory := ''/etc/secrets''\<rparr>\<rparr>" (is "?l = Ok ?c")
    by (simp add: parse_config_def sample_config_file_def sample_host_validates check_def count_module_def
        validate_global_def path_join_def starts_with_def)
  then have c: "?l = Ok ?c" .
  have d: "distinct (map fst (cf_hosts sample_config_file))" by (simp add: sample_config_file_def)
  have "map fst (co_hosts ?c) = sorted_list_of_set (fst ` set (cf_hosts sample_config_file))"
    using parse_config_cluster [OF c d] by (rule conjunct1)
  then show ?thesis using c by (simp add: sample_config_file_def)
qed

end
