(* ===== verification/Key_Bindings.thy ===== *)
theory Key_Bindings
  imports Rust_Text "HOL-Library.AList"
begin

unbundle bit_operations_syntax

text \<open>
  The keys of the terminal interface (\<^verbatim>\<open>tui/src/keybinding.rs\<close>, \<^verbatim>\<open>mode.rs\<close>, \<^verbatim>\<open>action.rs\<close> and the
  commands of \<^verbatim>\<open>components/command/mod.rs\<close>): key events and their text, the actions and their text, and
  the table of bindings that the defaults and the file of the user give.  The types of the key events are
  those of the terminal library.  A string is the list of its code points up to U+00FF, of one or two
  bytes each.  A hash map is the list of its entries in the order its iterator gives them.
\<close>

section \<open>Commands and actions\<close>

datatype cmd = AppInfo | ChanBala | ChanClos | ChanHist | ChanList | ChanLsfd | ChanOpen | ChanSetf
  | InvoDeco | InvoGene | InvoList | NetwFeer | NetwLsnd | NodeEslq | NodeFees | NodeInfo | NodeLsfd
  | NodeSign | PaymList | PaymPayi | PaymSdky | PeerCont | PeerDisc | PeerList

text \<open>\<open>Cmd::get_uri\<close>, with the routes of \<^verbatim>\<open>kld/src/api/routes.rs\<close>.\<close>

fun get_uri :: "cmd \<Rightarrow> string option" where
  "get_uri ChanBala = Some ''/v1/channel/localremotebal''"
| "get_uri ChanClos = Some ''/v1/channel/closeChannel/:id''"
| "get_uri ChanHist = Some ''/v1/channel/history''"
| "get_uri ChanList = Some ''/kld/channels''"
| "get_uri ChanLsfd = Some ''/v1/channel/listForwards''"
| "get_uri ChanOpen = Some ''/v1/channel/openChannel''"
| "get_uri ChanSetf = Some ''/v1/channel/setChannelFee''"
| "get_uri InvoDeco = Some ''/v1/utility/decode/:invoice''"
| "get_uri InvoGene = Some ''/v1/invoice/genInvoice''"
| "get_uri InvoList = Some ''/v1/invoice/listInvoices''"
| "get_uri NetwFeer = Some ''/v1/network/feeRates/:style''"
| "get_uri NetwLsnd = Some ''/v1/network/listNode''"
| "get_uri NodeEslq = Some ''/v1/estimateChannelLiquidity''"
| "get_uri NodeFees = Some ''/v1/getFees''"
| "get_uri NodeInfo = Some ''/v1/getinfo''"
| "get_uri NodeLsfd = Some ''/v1/listFunds''"
| "get_uri NodeSign = Some ''/v1/utility/signMessage''"
| "get_uri PaymList = Some ''/v1/pay/listPayments''"
| "get_uri PaymPayi = Some ''/v1/pay''"
| "get_uri PaymSdky = Some ''/v1/pay/keysend''"
| "get_uri PeerCont = Some ''/v1/peer/connect''"
| "get_uri PeerDisc = Some ''/v1/peer/disconnect/:id''"
| "get_uri PeerList = Some ''/v1/peer/listPeers''"
| "get_uri AppInfo = None"

text \<open>\<open>Debug\<close> of a command: its name.\<close>

fun cmd_name :: "cmd \<Rightarrow> string" where
  "cmd_name AppInfo = ''AppInfo''"
| "cmd_name ChanBala = ''ChanBala''"
| "cmd_name ChanClos = ''ChanClos''"
| "cmd_name ChanHist = ''ChanHist''"
| "cmd_name ChanList = ''ChanList''"
| "cmd_name ChanLsfd = ''ChanLsfd''"
| "cmd_name ChanOpen = ''ChanOpen''"
| "cmd_name ChanSetf = ''ChanSetf''"
| "cmd_name InvoDeco = ''InvoDeco''"
| "cmd_name InvoGene = ''InvoGene''"
| "cmd_name InvoList = ''InvoList''"
| "cmd_name NetwFeer = ''NetwFeer''"
| "cmd_name NetwLsnd = ''NetwLsnd''"
| "cmd_name NodeEslq = ''NodeEslq''"
| "cmd_name NodeFees = ''NodeFees''"
| "cmd_name NodeInfo = ''NodeInfo''"
| "cmd_name NodeLsfd = ''NodeLsfd''"
| "cmd_name NodeSign = ''NodeSign''"
| "cmd_name PaymList = ''PaymList''"
| "cmd_name PaymPayi = ''PaymPayi''"
| "cmd_name PaymSdky = ''PaymSdky''"
| "cmd_name PeerCont = ''PeerCont''"
| "cmd_name PeerDisc = ''PeerDisc''"
| "cmd_name PeerList = ''PeerList''"

datatype tui_mode = Navigate | Command

text \<open>The key events of the terminal library: the code of a key, the modifiers as the bits of a byte, and
  the kind and state, which \<open>KeyEvent::new\<close> sets to a press without state.\<close>

datatype key_code = KBackspace | KEnter | KLeft | KRight | KUp | KDown | KHome | KEnd | KPageUp | KPageDown
  | KTab | KBackTab | KDelete | KInsert | KF u8 | KChar char | KNull | KEsc | KCapsLock | KScrollLock
  | KNumLock | KPrintScreen | KPause | KMenu | KKeypadBegin | KMedia u8 | KModifier u8

definition SHIFT :: u8 where "SHIFT = 1"
definition CONTROL :: u8 where "CONTROL = 2"
definition ALT :: u8 where "ALT = 4"

datatype key_kind = KeyPress | KeyRepeat | KeyRelease

record key_event =
  ke_code :: key_code
  ke_modifiers :: u8
  ke_kind :: key_kind
  ke_state :: u8

definition key_event_new :: "key_code \<Rightarrow> u8 \<Rightarrow> key_event" where
  "key_event_new c m = \<lparr>ke_code = c, ke_modifiers = m, ke_kind = KeyPress, ke_state = 0\<rparr>"

datatype tui_action = Tick | Render | Resize u16 u16 | Suspend | Resume | Quit | Refresh | ActError string
  | Help | SwitchTab | ToTab string | NavUp | NavDown | NavLeft | NavRight | Choose cmd | Execute cmd string
  | EnterCmdMode | ExitCmdMode | SwitchInputs | TriggerExecute | History u64 | Input key_event

section \<open>The text of an action\<close>

text \<open>The actions without data, by name.\<close>

definition plain_actions :: "(string \<times> tui_action) list" where
  "plain_actions = [(''Tick'', Tick), (''Render'', Render), (''Suspend'', Suspend), (''Resume'', Resume),
     (''Quit'', Quit), (''Refresh'', Refresh), (''Help'', Help), (''SwitchTab'', SwitchTab), (''NavUp'', NavUp),
     (''NavDown'', NavDown), (''NavLeft'', NavLeft), (''NavRight'', NavRight), (''EnterCmdMode'', EnterCmdMode),
     (''ExitCmdMode'', ExitCmdMode), (''SwitchInputs'', SwitchInputs), (''TriggerExecute'', TriggerExecute)]"

text \<open>\<open>Display\<close>: \<open>show_time\<close> is \<open>ts_to_string\<close>, which panics outside the range of its calendar, and
  \<open>debug_key\<close> the text of a key event in the terminal library.\<close>

definition parens :: "string \<Rightarrow> string \<Rightarrow> string" where
  "parens name s = name @ ''('' @ s @ '')''"

fun display_action :: "(u64 \<Rightarrow> string outcome) \<Rightarrow> (key_event \<Rightarrow> string) \<Rightarrow> tui_action \<Rightarrow> string outcome" where
  "display_action show_time debug_key (Resize w h) =
     Ok (parens ''Resize'' (nat_to_string (unat w) @ '','' @ nat_to_string (unat h)))"
| "display_action show_time debug_key (ActError e) = Ok (parens ''Error'' e)"
| "display_action show_time debug_key (ToTab t) = Ok (parens ''Tab'' t)"
| "display_action show_time debug_key (Choose c) = Ok (parens ''Command'' (cmd_name c))"
| "display_action show_time debug_key (Execute c s) = Ok (parens ''Execute'' (cmd_name c @ '', '' @ s))"
| "display_action show_time debug_key (History ts) =
     bind_outcome (show_time ts) (\<lambda>s. Ok (parens ''History'' s))"
| "display_action show_time debug_key (Input k) = Ok (parens ''Input'' (debug_key k))"
| "display_action show_time debug_key a =
     (case find (\<lambda>(n, b). b = a) plain_actions of Some (n, _) \<Rightarrow> Ok n | None \<Rightarrow> Panic)"

text \<open>\<open>visit_str\<close>: the actions a table of bindings can name.  The error is its text, or the error of the
  integer parser.\<close>

function trim_start_matches :: "string \<Rightarrow> string \<Rightarrow> string" where
  "trim_start_matches s p =
     (if p \<noteq> [] \<and> starts_with s p then trim_start_matches (drop (length p) s) p else s)"
  by pat_completeness auto
termination
proof (relation "measure (\<lambda>(s, p). length s)", goal_cases)
  case (2 s p)
  then show ?case by (cases p; cases s) (auto simp: starts_with_def)
qed simp

declare trim_start_matches.simps [simp del]

text \<open>White space as \<open>trim\<close> removes it, up to U+00FF.\<close>

definition is_whitespace :: "char \<Rightarrow> bool" where
  "is_whitespace c \<longleftrightarrow> (let n = (of_char c :: nat) in (9 \<le> n \<and> n \<le> 13) \<or> n \<in> {32, 133, 160})"

definition trim :: "string \<Rightarrow> string" where
  "trim s = rev (dropWhile is_whitespace (rev (dropWhile is_whitespace s)))"

datatype action_error = InvalidResize string | UnknownVariant string | BadInteger string

definition parse_u16_part :: "string \<Rightarrow> action_error + u16" where
  "parse_u16_part s = (case parse_uint 16 (trim s) of None \<Rightarrow> Inl (BadInteger s) | Some n \<Rightarrow> Inr (of_nat n))"

definition visit_str :: "string \<Rightarrow> action_error + tui_action" where
  "visit_str s =
     (case map_of plain_actions s of
        Some a \<Rightarrow> Inr a
      | None \<Rightarrow>
          if starts_with s ''Error('' then
            Inr (ActError (trim_end_matches (trim_start_matches s ''Error('') '')''))
          else if starts_with s ''Resize('' then
            (case split_char (CHR '','') (trim_end_matches (trim_start_matches s ''Resize('') '')'') of
               [w, h] \<Rightarrow>
                 (case parse_u16_part w of
                    Inl e \<Rightarrow> Inl e
                  | Inr w' \<Rightarrow> (case parse_u16_part h of Inl e \<Rightarrow> Inl e | Inr h' \<Rightarrow> Inr (Resize w' h')))
             | _ \<Rightarrow> Inl (InvalidResize s))
          else Inl (UnknownVariant s))"

section \<open>The text of a key\<close>

text \<open>\<open>len\<close> of a string: its bytes in UTF-8.\<close>

definition utf8_len :: "char \<Rightarrow> nat" where
  "utf8_len c = (if (of_char c :: nat) < 128 then 1 else 2)"

definition str_len :: "string \<Rightarrow> nat" where
  "str_len s = sum_list (map utf8_len s)"

text \<open>The loop of \<open>extract_modifiers\<close>: a known prefix is taken off as often as there is one.\<close>

function extract_loop :: "u8 \<Rightarrow> string \<Rightarrow> string \<times> u8" where
  "extract_loop m s =
     (if starts_with s ''ctrl-'' then extract_loop (m OR CONTROL) (drop 5 s)
      else if starts_with s ''alt-'' then extract_loop (m OR ALT) (drop 4 s)
      else if starts_with s ''shift-'' then extract_loop (m OR SHIFT) (drop 6 s)
      else (s, m))"
  by pat_completeness auto
termination
  by (relation "measure (\<lambda>(m, s). length s)") (auto simp: starts_with_def take_Suc_conv_app_nth intro!: diff_less Suc_leI elim: list.set_cases)

declare extract_loop.simps [simp del]

definition extract_modifiers :: "string \<Rightarrow> string \<times> u8" where
  "extract_modifiers raw = extract_loop 0 raw"

definition key_names :: "(string \<times> key_code) list" where
  "key_names = [(''esc'', KEsc), (''enter'', KEnter), (''left'', KLeft), (''right'', KRight), (''up'', KUp),
     (''down'', KDown), (''home'', KHome), (''end'', KEnd), (''pageup'', KPageUp), (''pagedown'', KPageDown),
     (''backtab'', KBackTab), (''backspace'', KBackspace), (''delete'', KDelete), (''insert'', KInsert),
     (''f1'', KF 1), (''f2'', KF 2), (''f3'', KF 3), (''f4'', KF 4), (''f5'', KF 5), (''f6'', KF 6),
     (''f7'', KF 7), (''f8'', KF 8), (''f9'', KF 9), (''f10'', KF 10), (''f11'', KF 11), (''f12'', KF 12),
     (''space'', KChar (CHR '' '')), (''hyphen'', KChar (CHR ''-'')), (''minus'', KChar (CHR ''-'')),
     (''tab'', KTab)]"

definition parse_key_code_with_modifiers :: "string \<Rightarrow> u8 \<Rightarrow> string + key_event" where
  "parse_key_code_with_modifiers raw m =
     (case map_of key_names raw of
        Some k \<Rightarrow> Inr (key_event_new k (if k = KBackTab then m OR SHIFT else m))
      | None \<Rightarrow>
          if str_len raw = 1
          then Inr (key_event_new (KChar (if m AND SHIFT = SHIFT then ascii_upper (hd raw) else hd raw)) m)
          else Inl (''Unable to parse '' @ raw))"

definition parse_key_event :: "string \<Rightarrow> string + key_event" where
  "parse_key_event raw =
     (case extract_modifiers (map ascii_lower raw) of
        (remaining, m) \<Rightarrow> parse_key_code_with_modifiers remaining m)"

fun code_to_string :: "key_code \<Rightarrow> string" where
  "code_to_string KBackspace = ''backspace''"
| "code_to_string KEnter = ''enter''"
| "code_to_string KLeft = ''left''"
| "code_to_string KRight = ''right''"
| "code_to_string KUp = ''up''"
| "code_to_string KDown = ''down''"
| "code_to_string KHome = ''home''"
| "code_to_string KEnd = ''end''"
| "code_to_string KPageUp = ''pageup''"
| "code_to_string KPageDown = ''pagedown''"
| "code_to_string KTab = ''tab''"
| "code_to_string KBackTab = ''backtab''"
| "code_to_string KDelete = ''delete''"
| "code_to_string KInsert = ''insert''"
| "code_to_string (KF n) = ''f('' @ nat_to_string (unat n) @ '')''"
| "code_to_string (KChar c) = (if c = CHR '' '' then ''space'' else [c])"
| "code_to_string KEsc = ''esc''"
| "code_to_string _ = ''''"

text \<open>\<open>join\<close> of the modifiers and the dash after them.\<close>

definition modifier_prefix :: "u8 \<Rightarrow> string" where
  "modifier_prefix m =
     (if m AND CONTROL \<noteq> 0 then ''ctrl-'' else '''') @
     (if m AND SHIFT \<noteq> 0 then ''shift-'' else '''') @
     (if m AND ALT \<noteq> 0 then ''alt-'' else '''')"

definition key_event_to_string :: "key_event \<Rightarrow> string" where
  "key_event_to_string e = modifier_prefix (ke_modifiers e) @ code_to_string (ke_code e)"

text \<open>\<open>key_events_to_string\<close>: the names of the modifiers as the terminal library gives them, and then the
  text of the key, which names them again.\<close>

definition modifier_names :: "(u8 \<times> string) list" where
  "modifier_names = [(1, ''SHIFT''), (2, ''CONTROL''), (4, ''ALT''), (8, ''SUPER''), (16, ''HYPER''), (32, ''META'')]"

definition iter_names :: "u8 \<Rightarrow> string list" where
  "iter_names m = map snd (filter (\<lambda>(b, _). m AND b = b) modifier_names)"

definition key_events_to_string :: "key_event list \<Rightarrow> string" where
  "key_events_to_string es =
     concat (map (\<lambda>e. ''<'' @ concat (map (\<lambda>n. n @ ''+'') (iter_names (ke_modifiers e))) @ key_event_to_string e @ ''>'') es)"

text \<open>\<open>split("><")\<close>, \<open>strip_prefix\<close>, \<open>strip_suffix\<close>.\<close>

fun split_keys :: "string \<Rightarrow> string list" where
  "split_keys (a # b # s) =
     (if a = CHR ''>'' \<and> b = CHR ''<'' then [] # split_keys s
      else (case split_keys (b # s) of [] \<Rightarrow> [[a]] | w # ws \<Rightarrow> (a # w) # ws))"
| "split_keys s = [s]"

definition strip_prefix :: "char \<Rightarrow> string \<Rightarrow> string option" where
  "strip_prefix c s = (case s of x # xs \<Rightarrow> if x = c then Some xs else None | [] \<Rightarrow> None)"

definition strip_suffix :: "char \<Rightarrow> string \<Rightarrow> string option" where
  "strip_suffix c s = (if s \<noteq> [] \<and> last s = c then Some (butlast s) else None)"

definition strip_key :: "string \<Rightarrow> string" where
  "strip_key s =
     (case strip_prefix (CHR ''<'') s of
        Some t \<Rightarrow> t
      | None \<Rightarrow> (case strip_suffix (CHR ''>'') s of Some t \<Rightarrow> t | None \<Rightarrow> s))"

fun collect_keys :: "string list \<Rightarrow> string + key_event list" where
  "collect_keys [] = Inr []"
| "collect_keys (s # ss) =
     (case parse_key_event s of
        Inl e \<Rightarrow> Inl e
      | Inr k \<Rightarrow> (case collect_keys ss of Inl e \<Rightarrow> Inl e | Inr ks \<Rightarrow> Inr (k # ks)))"

definition count_char :: "char \<Rightarrow> string \<Rightarrow> nat" where
  "count_char c s = length (filter (\<lambda>x. x = c) s)"

definition parse_key_sequence :: "string \<Rightarrow> string + key_event list" where
  "parse_key_sequence raw =
     (if count_char (CHR ''>'') raw \<noteq> count_char (CHR ''<'') raw then Inl (''Unable to parse `'' @ raw @ ''`'')
      else
        let raw' = (if \<not> str_contains raw ''><''
                    then (let r = (case strip_prefix (CHR ''<'') raw of Some t \<Rightarrow> t | None \<Rightarrow> raw)
                          in (case strip_prefix (CHR ''>'') r of Some t \<Rightarrow> t | None \<Rightarrow> r))
                    else raw)
        in collect_keys (map strip_key (split_keys raw')))"

section \<open>The table of bindings\<close>

type_synonym keymap = "(key_event list \<times> tui_action) list"
type_synonym key_bindings = "(tui_mode \<times> keymap) list"

text \<open>The maps with a sequence of keys as key compare it by \<open>norm\<close>, the normal form under which the terminal
  library compares two key events.\<close>

definition keymap_get :: "(key_event \<Rightarrow> key_event) \<Rightarrow> keymap \<Rightarrow> key_event list \<Rightarrow> tui_action option" where
  "keymap_get norm m ks = map_option snd (find (\<lambda>(k, _). map norm k = map norm ks) m)"

fun keymap_insert :: "(key_event \<Rightarrow> key_event) \<Rightarrow> key_event list \<Rightarrow> tui_action \<Rightarrow> keymap \<Rightarrow> keymap" where
  "keymap_insert norm ks a [] = [(ks, a)]"
| "keymap_insert norm ks a ((k, b) # m) =
     (if map norm k = map norm ks then (k, a) # m else (k, b) # keymap_insert norm ks a m)"

text \<open>\<open>entry(key).or_insert_with\<close>.\<close>

definition keymap_or_insert :: "(key_event \<Rightarrow> key_event) \<Rightarrow> key_event list \<Rightarrow> tui_action \<Rightarrow> keymap \<Rightarrow> keymap" where
  "keymap_or_insert norm ks a m = (if keymap_get norm m ks = None then m @ [(ks, a)] else m)"

text \<open>A table as the TOML library hands it over: per mode the texts of the keys and of the actions.  A key that
  does not parse panics, an unknown action is an error of the library.\<close>

type_synonym raw_table = "(tui_mode \<times> (string \<times> string) list) list"

fun convert_keymap :: "(key_event \<Rightarrow> key_event) \<Rightarrow> (string \<times> tui_action) list \<Rightarrow> keymap \<Rightarrow> keymap outcome" where
  "convert_keymap norm [] m = Ok m"
| "convert_keymap norm ((s, a) # rest) m =
     (case parse_key_sequence s of
        Inl _ \<Rightarrow> Panic
      | Inr ks \<Rightarrow> convert_keymap norm rest (keymap_insert norm ks a m))"

fun read_actions :: "(string \<times> string) list \<Rightarrow> (string \<times> tui_action) list outcome" where
  "read_actions [] = Ok []"
| "read_actions ((k, s) # rest) =
     (case visit_str s of
        Inl _ \<Rightarrow> Err (Msg s)
      | Inr a \<Rightarrow> bind_outcome (read_actions rest) (\<lambda>as. Ok ((k, a) # as)))"

definition read_bindings :: "(key_event \<Rightarrow> key_event) \<Rightarrow> raw_table \<Rightarrow> key_bindings outcome" where
  "read_bindings norm t =
     bind_outcome (collect (\<lambda>(mode, entries). bind_outcome (read_actions entries) (\<lambda>as. Ok (mode, as))) t)
       (\<lambda>parsed. collect (\<lambda>(mode, as). bind_outcome (convert_keymap norm as []) (\<lambda>m. Ok (mode, m))) parsed)"

text \<open>\<^verbatim>\<open>assets/keybinding.toml\<close>, which is compiled into the program.\<close>

definition default_table :: raw_table where
  "default_table =
     [(Navigate, [(''<esc>'', ''Quit''), (''<tab>'', ''SwitchTab''), (''<up>'', ''NavUp''), (''<down>'', ''NavDown''),
        (''<left>'', ''NavLeft''), (''<right>'', ''NavRight''), (''<enter>'', ''EnterCmdMode'')]),
      (Command, [(''<esc>'', ''ExitCmdMode''), (''<tab>'', ''SwitchInputs''), (''<enter>'', ''TriggerExecute'')])]"

text \<open>The merge of \<open>KeyBindings::new\<close>: \<open>entry(mode).or_default()\<close>, and an entry of the user where its keys are
  not bound yet.\<close>

definition merge_keymap :: "(key_event \<Rightarrow> key_event) \<Rightarrow> keymap \<Rightarrow> keymap \<Rightarrow> keymap" where
  "merge_keymap norm = fold (\<lambda>(ks, a) m. keymap_or_insert norm ks a m)"

definition merge_bindings :: "(key_event \<Rightarrow> key_event) \<Rightarrow> key_bindings \<Rightarrow> key_bindings \<Rightarrow> key_bindings" where
  "merge_bindings norm =
     fold (\<lambda>(mode, user) kb.
       AList.update mode (merge_keymap norm user (case map_of kb mode of Some m \<Rightarrow> m | None \<Rightarrow> [])) kb)"

text \<open>\<open>user\<close> is the table of the user's file, \<open>None\<close> where there is none that can be read; \<open>toml::from_str\<close> is
  unwrapped.\<close>

definition unwrap_outcome :: "'a outcome \<Rightarrow> 'a outcome" where
  "unwrap_outcome r = (case r of Ok x \<Rightarrow> Ok x | _ \<Rightarrow> Panic)"

definition key_bindings_new :: "(key_event \<Rightarrow> key_event) \<Rightarrow> raw_table option \<Rightarrow> key_bindings outcome" where
  "key_bindings_new norm user =
     bind_outcome (unwrap_outcome (read_bindings norm default_table)) (\<lambda>defaults.
       case user of
         None \<Rightarrow> Ok defaults
       | Some t \<Rightarrow> bind_outcome (unwrap_outcome (read_bindings norm t)) (\<lambda>loaded. Ok (merge_bindings norm loaded defaults)))"

definition bound_action :: "(key_event \<Rightarrow> key_event) \<Rightarrow> key_bindings \<Rightarrow> tui_mode \<Rightarrow> key_event list \<Rightarrow> tui_action option" where
  "bound_action norm kb mode ks = Option.bind (map_of kb mode) (\<lambda>m. keymap_get norm m ks)"

text \<open>\<open>help_info\<close>: per mode the texts of the keys of every action.\<close>

definition add_help :: "key_event list \<times> tui_action \<Rightarrow> (tui_action \<times> string list) list \<Rightarrow> (tui_action \<times> string list) list" where
  "add_help e h =
     (case e of (ks, a) \<Rightarrow>
        AList.update a ((case map_of h a of Some l \<Rightarrow> l | None \<Rightarrow> []) @ [key_events_to_string ks]) h)"

definition help_info :: "key_bindings \<Rightarrow> (tui_mode \<times> (tui_action \<times> string list) list) list" where
  "help_info kb = map (\<lambda>(mode, m). (mode, fold add_help m [])) kb"

end
