(* ===== verification/Channel_Rows.thy ===== *)
theory Channel_Rows
  imports Rust_Text
begin

text \<open>
  The rows that the terminal interface shows for a channel (\<^verbatim>\<open>tui/src/components/command/parsers.rs\<close>).  The
  response has been decoded by the JSON library into a list of items; an item has the fields that are
  shown, its numbers as integers.  \<open>word\<close> is the translation of a text, \<open>show_time\<close> is \<open>ts_to_string\<close>,
  which panics outside the range of its calendar.  A row is the list of its cells.
\<close>

record kld_channel =
  kc_channel_id :: string
  kc_short_channel_id :: "int option"
  kc_user_channel_id :: int
  kc_funding_txo :: string
  kc_open_timestamp :: int
  kc_update_timestamp :: int
  kc_shutdown_state :: "string option"
  kc_has_monitor :: bool
  kc_is_ready :: bool
  kc_is_outbound :: bool
  kc_is_public :: bool
  kc_is_usable :: bool
  kc_closure_reason :: "string option"
  kc_balance_msat :: int
  kc_value_satoshis :: int
  kc_confirmations :: "int option"
  kc_confirmations_required :: "int option"
  kc_features :: "string list"
  kc_feerate :: "int option"
  kc_force_close_spend_delay :: "int option"
  kc_unspendable_reserve :: "int option"
  kc_inbound_capacity_msat :: int
  kc_inbound_htlc_maximum_msat :: "int option"
  kc_inbound_htlc_minimum_msat :: "int option"
  kc_inbound_scid_alias :: "int option"
  kc_outbound_capacity_msat :: int
  kc_outbound_scid_alias :: "int option"
  kc_next_limit_msat :: int
  kc_next_minimum_msat :: int
  kc_accept_underpaying :: bool
  kc_cltv_expiry_delta :: int
  kc_avoidance_max_fee :: int
  kc_fee_base_msat :: int
  kc_fee_proportional :: int
  kc_dust_is_fixed :: bool
  kc_dust_value :: int
  kc_counterparty :: string
  kc_counterparty_maximum :: "int option"
  kc_counterparty_minimum :: "int option"
  kc_counterparty_reserve :: int

definition int_to_string :: "int \<Rightarrow> string" where
  "int_to_string i = (if i < 0 then CHR ''-'' # nat_to_string (nat (- i)) else nat_to_string (nat i))"

text \<open>\<open>map(|c| format!("{c} unit")).unwrap_or("none")\<close> and \<open>join\<close>.\<close>

definition or_none :: "string \<Rightarrow> int option \<Rightarrow> string" where
  "or_none u v = (case v of Some n \<Rightarrow> int_to_string n @ u | None \<Rightarrow> ''none'')"

fun join :: "string \<Rightarrow> string list \<Rightarrow> string" where
  "join sep [] = []"
| "join sep [s] = s"
| "join sep (s # ss) = s @ sep @ join sep ss"

definition channel_states :: "kld_channel \<Rightarrow> string list" where
  "channel_states d =
     (case kc_shutdown_state d of Some s \<Rightarrow> [s] | None \<Rightarrow> []) @
     [if kc_has_monitor d then ''has monitor'' else ''no monitor'',
      if kc_is_ready d then ''is ready'' else ''not ready'',
      if kc_is_outbound d then ''outbound'' else ''inbound'',
      if kc_is_public d then ''public'' else ''private'',
      if kc_is_usable d then ''usable'' else ''not usable'']"

text \<open>The rows of one channel in their groups; the outbound group has the heading of the inbound one, as in
  the code.\<close>

definition general_rows :: "(string \<Rightarrow> string) \<Rightarrow> string \<Rightarrow> string \<Rightarrow> kld_channel \<Rightarrow> string list list" where
  "general_rows word opened updated d =
     [[word ''Channel ID'', kc_channel_id d],
      [word ''Short Channel ID'', or_none '''' (kc_short_channel_id d)],
      [word ''User Channel ID'', int_to_string (kc_user_channel_id d)],
      [word ''Funding TXO'', kc_funding_txo d],
      [word ''Open At'', opened],
      [word ''Updated At'', updated],
      [word ''State'', join ''/'' (channel_states d)],
      [word ''Closure Reason'', (case kc_closure_reason d of Some r \<Rightarrow> r | None \<Rightarrow> ''none'')],
      [word ''Balance'', int_to_string (kc_balance_msat d) @ '' msats''],
      [word ''Value'', int_to_string (kc_value_satoshis d) @ '' sats''],
      [word ''Confirmations'', or_none '' blocks'' (kc_confirmations d)],
      [word ''Required Confirmations'', or_none '' blocks'' (kc_confirmations_required d)],
      [word ''Features'', join '','' (kc_features d)],
      [word ''Feerate'', or_none '' sats / 1000 weight'' (kc_feerate d)],
      [word ''Force Close Spend Delay'', or_none '' blocks'' (kc_force_close_spend_delay d)],
      [word ''Unspendable Punishment Reserve'', or_none '' sats'' (kc_unspendable_reserve d)]]"

definition inbound_rows :: "(string \<Rightarrow> string) \<Rightarrow> kld_channel \<Rightarrow> string list list" where
  "inbound_rows word d =
     [[word ''Inbound''],
      [word ''Capacity'', int_to_string (kc_inbound_capacity_msat d) @ '' msats''],
      [word ''HTLC Maximum'', or_none '' msats'' (kc_inbound_htlc_maximum_msat d)],
      [word ''HTLC Minimum'', or_none '' msats'' (kc_inbound_htlc_minimum_msat d)],
      [word ''Short Channel ID Alias'', or_none '''' (kc_inbound_scid_alias d)]]"

definition outbound_rows :: "(string \<Rightarrow> string) \<Rightarrow> kld_channel \<Rightarrow> string list list" where
  "outbound_rows word d =
     [[word ''Inbound''],
      [word ''Capacity'', int_to_string (kc_outbound_capacity_msat d) @ '' msats''],
      [word ''Short Channel ID Alias'', or_none '''' (kc_outbound_scid_alias d)],
      [word ''Next HTLC Maximum'', int_to_string (kc_next_limit_msat d) @ '' msats''],
      [word ''Next HTLC Minimum'', int_to_string (kc_next_minimum_msat d) @ '' msats'']]"

definition config_rows :: "(string \<Rightarrow> string) \<Rightarrow> kld_channel \<Rightarrow> string list list" where
  "config_rows word d =
     [[word ''Config''],
      [word ''Underpaying HTLC'', if kc_accept_underpaying d then word ''Accept'' else word ''Deny''],
      [word ''CLTV Expiry'', int_to_string (kc_cltv_expiry_delta d) @ '' blocks''],
      [word ''Force Close Avoidance Max Fee'', int_to_string (kc_avoidance_max_fee d) @ '' sats''],
      [word ''Forwarding Fee Base'', int_to_string (kc_fee_base_msat d) @ '' msats''],
      [word ''Forwarding Fee'', int_to_string (kc_fee_proportional d) @ '' sat/proportional millionths''],
      [word ''Max Dust HTLC Exposure'',
       (if kc_dust_is_fixed d then word ''fix with'' else word ''fee rate multiplied by'') @ '' '' @
       int_to_string (kc_dust_value d)]]"

definition counterparty_rows :: "(string \<Rightarrow> string) \<Rightarrow> kld_channel \<Rightarrow> string list list" where
  "counterparty_rows word d =
     [[word ''Counterparty''],
      [word ''Node Id'', kc_counterparty d],
      [word ''Outbound HTLC Maximum'', or_none '' msats'' (kc_counterparty_maximum d)],
      [word ''Outbound HTLC Minimum'', or_none '' msats'' (kc_counterparty_minimum d)],
      [word ''Unspendable Punishment Reserve'', int_to_string (kc_counterparty_reserve d) @ '' sats'']]"

definition channel_rows ::
  "(string \<Rightarrow> string) \<Rightarrow> (u64 \<Rightarrow> string outcome) \<Rightarrow> kld_channel \<Rightarrow> string list list outcome" where
  "channel_rows word show_time d =
     bind_outcome (show_time (i64_as_u64 (kc_open_timestamp d))) (\<lambda>opened.
     bind_outcome (show_time (i64_as_u64 (kc_update_timestamp d))) (\<lambda>updated.
     Ok (general_rows word opened updated d @ [['''']] @ inbound_rows word d @ [['''']] @
         outbound_rows word d @ [['''']] @ config_rows word d @ [['''']] @ counterparty_rows word d)))"

text \<open>\<open>decode\<close> is \<open>serde_json::from_str\<close>; its error is its text.\<close>

definition parse_channel_details ::
  "(string \<Rightarrow> string) \<Rightarrow> (u64 \<Rightarrow> string outcome) \<Rightarrow> (string \<Rightarrow> string + kld_channel list) \<Rightarrow> string \<Rightarrow>
   (string + string list list list) outcome" where
  "parse_channel_details word show_time decode s =
     (case decode s of
        Inl e \<Rightarrow> Ok (Inl e)
      | Inr ds \<Rightarrow> bind_outcome (collect (channel_rows word show_time) ds) (\<lambda>tables. Ok (Inr tables)))"

lemma parse_channel_details_length:
  assumes "parse_channel_details word show_time decode s = Ok (Inr tables)"
  shows "\<exists>ds. decode s = Inr ds \<and> length tables = length ds"
  using assms
  by (auto simp: parse_channel_details_def bind_outcome_eq_Ok collect_eq_Ok dest: list_all2_lengthD split: sum.splits)

text \<open>The two groups of a channel that is shown have the same heading, whatever the direction.\<close>

lemma inbound_outbound_same_heading: "hd (outbound_rows word d) = hd (inbound_rows word d)"
  by (simp add: inbound_rows_def outbound_rows_def)

end
