(* ===== verification/Tui_App.thy ===== *)
theory Tui_App
  imports Key_Bindings Channel_Rows
begin

text \<open>
  The terminal interface (\<^verbatim>\<open>tui/src/app.rs\<close>, \<^verbatim>\<open>components/\<close>, \<^verbatim>\<open>i18n.rs\<close>): the state of every component, its
  update by an action and what it draws, the keys, and the loop that takes the actions of one event from
  the queue.  A component answers an action with at most one new action, which goes to the end of the
  queue.  A computation that does not return is \<open>None\<close>; a panic of the code is \<open>Panic\<close>.  The layout,
  the colours and the terminal itself are left out.
\<close>

section \<open>Texts\<close>

datatype lang = En_US | Zh_TW

definition chose_from :: "string \<Rightarrow> lang" where
  "chose_from s =
     (case split_once (CHR ''.'') s of
        Some (locale_name, encoding) \<Rightarrow> if locale_name = ''zh_TW'' then Zh_TW else En_US
      | None \<Rightarrow> if s = ''zh_TW'' then Zh_TW else En_US)"

text \<open>\<open>SelectedWordBindings\<close>: the table of the language, and the text itself where it has no entry.\<close>

definition select_words :: "(lang \<times> (string \<times> string) list) list \<Rightarrow> string option \<Rightarrow> (string \<times> string) list" where
  "select_words tables lang_var =
     (case lang_var of
        None \<Rightarrow> []
      | Some s \<Rightarrow> (case map_of tables (chose_from s) of Some t \<Rightarrow> t | None \<Rightarrow> []))"

definition word_get :: "(string \<times> string) list \<Rightarrow> string \<Rightarrow> string" where
  "word_get t key = (case map_of t key of Some v \<Rightarrow> v | None \<Rightarrow> key)"

section \<open>State\<close>

record history_row =
  hr_timestamp :: u64
  hr_command :: string
  hr_input :: string
  hr_output :: string

text \<open>What lies outside: the translation, the normal form of keys, the calendar, the JSON texts, the decoder of
  the response, the greeting, and the order in which the database returns rows \<open>ORDER BY timestamp DESC\<close>.\<close>

record tui_env =
  te_word :: "string \<Rightarrow> string"
  te_norm :: "key_event \<Rightarrow> key_event"
  te_time :: "u64 \<Rightarrow> string outcome"
  te_debug_key :: "key_event \<Rightarrow> string"
  te_json_id :: "string \<Rightarrow> string"
  te_json_fund :: "string \<Rightarrow> string \<Rightarrow> string + string"
  te_decode :: "string \<Rightarrow> string + kld_channel list"
  te_greeting :: string
  te_order :: "history_row list \<Rightarrow> history_row list"

record tab_bar =
  tb_titles :: "string list"
  tb_index :: nat

record cmd_list =
  cl_display :: bool
  cl_selected :: nat
  cl_items :: "(string \<times> cmd option) list"

record cmd_details =
  cd_display :: bool
  cd_focus :: "nat option"
  cd_command :: cmd
  cd_inputs :: "string list"
  cd_index :: nat
  cd_length :: nat
  cd_error :: "string option"

record history_list =
  hl_display :: bool
  hl_selected :: "nat option"
  hl_items :: "(u64 \<times> string) list"

record history_details =
  ht_display :: bool
  ht_input :: string
  ht_output :: string

text \<open>A query under way: its time, whether it posts, its route and its body.\<close>

record query_thread =
  qt_time :: u64
  qt_post :: bool
  qt_uri :: string
  qt_input :: string

record app =
  ap_bindings :: key_bindings
  ap_help :: "(tui_mode \<times> (tui_action \<times> string list) list) list"
  ap_tab :: tab_bar
  ap_list :: cmd_list
  ap_details :: cmd_details
  ap_hlist :: history_list
  ap_hdetails :: history_details
  ap_quit :: bool
  ap_suspend :: bool
  ap_mode :: tui_mode
  ap_keys :: "key_event list"
  ap_history :: "history_row list"
  ap_queue :: "tui_action list"
  ap_threads :: "query_thread list"

section \<open>The bar of tabs\<close>

definition tab_default :: "tui_env \<Rightarrow> tab_bar" where
  "tab_default env = \<lparr>tb_titles = [te_word env ''Command List'', te_word env ''History''], tb_index = 0\<rparr>"

definition tab_next :: "tab_bar \<Rightarrow> tab_bar" where
  "tab_next t = t\<lparr>tb_index := (tb_index t + 1) mod length (tb_titles t)\<rparr>"

definition tab_update :: "tui_action \<Rightarrow> tab_bar \<Rightarrow> tab_bar \<times> tui_action option" where
  "tab_update a t =
     (if a = SwitchTab then (let t' = tab_next t in (t', Some (ToTab (tb_titles t' ! tb_index t')))) else (t, None))"

section \<open>The list of commands\<close>

definition command_items :: "(string \<Rightarrow> string) \<Rightarrow> (string \<times> cmd option) list" where
  "command_items w =
     [(w ''App'', None), (w ''information'', Some AppInfo),
      (w ''Node'', None), (w ''information'', Some NodeInfo), (w ''fees'', Some NodeFees),
      (w ''estimate liquidity'', Some NodeEslq), (w ''sign'', Some NodeSign), (w ''list funds'', Some NodeLsfd),
      (w ''Network'', None), (w ''list nodes'', Some NetwLsnd), (w ''fee rates'', Some NetwFeer),
      (w ''Peers'', None), (w ''list'', Some PeerList), (w ''connect'', Some PeerCont), (w ''disconnect'', Some PeerDisc),
      (w ''Payments'', None), (w ''list'', Some PaymList), (w ''send key'', Some PaymSdky), (w ''pay invoice'', Some PaymPayi),
      (w ''Invoices'', None), (w ''list'', Some InvoList), (w ''generate'', Some InvoGene), (w ''decode'', Some InvoDeco),
      (w ''Channels'', None), (w ''list'', Some ChanList), (w ''open'', Some ChanOpen), (w ''set fee'', Some ChanSetf),
      (w ''close'', Some ChanClos), (w ''history'', Some ChanHist), (w ''balance'', Some ChanBala),
      (w ''list forwards'', Some ChanLsfd)]"

definition cmd_list_default :: "tui_env \<Rightarrow> cmd_list" where
  "cmd_list_default env = \<lparr>cl_display = True, cl_selected = 1, cl_items = command_items (te_word env)\<rparr>"

text \<open>The loops of \<open>nav_up\<close> and \<open>nav_down\<close> pass over the headings; an index outside of the items panics.\<close>

definition list_up :: "nat \<Rightarrow> nat \<Rightarrow> nat" where
  "list_up n i = (if i = 0 then n - 1 else i - 1)"

definition list_down :: "nat \<Rightarrow> nat \<Rightarrow> nat" where
  "list_down n i = (if i = n - 1 then 0 else i + 1)"

partial_function (option) cl_nav :: "(nat \<Rightarrow> nat) \<Rightarrow> cmd_list \<Rightarrow> (cmd_list \<times> tui_action option) outcome option" where
  "cl_nav move l =
     (if \<not> cl_display l then Some (Ok (l, None))
      else if length (cl_items l) \<le> move (cl_selected l) then Some Panic
      else (case snd (cl_items l ! move (cl_selected l)) of
              Some c \<Rightarrow> Some (Ok (l\<lparr>cl_selected := move (cl_selected l)\<rparr>, Some (Choose c)))
            | None \<Rightarrow> cl_nav move (l\<lparr>cl_selected := move (cl_selected l)\<rparr>)))"

definition cl_nav_up :: "cmd_list \<Rightarrow> (cmd_list \<times> tui_action option) outcome option" where
  "cl_nav_up l = cl_nav (list_up (length (cl_items l))) l"

definition cl_nav_down :: "cmd_list \<Rightarrow> (cmd_list \<times> tui_action option) outcome option" where
  "cl_nav_down l = cl_nav (list_down (length (cl_items l))) l"

definition cmd_list_update :: "tui_env \<Rightarrow> tui_action \<Rightarrow> cmd_list \<Rightarrow> (cmd_list \<times> tui_action option) outcome option" where
  "cmd_list_update env a l =
     (case a of
        ToTab t \<Rightarrow> Some (Ok (l\<lparr>cl_display := (t = te_word env ''Command List'')\<rparr>, None))
      | NavUp \<Rightarrow> cl_nav_up l
      | NavDown \<Rightarrow> cl_nav_down l
      | _ \<Rightarrow> Some (Ok (l, None)))"

section \<open>The history\<close>

text \<open>\<open>load_items\<close>; \<open>up\<close> says whether the pool gives a connection.\<close>

definition load_items :: "tui_env \<Rightarrow> bool \<Rightarrow> history_row list \<Rightarrow> (u64 \<times> string) list option" where
  "load_items env up rows =
     (if up then Some (map (\<lambda>r. (hr_timestamp r, hr_command r)) (te_order env rows)) else None)"

text \<open>The loop of \<open>switch_tab\<close> with three tries.\<close>

fun load_retry :: "nat \<Rightarrow> (u64 \<times> string) list option \<Rightarrow> history_list \<Rightarrow> history_list" where
  "load_retry 0 load l = l"
| "load_retry (Suc n) load l =
     (case load of
        Some items \<Rightarrow> l\<lparr>hl_items := items, hl_selected := (if items = [] then None else Some 0)\<rparr>
      | None \<Rightarrow> load_retry n load l)"

definition switch_tab :: "tui_env \<Rightarrow> bool \<Rightarrow> history_row list \<Rightarrow> string \<Rightarrow> history_list \<Rightarrow> history_list \<times> tui_action option" where
  "switch_tab env up rows t l =
     (let l1 = l\<lparr>hl_display := (t = te_word env ''History'')\<rparr>;
          l2 = (if hl_display l1 then load_retry 3 (load_items env up rows) l1 else l1)
      in (l2, case hl_items l2 of [] \<Rightarrow> None | (ts, _) # _ \<Rightarrow> Some (History ts)))"

text \<open>The loops of \<open>nav_up\<close> and \<open>nav_down\<close> end in their first turn, since something stays selected.\<close>

definition hl_nav :: "(nat \<Rightarrow> nat) \<Rightarrow> history_list \<Rightarrow> (history_list \<times> tui_action option) outcome" where
  "hl_nav move l =
     (case hl_selected l of
        Some i \<Rightarrow>
          if hl_display l then
            if move i < length (hl_items l)
            then Ok (l\<lparr>hl_selected := Some (move i)\<rparr>, Some (History (fst (hl_items l ! move i))))
            else Panic
          else Ok (l, None)
      | None \<Rightarrow> Ok (l, None))"

definition history_list_update ::
  "tui_env \<Rightarrow> bool \<Rightarrow> history_row list \<Rightarrow> tui_action \<Rightarrow> history_list \<Rightarrow> (history_list \<times> tui_action option) outcome" where
  "history_list_update env up rows a l =
     (case a of
        ToTab t \<Rightarrow> Ok (switch_tab env up rows t l)
      | NavUp \<Rightarrow> hl_nav (list_up (length (hl_items l))) l
      | NavDown \<Rightarrow> hl_nav (list_down (length (hl_items l))) l
      | _ \<Rightarrow> Ok (l, None))"

definition history_details_update ::
  "tui_env \<Rightarrow> bool \<Rightarrow> history_row list \<Rightarrow> tui_action \<Rightarrow> history_details \<Rightarrow> history_details" where
  "history_details_update env up rows a d =
     (case a of
        ToTab t \<Rightarrow> d\<lparr>ht_display := (t = te_word env ''History'')\<rparr>
      | History ts \<Rightarrow>
          if up then
            (case find (\<lambda>r. hr_timestamp r = ts) rows of
               Some r \<Rightarrow> d\<lparr>ht_input := hr_input r, ht_output := hr_output r\<rparr>
             | None \<Rightarrow> d\<lparr>ht_input := [], ht_output := ''fail to fetch command history from db''\<rparr>)
          else d
      | _ \<Rightarrow> d)"

section \<open>The details of a command\<close>

definition cmd_details_new :: cmd_details where
  "cmd_details_new = \<lparr>cd_display = True, cd_focus = None, cd_command = AppInfo, cd_inputs = [], cd_index = 0,
     cd_length = 0, cd_error = None\<rparr>"

definition enter_cmd_mode :: "cmd_details \<Rightarrow> cmd_details \<times> tui_action option" where
  "enter_cmd_mode d =
     (let d' = d\<lparr>cd_focus := Some 0\<rparr>
      in case cd_command d of
           NodeInfo \<Rightarrow> (d', Some (Execute NodeInfo []))
         | PeerCont \<Rightarrow> (d'\<lparr>cd_inputs := [[]]\<rparr>, None)
         | ChanOpen \<Rightarrow> (d'\<lparr>cd_inputs := [[], []]\<rparr>, None)
         | ChanList \<Rightarrow> (d'\<lparr>cd_index := 0, cd_length := 0\<rparr>, Some (Execute ChanList []))
         | _ \<Rightarrow> (d', Some ExitCmdMode))"

definition trigger_execute :: "tui_env \<Rightarrow> cmd_details \<Rightarrow> (cmd_details \<times> tui_action option) outcome" where
  "trigger_execute env d =
     (let d' = d\<lparr>cd_error := None, cd_inputs := []\<rparr>
      in case cd_command d of
           PeerCont \<Rightarrow>
             (case cd_inputs d of
                [] \<Rightarrow> Panic
              | i # _ \<Rightarrow> Ok (d', Some (Execute PeerCont (te_json_id env i))))
         | ChanOpen \<Rightarrow>
             (case cd_inputs d of
                i # s # _ \<Rightarrow>
                  (case te_json_fund env i s of
                     Inr payload \<Rightarrow> Ok (d', Some (Execute ChanOpen payload))
                   | Inl e \<Rightarrow> Ok (d'\<lparr>cd_error := Some e\<rparr>, None))
              | _ \<Rightarrow> Panic)
         | _ \<Rightarrow> Ok (d', None))"

definition switch_inputs :: "cmd_details \<Rightarrow> cmd_details" where
  "switch_inputs d =
     (case cd_focus d of
        None \<Rightarrow> d
      | Some f \<Rightarrow>
          d\<lparr>cd_focus := Some (case cd_command d of
                                PeerCont \<Rightarrow> 0
                              | ChanOpen \<Rightarrow> if f + 1 > 1 then 0 else f + 1
                              | _ \<Rightarrow> f + 1)\<rparr>)"

text \<open>A key that is typed goes to the input that has the focus; \<open>inputs[on_focus]\<close> panics outside of the inputs.\<close>

definition edit_input :: "(string \<Rightarrow> string) \<Rightarrow> nat \<Rightarrow> cmd_details \<Rightarrow> cmd_details outcome" where
  "edit_input g f d =
     (if f < length (cd_inputs d) then Ok (d\<lparr>cd_inputs := (cd_inputs d)[f := g (cd_inputs d ! f)]\<rparr>) else Panic)"

definition type_key :: "key_code \<Rightarrow> cmd_details \<Rightarrow> cmd_details outcome" where
  "type_key k d =
     (case cd_focus d of
        None \<Rightarrow> Ok d
      | Some f \<Rightarrow>
          (case k of
             KChar c \<Rightarrow> edit_input (\<lambda>s. s @ [c]) f d
           | KBackspace \<Rightarrow> edit_input butlast f d
           | _ \<Rightarrow> Ok d))"

definition cmd_details_update ::
  "tui_env \<Rightarrow> tui_action \<Rightarrow> cmd_details \<Rightarrow> (cmd_details \<times> tui_action option) outcome" where
  "cmd_details_update env a d =
     (case a of
        ToTab t \<Rightarrow> Ok (d\<lparr>cd_display := (t = te_word env ''Command List'')\<rparr>, None)
      | Choose c \<Rightarrow> Ok (d\<lparr>cd_command := c\<rparr>, None)
      | NavLeft \<Rightarrow> Ok (if cd_length d > 0 then d\<lparr>cd_index := list_up (cd_length d) (cd_index d)\<rparr> else d, None)
      | NavRight \<Rightarrow> Ok (if cd_length d > 0 then d\<lparr>cd_index := list_down (cd_length d) (cd_index d)\<rparr> else d, None)
      | EnterCmdMode \<Rightarrow> Ok (enter_cmd_mode d)
      | ExitCmdMode \<Rightarrow> Ok (d\<lparr>cd_focus := None\<rparr>, None)
      | TriggerExecute \<Rightarrow> trigger_execute env d
      | SwitchInputs \<Rightarrow> Ok (switch_inputs d, None)
      | Input k \<Rightarrow> bind_outcome (type_key (ke_code k) d) (\<lambda>d'. Ok (d', None))
      | _ \<Rightarrow> Ok (d, None))"

section \<open>What is drawn\<close>

abbreviation nl :: string where "nl \<equiv> [CHR 0x0A]"

datatype widget = Para "string option" string | Rows "string option" "string list list" string

type_synonym key_help = "(tui_mode \<times> (tui_action \<times> string list) list) list"

definition last_result :: "tui_env \<Rightarrow> bool \<Rightarrow> history_row list \<Rightarrow> cmd \<Rightarrow> u64 option \<times> string" where
  "last_result env up rows c =
     (if up then
        (case te_order env (filter (\<lambda>r. hr_command r = cmd_name c) rows) of
           [] \<Rightarrow> (None, te_word env ''Can not find out previous query.'' @ nl)
         | r # _ \<Rightarrow>
             (Some (hr_timestamp r),
              if hr_output r = [] then te_word env ''On query, please wait...'' @ nl
              else hr_input r @ nl @ hr_output r @ nl))
      else (None, []))"

definition keys_of :: "key_help \<Rightarrow> tui_action \<Rightarrow> string" where
  "keys_of help a =
     (case Option.bind (map_of help Command) (\<lambda>kb. map_of kb a) of Some ks \<Rightarrow> join ''/'' ks | None \<Rightarrow> [])"

definition execute_hint :: "tui_env \<Rightarrow> key_help \<Rightarrow> bool \<Rightarrow> string" where
  "execute_hint env help again =
     te_word env ''Press '' @ keys_of help TriggerExecute @
     te_word env (if again then '' to fetch again'' else '' to fetch'')"

text \<open>The title \<open>Query at\<close> with the time of the query.\<close>

definition query_title :: "tui_env \<Rightarrow> u64 option \<Rightarrow> string option outcome" where
  "query_title env t =
     (case t of
        None \<Rightarrow> Ok None
      | Some ts \<Rightarrow> bind_outcome (te_time env ts) (\<lambda>s. Ok (Some (te_word env ''Query at '' @ s))))"

fun help_lines :: "tui_env \<Rightarrow> (tui_action \<times> string list) list \<Rightarrow> string outcome" where
  "help_lines env [] = Ok []"
| "help_lines env ((a, ks) # rest) =
     bind_outcome (display_action (te_time env) (te_debug_key env) a) (\<lambda>s.
     bind_outcome (help_lines env rest) (\<lambda>t. Ok (''    '' @ s @ '' - '' @ join '','' ks @ nl @ t)))"

definition mode_name :: "tui_mode \<Rightarrow> string" where
  "mode_name m = (case m of Navigate \<Rightarrow> ''Navigate'' | Command \<Rightarrow> ''Command'')"

fun help_text :: "tui_env \<Rightarrow> key_help \<Rightarrow> string outcome" where
  "help_text env [] = Ok []"
| "help_text env ((m, kb) # rest) =
     bind_outcome (help_lines env kb) (\<lambda>s.
     bind_outcome (help_text env rest) (\<lambda>t. Ok (''['' @ mode_name m @ '']'' @ nl @ s @ t)))"

definition app_info :: "tui_env \<Rightarrow> key_help \<Rightarrow> widget list outcome" where
  "app_info env help =
     bind_outcome (help_text env help) (\<lambda>s.
     Ok [Para None (te_greeting env @ nl @ te_word env ''Following are the key setting you are using now'' @ nl @ nl @
       s @ nl @ te_word env ''If you have any suggestion please let us know on Github.'' @ nl @
       ''https://github.com/kuutamolabs/lightning-tui'')])"

definition node_info_page :: "tui_env \<Rightarrow> key_help \<Rightarrow> bool \<Rightarrow> history_row list \<Rightarrow> widget list outcome" where
  "node_info_page env help up rows =
     (let (t, info) = last_result env up rows NodeInfo
      in bind_outcome (query_title env t) (\<lambda>title.
         Ok [Para title (info @ execute_hint env help (t \<noteq> None))]))"

definition show_last_result :: "tui_env \<Rightarrow> bool \<Rightarrow> history_row list \<Rightarrow> cmd \<Rightarrow> widget list outcome" where
  "show_last_result env up rows c =
     (let (t, info) = last_result env up rows c
      in bind_outcome (query_title env t) (\<lambda>title. Ok [Para title info]))"

definition intro_text :: "tui_env \<Rightarrow> key_help \<Rightarrow> string" where
  "intro_text env help =
     te_word env ''Press '' @ keys_of help TriggerExecute @ ''/'' @ keys_of help SwitchInputs @
     te_word env '' to input data.  '' @ te_word env ''Then, press '' @ keys_of help TriggerExecute @
     te_word env '' again to execute.  '' @ te_word env ''Press '' @ keys_of help ExitCmdMode @
     te_word env '' to cancel inputs.  ''"

definition nth_input :: "cmd_details \<Rightarrow> nat \<Rightarrow> string" where
  "nth_input d i = (if i < length (cd_inputs d) then cd_inputs d ! i else [])"

text \<open>\<open>peer_connect\<close> shows the last result of the opening of a channel, as in the code.\<close>

definition peer_connect :: "tui_env \<Rightarrow> key_help \<Rightarrow> bool \<Rightarrow> history_row list \<Rightarrow> cmd_details \<Rightarrow> widget list outcome" where
  "peer_connect env help up rows d =
     bind_outcome (case cd_error d of Some e \<Rightarrow> Ok [Para None e] | None \<Rightarrow> show_last_result env up rows ChanOpen) (\<lambda>r.
     Ok (Para (Some (te_word env ''Introduction'')) (intro_text env help) # r @
         [Para (Some (te_word env ''Public Key'')) (nth_input d 0)]))"

definition channel_open :: "tui_env \<Rightarrow> key_help \<Rightarrow> bool \<Rightarrow> history_row list \<Rightarrow> cmd_details \<Rightarrow> widget list outcome" where
  "channel_open env help up rows d =
     bind_outcome (case cd_error d of Some e \<Rightarrow> Ok [Para None e] | None \<Rightarrow> show_last_result env up rows ChanOpen) (\<lambda>r.
     Ok (Para (Some (te_word env ''Introduction'')) (intro_text env help) # r @
         [Para (Some (te_word env ''Public Key'')) (nth_input d 0),
          Para (Some (te_word env ''Satoshis'')) (nth_input d 1)]))"

text \<open>The page of one channel; \<open>details[self.index]\<close> panics when there are fewer channels.\<close>

definition channel_list ::
  "tui_env \<Rightarrow> key_help \<Rightarrow> bool \<Rightarrow> history_row list \<Rightarrow> cmd_details \<Rightarrow> (cmd_details \<times> widget list) outcome" where
  "channel_list env help up rows d =
     (case last_result env up rows ChanList of
        (None, _) \<Rightarrow> Ok (d, [Para None (execute_hint env help False)])
      | (Some ts, info) \<Rightarrow>
          bind_outcome (query_title env (Some ts)) (\<lambda>title.
          bind_outcome (parse_channel_details (te_word env) (te_time env) (te_decode env) info) (\<lambda>parsed.
            case parsed of
              Inr tables \<Rightarrow>
                if cd_index d < length tables
                then Ok (d\<lparr>cd_length := length tables\<rparr>,
                  [Rows title (tables ! cd_index d)
                    (te_word env ''Page'' @ '' ('' @ nat_to_string (cd_index d + 1) @ ''/'' @
                     nat_to_string (length tables) @ '')'')])
                else Panic
            | Inl e \<Rightarrow>
                Ok (d, [Para title (te_word env ''Decode response error:'' @ nl @ e @ nl @ info @ execute_hint env help True)]))))"

definition draw_details ::
  "tui_env \<Rightarrow> key_help \<Rightarrow> bool \<Rightarrow> history_row list \<Rightarrow> cmd_details \<Rightarrow> (cmd_details \<times> widget list) outcome" where
  "draw_details env help up rows d =
     (let keep = (\<lambda>r. bind_outcome r (\<lambda>ws. Ok (d, ws)))
      in if \<not> cd_display d then Ok (d, [])
      else case cd_command d of
        AppInfo \<Rightarrow> keep (app_info env help)
      | NodeInfo \<Rightarrow> keep (node_info_page env help up rows)
      | ChanOpen \<Rightarrow> keep (channel_open env help up rows d)
      | ChanList \<Rightarrow> channel_list env help up rows d
      | PeerCont \<Rightarrow> keep (peer_connect env help up rows d)
      | _ \<Rightarrow> Ok (d, [Para None (te_word env ''This command is not ready yet, please use kld-cli instead.'')]))"

definition draw_history_list :: "tui_env \<Rightarrow> history_list \<Rightarrow> string list outcome" where
  "draw_history_list env l =
     (if hl_display l
      then collect (\<lambda>(ts, c). bind_outcome (te_time env ts) (\<lambda>s. Ok (s @ '' - '' @ te_word env c))) (hl_items l)
      else Ok [])"

section \<open>The loop\<close>

definition send :: "tui_action option \<Rightarrow> app \<Rightarrow> app" where
  "send r s = (case r of Some a \<Rightarrow> s\<lparr>ap_queue := ap_queue s @ [a]\<rparr> | None \<Rightarrow> s)"

definition app_new :: "tui_env \<Rightarrow> key_bindings \<Rightarrow> history_row list \<Rightarrow> app" where
  "app_new env kb rows =
     \<lparr>ap_bindings = kb, ap_help = help_info kb, ap_tab = tab_default env, ap_list = cmd_list_default env,
      ap_details = cmd_details_new, ap_hlist = \<lparr>hl_display = False, hl_selected = None, hl_items = []\<rparr>,
      ap_hdetails = \<lparr>ht_display = False, ht_input = [], ht_output = []\<rparr>, ap_quit = False, ap_suspend = False,
      ap_mode = Navigate, ap_keys = [], ap_history = rows, ap_queue = [], ap_threads = []\<rparr>"

datatype tui_event = EvQuit | EvTick | EvRender | EvResize u16 u16 | EvKey key_event | EvOther

text \<open>A key: the binding of the key alone, or else of the keys since the last tick; in the mode of commands the
  key is also an input.\<close>

definition on_key :: "tui_env \<Rightarrow> key_event \<Rightarrow> app \<Rightarrow> app" where
  "on_key env k s =
     (let s1 = (case map_of (ap_bindings s) (ap_mode s) of
                  None \<Rightarrow> s
                | Some km \<Rightarrow>
                    (case keymap_get (te_norm env) km [k] of
                       Some a \<Rightarrow> send (Some a) s
                     | None \<Rightarrow> (let ks = ap_keys s @ [k] in send (keymap_get (te_norm env) km ks) (s\<lparr>ap_keys := ks\<rparr>))))
      in if ap_mode s = Command then send (Some (Input k)) s1 else s1)"

definition on_event :: "tui_env \<Rightarrow> tui_event \<Rightarrow> app \<Rightarrow> app" where
  "on_event env e s =
     (case e of
        EvQuit \<Rightarrow> send (Some Quit) s
      | EvTick \<Rightarrow> send (Some Tick) s
      | EvRender \<Rightarrow> send (Some Render) s
      | EvResize w h \<Rightarrow> send (Some (Resize w h)) s
      | EvKey k \<Rightarrow> on_key env k s
      | EvOther \<Rightarrow> s)"

text \<open>\<open>Action::Execute\<close>: the row of the history and, for the commands that exist, the thread with the query.\<close>

definition execute_cmd :: "bool \<Rightarrow> u64 \<Rightarrow> cmd \<Rightarrow> string \<Rightarrow> app \<Rightarrow> app" where
  "execute_cmd up now c input s =
     (let s1 = (if up then s\<lparr>ap_history := ap_history s @
                  [\<lparr>hr_timestamp = now, hr_command = cmd_name c, hr_input = input, hr_output = []\<rparr>]\<rparr> else s);
          uri = (case get_uri c of Some u \<Rightarrow> u | None \<Rightarrow> []);
          spawn = (\<lambda>post. send (Some ExitCmdMode)
            (s1\<lparr>ap_threads := ap_threads s1 @ [\<lparr>qt_time = now, qt_post = post, qt_uri = uri, qt_input = input\<rparr>]\<rparr>))
      in if c \<in> {NodeInfo, ChanList} then spawn False
         else if c \<in> {PeerCont, ChanOpen} then spawn True
         else s1)"

text \<open>Drawing: \<open>CmdDetails\<close> keeps the number of channels it has drawn.\<close>

definition draw_app :: "tui_env \<Rightarrow> bool \<Rightarrow> app \<Rightarrow> app outcome" where
  "draw_app env up s =
     bind_outcome (draw_details env (ap_help s) up (ap_history s) (ap_details s)) (\<lambda>(d, _).
     bind_outcome (draw_history_list env (ap_hlist s)) (\<lambda>_. Ok (s\<lparr>ap_details := d\<rparr>)))"

definition app_action :: "tui_env \<Rightarrow> bool \<Rightarrow> u64 \<Rightarrow> tui_action \<Rightarrow> app \<Rightarrow> app outcome" where
  "app_action env up now a s =
     (case a of
        Tick \<Rightarrow> Ok (s\<lparr>ap_keys := []\<rparr>)
      | Quit \<Rightarrow> Ok (s\<lparr>ap_quit := True\<rparr>)
      | Suspend \<Rightarrow> Ok (s\<lparr>ap_suspend := True\<rparr>)
      | Resume \<Rightarrow> Ok (s\<lparr>ap_suspend := False\<rparr>)
      | Resize w h \<Rightarrow> draw_app env up s
      | Render \<Rightarrow> draw_app env up s
      | EnterCmdMode \<Rightarrow> Ok (s\<lparr>ap_mode := Command\<rparr>)
      | ExitCmdMode \<Rightarrow> Ok (s\<lparr>ap_mode := Navigate\<rparr>)
      | Execute c input \<Rightarrow> Ok (execute_cmd up now c input s)
      | _ \<Rightarrow> Ok s)"

text \<open>The components in their order. \<open>run\<close> continues with the value of a computation that returns one.\<close>

definition run :: "'a outcome option \<Rightarrow> ('a \<Rightarrow> 'b outcome option) \<Rightarrow> 'b outcome option" where
  "run r f = (case r of None \<Rightarrow> None | Some (Ok x) \<Rightarrow> f x | Some (Err e) \<Rightarrow> Some (Err e) | Some Panic \<Rightarrow> Some Panic)"

definition update_tab :: "tui_action \<Rightarrow> app \<Rightarrow> app outcome option" where
  "update_tab a s = (let (t, r) = tab_update a (ap_tab s) in Some (Ok (send r (s\<lparr>ap_tab := t\<rparr>))))"

definition update_list :: "tui_env \<Rightarrow> tui_action \<Rightarrow> app \<Rightarrow> app outcome option" where
  "update_list env a s =
     run (cmd_list_update env a (ap_list s)) (\<lambda>(l, r). Some (Ok (send r (s\<lparr>ap_list := l\<rparr>))))"

definition update_details :: "tui_env \<Rightarrow> tui_action \<Rightarrow> app \<Rightarrow> app outcome option" where
  "update_details env a s =
     run (Some (cmd_details_update env a (ap_details s))) (\<lambda>(d, r). Some (Ok (send r (s\<lparr>ap_details := d\<rparr>))))"

definition update_hlist :: "tui_env \<Rightarrow> bool \<Rightarrow> tui_action \<Rightarrow> app \<Rightarrow> app outcome option" where
  "update_hlist env up a s =
     run (Some (history_list_update env up (ap_history s) a (ap_hlist s)))
       (\<lambda>(l, r). Some (Ok (send r (s\<lparr>ap_hlist := l\<rparr>))))"

definition update_hdetails :: "tui_env \<Rightarrow> bool \<Rightarrow> tui_action \<Rightarrow> app \<Rightarrow> app outcome option" where
  "update_hdetails env up a s =
     Some (Ok (s\<lparr>ap_hdetails := history_details_update env up (ap_history s) a (ap_hdetails s)\<rparr>))"

definition process :: "tui_env \<Rightarrow> bool \<Rightarrow> u64 \<Rightarrow> tui_action \<Rightarrow> app \<Rightarrow> app outcome option" where
  "process env up now a s =
     run (Some (app_action env up now a s)) (\<lambda>s.
     run (update_tab a s) (\<lambda>s.
     run (update_list env a s) (\<lambda>s.
     run (update_details env a s) (\<lambda>s.
     run (update_hlist env up a s) (\<lambda>s.
     update_hdetails env up a s)))))"

text \<open>\<open>while let Ok(action) = action_rx.try_recv()\<close>.  \<open>up\<close> and \<open>now\<close>, the pool and the clock, stay the same while
  one event is handled.\<close>

partial_function (option) drain :: "tui_env \<Rightarrow> bool \<Rightarrow> u64 \<Rightarrow> app \<Rightarrow> app outcome option" where
  "drain env up now s =
     (case ap_queue s of
        [] \<Rightarrow> Some (Ok s)
      | a # q \<Rightarrow>
          (case process env up now a (s\<lparr>ap_queue := q\<rparr>) of
             None \<Rightarrow> None
           | Some r \<Rightarrow> (case r of Ok s' \<Rightarrow> drain env up now s' | Err e \<Rightarrow> Some (Err e) | Panic \<Rightarrow> Some Panic)))"

text \<open>A turn of the loop of \<open>run\<close>: whether it goes on, and the state it leaves.\<close>

definition turn :: "tui_env \<Rightarrow> bool \<Rightarrow> u64 \<Rightarrow> tui_event option \<Rightarrow> app \<Rightarrow> (bool \<times> app) outcome option" where
  "turn env up now e s =
     run (drain env up now (case e of Some ev \<Rightarrow> on_event env ev s | None \<Rightarrow> s)) (\<lambda>s'.
       Some (Ok (if ap_suspend s' then (True, send (Some Resume) s') else (\<not> ap_quit s', s'))))"

text \<open>A thread that has its answer writes it to the rows with its time (\<^verbatim>\<open>query.rs\<close> gives the text).\<close>

datatype http_result = HttpResponse bool string string | HttpError string

definition query_text :: "http_result \<Rightarrow> string" where
  "query_text r =
     (case r of
        HttpResponse success status data \<Rightarrow> if success then data else status @ data
      | HttpError e \<Rightarrow> e)"

definition set_output :: "u64 \<Rightarrow> string \<Rightarrow> history_row list \<Rightarrow> history_row list" where
  "set_output ts out rows = map (\<lambda>r. if hr_timestamp r = ts then r\<lparr>hr_output := out\<rparr> else r) rows"

definition finish_query :: "bool \<Rightarrow> nat \<Rightarrow> http_result \<Rightarrow> app \<Rightarrow> app" where
  "finish_query up i r s =
     (let t = ap_threads s ! i; s1 = s\<lparr>ap_threads := take i (ap_threads s) @ drop (Suc i) (ap_threads s)\<rparr>
      in if up then s1\<lparr>ap_history := set_output (qt_time t) (query_text r) (ap_history s1)\<rparr> else s1)"

text \<open>The run of the interface: an event, or the end of a query.\<close>

inductive tui_step :: "tui_env \<Rightarrow> app \<Rightarrow> app \<Rightarrow> bool" for env :: tui_env where
  event: "turn env up now e s = Some (Ok (True, s')) \<Longrightarrow> tui_step env s s'"
| answer: "i < length (ap_threads s) \<Longrightarrow> tui_step env s (finish_query up i r s)"

definition tui_reachable :: "tui_env \<Rightarrow> key_bindings \<Rightarrow> history_row list \<Rightarrow> app \<Rightarrow> bool" where
  "tui_reachable env kb rows s = (tui_step env)\<^sup>*\<^sup>* (app_new env kb rows) s"

end
