(* ===== verification/Key_Bindings_Correct.thy ===== *)
theory Key_Bindings_Correct
  imports Key_Bindings
begin

text \<open>
  The keys of the terminal interface are read back as they are written, the modifiers of a key are read
  off completely, an action is read back from its text, and the bindings of the user only add to the
  defaults.
\<close>

section \<open>Modifiers\<close>

definition modifier_bit :: "string \<Rightarrow> u8" where
  "modifier_bit p = (if p = ''ctrl-'' then CONTROL else if p = ''alt-'' then ALT else SHIFT)"

definition modifier_texts :: "string set" where
  "modifier_texts = {''ctrl-'', ''alt-'', ''shift-''}"

lemma modifier_texts_simps [simp]:
  "''ctrl-'' \<in> modifier_texts" "''alt-'' \<in> modifier_texts" "''shift-'' \<in> modifier_texts"
  "modifier_bit ''ctrl-'' = CONTROL" "modifier_bit ''alt-'' = ALT" "modifier_bit ''shift-'' = SHIFT"
  by (simp_all add: modifier_texts_def modifier_bit_def)

lemma starts_with_split: "starts_with s p \<Longrightarrow> s = p @ drop (length p) s"
  by (metis append_take_drop_id starts_with_def)

lemma starts_with_append [simp]: "starts_with (p @ s) p"
  by (simp add: starts_with_def)

lemma extract_loop_spec:
  "extract_loop m s = (rest, m') \<Longrightarrow>
     \<exists>ps. set ps \<subseteq> modifier_texts \<and> s = concat ps @ rest \<and> m' = foldl (\<lambda>b p. b OR modifier_bit p) m ps \<and>
          \<not> starts_with rest ''ctrl-'' \<and> \<not> starts_with rest ''alt-'' \<and> \<not> starts_with rest ''shift-''"
proof (induction m s rule: extract_loop.induct)
  case (1 m s)
  have step: "\<exists>ps. set ps \<subseteq> modifier_texts \<and> s = concat ps @ rest \<and> m' = foldl (\<lambda>b p. b OR modifier_bit p) m ps \<and>
          \<not> starts_with rest ''ctrl-'' \<and> \<not> starts_with rest ''alt-'' \<and> \<not> starts_with rest ''shift-''"
    if "p \<in> modifier_texts" and "starts_with s p" and "length p = n"
      and "\<exists>ps. set ps \<subseteq> modifier_texts \<and> drop n s = concat ps @ rest \<and>
          m' = foldl (\<lambda>b p. b OR modifier_bit p) (m OR modifier_bit p) ps \<and>
          \<not> starts_with rest ''ctrl-'' \<and> \<not> starts_with rest ''alt-'' \<and> \<not> starts_with rest ''shift-''" for p n
  proof -
    from that(4) obtain ps where ps: "set ps \<subseteq> modifier_texts" "drop n s = concat ps @ rest"
      "m' = foldl (\<lambda>b p. b OR modifier_bit p) (m OR modifier_bit p) ps"
      "\<not> starts_with rest ''ctrl-''" "\<not> starts_with rest ''alt-''" "\<not> starts_with rest ''shift-''"
      by blast
    have "s = concat (p # ps) @ rest"
      using starts_with_split [OF that(2)] ps(2) that(3) by simp
    with that(1) ps(1,3-6) show ?thesis by (intro exI [of _ "p # ps"]) simp
  qed
  consider "starts_with s ''ctrl-''" | "\<not> starts_with s ''ctrl-''" "starts_with s ''alt-''"
    | "\<not> starts_with s ''ctrl-''" "\<not> starts_with s ''alt-''" "starts_with s ''shift-''"
    | "\<not> starts_with s ''ctrl-''" "\<not> starts_with s ''alt-''" "\<not> starts_with s ''shift-''" by blast
  then show ?case
  proof cases
    case 1
    with "1.prems" have "extract_loop (m OR CONTROL) (drop 5 s) = (rest, m')" by (simp add: extract_loop.simps [of m s])
    from "1.IH"(1) [OF 1 this] show ?thesis
      by (intro step [of "''ctrl-''" 5]) (use 1 in \<open>simp_all\<close>)
  next
    case 2
    with "1.prems" have "extract_loop (m OR ALT) (drop 4 s) = (rest, m')" by (simp add: extract_loop.simps [of m s])
    from "1.IH"(2) [OF 2 this] show ?thesis
      by (intro step [of "''alt-''" 4]) (use 2 in \<open>simp_all\<close>)
  next
    case 3
    with "1.prems" have "extract_loop (m OR SHIFT) (drop 6 s) = (rest, m')" by (simp add: extract_loop.simps [of m s])
    from "1.IH"(3) [OF 3 this] show ?thesis
      by (intro step [of "''shift-''" 6]) (use 3 in \<open>simp_all\<close>)
  next
    case 4
    with "1.prems" show ?thesis by (intro exI [of _ "[]"]) (simp add: extract_loop.simps [of m s])
  qed
qed

lemma extract_modifiers_spec:
  assumes "extract_modifiers raw = (rest, m)"
  shows "\<exists>ps. set ps \<subseteq> modifier_texts \<and> raw = concat ps @ rest \<and> m = foldl (\<lambda>b p. b OR modifier_bit p) 0 ps \<and>
          \<not> starts_with rest ''ctrl-'' \<and> \<not> starts_with rest ''alt-'' \<and> \<not> starts_with rest ''shift-''"
  using extract_loop_spec [OF assms [unfolded extract_modifiers_def]] .

lemma extract_loop_ctrl [simp]: "extract_loop m (''ctrl-'' @ s) = extract_loop (m OR CONTROL) s"
  using starts_with_append [of "''ctrl-''" s] by (subst extract_loop.simps) simp

lemma extract_loop_alt [simp]: "extract_loop m (''alt-'' @ s) = extract_loop (m OR ALT) s"
  using starts_with_append [of "''alt-''" s] by (subst extract_loop.simps) (simp add: starts_with_def)

lemma extract_loop_shift [simp]: "extract_loop m (''shift-'' @ s) = extract_loop (m OR SHIFT) s"
  using starts_with_append [of "''shift-''" s] by (subst extract_loop.simps) (simp add: starts_with_def)

lemma extract_loop_end:
  assumes "\<not> starts_with s ''ctrl-''" and "\<not> starts_with s ''alt-''" and "\<not> starts_with s ''shift-''"
  shows "extract_loop m s = (s, m)"
  using assms by (subst extract_loop.simps) simp

lemma small_modifiers: "(m :: u8) < 8 \<Longrightarrow> m \<in> {0, 1, 2, 3, 4, 5, 6, 7}"
proof -
  assume "m < 8"
  then have "unat m < 8" by (simp add: word_less_nat_alt)
  then have "unat m \<in> {0, 1, 2, 3, 4, 5, 6, 7}" by auto
  moreover have "m = of_nat (unat m)" by simp
  ultimately show ?thesis by (auto simp del: of_nat_unat)
qed

lemma extract_modifier_prefix:
  assumes "m < 8"
  shows "extract_loop 0 (modifier_prefix m @ s) = extract_loop m s"
  using small_modifiers [OF assms]
  by (auto simp: modifier_prefix_def CONTROL_def SHIFT_def ALT_def simp del: append.simps append_Cons
      simp add: append_assoc append_Nil)

section \<open>Keys\<close>

text \<open>The keys with a text of their own, and the ones a table of bindings can name.\<close>

fun named_key :: "key_code \<Rightarrow> bool" where
  "named_key (KF n) = False"
| "named_key (KChar c) = (c = CHR '' '')"
| "named_key (KMedia n) = False"
| "named_key (KModifier n) = False"
| "named_key k = (k \<notin> {KNull, KCapsLock, KScrollLock, KNumLock, KPrintScreen, KPause, KMenu, KKeypadBegin})"

definition nameable :: "key_event \<Rightarrow> bool" where
  "nameable e \<longleftrightarrow>
     ke_kind e = KeyPress \<and> ke_state e = 0 \<and> ke_modifiers e < 8 \<and>
     (case ke_code e of
        KChar c \<Rightarrow> of_char c < (128 :: nat) \<and>
                   (if ke_modifiers e AND SHIFT = SHIFT then ascii_upper c = c else ascii_lower c = c)
      | KBackTab \<Rightarrow> ke_modifiers e AND SHIFT = SHIFT
      | k \<Rightarrow> named_key k)"

lemma map_lower_prefix [simp]: "map ascii_lower (modifier_prefix m) = modifier_prefix m"
  by (simp add: modifier_prefix_def ascii_lower_def Let_def)

lemma named_key_text:
  assumes "named_key k"
  shows "map ascii_lower (code_to_string k) = code_to_string k"
    and "map_of key_names (code_to_string k) = Some k"
    and "extract_loop m (code_to_string k) = (code_to_string k, m)"
  using assms
  by (cases k; simp add: ascii_lower_def key_names_def extract_loop.simps [of m] starts_with_def)+

lemma one_char_no_name [simp]: "map_of key_names [c] = None"
  by (simp add: key_names_def)

lemma one_char_extract [simp]: "extract_loop m [c] = ([c], m)"
  by (simp add: extract_loop.simps [of m] starts_with_def)

lemma of_char_ascii_lower: "of_char (ascii_lower c) = (let n = of_char c in if 65 \<le> n \<and> n \<le> 90 then n + 32 else (n :: nat))"
  by (simp add: ascii_lower_def Let_def)

lemma upper_lower: "ascii_upper (ascii_lower c) = (if ascii_upper c = c then c else ascii_upper c)"
proof (cases "65 \<le> (of_char c :: nat) \<and> (of_char c :: nat) \<le> 90")
  case True
  then show ?thesis by (simp add: ascii_upper_def ascii_lower_def Let_def)
next
  case False
  then show ?thesis by (auto simp: ascii_lower_def Let_def)
qed

lemma str_len_lower [simp]: "of_char c < (128 :: nat) \<Longrightarrow> str_len [ascii_lower c] = 1"
  by (auto simp: str_len_def utf8_len_def of_char_ascii_lower Let_def)

lemma shift_or [simp]: "m AND SHIFT = SHIFT \<Longrightarrow> m OR SHIFT = m"
proof -
  assume "m AND SHIFT = SHIFT"
  moreover have "m OR (m AND SHIFT) = m" by (rule bit_word_eqI) (auto simp: bit_simps)
  ultimately show ?thesis by simp
qed

text \<open>a key is read back from its text: parsing what \<open>key_event_to_string\<close> prints gives the same event,
  for every key that a table of bindings can name (the named keys and the ASCII characters, with any of
  the three modifiers, a letter in upper case exactly with shift).\<close>

theorem key_event_roundtrip:
  assumes "nameable e"
  shows "parse_key_event (key_event_to_string e) = Inr e"
proof -
  obtain c m where e: "e = key_event_new c m" and m: "m < 8"
    using assms by (cases e) (auto simp: nameable_def key_event_new_def)
  have parse: "parse_key_event (key_event_to_string e) =
      (case extract_loop m (map ascii_lower (code_to_string c)) of (s, m') \<Rightarrow> parse_key_code_with_modifiers s m')"
    by (simp add: parse_key_event_def key_event_to_string_def extract_modifiers_def e key_event_new_def
        extract_modifier_prefix [OF m])
  show ?thesis
  proof (cases "named_key c")
    case True
    moreover have "c = KBackTab \<Longrightarrow> m OR SHIFT = m"
      using assms by (simp add: e nameable_def key_event_new_def)
    ultimately show ?thesis
      by (subst parse) (simp add: named_key_text parse_key_code_with_modifiers_def e)
  next
    case False
    then obtain x where c: "c = KChar x"
      using assms by (cases c) (auto simp: e nameable_def key_event_new_def)
    with False assms show ?thesis
      by (subst parse) (auto simp: parse_key_code_with_modifiers_def e nameable_def key_event_new_def upper_lower split: if_splits)
  qed
qed

theorem key_event_roundtrip_witness:
  "parse_key_event (key_event_to_string (key_event_new (KChar (CHR ''A'')) (SHIFT OR CONTROL))) =
     Inr (key_event_new (KChar (CHR ''A'')) (SHIFT OR CONTROL))"
  by (rule key_event_roundtrip) (simp add: nameable_def key_event_new_def SHIFT_def CONTROL_def ascii_upper_def)

text \<open>The text of a function key is not one that the parser knows, and neither is the text of a key with a
  modifier in the help.\<close>

lemma help_text_not_parsed:
  "parse_key_event (key_event_to_string (key_event_new (KF 1) 0)) = Inl ''Unable to parse f(1)''"
  "parse_key_sequence (key_events_to_string [key_event_new (KChar (CHR ''a'')) CONTROL]) =
     Inl ''Unable to parse control+ctrl-a''"
  by (code_simp, code_simp)

section \<open>The text of an action\<close>

lemma trim_start_matches_once:
  assumes "p \<noteq> []" and "\<not> starts_with s p"
  shows "trim_start_matches (p @ s) p = s"
  using assms by (subst trim_start_matches.simps) (simp add: trim_start_matches.simps [of s p])

lemma digit_facts:
  assumes "c \<in> set (nat_to_string n)"
  shows "\<not> is_whitespace c" and "c \<noteq> CHR '')''" and "c \<noteq> CHR '',''" and "c \<noteq> CHR ''R''"
proof -
  have "char_digit c \<noteq> None" using nat_to_string_is_digit [OF assms] .
  then show "\<not> is_whitespace c" and "c \<noteq> CHR '')''" and "c \<noteq> CHR '',''" and "c \<noteq> CHR ''R''"
    by (auto simp: char_digit_def is_whitespace_def Let_def split: if_splits)
qed

lemma dropWhile_none: "(\<And>c. c \<in> set s \<Longrightarrow> \<not> P c) \<Longrightarrow> dropWhile P s = s"
  by (cases s) auto

lemma trim_digits [simp]: "trim (nat_to_string n) = nat_to_string n"
proof -
  have "dropWhile is_whitespace (nat_to_string n) = nat_to_string n"
    by (rule dropWhile_none) (rule digit_facts(1))
  moreover have "dropWhile is_whitespace (rev (nat_to_string n)) = rev (nat_to_string n)"
    by (rule dropWhile_none) (simp add: digit_facts(1))
  ultimately show ?thesis by (simp add: trim_def)
qed

lemma parse_u16_part_digits [simp]: "parse_u16_part (nat_to_string (unat (w :: u16))) = Inr w"
  using unsigned_less [of w, where 'a = nat] by (simp add: parse_u16_part_def parse_uint_nat_to_string)

lemma visit_resize: "visit_str (parens ''Resize'' (nat_to_string (unat w) @ '','' @ nat_to_string (unat h))) = Inr (Resize w h)"
proof -
  let ?s = "nat_to_string (unat w) @ '','' @ nat_to_string (unat h)"
  have last: "last ?s \<noteq> CHR '')''"
    using digit_facts(2) [OF last_in_set [OF nat_to_string_nonempty]] by simp
  then have "\<not> ends_with ?s '')''" using ends_with_last [of ?s "'')''"] by auto
  then have "trim_end_matches (?s @ '')'') '')'' = ?s" by (rule trim_end_matches_once [rotated]) simp
  moreover have "hd (nat_to_string (unat w)) \<noteq> CHR ''R''"
    using digit_facts(4) [OF hd_in_set [OF nat_to_string_nonempty]] .
  then have "\<not> starts_with (?s @ '')'') ''Resize(''"
    by (cases "nat_to_string (unat w)") (auto simp: starts_with_def)
  then have "trim_start_matches (''Resize('' @ ?s @ '')'') ''Resize('' = ?s @ '')''"
    by (intro trim_start_matches_once) simp_all
  moreover have "split_char (CHR '','') ?s = [nat_to_string (unat w), nat_to_string (unat h)]"
    using digit_facts(3) by (simp add: split_char_append split_char_none del: append_assoc) (metis append_Cons append_Nil split_char_append split_char_none)
  ultimately show ?thesis
    by (simp add: visit_str_def parens_def plain_actions_def starts_with_def)
qed

lemma visit_error:
  assumes "\<not> starts_with e ''Error(''" and "\<not> ends_with e '')''"
  shows "visit_str (parens ''Error'' e) = Inr (ActError e)"
proof -
  have "\<not> starts_with (e @ '')'') ''Error(''"
  proof
    assume "starts_with (e @ '')'') ''Error(''"
    then obtain t where "e @ '')'' = ''Error('' @ t" using starts_with_split by blast
    then have "e = ''Error('' @ butlast t"
      by (cases t rule: rev_cases) auto
    with assms(1) show False by (simp add: starts_with_def)
  qed
  then have "trim_start_matches (''Error('' @ e @ '')'') ''Error('' = e @ '')''"
    by (intro trim_start_matches_once) simp_all
  moreover have "trim_end_matches (e @ '')'') '')'' = e"
    using assms(2) by (intro trim_end_matches_once) simp_all
  ultimately show ?thesis by (simp add: visit_str_def parens_def plain_actions_def starts_with_def)
qed

definition bindable :: "tui_action \<Rightarrow> bool" where
  "bindable a =
     (case a of
        ActError e \<Rightarrow> \<not> starts_with e ''Error('' \<and> \<not> ends_with e '')''
      | Resize w h \<Rightarrow> True
      | _ \<Rightarrow> a \<in> snd ` set plain_actions)"

lemma plain_display:
  assumes "a \<in> snd ` set plain_actions" and "display_action show_time debug_key a = Ok s"
  shows "map_of plain_actions s = Some a"
proof -
  have "\<exists>n. display_action show_time debug_key a = Ok n \<and> map_of plain_actions n = Some a"
    using assms(1) by (cases a) (simp_all add: plain_actions_def)
  with assms(2) show ?thesis by auto
qed

lemma action_text_roundtrip:
  assumes "bindable a" and "display_action show_time debug_key a = Ok s"
  shows "visit_str s = Inr a"
proof (cases "a \<in> snd ` set plain_actions")
  case True
  then show ?thesis using plain_display [OF True assms(2)] by (simp add: visit_str_def)
next
  case False
  then consider w h where "a = Resize w h" | e where "a = ActError e" "\<not> starts_with e ''Error(''" "\<not> ends_with e '')''"
    using assms(1) by (cases a) (simp_all add: bindable_def)
  then show ?thesis
    using assms(2) by cases (auto simp: visit_resize visit_error simp del: append.simps append_Cons)
qed

section \<open>The bindings of the user\<close>

lemma keymap_get_append:
  "keymap_get norm (m @ m') ks = (case keymap_get norm m ks of None \<Rightarrow> keymap_get norm m' ks | Some a \<Rightarrow> Some a)"
  by (induction m) (auto simp: keymap_get_def)

lemma keymap_get_or_insert:
  "keymap_get norm (keymap_or_insert norm k a m) ks =
     (case keymap_get norm m ks of
        Some b \<Rightarrow> Some b
      | None \<Rightarrow> if map norm k = map norm ks then Some a else None)"
proof (cases "map norm k = map norm ks")
  case True
  then have "keymap_get norm m k = keymap_get norm m ks" by (simp add: keymap_get_def)
  with True show ?thesis
    by (auto simp: keymap_or_insert_def keymap_get_append split: option.splits) (simp add: keymap_get_def)
next
  case False
  then have "keymap_get norm [(k, a)] ks = None" by (simp add: keymap_get_def)
  with False show ?thesis by (auto simp: keymap_or_insert_def keymap_get_append split: option.splits)
qed

lemma keymap_get_merge:
  "keymap_get norm (merge_keymap norm user m) ks =
     (case keymap_get norm m ks of Some a \<Rightarrow> Some a | None \<Rightarrow> keymap_get norm user ks)"
proof (induction user arbitrary: m)
  case Nil
  then show ?case by (simp add: merge_keymap_def keymap_get_def split: option.splits)
next
  case (Cons e user)
  obtain k a where e: "e = (k, a)" by force
  have "keymap_get norm (merge_keymap norm (e # user) m) ks =
      (case keymap_get norm (keymap_or_insert norm k a m) ks of Some a \<Rightarrow> Some a | None \<Rightarrow> keymap_get norm user ks)"
    using Cons.IH by (simp add: merge_keymap_def e)
  moreover have "keymap_get norm (e # user) ks = (if map norm k = map norm ks then Some a else keymap_get norm user ks)"
    by (simp add: keymap_get_def e)
  ultimately show ?case by (auto simp: keymap_get_or_insert split: option.splits)
qed

lemma map_of_merge:
  assumes "distinct (map fst user)"
  shows "map_of (merge_bindings norm user kb) mode =
     (case map_of user mode of
        None \<Rightarrow> map_of kb mode
      | Some u \<Rightarrow> Some (merge_keymap norm u (case map_of kb mode of Some m \<Rightarrow> m | None \<Rightarrow> [])))"
  using assms
proof (induction user arbitrary: kb)
  case (Cons e user)
  obtain md u where e: "e = (md, u)" by force
  have "map_of user md = None" using Cons.prems by (simp add: e map_of_eq_None_iff)
  then show ?case
    using Cons.IH [of "AList.update md (merge_keymap norm u (case map_of kb md of Some m \<Rightarrow> m | None \<Rightarrow> [])) kb"] Cons.prems
    by (auto simp: merge_bindings_def e update_conv' split: option.splits)
qed (simp add: merge_bindings_def)

lemma collect_modes:
  assumes "collect f xs = Ok ys" and "\<And>x y. f x = Ok y \<Longrightarrow> fst y = fst x"
  shows "map fst ys = map fst xs"
  using assms(1) by (induction xs arbitrary: ys) (auto simp: outcome_simps list_all2_Cons1 dest: assms(2))

lemma read_bindings_modes: "read_bindings norm t = Ok kb \<Longrightarrow> map fst kb = map fst t"
proof -
  assume "read_bindings norm t = Ok kb"
  then obtain p where
    p: "collect (\<lambda>(mode, entries). bind_outcome (read_actions entries) (\<lambda>as. Ok (mode, as))) t = Ok p"
       "collect (\<lambda>(mode, as). bind_outcome (convert_keymap norm as []) (\<lambda>m. Ok (mode, m))) p = Ok kb"
    unfolding read_bindings_def bind_outcome_eq_Ok by blast
  have "map fst p = map fst t" by (rule collect_modes [OF p(1)]) (auto simp: bind_outcome_eq_Ok)
  moreover have "map fst kb = map fst p" by (rule collect_modes [OF p(2)]) (auto simp: bind_outcome_eq_Ok)
  ultimately show ?thesis by simp
qed

text \<open>the bindings of the user only add to the defaults: keys that a default binds keep the default action,
  whatever the file of the user says about them, and all other keys have the action the file gives them.\<close>

theorem user_bindings_only_add:
  assumes "distinct (map fst t)" and "read_bindings norm t = Ok loaded"
    and "key_bindings_new norm None = Ok defaults" and "key_bindings_new norm (Some t) = Ok kb"
  shows "bound_action norm kb mode ks =
     (case bound_action norm defaults mode ks of
        Some a \<Rightarrow> Some a
      | None \<Rightarrow> bound_action norm loaded mode ks)"
proof -
  have d: "distinct (map fst loaded)" using assms(1) read_bindings_modes [OF assms(2)] by simp
  have "kb = merge_bindings norm loaded defaults"
    using assms(2-4) by (auto simp: key_bindings_new_def bind_outcome_eq_Ok unwrap_outcome_def)
  moreover have "keymap_get norm [] ks = None" by (simp add: keymap_get_def)
  ultimately show ?thesis
    by (auto simp: bound_action_def map_of_merge [OF d] keymap_get_merge split: option.splits)
qed

definition vim_table :: raw_table where
  "vim_table = [(Navigate, [(''q'', ''Quit''), (''<esc>'', ''Help'')])]"

theorem user_bindings_only_add_witness:
  "\<exists>kb. key_bindings_new (\<lambda>k. k) (Some vim_table) = Ok kb \<and>
     bound_action (\<lambda>k. k) kb Navigate [key_event_new KEsc 0] = Some Quit \<and>
     bound_action (\<lambda>k. k) kb Navigate [key_event_new (KChar (CHR ''q'')) 0] = Some Quit"
proof -
  define norm :: "key_event \<Rightarrow> key_event" where "norm = (\<lambda>k. k)"
  define loaded where "loaded = [(Navigate, [([key_event_new (KChar (CHR ''q'')) 0], Quit), ([key_event_new KEsc 0], Help)])]"
  define d where "d =
    [(Navigate, [([key_event_new KEsc 0], Quit), ([key_event_new KTab 0], SwitchTab), ([key_event_new KUp 0], NavUp),
       ([key_event_new KDown 0], NavDown), ([key_event_new KLeft 0], NavLeft), ([key_event_new KRight 0], NavRight),
       ([key_event_new KEnter 0], EnterCmdMode)]),
     (Command, [([key_event_new KEsc 0], ExitCmdMode), ([key_event_new KTab 0], SwitchInputs),
       ([key_event_new KEnter 0], TriggerExecute)])]"
  have l: "read_bindings norm vim_table = Ok loaded"
      "bound_action norm loaded Navigate [key_event_new (KChar (CHR ''q'')) 0] = Some Quit"
    unfolding norm_def loaded_def by code_simp+
  have d: "key_bindings_new norm None = Ok d"
      "bound_action norm d Navigate [key_event_new KEsc 0] = Some Quit"
      "bound_action norm d Navigate [key_event_new (KChar (CHR ''q'')) 0] = None"
    unfolding norm_def d_def by code_simp+
  have "unwrap_outcome (read_bindings norm default_table) = Ok d"
    using d(1) by (simp add: key_bindings_new_def)
  then have kb: "key_bindings_new norm (Some vim_table) = Ok (merge_bindings norm loaded d)"
    using l(1) by (simp add: key_bindings_new_def unwrap_outcome_def)
  have "distinct (map fst vim_table)" by (simp add: vim_table_def)
  from user_bindings_only_add [OF this l(1) d(1) kb] kb l(2) d(2,3) show ?thesis
    by (auto simp: norm_def)
qed

end
