(* ===== verification/Tui_App_Correct.thy ===== *)
theory Tui_App_Correct
  imports Tui_App Key_Bindings_Correct
begin

text \<open>
  The terminal interface handles every event to its end, whatever the keys are bound to: the loops over the
  list of commands find a command, and the actions that an action leads to come to an end.  With the
  default bindings no key panics.  The page of the channels panics when there is no channel.
\<close>

section \<open>The loops over the commands\<close>

definition commands_ok :: "cmd_list \<Rightarrow> bool" where
  "commands_ok l \<longleftrightarrow> cl_selected l < length (cl_items l) \<and> (\<exists>c. Some c \<in> snd ` set (cl_items l))"

lemma commands_ok_display [simp]: "commands_ok (l\<lparr>cl_display := b\<rparr>) = commands_ok l"
  by (simp add: commands_ok_def)

lemma list_up_mod: "i < n \<Longrightarrow> list_up n i = (i + (n - 1)) mod n"
proof -
  assume "i < n"
  show ?thesis
  proof (cases i)
    case (Suc j)
    then have "i + (n - 1) = j + n" using \<open>i < n\<close> by simp
    then show ?thesis using Suc \<open>i < n\<close> by (simp add: list_up_def)
  qed (use \<open>i < n\<close> in \<open>simp add: list_up_def\<close>)
qed

lemma list_down_mod: "i < n \<Longrightarrow> list_down n i = (i + 1) mod n"
  by (auto simp: list_down_def)

lemma cl_nav_reaches:
  assumes "cl_display l" and "cl_selected l < length (cl_items l)"
    and move: "\<And>i. i < length (cl_items l) \<Longrightarrow> move i < length (cl_items l)"
    and "(move ^^ Suc k) (cl_selected l) = j" and "snd (cl_items l ! j) \<noteq> None"
  shows "\<exists>i c. cl_nav move l = Some (Ok (l\<lparr>cl_selected := i\<rparr>, Some (Choose c))) \<and>
           i < length (cl_items l) \<and> snd (cl_items l ! i) = Some c"
  using assms
proof (induction k arbitrary: l)
  case 0
  have "move (cl_selected l) < length (cl_items l)" using 0(2,3) by blast
  moreover have "move (cl_selected l) = j" using 0(4) by simp
  moreover obtain c where "snd (cl_items l ! j) = Some c" using 0(5) by blast
  ultimately show ?case using 0(1) by (intro exI [of _ j] exI [of _ c]) (subst cl_nav.simps, simp)
next
  case (Suc k)
  let ?i = "move (cl_selected l)"
  have i: "?i < length (cl_items l)" using Suc.prems(2,3) by simp
  show ?case
  proof (cases "snd (cl_items l ! ?i)")
    case None
    have "(move ^^ Suc k) ?i = j" using Suc.prems(4) by (simp add: funpow_swap1)
    then have "\<exists>i c. cl_nav move (l\<lparr>cl_selected := ?i\<rparr>) =
          Some (Ok (l\<lparr>cl_selected := ?i\<rparr>\<lparr>cl_selected := i\<rparr>, Some (Choose c))) \<and>
        i < length (cl_items l) \<and> snd (cl_items l ! i) = Some c"
      using Suc.IH [of "l\<lparr>cl_selected := ?i\<rparr>"] Suc.prems i by simp
    then show ?thesis using None Suc.prems(1) i by (subst cl_nav.simps) simp
  next
    case (Some c)
    then show ?thesis using Suc.prems(1) i by (subst cl_nav.simps) auto
  qed
qed

lemma funpow_shift:
  assumes "\<And>i. i < n \<Longrightarrow> move i = (i + d) mod n" and "i < n"
  shows "(move ^^ k) i = (i + k * d) mod n"
proof (induction k)
  case (Suc k)
  have "(i + k * d) mod n < n" using assms(2) by simp
  then show ?case using Suc assms(1) by (simp add: mod_simps ac_simps)
qed (use assms(2) in simp)

lemma up_reaches:
  assumes "i < n" and "j < n"
  shows "\<exists>k. (list_up n ^^ Suc k) i = j"
proof -
  let ?k = "i + (n - j) - 1"
  have "Suc ?k = i + (n - j)" using assms by simp
  moreover have "(list_up n ^^ (i + (n - j))) i = (i + (i + (n - j)) * (n - 1)) mod n"
    by (rule funpow_shift [OF list_up_mod assms(1)])
  moreover have "(i + (i + (n - j)) * (n - 1)) mod n = j"
  proof -
    obtain m where n: "n = Suc m" using assms(1) by (cases n) auto
    define e where "e = n - j"
    have "(i + e) * n = (i + e) * (n - 1) + (i + e)" by (simp add: n)
    then have "j + (i + (n - j)) * n = i + (i + (n - j)) * (n - 1) + n"
      using assms(2) by (simp add: e_def)
    then have "(i + (i + (n - j)) * (n - 1) + n) mod n = (j + (i + (n - j)) * n) mod n" by simp
    then show ?thesis using assms(2) by simp
  qed
  ultimately show ?thesis by metis
qed

lemma down_reaches:
  assumes "i < n" and "j < n"
  shows "\<exists>k. (list_down n ^^ Suc k) i = j"
proof -
  let ?k = "j + (n - i) - 1"
  have "Suc ?k = j + (n - i)" using assms by simp
  moreover have "(list_down n ^^ (j + (n - i))) i = (i + (j + (n - i)) * 1) mod n"
    by (rule funpow_shift [OF list_down_mod assms(1)])
  moreover have "i + (j + (n - i)) * 1 = j + n" using assms by simp
  ultimately show ?thesis using assms(2) by (metis mod_add_self2 mod_less)
qed

lemma list_moves_bound:
  "i < n \<Longrightarrow> list_up n i < n" "i < n \<Longrightarrow> list_down n i < n"
  by (auto simp: list_up_def list_down_def)

lemma cl_nav_finds:
  assumes "commands_ok l" and "cl_display l"
    and "\<And>i. i < length (cl_items l) \<Longrightarrow> move i < length (cl_items l)"
    and "\<And>i j. i < length (cl_items l) \<Longrightarrow> j < length (cl_items l) \<Longrightarrow> \<exists>k. (move ^^ Suc k) i = j"
  shows "\<exists>i c. cl_nav move l = Some (Ok (l\<lparr>cl_selected := i\<rparr>, Some (Choose c))) \<and>
           i < length (cl_items l) \<and> snd (cl_items l ! i) = Some c"
proof -
  obtain j where j: "j < length (cl_items l)" "snd (cl_items l ! j) \<noteq> None"
    using assms(1) by (force simp: commands_ok_def in_set_conv_nth)
  obtain k where "(move ^^ Suc k) (cl_selected l) = j"
    using assms(1,4) j(1) by (auto simp: commands_ok_def)
  then show ?thesis
    using cl_nav_reaches [OF assms(2) _ assms(3) _ j(2)] assms(1) by (simp add: commands_ok_def)
qed

lemma cl_nav_hidden: "\<not> cl_display l \<Longrightarrow> cl_nav move l = Some (Ok (l, None))"
  by (subst cl_nav.simps) simp

text \<open>The loops that look for the next command end: from any selected item, in both directions, they stop
  at an item with a command, however many headings they pass, and give that command.\<close>

lemma nav_ends:
  assumes "commands_ok l" and "cl_display l"
  shows "\<exists>i c. cl_nav_up l = Some (Ok (l\<lparr>cl_selected := i\<rparr>, Some (Choose c))) \<and>
           i < length (cl_items l) \<and> snd (cl_items l ! i) = Some c"
    and "\<exists>i c. cl_nav_down l = Some (Ok (l\<lparr>cl_selected := i\<rparr>, Some (Choose c))) \<and>
           i < length (cl_items l) \<and> snd (cl_items l ! i) = Some c"
  unfolding cl_nav_up_def cl_nav_down_def
  by (rule cl_nav_finds [OF assms list_moves_bound(1) up_reaches], assumption+,
      rule cl_nav_finds [OF assms list_moves_bound(2) down_reaches], assumption+)

lemma nav_without_command_loops:
  "cl_nav_up \<lparr>cl_display = True, cl_selected = 0, cl_items = [(''App'', None)]\<rparr> = None"
proof -
  let ?l = "\<lparr>cl_display = True, cl_selected = 0, cl_items = [(''App'', None)]\<rparr>"
  have "move = list_up 1 \<longrightarrow> l = ?l \<longrightarrow> False" if "cl_nav move l = Some r" for move l r
    using that
  proof (rule cl_nav.raw_induct [rotated], goal_cases)
    case (1 nav move l y)
    have zero: "list_up 1 0 = 0" by (simp add: list_up_def)
    show ?case
    proof (intro impI)
      assume "move = list_up 1" and "l = ?l"
      with 1(2) zero have "nav (list_up 1) ?l = Some y" by (simp del: One_nat_def)
      with 1(1) show False by blast
    qed
  qed
  then have "cl_nav (list_up 1) ?l \<noteq> Some r" for r by blast
  then show ?thesis by (auto simp: cl_nav_up_def)
qed

section \<open>The actions of one event come to an end\<close>

text \<open>The weight of an action exceeds that of all actions it leads to.\<close>

fun weight :: "tui_action \<Rightarrow> nat" where
  "weight SwitchTab = 3"
| "weight NavUp = 3"
| "weight NavDown = 3"
| "weight EnterCmdMode = 3"
| "weight TriggerExecute = 3"
| "weight (ToTab t) = 2"
| "weight (Execute c i) = 2"
| "weight a = 1"

definition queue_weight :: "app \<Rightarrow> nat" where
  "queue_weight s = sum_list (map weight (ap_queue s))"

definition answer_weight :: "tui_action option \<Rightarrow> nat" where
  "answer_weight r = (case r of None \<Rightarrow> 0 | Some a \<Rightarrow> weight a)"

lemma queue_weight_send [simp]: "queue_weight (send r s) = queue_weight s + answer_weight r"
  by (simp add: queue_weight_def send_def answer_weight_def split: option.splits)

lemma send_simps [simp]:
  "ap_list (send r s) = ap_list s" "ap_details (send r s) = ap_details s" "ap_hlist (send r s) = ap_hlist s"
  "ap_hdetails (send r s) = ap_hdetails s" "ap_tab (send r s) = ap_tab s" "ap_mode (send r s) = ap_mode s"
  "ap_bindings (send r s) = ap_bindings s" "ap_suspend (send r s) = ap_suspend s" "ap_quit (send r s) = ap_quit s"
  "ap_history (send r s) = ap_history s" "ap_keys (send r s) = ap_keys s" "ap_help (send r s) = ap_help s"
  "ap_threads (send r s) = ap_threads s"
  "ap_queue (send r s) = ap_queue s @ (case r of None \<Rightarrow> [] | Some a \<Rightarrow> [a])"
  by (simp_all add: send_def split: option.splits)

lemma queue_weight_update [simp]:
  "queue_weight (s\<lparr>ap_tab := t\<rparr>) = queue_weight s" "queue_weight (s\<lparr>ap_list := l\<rparr>) = queue_weight s"
  "queue_weight (s\<lparr>ap_details := d\<rparr>) = queue_weight s" "queue_weight (s\<lparr>ap_hlist := h\<rparr>) = queue_weight s"
  "queue_weight (s\<lparr>ap_hdetails := e\<rparr>) = queue_weight s" "queue_weight (s\<lparr>ap_keys := k\<rparr>) = queue_weight s"
  "queue_weight (s\<lparr>ap_quit := b\<rparr>) = queue_weight s" "queue_weight (s\<lparr>ap_suspend := b\<rparr>) = queue_weight s"
  "queue_weight (s\<lparr>ap_mode := m\<rparr>) = queue_weight s" "queue_weight (s\<lparr>ap_history := r\<rparr>) = queue_weight s"
  "queue_weight (s\<lparr>ap_threads := q\<rparr>) = queue_weight s"
  by (simp_all add: queue_weight_def)

lemma run_eq_Ok: "run r f = Some (Ok y) \<longleftrightarrow> (\<exists>x. r = Some (Ok x) \<and> f x = Some (Ok y))"
  by (auto simp: run_def split: option.splits outcome.splits)

lemma run_eq_None: "run r f = None \<longleftrightarrow> r = None \<or> (\<exists>x. r = Some (Ok x) \<and> f x = None)"
  by (auto simp: run_def split: option.splits outcome.splits)

lemma app_action_weight:
  assumes "app_action env up now a s = Ok s'"
  shows "queue_weight s' \<le> queue_weight s + (case a of Execute c i \<Rightarrow> 1 | _ \<Rightarrow> 0)" and "ap_list s' = ap_list s"
  using assms
  by (auto simp: app_action_def draw_app_def execute_cmd_def bind_outcome_eq_Ok Let_def answer_weight_def
      split: tui_action.splits option.splits if_splits)

lemma update_tab_weight:
  assumes "update_tab a s = Some (Ok s')"
  shows "queue_weight s' \<le> queue_weight s + (if a = SwitchTab then 2 else 0)" and "ap_list s' = ap_list s"
  using assms by (auto simp: update_tab_def tab_update_def Let_def answer_weight_def split: if_splits)

lemma cmd_list_answer:
  assumes "cmd_list_update env a l = Some (Ok (l', r))" and "commands_ok l"
  shows "answer_weight r \<le> (if a \<in> {NavUp, NavDown} then 1 else 0)" and "commands_ok l'"
proof -
  have nav: "answer_weight r \<le> 1 \<and> commands_ok l'"
    if m: "move = list_up (length (cl_items l)) \<or> move = list_down (length (cl_items l))"
      and c: "cl_nav move l = Some (Ok (l', r))" for move
  proof (cases "cl_display l")
    case True
    have "\<exists>i c. cl_nav move l = Some (Ok (l\<lparr>cl_selected := i\<rparr>, Some (Choose c))) \<and>
           i < length (cl_items l) \<and> snd (cl_items l ! i) = Some c"
      using m nav_ends [OF assms(2) True, unfolded cl_nav_up_def cl_nav_down_def] by blast
    then obtain i c where "l' = l\<lparr>cl_selected := i\<rparr>" "r = Some (Choose c)" "i < length (cl_items l)"
      using c by auto
    with assms(2) show ?thesis by (simp add: commands_ok_def answer_weight_def)
  next
    case False
    with c assms(2) show ?thesis by (auto simp: cl_nav_hidden answer_weight_def)
  qed
  show "answer_weight r \<le> (if a \<in> {NavUp, NavDown} then 1 else 0)" and "commands_ok l'"
    using assms nav
    by (cases a; auto simp: cmd_list_update_def cl_nav_up_def cl_nav_down_def answer_weight_def)+
qed


lemma cmd_list_update_returns: "commands_ok l \<Longrightarrow> cmd_list_update env a l \<noteq> None"
  using nav_ends [of l]
  by (cases "cl_display l") (auto simp: cmd_list_update_def cl_nav_up_def cl_nav_down_def cl_nav_hidden split: tui_action.splits)

lemma update_list_weight:
  assumes "update_list env a s = Some (Ok s')" and "commands_ok (ap_list s)"
  shows "queue_weight s' \<le> queue_weight s + (if a \<in> {NavUp, NavDown} then 1 else 0)" and "commands_ok (ap_list s')"
proof -
  obtain l r where l: "cmd_list_update env a (ap_list s) = Some (Ok (l, r))" "s' = send r (s\<lparr>ap_list := l\<rparr>)"
    using assms(1) by (auto simp: update_list_def run_eq_Ok)
  from cmd_list_answer [OF l(1) assms(2)] l(2)
  show "queue_weight s' \<le> queue_weight s + (if a \<in> {NavUp, NavDown} then 1 else 0)" and "commands_ok (ap_list s')"
    by simp_all
qed

lemma update_details_weight:
  assumes "update_details env a s = Some (Ok s')"
  shows "queue_weight s' \<le> queue_weight s + (if a \<in> {EnterCmdMode, TriggerExecute} then 2 else 0)"
    and "ap_list s' = ap_list s"
proof -
  obtain d r where d: "cmd_details_update env a (ap_details s) = Ok (d, r)" "s' = send r (s\<lparr>ap_details := d\<rparr>)"
    using assms by (auto simp: update_details_def run_eq_Ok)
  have "answer_weight r \<le> (if a \<in> {EnterCmdMode, TriggerExecute} then 2 else 0)"
    using d(1)
    by (cases a) (auto simp: cmd_details_update_def enter_cmd_mode_def trigger_execute_def Let_def answer_weight_def
        bind_outcome_eq_Ok split: cmd.splits list.splits sum.splits if_splits)
  with d(2) show "queue_weight s' \<le> queue_weight s + (if a \<in> {EnterCmdMode, TriggerExecute} then 2 else 0)"
    and "ap_list s' = ap_list s" by auto
qed

lemma update_hlist_weight:
  assumes "update_hlist env up a s = Some (Ok s')"
  shows "queue_weight s' \<le> queue_weight s + (case a of ToTab t \<Rightarrow> 1 | NavUp \<Rightarrow> 1 | NavDown \<Rightarrow> 1 | _ \<Rightarrow> 0)"
    and "ap_list s' = ap_list s"
proof -
  obtain l r where l: "history_list_update env up (ap_history s) a (ap_hlist s) = Ok (l, r)" "s' = send r (s\<lparr>ap_hlist := l\<rparr>)"
    using assms by (auto simp: update_hlist_def run_eq_Ok)
  have "answer_weight r \<le> (case a of ToTab t \<Rightarrow> 1 | NavUp \<Rightarrow> 1 | NavDown \<Rightarrow> 1 | _ \<Rightarrow> 0)"
    using l(1)
    by (cases a) (auto simp: history_list_update_def hl_nav_def switch_tab_def Let_def answer_weight_def
        split: option.splits if_splits list.splits)
  with l(2) show "queue_weight s' \<le> queue_weight s + (case a of ToTab t \<Rightarrow> 1 | NavUp \<Rightarrow> 1 | NavDown \<Rightarrow> 1 | _ \<Rightarrow> 0)"
    and "ap_list s' = ap_list s" by auto
qed

lemma process_weight:
  assumes "process env up now a s = Some (Ok s')" and "commands_ok (ap_list s)"
  shows "queue_weight s' < queue_weight s + weight a" and "commands_ok (ap_list s')"
proof -
  obtain s1 s2 s3 s4 s5 where
    s1: "app_action env up now a s = Ok s1" and s2: "update_tab a s1 = Some (Ok s2)"
    and s3: "update_list env a s2 = Some (Ok s3)" and s4: "update_details env a s3 = Some (Ok s4)"
    and s5: "update_hlist env up a s4 = Some (Ok s5)" and s': "update_hdetails env up a s5 = Some (Ok s')"
    using assms(1) by (auto simp: process_def run_eq_Ok)
  have ok: "commands_ok (ap_list s2)"
    using assms(2) app_action_weight(2) [OF s1] update_tab_weight(2) [OF s2] by simp
  have "queue_weight s' = queue_weight s5" using s' by (auto simp: update_hdetails_def)
  then show "queue_weight s' < queue_weight s + weight a"
    using app_action_weight(1) [OF s1] update_tab_weight(1) [OF s2] update_list_weight(1) [OF s3 ok]
      update_details_weight(1) [OF s4] update_hlist_weight(1) [OF s5]
    by (cases a) auto
  show "commands_ok (ap_list s')"
    using update_list_weight(2) [OF s3 ok] update_details_weight(2) [OF s4] update_hlist_weight(2) [OF s5] s'
    by (auto simp: update_hdetails_def)
qed

lemma update_tab_total: "update_tab a s \<noteq> None"
  by (simp add: update_tab_def split: prod.splits)

lemma process_returns:
  assumes "commands_ok (ap_list s)"
  shows "process env up now a s \<noteq> None"
proof
  assume "process env up now a s = None"
  then obtain s1 s2 where "app_action env up now a s = Ok s1" "update_tab a s1 = Some (Ok s2)" "update_list env a s2 = None"
    by (auto simp: process_def run_eq_None update_details_def update_hlist_def update_hdetails_def update_tab_total)
  moreover from this have "commands_ok (ap_list s2)"
    using assms app_action_weight(2) update_tab_weight(2) by metis
  ultimately show False
    using cmd_list_update_returns [of "ap_list s2"] by (auto simp: update_list_def run_eq_None split: prod.splits)
qed

lemma drain_returns:
  assumes "commands_ok (ap_list s)"
  shows "drain env up now s \<noteq> None \<and> (\<forall>s'. drain env up now s = Some (Ok s') \<longrightarrow> commands_ok (ap_list s'))"
  using assms
proof (induction "queue_weight s" arbitrary: s rule: less_induct)
  case less
  show ?case
  proof (cases "ap_queue s")
    case Nil
    then show ?thesis using less.prems by (simp add: drain.simps [of _ _ _ s])
  next
    case (Cons a q)
    have ok: "commands_ok (ap_list (s\<lparr>ap_queue := q\<rparr>))" using less.prems by simp
    have w: "queue_weight (s\<lparr>ap_queue := q\<rparr>) + weight a = queue_weight s" by (simp add: queue_weight_def Cons)
    obtain r where r: "process env up now a (s\<lparr>ap_queue := q\<rparr>) = Some r"
      using process_returns [OF ok] by blast
    show ?thesis
    proof (cases r)
      case (Ok s')
      from process_weight [OF r [unfolded Ok] ok] less.hyps [of s'] w Cons r Ok show ?thesis
        by (simp add: drain.simps [of _ _ _ s])
    qed (simp_all add: drain.simps [of _ _ _ s] Cons r)
  qed
qed

lemma on_key_list [simp]: "ap_list (on_key env k s) = ap_list s"
  by (simp add: on_key_def Let_def split: option.split)

lemma on_event_list [simp]: "ap_list (on_event env e s) = ap_list s"
  by (cases e) (simp_all add: on_event_def)

lemma turn_commands:
  assumes "turn env up now e s = Some (Ok (b, s'))" and "commands_ok (ap_list s)"
  shows "commands_ok (ap_list s')"
proof -
  obtain s1 where s1: "drain env up now (case e of Some ev \<Rightarrow> on_event env ev s | None \<Rightarrow> s) = Some (Ok s1)"
      "Some (Ok (if ap_suspend s1 then (True, send (Some Resume) s1) else (\<not> ap_quit s1, s1))) = Some (Ok (b, s'))"
    using assms(1) unfolding turn_def run_eq_Ok by blast
  have "commands_ok (ap_list (case e of Some ev \<Rightarrow> on_event env ev s | None \<Rightarrow> s))"
    using assms(2) by (simp split: option.splits)
  with drain_returns s1(1) have "commands_ok (ap_list s1)" by blast
  with s1(2) show ?thesis by (auto split: if_splits)
qed

lemma reachable_commands:
  assumes "tui_reachable env kb rows s"
  shows "commands_ok (ap_list s)"
  using assms unfolding tui_reachable_def
proof (induction rule: rtranclp_induct)
  case base
  have "Some AppInfo \<in> snd ` set (command_items (te_word env))" by (simp add: command_items_def)
  then show ?case
    by (auto simp: app_new_def cmd_list_default_def commands_ok_def) (simp add: command_items_def)
next
  case (step s s')
  from step.hyps(2) show ?case
  proof cases
    case event
    then show ?thesis using turn_commands step.IH by blast
  next
    case answer
    then show ?thesis using step.IH by (simp add: finish_query_def Let_def)
  qed
qed

text \<open>C25: every event is handled to its end: whatever the keys are bound to, in every state that the interface
  reaches, the actions that an event leads to come to an end, so the next event is read (or the interface
  stops or panics, but it does not hang).\<close>

theorem turn_returns:
  assumes "tui_reachable env kb rows s"
  shows "turn env up now e s \<noteq> None"
proof -
  have "commands_ok (ap_list (case e of Some ev \<Rightarrow> on_event env ev s | None \<Rightarrow> s))"
    using reachable_commands [OF assms] by (simp split: option.splits)
  from drain_returns [OF this] show ?thesis by (auto simp: turn_def run_eq_None)
qed

section \<open>No key panics under the default bindings\<close>

text \<open>The normal form of a key keeps_phase what is not a character and makes a character of a character (the case of a
  letter and the shift modifier are brought in line).\<close>

definition key_norm_ok :: "(key_event \<Rightarrow> key_event) \<Rightarrow> bool" where
  "key_norm_ok norm \<longleftrightarrow>
     (\<forall>k. if \<exists>c. ke_code k = KChar c then \<exists>c. ke_code (norm k) = KChar c else ke_code (norm k) = ke_code k)"

definition default_bindings :: key_bindings where
  "default_bindings =
    [(Navigate, [([key_event_new KEsc 0], Quit), ([key_event_new KTab 0], SwitchTab), ([key_event_new KUp 0], NavUp),
       ([key_event_new KDown 0], NavDown), ([key_event_new KLeft 0], NavLeft), ([key_event_new KRight 0], NavRight),
       ([key_event_new KEnter 0], EnterCmdMode)]),
     (Command, [([key_event_new KEsc 0], ExitCmdMode), ([key_event_new KTab 0], SwitchInputs),
       ([key_event_new KEnter 0], TriggerExecute)])]"

lemma norm_code:
  assumes "key_norm_ok norm" and "\<And>c. n \<noteq> KChar c"
  shows "ke_code (norm k) = n \<longleftrightarrow> ke_code k = n"
proof (cases "\<exists>c. ke_code k = KChar c")
  case True
  then obtain c where "ke_code (norm k) = KChar c" using assms(1) by (metis key_norm_ok_def)
  with True assms(2) show ?thesis by auto
next
  case False
  then have "ke_code (norm k) = ke_code k" using assms(1) by (metis key_norm_ok_def)
  then show ?thesis by simp
qed

lemma ke_code_new [simp]: "ke_code (key_event_new c m) = c"
  by (simp add: key_event_new_def)

lemma norm_new_code:
  assumes "key_norm_ok norm" and "\<And>c. n \<noteq> KChar c"
  shows "ke_code (norm (key_event_new n 0)) = n"
  using norm_code [OF assms] by simp

lemma norm_new_distinct:
  assumes "key_norm_ok norm" and "\<And>c. n \<noteq> KChar c" and "\<And>c. n' \<noteq> KChar c" and "n \<noteq> n'"
  shows "norm (key_event_new n 0) \<noteq> norm (key_event_new n' 0)"
  using norm_new_code [OF assms(1,2)] norm_new_code [OF assms(1,3)] assms(4) by metis

lemma default_keys:
  "parse_key_sequence ''<esc>'' = Inr [key_event_new KEsc 0]" "parse_key_sequence ''<tab>'' = Inr [key_event_new KTab 0]"
  "parse_key_sequence ''<up>'' = Inr [key_event_new KUp 0]" "parse_key_sequence ''<down>'' = Inr [key_event_new KDown 0]"
  "parse_key_sequence ''<left>'' = Inr [key_event_new KLeft 0]" "parse_key_sequence ''<right>'' = Inr [key_event_new KRight 0]"
  "parse_key_sequence ''<enter>'' = Inr [key_event_new KEnter 0]"
  by code_simp+

lemma default_actions:
  "read_actions (snd (hd default_table)) = Ok [(''<esc>'', Quit), (''<tab>'', SwitchTab), (''<up>'', NavUp), (''<down>'', NavDown),
        (''<left>'', NavLeft), (''<right>'', NavRight), (''<enter>'', EnterCmdMode)]"
  "read_actions (snd (last default_table)) = Ok [(''<esc>'', ExitCmdMode), (''<tab>'', SwitchInputs), (''<enter>'', TriggerExecute)]"
  by code_simp+

lemma default_bindings_new:
  assumes "key_norm_ok norm"
  shows "key_bindings_new norm None = Ok default_bindings"
proof -
  note distinct = norm_new_distinct [OF assms]
  have table: "default_table = [(Navigate, snd (hd default_table)), (Command, snd (last default_table))]"
    by (simp add: default_table_def)
  have "read_bindings norm default_table = Ok default_bindings"
    by (subst table) (simp add: read_bindings_def default_actions default_keys distinct default_bindings_def)
  then show ?thesis by (simp add: key_bindings_new_def unwrap_outcome_def)
qed

definition default_keymap :: "tui_mode \<Rightarrow> keymap" where
  "default_keymap m = (case map_of default_bindings m of Some km \<Rightarrow> km | None \<Rightarrow> [])"

lemma map_of_default [simp]: "map_of default_bindings m = Some (default_keymap m)"
  by (cases m) (simp_all add: default_bindings_def default_keymap_def)

lemma keymap_get_SomeD: "keymap_get norm m ks = Some a \<Longrightarrow> \<exists>k. (k, a) \<in> set m \<and> map norm k = map norm ks"
  by (induction m) (auto simp: keymap_get_def split: if_splits)

lemma default_navigate_action:
  "keymap_get norm (default_keymap Navigate) [k] = Some a \<Longrightarrow>
     a \<in> {Quit, SwitchTab, NavUp, NavDown, NavLeft, NavRight, EnterCmdMode}"
  by (drule keymap_get_SomeD) (auto simp: default_keymap_def default_bindings_def)

lemma default_command_action:
  assumes "key_norm_ok norm" and "keymap_get norm (default_keymap Command) [k] = Some a"
  shows "(a, ke_code k) \<in> {(ExitCmdMode, KEsc), (SwitchInputs, KTab), (TriggerExecute, KEnter)}"
proof -
  obtain n where "(n, a) \<in> {(KEsc, ExitCmdMode), (KTab, SwitchInputs), (KEnter, TriggerExecute)}"
      and n: "norm (key_event_new n 0) = norm k"
    using keymap_get_SomeD [OF assms(2)] by (auto simp: default_keymap_def default_bindings_def)
  moreover from this have "\<And>c. n \<noteq> KChar c" by auto
  moreover from this have "ke_code k = n"
    using norm_code [OF assms(1), of n k] norm_new_code [OF assms(1), of n] n by metis
  ultimately show ?thesis by auto
qed

lemma default_keymap_long: "length ks \<noteq> 1 \<Longrightarrow> keymap_get norm (default_keymap m) ks = None"
  by (cases m; cases ks) (auto simp: default_keymap_def default_bindings_def keymap_get_def)

definition history_ok :: "history_list \<Rightarrow> bool" where
  "history_ok l \<longleftrightarrow> (\<forall>i. hl_selected l = Some i \<longrightarrow> i < length (hl_items l))"

text \<open>The input that has the focus exists, for a command that has inputs.\<close>

definition focus_ok :: "cmd_details \<Rightarrow> bool" where
  "focus_ok d \<longleftrightarrow>
     (\<exists>f. cd_focus d = Some f \<and> f < length (cd_inputs d)) \<and>
     ((cd_command d = PeerCont \<and> length (cd_inputs d) = 1) \<or> (cd_command d = ChanOpen \<and> length (cd_inputs d) = 2))"

definition inert :: "key_event \<Rightarrow> bool" where
  "inert k \<longleftrightarrow> ke_code k \<in> {KEsc, KTab, KEnter}"

text \<open>Actions that change neither the mode nor the focus, when nothing has the focus.\<close>

fun quiet :: "tui_action \<Rightarrow> bool" where
  "quiet SwitchTab = True"
| "quiet (ToTab t) = True"
| "quiet NavUp = True"
| "quiet NavDown = True"
| "quiet NavLeft = True"
| "quiet NavRight = True"
| "quiet (Choose c) = True"
| "quiet (History ts) = True"
| "quiet Quit = True"
| "quiet (Input k) = True"
| "quiet _ = False"

text \<open>Actions that the tabs, the list of commands or the history answer.\<close>

fun touches :: "tui_action \<Rightarrow> bool" where
  "touches SwitchTab = True"
| "touches (ToTab t) = True"
| "touches NavUp = True"
| "touches NavDown = True"
| "touches (History ts) = True"
| "touches _ = False"

datatype phase = Idle | Entering | Executing | Leaving | Typing | Triggering | Triggered

text \<open>What the queue may hold in every phase, with the mode and the details.\<close>

fun in_phase :: "phase \<Rightarrow> tui_mode \<Rightarrow> cmd_details \<Rightarrow> tui_action list \<Rightarrow> bool" where
  "in_phase Idle m d q = (m = Navigate \<and> cd_focus d = None \<and> (\<forall>a \<in> set q. quiet a))"
| "in_phase Entering m d q = (m = Navigate \<and> cd_focus d = None \<and> q = [EnterCmdMode])"
| "in_phase Executing m d q =
     (m = Command \<and> (\<exists>c i. q = [Execute c i] \<and> c \<in> {NodeInfo, ChanList, PeerCont, ChanOpen}))"
| "in_phase Leaving m d q = (m = Command \<and> (\<exists>r. q = ExitCmdMode # r \<and> (r = [] \<or> (\<exists>k. r = [Input k]))))"
| "in_phase Typing m d q =
     (m = Command \<and> focus_ok d \<and> (q = [] \<or> (\<exists>k. q = [Input k]) \<or> (\<exists>k. q = [SwitchInputs, Input k])))"
| "in_phase Triggering m d q = (m = Command \<and> focus_ok d \<and> (\<exists>k. q = [TriggerExecute, Input k] \<and> inert k))"
| "in_phase Triggered m d q =
     (m = Command \<and> (\<exists>k c i. q = [Input k, Execute c i] \<and> inert k \<and> c \<in> {PeerCont, ChanOpen}))"

definition tui_ok :: "app \<Rightarrow> bool" where
  "tui_ok s \<longleftrightarrow>
     ap_bindings s = default_bindings \<and> \<not> ap_suspend s \<and> commands_ok (ap_list s) \<and> history_ok (ap_hlist s) \<and>
     (\<exists>p. in_phase p (ap_mode s) (ap_details s) (ap_queue s))"

lemma history_update_ok:
  assumes "history_ok l"
  shows "\<exists>l' r. history_list_update env up rows a l = Ok (l', r) \<and> history_ok l' \<and>
     (r = None \<or> (\<exists>ts. r = Some (History ts))) \<and> (\<not> touches a \<longrightarrow> r = None \<and> l' = l)"
proof -
  have nav: "\<exists>l' r. hl_nav move l = Ok (l', r) \<and> history_ok l' \<and> (r = None \<or> (\<exists>ts. r = Some (History ts)))"
    if "\<And>i. i < length (hl_items l) \<Longrightarrow> move i < length (hl_items l)" for move
    using that assms by (cases "hl_selected l") (auto simp: hl_nav_def history_ok_def)
  have tab: "\<exists>l' r. switch_tab env up rows t l = (l', r) \<and> history_ok l' \<and> (r = None \<or> (\<exists>ts. r = Some (History ts)))" for t
    using assms
    by (auto simp: switch_tab_def Let_def history_ok_def eval_nat_numeral split: list.splits option.splits)
  show ?thesis
    using assms nav [OF list_moves_bound(1)] nav [OF list_moves_bound(2)] tab
    by (cases a) (fastforce simp: history_list_update_def)+
qed

lemma list_update_ok:
  assumes "commands_ok l"
  shows "\<exists>l' r. cmd_list_update env a l = Some (Ok (l', r)) \<and> commands_ok l' \<and>
     (r = None \<or> (\<exists>c. r = Some (Choose c))) \<and> (\<not> touches a \<longrightarrow> r = None \<and> l' = l)"
proof -
  have nav: "\<exists>l' r. x = Some (Ok (l', r)) \<and> commands_ok l' \<and> (r = None \<or> (\<exists>c. r = Some (Choose c)))"
    if "x = cl_nav_up l \<or> x = cl_nav_down l" for x
  proof (cases "cl_display l")
    case True
    from nav_ends [OF assms True] that
    obtain i c where "x = Some (Ok (l\<lparr>cl_selected := i\<rparr>, Some (Choose c)))" "i < length (cl_items l)"
      by blast
    with assms show ?thesis by (auto simp: commands_ok_def)
  next
    case False
    then show ?thesis using that assms by (auto simp: cl_nav_up_def cl_nav_down_def cl_nav_hidden)
  qed
  show ?thesis
    using assms nav [of "cl_nav_up l"] nav [of "cl_nav_down l"]
    by (cases a) (auto simp: cmd_list_update_def)
qed

lemma hdetails_keep: "\<not> touches a \<Longrightarrow> history_details_update env up rows a d = d"
  by (cases a) (simp_all add: history_details_update_def)

text \<open>Any other action reaches the loop and the details only.\<close>

lemma process_loud:
  assumes "\<not> touches a" and "app_action env up now a s = Ok s1" and "commands_ok (ap_list s1)" and "history_ok (ap_hlist s1)"
    and "cmd_details_update env a (ap_details s1) = Ok (d, r)"
  shows "process env up now a s = Some (Ok (send r (s1\<lparr>ap_details := d\<rparr>)))"
proof -
  have "update_tab a s1 = Some (Ok s1)"
    using assms(1) by (auto simp: update_tab_def tab_update_def send_def)
  moreover have "update_list env a s1 = Some (Ok s1)"
    using list_update_ok [OF assms(3), of env a] assms(1) by (auto simp: update_list_def run_def send_def)
  moreover have "update_details env a s1 = Some (Ok (send r (s1\<lparr>ap_details := d\<rparr>)))"
    using assms(5) by (simp add: update_details_def run_def)
  moreover have "update_hlist env up a s' = Some (Ok s')" if "ap_hlist s' = ap_hlist s1" for s'
  proof -
    have "history_ok (ap_hlist s')" using that assms(4) by simp
    from history_update_ok [OF this, of env up "ap_history s'" a] assms(1)
    show ?thesis by (auto simp: update_hlist_def run_def send_def)
  qed
  moreover have "update_hdetails env up a s' = Some (Ok s')" for s'
    using assms(1) by (simp add: update_hdetails_def hdetails_keep)
  ultimately show ?thesis using assms(2) by (simp add: process_def run_def)
qed

definition keeps_phase :: "app \<Rightarrow> app \<Rightarrow> bool" where
  "keeps_phase s s' \<longleftrightarrow> ap_mode s' = ap_mode s \<and> ap_bindings s' = ap_bindings s \<and> ap_suspend s' = ap_suspend s \<and>
     (\<exists>q. ap_queue s' = ap_queue s @ q \<and> (\<forall>b \<in> set q. quiet b))"

lemma keeps_phase_trans [trans]: "keeps_phase s s' \<Longrightarrow> keeps_phase s' s'' \<Longrightarrow> keeps_phase s s''"
  by (auto simp: keeps_phase_def)

text \<open>A quiet action leaves the phase without focus as it is; what it leads to is quiet.\<close>

lemma process_quiet:
  assumes "quiet a" and "commands_ok (ap_list s)" and "history_ok (ap_hlist s)" and "cd_focus (ap_details s) = None"
  shows "\<exists>s'. process env up now a s = Some (Ok s') \<and> commands_ok (ap_list s') \<and> history_ok (ap_hlist s') \<and>
     cd_focus (ap_details s') = None \<and> keeps_phase s s'"
proof -
  obtain s1 where s1: "app_action env up now a s = Ok s1" "keeps_phase s s1" "ap_list s1 = ap_list s"
      "ap_hlist s1 = ap_hlist s" "ap_details s1 = ap_details s"
    using assms(1) by (cases a) (simp_all add: app_action_def keeps_phase_def)
  obtain t rt where t: "tab_update a (ap_tab s1) = (t, rt)" "rt = None \<or> (\<exists>x. rt = Some (ToTab x))"
    by (cases "a = SwitchTab") (simp_all add: tab_update_def Let_def)
  define s2 where "s2 = send rt (s1\<lparr>ap_tab := t\<rparr>)"
  have s2: "update_tab a s1 = Some (Ok s2)" "keeps_phase s1 s2" "ap_list s2 = ap_list s"
      "ap_hlist s2 = ap_hlist s" "ap_details s2 = ap_details s"
    using t s1 by (auto simp: update_tab_def s2_def keeps_phase_def)
  obtain l r where l: "cmd_list_update env a (ap_list s) = Some (Ok (l, r))" "commands_ok l"
      "r = None \<or> (\<exists>c. r = Some (Choose c))"
    using list_update_ok [OF assms(2), of env a] by blast
  define s3 where "s3 = send r (s2\<lparr>ap_list := l\<rparr>)"
  have s3: "update_list env a s2 = Some (Ok s3)" "keeps_phase s2 s3" "commands_ok (ap_list s3)"
      "ap_hlist s3 = ap_hlist s" "ap_details s3 = ap_details s"
    using l s2 by (auto simp: update_list_def run_def s3_def keeps_phase_def)
  obtain d where d: "cmd_details_update env a (ap_details s) = Ok (d, None)" "cd_focus d = None"
    using assms(1,4) by (cases a) (simp_all add: cmd_details_update_def type_key_def)
  define s4 where "s4 = s3\<lparr>ap_details := d\<rparr>"
  have s4: "update_details env a s3 = Some (Ok s4)" "keeps_phase s3 s4" "ap_list s4 = ap_list s3"
      "ap_hlist s4 = ap_hlist s" "ap_details s4 = d"
    using d s3 by (simp_all add: update_details_def run_def s4_def send_def keeps_phase_def)
  obtain h r' where h: "history_list_update env up (ap_history s4) a (ap_hlist s) = Ok (h, r')" "history_ok h"
      "r' = None \<or> (\<exists>ts. r' = Some (History ts))"
    using history_update_ok [OF assms(3), of env up "ap_history s4" a] by blast
  define s5 where "s5 = send r' (s4\<lparr>ap_hlist := h\<rparr>)"
  have s5: "update_hlist env up a s4 = Some (Ok s5)" "keeps_phase s4 s5" "ap_list s5 = ap_list s3"
      "ap_hlist s5 = h" "ap_details s5 = d"
    using h s4 by (auto simp: update_hlist_def run_def s5_def keeps_phase_def)
  define s6 where "s6 = s5\<lparr>ap_hdetails := history_details_update env up (ap_history s5) a (ap_hdetails s5)\<rparr>"
  have s6: "update_hdetails env up a s5 = Some (Ok s6)" "keeps_phase s5 s6" "ap_list s6 = ap_list s3"
      "ap_hlist s6 = h" "ap_details s6 = d"
    using s5 by (simp_all add: update_hdetails_def s6_def keeps_phase_def)
  have "process env up now a s = Some (Ok s6)"
    by (simp add: process_def run_def s1(1) s2(1) s3(1) s4(1) s5(1) s6(1))
  moreover have "keeps_phase s s6"
    using keeps_phase_trans [OF keeps_phase_trans [OF keeps_phase_trans [OF keeps_phase_trans [OF keeps_phase_trans [OF s1(2) s2(2)] s3(2)] s4(2)] s5(2)] s6(2)] .
  ultimately show ?thesis using s6(3-5) s3(3) h(2) d(2) by auto
qed

text \<open>Every action in the queue succeeds and leads from phase to phase.\<close>

lemma inert_input: "inert k \<Longrightarrow> cmd_details_update env (Input k) d = Ok (d, None)"
  by (auto simp: inert_def cmd_details_update_def type_key_def split: option.splits)

lemma focus_input:
  assumes "focus_ok d"
  shows "\<exists>d'. cmd_details_update env (Input k) d = Ok (d', None) \<and> focus_ok d'"
  using assms by (cases "ke_code k") (auto simp: focus_ok_def cmd_details_update_def type_key_def edit_input_def)

lemma focus_switch:
  assumes "focus_ok d"
  shows "focus_ok (switch_inputs d)"
  using assms by (auto simp: focus_ok_def switch_inputs_def)

lemma focus_trigger:
  assumes "focus_ok d" and "\<And>i s. \<exists>p. te_json_fund env i s = Inr p"
  shows "\<exists>d' c i. trigger_execute env d = Ok (d', Some (Execute c i)) \<and> c \<in> {PeerCont, ChanOpen}"
proof -
  from assms(1) consider i where "cd_command d = PeerCont" "cd_inputs d = [i]"
    | i s where "cd_command d = ChanOpen" "cd_inputs d = [i, s]"
    by (auto simp: focus_ok_def length_Suc_conv eval_nat_numeral)
  then show ?thesis
  proof cases
    case (2 i s)
    moreover obtain p where "te_json_fund env i s = Inr p" using assms(2) by blast
    ultimately show ?thesis by (simp add: trigger_execute_def Let_def)
  qed (simp add: trigger_execute_def Let_def)
qed

lemma enter_phase:
  assumes "cd_focus d = None"
  obtains (execute) d' c i where "enter_cmd_mode d = (d', Some (Execute c i))" "c \<in> {NodeInfo, ChanList}"
  | (leave) d' where "enter_cmd_mode d = (d', Some ExitCmdMode)"
  | (type) d' where "enter_cmd_mode d = (d', None)" "focus_ok d'"
  by (cases "cd_command d") (simp_all add: enter_cmd_mode_def Let_def focus_ok_def)

lemma execute_cmd_simps:
  assumes "c \<in> {NodeInfo, ChanList, PeerCont, ChanOpen}"
  shows "ap_queue (execute_cmd up now c i s) = ap_queue s @ [ExitCmdMode]" "ap_mode (execute_cmd up now c i s) = ap_mode s"
    "ap_bindings (execute_cmd up now c i s) = ap_bindings s" "ap_suspend (execute_cmd up now c i s) = ap_suspend s"
    "ap_list (execute_cmd up now c i s) = ap_list s" "ap_hlist (execute_cmd up now c i s) = ap_hlist s"
    "ap_details (execute_cmd up now c i s) = ap_details s"
  using assms by (auto simp: execute_cmd_def Let_def)

lemma process_loud_ok:
  assumes "\<not> touches a" and "app_action env up now a s = Ok s1" and "tui_ok s0"
    and "ap_bindings s1 = ap_bindings s0" "ap_suspend s1 = ap_suspend s0" "ap_list s1 = ap_list s0" "ap_hlist s1 = ap_hlist s0"
    and "cmd_details_update env a (ap_details s1) = Ok (d, r)"
    and "in_phase p (ap_mode s1) d (ap_queue s1 @ (case r of None \<Rightarrow> [] | Some b \<Rightarrow> [b]))"
  shows "\<exists>s'. process env up now a s = Some (Ok s') \<and> tui_ok s'"
proof -
  have "commands_ok (ap_list s1)" "history_ok (ap_hlist s1)"
    using assms(3,6,7) by (simp_all add: tui_ok_def)
  from process_loud [OF assms(1,2) this assms(8)]
  show ?thesis using assms(3-7,9) by (auto simp: tui_ok_def)
qed

lemma phase_step:
  assumes ok: "tui_ok s" and queue: "ap_queue s = a # q" and json: "\<And>i s. \<exists>p. te_json_fund env i s = Inr p"
  shows "\<exists>s'. process env up now a (s\<lparr>ap_queue := q\<rparr>) = Some (Ok s') \<and> tui_ok s'"
proof -
  obtain p where p: "in_phase p (ap_mode s) (ap_details s) (a # q)"
    using ok queue by (auto simp: tui_ok_def)
  let ?s = "s\<lparr>ap_queue := q\<rparr>"
  show ?thesis
  proof (cases p)
    case Idle
    then have "quiet a" "\<forall>b \<in> set q. quiet b" "ap_mode s = Navigate" "cd_focus (ap_details s) = None"
      using p by simp_all
    with process_quiet [of a ?s env up now] ok show ?thesis
      by (fastforce simp: tui_ok_def keeps_phase_def intro!: exI [of _ Idle])
  next
    case Entering
    then have e: "a = EnterCmdMode" "q = []" "cd_focus (ap_details s) = None" using p by simp_all
    have act: "app_action env up now a ?s = Ok (?s\<lparr>ap_mode := Command\<rparr>)" by (simp add: e app_action_def)
    have upd: "cmd_details_update env a (ap_details s) = Ok (enter_cmd_mode (ap_details s))"
      by (simp add: e cmd_details_update_def)
    from e(3) show ?thesis
    proof (cases rule: enter_phase)
      case (execute d' c i)
      show ?thesis
        by (rule process_loud_ok [OF _ act ok, where p = Executing and d = d']) (use execute upd e in auto)
    next
      case (leave d')
      show ?thesis
        by (rule process_loud_ok [OF _ act ok, where p = Leaving and d = d']) (use leave upd e in auto)
    next
      case (type d')
      show ?thesis
        by (rule process_loud_ok [OF _ act ok, where p = Typing and d = d']) (use type upd e in auto)
    qed
  next
    case Executing
    then obtain c i where e: "a = Execute c i" "q = []" "c \<in> {NodeInfo, ChanList, PeerCont, ChanOpen}" "ap_mode s = Command"
      using p by auto
    have "app_action env up now a ?s = Ok (execute_cmd up now c i ?s)" by (simp add: e app_action_def)
    then show ?thesis
      by (rule process_loud_ok [OF _ _ ok, where p = Leaving and d = "ap_details s" and r = None, rotated])
        (use e in \<open>simp_all add: execute_cmd_simps cmd_details_update_def\<close>)
  next
    case Leaving
    then have e: "a = ExitCmdMode" "q = [] \<or> (\<exists>k. q = [Input k])" using p by auto
    have "app_action env up now a ?s = Ok (?s\<lparr>ap_mode := Navigate\<rparr>)" by (simp add: e app_action_def)
    then show ?thesis
      by (rule process_loud_ok [OF _ _ ok, where p = Idle and d = "ap_details s\<lparr>cd_focus := None\<rparr>" and r = None, rotated])
        (use e in \<open>auto simp: cmd_details_update_def\<close>)
  next
    case Typing
    then have d: "focus_ok (ap_details s)" and m: "ap_mode s = Command" using p by auto
    from Typing p consider k where "a = Input k" "q = []" | k where "a = SwitchInputs" "q = [Input k]" by auto
    then show ?thesis
    proof cases
      case (1 k)
      obtain d' where "cmd_details_update env (Input k) (ap_details s) = Ok (d', None)" "focus_ok d'"
        using focus_input [OF d] by blast
      then show ?thesis
        using process_loud_ok [OF _ _ ok, where p = Typing and d = d' and r = None and s = ?s and ?s1.0 = ?s and a = a] 1 m
        by (simp add: app_action_def)
    next
      case (2 k)
      then show ?thesis
        using process_loud_ok [OF _ _ ok, where p = Typing and d = "switch_inputs (ap_details s)" and r = None and s = ?s
            and ?s1.0 = ?s and a = a] m focus_switch [OF d]
        by (simp add: app_action_def cmd_details_update_def)
    qed
  next
    case Triggering
    then obtain k where e: "a = TriggerExecute" "q = [Input k]" "inert k" "focus_ok (ap_details s)" "ap_mode s = Command"
      using p by auto
    from focus_trigger [OF e(4) json] obtain d' c i
      where "trigger_execute env (ap_details s) = Ok (d', Some (Execute c i))" "c \<in> {PeerCont, ChanOpen}" by blast
    then show ?thesis
      using process_loud_ok [OF _ _ ok, where p = Triggered and d = d' and r = "Some (Execute c i)" and s = ?s and ?s1.0 = ?s
          and a = a and env = env and up = up and now = now] e
      by (simp add: app_action_def cmd_details_update_def)
  next
    case Triggered
    then obtain k c i where e: "a = Input k" "q = [Execute c i]" "inert k" "c \<in> {PeerCont, ChanOpen}" "ap_mode s = Command"
      using p by auto
    then show ?thesis
      using process_loud_ok [OF _ _ ok, where p = Executing and d = "ap_details s" and r = None and s = ?s and ?s1.0 = ?s
          and a = a and env = env and up = up and now = now] inert_input [OF e(3)]
      by (auto simp: app_action_def)
  qed
qed

lemma drain_ok:
  assumes "tui_ok s" and json: "\<And>i s. \<exists>p. te_json_fund env i s = Inr p"
  shows "\<exists>s'. drain env up now s = Some (Ok s') \<and> tui_ok s' \<and> ap_queue s' = []"
  using assms(1)
proof (induction "queue_weight s" arbitrary: s rule: less_induct)
  case less
  show ?case
  proof (cases "ap_queue s")
    case Nil
    then show ?thesis using less.prems by (simp add: drain.simps [of _ _ _ s])
  next
    case (Cons a q)
    from phase_step [OF less.prems Cons json] obtain s'
      where s': "process env up now a (s\<lparr>ap_queue := q\<rparr>) = Some (Ok s')" "tui_ok s'" by blast
    have "commands_ok (ap_list (s\<lparr>ap_queue := q\<rparr>))" using less.prems by (simp add: tui_ok_def)
    from process_weight(1) [OF s'(1) this] have "queue_weight s' < queue_weight s" by (simp add: queue_weight_def Cons)
    from less.hyps [OF this s'(2)] show ?thesis by (simp add: drain.simps [of _ _ _ s] Cons s'(1))
  qed
qed

lemma idle_phase:
  assumes "tui_ok s" and "ap_queue s = []"
  shows "(ap_mode s = Navigate \<and> cd_focus (ap_details s) = None) \<or> (ap_mode s = Command \<and> focus_ok (ap_details s))"
proof -
  obtain p where "in_phase p (ap_mode s) (ap_details s) []" using assms by (auto simp: tui_ok_def)
  then show ?thesis by (cases p) auto
qed

text \<open>The actions of a key, under the default bindings.\<close>

lemma on_key_default:
  assumes "ap_bindings s = default_bindings"
  shows "\<exists>ks. on_key env k s =
     (let r = keymap_get (te_norm env) (default_keymap (ap_mode s)) [k];
          s1 = send r (s\<lparr>ap_keys := ks\<rparr>)
      in if ap_mode s = Command then send (Some (Input k)) s1 else s1)"
proof (cases "keymap_get (te_norm env) (default_keymap (ap_mode s)) [k]")
  case None
  have "keymap_get (te_norm env) (default_keymap (ap_mode s)) (ap_keys s @ [k]) = None"
    using None by (cases "ap_keys s") (simp_all add: default_keymap_long)
  with None assms show ?thesis by (auto simp: on_key_def Let_def intro!: exI [of _ "ap_keys s @ [k]"])
next
  case (Some a)
  with assms show ?thesis by (auto simp: on_key_def Let_def intro!: exI [of _ "ap_keys s"])
qed

lemma on_key_ok:
  assumes ok: "tui_ok s" and empty: "ap_queue s = []" and norm: "key_norm_ok (te_norm env)"
  shows "tui_ok (on_key env k s)"
proof -
  have kb: "ap_bindings s = default_bindings" and base: "\<not> ap_suspend s" "commands_ok (ap_list s)" "history_ok (ap_hlist s)"
    using ok by (simp_all add: tui_ok_def)
  from on_key_default [OF kb] obtain ks where ks: "on_key env k s =
     (let r = keymap_get (te_norm env) (default_keymap (ap_mode s)) [k];
          s1 = send r (s\<lparr>ap_keys := ks\<rparr>)
      in if ap_mode s = Command then send (Some (Input k)) s1 else s1)" by blast
  let ?r = "keymap_get (te_norm env) (default_keymap (ap_mode s)) [k]"
  show ?thesis
  proof (cases "ap_mode s")
    case Navigate
    then have focus: "cd_focus (ap_details s) = None" using idle_phase [OF ok empty] by simp
    show ?thesis
    proof (cases ?r)
      case None
      then show ?thesis using ks kb base Navigate focus empty
        by (auto simp: Let_def tui_ok_def intro!: exI [of _ Idle])
    next
      case (Some a)
      then have "a = EnterCmdMode \<or> quiet a" using default_navigate_action [of "te_norm env" k a] Navigate by auto
      with Some show ?thesis using ks kb base Navigate focus empty
        by (auto simp: Let_def tui_ok_def intro: exI [of _ Idle] exI [of _ Entering])
    qed
  next
    case Command
    then have focus: "focus_ok (ap_details s)" using idle_phase [OF ok empty] by simp
    show ?thesis
    proof (cases ?r)
      case None
      then show ?thesis using ks kb base Command focus empty
        by (auto simp: Let_def tui_ok_def intro!: exI [of _ Typing])
    next
      case (Some a)
      then have "(a, ke_code k) \<in> {(ExitCmdMode, KEsc), (SwitchInputs, KTab), (TriggerExecute, KEnter)}"
        using default_command_action [OF norm, of k a] Command by simp
      then have "\<exists>p. in_phase p Command (ap_details s) [a, Input k]"
        using focus
        by (auto simp: inert_def intro: exI [of _ Leaving] exI [of _ Typing] exI [of _ Triggering])
      with Some show ?thesis using ks kb base Command empty by (simp add: Let_def tui_ok_def)
    qed
  qed
qed

lemma channel_list_keep:
  assumes "channel_list env help up rows d0 = Ok (d, ws)"
  shows "\<exists>n. d = d0\<lparr>cd_length := n\<rparr>"
proof (cases "last_result env up rows ChanList")
  case (Pair t info)
  show ?thesis
  proof (cases t)
    case None
    with Pair assms show ?thesis by (intro exI [of _ "cd_length d0"]) (simp add: channel_list_def)
  next
    case (Some ts)
    with Pair assms obtain title parsed where "(case parsed of
              Inr tables \<Rightarrow>
                if cd_index d0 < length tables
                then Ok (d0\<lparr>cd_length := length tables\<rparr>,
                  [Rows title (tables ! cd_index d0)
                    (te_word env ''Page'' @ '' ('' @ nat_to_string (cd_index d0 + 1) @ ''/'' @
                     nat_to_string (length tables) @ '')'')])
                else Panic
            | Inl e \<Rightarrow>
                Ok (d0, [Para title (te_word env ''Decode response error:'' @ nl @ e @ nl @ info @ execute_hint env help True)]))
        = Ok (d, ws)"
      unfolding channel_list_def bind_outcome_eq_Ok by (simp only: prod.case option.case bind_outcome_eq_Ok) blast
    then show ?thesis
      by (cases parsed) (auto split: if_splits intro: exI [of _ "cd_length d0"])
  qed
qed

text \<open>The events of the terminal other than keys.\<close>

lemma other_event_ok:
  assumes ok: "tui_ok s" and empty: "ap_queue s = []" and a: "a \<in> {Quit, Tick, Render, Resize w h}"
    and p: "process env up now a s = Some (Ok s')"
  shows "tui_ok s' \<and> ap_queue s' = []"
proof -
  obtain s1 where s1: "app_action env up now a s = Ok s1"
    using p by (auto simp: process_def run_eq_Ok)
  have keep: "ap_bindings s1 = ap_bindings s" "ap_suspend s1 = ap_suspend s" "ap_list s1 = ap_list s"
      "ap_hlist s1 = ap_hlist s" "ap_mode s1 = ap_mode s" "ap_queue s1 = []"
    using s1 a empty by (auto simp: app_action_def draw_app_def bind_outcome_eq_Ok)
  have draw: "cd_focus d = cd_focus d0 \<and> cd_inputs d = cd_inputs d0 \<and> cd_command d = cd_command d0"
    if "draw_details env h up rows d0 = Ok (d, ws)" for d d0 ws h rows
    using that channel_list_keep [of env h up rows d0 d ws]
    by (auto simp: draw_details_def Let_def bind_outcome_eq_Ok split: if_splits cmd.splits)
  have details: "cd_focus (ap_details s1) = cd_focus (ap_details s) \<and> cd_inputs (ap_details s1) = cd_inputs (ap_details s) \<and>
      cd_command (ap_details s1) = cd_command (ap_details s)"
    using s1 a draw by (auto simp: app_action_def draw_app_def bind_outcome_eq_Ok)
  have "process env up now a s = Some (Ok (send None (s1\<lparr>ap_details := ap_details s1\<rparr>)))"
    by (rule process_loud [OF _ s1])
      (use a ok keep in \<open>auto simp: tui_ok_def cmd_details_update_def\<close>)
  then have s': "s' = s1" using p by (simp add: send_def)
  have "\<exists>p. in_phase p (ap_mode s1) (ap_details s1) []"
    using idle_phase [OF ok empty] keep(5) details
    by (auto simp: focus_ok_def intro: exI [of _ Idle] exI [of _ Typing])
  with ok keep s' show ?thesis by (simp add: tui_ok_def)
qed

lemma drain_single:
  assumes "ap_queue s = [a]" and "drain env up now s = Some (Ok s')"
    and "\<And>s1. process env up now a (s\<lparr>ap_queue := []\<rparr>) = Some (Ok s1) \<Longrightarrow> ap_queue s1 = []"
  shows "process env up now a (s\<lparr>ap_queue := []\<rparr>) = Some (Ok s')"
  using assms by (auto simp: drain.simps [of _ _ _ s] drain.simps split: option.splits outcome.splits)

lemma tui_ok_finish [simp]:
  "tui_ok (finish_query up i r s) = tui_ok s" "ap_queue (finish_query up i r s) = ap_queue s"
  by (simp_all add: finish_query_def Let_def tui_ok_def)

lemma turn_ok:
  assumes ok: "tui_ok s" and empty: "ap_queue s = []" and norm: "key_norm_ok (te_norm env)"
    and json: "\<And>i s. \<exists>p. te_json_fund env i s = Inr p"
    and t: "turn env up now e s = Some (Ok (b, s'))"
  shows "tui_ok s' \<and> ap_queue s' = []"
proof -
  let ?s = "case e of Some ev \<Rightarrow> on_event env ev s | None \<Rightarrow> s"
  obtain s1 where d: "drain env up now ?s = Some (Ok s1)"
      and s': "Some (Ok (if ap_suspend s1 then (True, send (Some Resume) s1) else (\<not> ap_quit s1, s1))) = Some (Ok (b, s'))"
    using t unfolding turn_def run_eq_Ok by blast
  have "tui_ok s1 \<and> ap_queue s1 = []"
  proof (cases "\<exists>a w h. a \<in> {Quit, Tick, Render, Resize w h} \<and> ?s = send (Some a) s")
    case True
    then obtain a w h where a: "a \<in> {Quit, Tick, Render, Resize w h}" "?s = send (Some a) s" by blast
    have q: "ap_queue ?s = [a]" and s: "?s\<lparr>ap_queue := []\<rparr> = s"
      using a(2) empty by (simp_all add: send_def)
    have "process env up now a s = Some (Ok s1)"
      using drain_single [OF q d] other_event_ok [OF ok empty a(1)] unfolding s by blast
    then show ?thesis using other_event_ok [OF ok empty a(1)] by blast
  next
    case False
    then have "tui_ok ?s"
    proof (cases e)
      case (Some ev)
      with False ok on_key_ok [OF ok empty norm] show ?thesis
        by (cases ev) (auto simp: on_event_def)
    qed (use ok in simp)
    with drain_ok [OF this json, of up now] d show ?thesis by auto
  qed
  moreover from this have "\<not> ap_suspend s1" by (simp add: tui_ok_def)
  ultimately show ?thesis using s' by simp
qed

lemma reachable_ok:
  assumes "tui_reachable env default_bindings rows s" and norm: "key_norm_ok (te_norm env)"
    and json: "\<And>i s. \<exists>p. te_json_fund env i s = Inr p"
  shows "tui_ok s \<and> ap_queue s = []"
  using assms(1) unfolding tui_reachable_def
proof (induction rule: rtranclp_induct)
  case base
  have "tui_reachable env default_bindings rows (app_new env default_bindings rows)" by (simp add: tui_reachable_def)
  from reachable_commands [OF this] show ?case
    by (auto simp: tui_ok_def app_new_def history_ok_def cmd_details_new_def intro!: exI [of _ Idle])
next
  case (step s s')
  from step.hyps(2) show ?case
  proof cases
    case (event up now e)
    then show ?thesis using turn_ok [OF _ _ norm json] step.IH by blast
  next
    case (answer i up r)
    then show ?thesis using step.IH by simp
  qed
qed

text \<open>C26: under the default bindings no key panics: in every state that the interface reaches, every key is
  handled and the interface goes on or has been told to quit.  The input that has the focus always exists
  while commands are typed, although \<open>inputs[on_focus]\<close> and \<open>inputs[0]\<close> are not guarded.\<close>

theorem keys_never_panic:
  assumes "key_bindings_new (te_norm env) None = Ok kb" and "tui_reachable env kb rows s"
    and "key_norm_ok (te_norm env)" and "\<forall>i s. \<exists>p. te_json_fund env i s = Inr p"
  shows "\<exists>goes_on s'. turn env up now (Some (EvKey k)) s = Some (Ok (goes_on, s'))"
proof -
  have kb: "kb = default_bindings" using assms(1) default_bindings_new [OF assms(3)] by simp
  have json: "\<And>i s. \<exists>p. te_json_fund env i s = Inr p" using assms(4) by blast
  from reachable_ok [OF assms(2) [unfolded kb] assms(3) json]
  have "tui_ok s" and "ap_queue s = []" by blast+
  from on_key_ok [OF this assms(3)] have "tui_ok (on_key env k s)" .
  from drain_ok [OF this json, of up now] obtain s'
    where "drain env up now (on_key env k s) = Some (Ok s')" by blast
  then show ?thesis by (simp add: turn_def on_event_def run_def)
qed

text \<open>An environment without translations, in which every text that is decoded is a list of no channels.\<close>

definition plain_env :: tui_env where
  "plain_env = \<lparr>te_word = (\<lambda>s. s), te_norm = (\<lambda>k. k), te_time = (\<lambda>_. Ok ''1970''), te_debug_key = (\<lambda>_. []),
     te_json_id = (\<lambda>i. i), te_json_fund = (\<lambda>i s. Inr (i @ s)), te_decode = (\<lambda>_. Inr []), te_greeting = [],
     te_order = rev\<rparr>"

theorem keys_never_panic_witness:
  "\<exists>goes_on s'. turn plain_env True 1700000000 (Some (EvKey (key_event_new KEnter 0)))
     (app_new plain_env default_bindings []) = Some (Ok (goes_on, s'))"
proof (rule keys_never_panic)
  have norm: "key_norm_ok (te_norm plain_env)" by (auto simp: key_norm_ok_def plain_env_def)
  show "key_bindings_new (te_norm plain_env) None = Ok default_bindings" by (rule default_bindings_new [OF norm])
  show "tui_reachable plain_env default_bindings [] (app_new plain_env default_bindings [])"
    by (simp add: tui_reachable_def)
  show "key_norm_ok (te_norm plain_env)" by (rule norm)
  show "\<forall>i s. \<exists>p. te_json_fund plain_env i s = Inr p" by (simp add: plain_env_def)
qed

theorem turn_returns_witness:
  "turn plain_env True 1700000000 (Some (EvKey (key_event_new KDown 0))) (app_new plain_env default_bindings []) \<noteq> None"
  by (rule turn_returns [where kb = default_bindings and rows = "[]"]) (simp add: tui_reachable_def)

section \<open>What still panics\<close>

text \<open>the page of the channels of a node without channels panics when it is drawn: the answer decodes to
  the empty list, and its first entry is taken.\<close>

theorem no_channels_panic:
  assumes "te_order env (filter (\<lambda>r. hr_command r = cmd_name ChanList) rows) = r # rs"
    and "hr_output r \<noteq> []" and "te_decode env (hr_input r @ nl @ hr_output r @ nl) = Inr []"
    and "te_time env (hr_timestamp r) = Ok t" and "cd_command d = ChanList" and "cd_display d"
  shows "draw_details env h True rows d = Panic"
proof -
  have "last_result env True rows ChanList = (Some (hr_timestamp r), hr_input r @ nl @ hr_output r @ nl)"
    using assms(1,2) by (simp add: last_result_def)
  then have "channel_list env h True rows d = Panic"
    using assms(3,4) by (simp add: channel_list_def query_title_def parse_channel_details_def)
  then show ?thesis using assms(5,6) by (simp add: draw_details_def Let_def)
qed

definition no_channels_row :: history_row where
  "no_channels_row = \<lparr>hr_timestamp = 1700000000, hr_command = ''ChanList'', hr_input = [], hr_output = ''[]''\<rparr>"

theorem no_channels_panic_witness:
  "draw_details plain_env [] True [no_channels_row] (cmd_details_new\<lparr>cd_command := ChanList\<rparr>) = Panic"
  by (rule no_channels_panic [where r = no_channels_row and rs = "[]" and t = "''1970''"])
    (simp_all add: plain_env_def no_channels_row_def cmd_details_new_def)

text \<open>With a binding that moves through the commands while one is typed, a key panics: here the command has
  changed to one without inputs, they have been cleared, and the next character has no input to go to.\<close>

lemma typed_after_clear_panics:
  "cmd_details_update env (Input (key_event_new (KChar (CHR ''a'')) 0)) (cmd_details_new\<lparr>cd_focus := Some 0\<rparr>) = Panic"
  by (simp add: cmd_details_update_def type_key_def edit_input_def cmd_details_new_def)

text \<open>Two commands in the same second share the answers of both queries.\<close>

lemma same_second_same_output:
  assumes "i < length rows" and "hr_timestamp (rows ! i) = ts"
  shows "hr_output (set_output ts out rows ! i) = out"
  using assms by (simp add: set_output_def)

end
