(* ===== verification/Ledger.thy ===== *)
theory Ledger
  imports Ldk_Database_Correct
begin

text \<open>
  The abstract store that the database of the node implements: a finite map per kind of record and a set of
  peers.  A write of the program is a value of \<open>ldk_write\<close>; \<open>ledger_write\<close> is what it promises, \<open>None\<close> where
  it is refused, and \<open>db_write\<close> runs the operation of the code on the tables.  The refinement shows that any
  sequence of writes does to the tables what the promises say, and is refused exactly where they refuse it.
\<close>

section \<open>The store\<close>

record ledger =
  lg_peers :: "(bytes \<times> bytes) set"
  lg_opening :: "bytes \<rightharpoonup> initializing_row"
  lg_channels :: "bytes \<rightharpoonup> channel_row"
  lg_outputs :: "bytes \<times> int \<rightharpoonup> spendable_row"
  lg_invoices :: "bytes \<rightharpoonup> invoice_row"
  lg_payments :: "bytes \<rightharpoonup> payment_row"
  lg_forwards :: "bytes \<rightharpoonup> forward_row"

definition empty_ledger :: ledger where
  "empty_ledger = \<lparr>lg_peers = {}, lg_opening = Map.empty, lg_channels = Map.empty, lg_outputs = Map.empty,
     lg_invoices = Map.empty, lg_payments = Map.empty, lg_forwards = Map.empty\<rparr>"

text \<open>The abstraction: a table is the map of its primary key.\<close>

definition ledger_of :: "ldk_database \<Rightarrow> ledger" where
  "ledger_of db = \<lparr>lg_peers = peer_row_key ` set (t_peers db),
     lg_opening = (\<lambda>k. tbl_find in_initializing_channel_id k (t_initializing_channels db)),
     lg_channels = (\<lambda>k. tbl_find ch_channel_id k (t_channels db)),
     lg_outputs = (\<lambda>k. tbl_find spendable_row_key k (t_spendable_outputs db)),
     lg_invoices = (\<lambda>k. tbl_find ir_payment_hash k (t_invoices db)),
     lg_payments = (\<lambda>k. tbl_find pr_id k (t_payments db)),
     lg_forwards = (\<lambda>k. tbl_find fr_id k (t_forwards db))\<rparr>"

section \<open>Writes\<close>

record ldk_codecs =
  lc_address :: "socket_address \<Rightarrow> bytes"
  lc_details :: "channel_details \<Rightarrow> bytes"
  lc_descriptor :: "spendable_output_descriptor \<Rightarrow> bytes"
  lc_destination :: "htlc_destination \<Rightarrow> bytes"

datatype ldk_write =
    WritePeer peer | RemovePeer pubkey
  | OpenChannel bytes bool pubkey bytes | OpenedChannel offset_date_time bytes "(bytes \<times> u32) option" "string option"
  | CreateChannel bytes bool pubkey | WriteChannel offset_date_time channel_details | CloseChannel offset_date_time bytes string
  | WriteOutput spendable_output_descriptor "bytes option" bool
  | WriteInvoice invoice | WritePayment payment | WriteForward forward

fun db_write :: "ldk_codecs \<Rightarrow> primitive_date_time \<Rightarrow> ldk_write \<Rightarrow> ldk_database \<Rightarrow> ldk_database outcome" where
  "db_write c now (WritePeer p) db = persist_peer (lc_address c) p db"
| "db_write c now (RemovePeer k) db = delete_peer k db"
| "db_write c now (OpenChannel i pub k txid) db = persist_initializing_channel now i pub k txid db"
| "db_write c now (OpenedChannel t i cv st) db = update_initializing_channel t i cv st db"
| "db_write c now (CreateChannel i pub k) db = create_channel now i pub k db"
| "db_write c now (WriteChannel t d) db = persist_channel (lc_details c) t now d db"
| "db_write c now (CloseChannel t i reason) db = close_channel t i reason db"
| "db_write c now (WriteOutput d i spent) db = persist_spendable_output (lc_descriptor c) d i spent db"
| "db_write c now (WriteInvoice i) db = persist_invoice i db"
| "db_write c now (WritePayment p) db = persist_payment p db"
| "db_write c now (WriteForward f) db = persist_forward (lc_destination c) f db"

text \<open>The promises.  \<open>map_change\<close> changes a record that exists; \<open>map_merge\<close> changes it or adds the new one.\<close>

definition map_change :: "'k \<Rightarrow> ('v \<Rightarrow> 'v) \<Rightarrow> ('k \<rightharpoonup> 'v) \<Rightarrow> ('k \<rightharpoonup> 'v)" where
  "map_change k f m = m(k := map_option f (m k))"

definition map_merge :: "'k \<Rightarrow> ('v \<Rightarrow> 'v) \<Rightarrow> 'v \<Rightarrow> ('k \<rightharpoonup> 'v) \<Rightarrow> ('k \<rightharpoonup> 'v)" where
  "map_merge k f v m = m(k \<mapsto> (case m k of None \<Rightarrow> v | Some x \<Rightarrow> f x))"

definition opened_row :: "offset_date_time \<Rightarrow> (bytes \<times> u32) option \<Rightarrow> string option \<Rightarrow> initializing_row \<Rightarrow> initializing_row" where
  "opened_row t cv st r =
     (case cv of
        Some (c, vout) \<Rightarrow> r\<lparr>in_channel_id := Some c, in_vout := Some (u32_as_i32 vout),
          in_update_timestamp := to_primitive (microsecond_timestamp t),
          in_status := Some (case st of Some s \<Rightarrow> s | None \<Rightarrow> ''Updated by ChannelPending Event'')\<rparr>
      | None \<Rightarrow> (case st of
          Some s \<Rightarrow> r\<lparr>in_status := Some s, in_update_timestamp := to_primitive (microsecond_timestamp t)\<rparr>
        | None \<Rightarrow> r))"

text \<open>Another invoice has the label.\<close>

definition label_used :: "invoice_row \<Rightarrow> (bytes \<rightharpoonup> invoice_row) \<Rightarrow> bool" where
  "label_used row m \<longleftrightarrow> ir_label row \<noteq> None \<and>
     (\<exists>h r. m h = Some r \<and> h \<noteq> ir_payment_hash row \<and> ir_label r = ir_label row)"

fun ledger_write :: "ldk_codecs \<Rightarrow> primitive_date_time \<Rightarrow> ldk_write \<Rightarrow> ledger \<Rightarrow> ledger option" where
  "ledger_write c now (WritePeer p) l =
     Some (l\<lparr>lg_peers := insert (peer_public_key p, lc_address c (peer_address p)) (lg_peers l)\<rparr>)"
| "ledger_write c now (RemovePeer k) l = Some (l\<lparr>lg_peers := {(k', a) \<in> lg_peers l. k' \<noteq> k}\<rparr>)"
| "ledger_write c now (OpenChannel i pub k txid) l =
     (if lg_opening l i \<noteq> None then None
      else Some (l\<lparr>lg_opening := (lg_opening l)(i \<mapsto>
        \<lparr>in_initializing_channel_id = i, in_counterparty = k, in_is_public = pub, in_channel_id = None, in_status = None,
         in_txid = txid, in_vout = None, in_open_timestamp = now, in_update_timestamp = now\<rparr>)\<rparr>))"
| "ledger_write c now (OpenedChannel t i cv st) l =
     Some (l\<lparr>lg_opening := map_change i (opened_row t cv st) (lg_opening l)\<rparr>)"
| "ledger_write c now (CreateChannel i pub k) l =
     (if lg_channels l i \<noteq> None then None
      else Some (l\<lparr>lg_channels := (lg_channels l)(i \<mapsto>
        (channel_row_default now)\<lparr>ch_channel_id := i, ch_counterparty := k, ch_is_public := pub\<rparr>)\<rparr>))"
| "ledger_write c now (WriteChannel t d) l =
     Some (l\<lparr>lg_channels := map_merge (cd_channel_id d) (channel_row_update (lc_details c) t d)
        (channel_row_update (lc_details c) t d (channel_row_default now)) (lg_channels l)\<rparr>)"
| "ledger_write c now (CloseChannel t i reason) l =
     Some (l\<lparr>lg_channels := map_change i (close_channel_row t reason) (lg_channels l)\<rparr>)"
| "ledger_write c now (WriteOutput d i spent) l =
     Some (l\<lparr>lg_outputs := map_merge (spendable_key d) (spendable_row_update (lc_descriptor c) d i spent)
        (spendable_row_update (lc_descriptor c) d i spent spendable_row_default) (lg_outputs l)\<rparr>)"
| "ledger_write c now (WriteInvoice i) l =
     (if label_used (invoice_to_row i) (lg_invoices l) then None
      else Some (l\<lparr>lg_invoices := (lg_invoices l)(inv_payment_hash i \<mapsto> invoice_to_row i)\<rparr>))"
| "ledger_write c now (WritePayment p) l =
     Some (l\<lparr>lg_payments := (lg_payments l)(pay_id p \<mapsto> payment_to_row p)\<rparr>)"
| "ledger_write c now (WriteForward f) l =
     Some (l\<lparr>lg_forwards := (lg_forwards l)(fwd_id f \<mapsto> forward_to_row (lc_destination c) f)\<rparr>)"

section \<open>The refinement\<close>

lemma ledger_of_sel [simp]:
  "lg_peers (ledger_of db) = peer_row_key ` set (t_peers db)"
  "lg_opening (ledger_of db) k1 = tbl_find in_initializing_channel_id k1 (t_initializing_channels db)"
  "lg_channels (ledger_of db) k2 = tbl_find ch_channel_id k2 (t_channels db)"
  "lg_outputs (ledger_of db) k3 = tbl_find spendable_row_key k3 (t_spendable_outputs db)"
  "lg_invoices (ledger_of db) k4 = tbl_find ir_payment_hash k4 (t_invoices db)"
  "lg_payments (ledger_of db) k5 = tbl_find pr_id k5 (t_payments db)"
  "lg_forwards (ledger_of db) k6 = tbl_find fr_id k6 (t_forwards db)"
  by (simp_all add: ledger_of_def)

lemma label_used_taken:
  assumes "keys_distinct ir_payment_hash rows"
  shows "label_used row (\<lambda>k. tbl_find ir_payment_hash k rows) \<longleftrightarrow> label_taken row rows"
  using tbl_find_distinct [OF assms]
  by (auto simp: label_used_def label_taken_def dest!: tbl_find_SomeD)

lemma tbl_insert_cases:
  obtains (taken) r where "tbl_find key (key new) rows = Some r" "tbl_insert key new rows = Err DbUnique"
  | (added) rows' where "tbl_find key (key new) rows = None" "tbl_insert key new rows = Ok rows'"
      "(\<lambda>k. tbl_find key k rows') = (\<lambda>k. tbl_find key k rows)(key new \<mapsto> new)"
proof (cases "tbl_find key (key new) rows")
  case None
  then have ok: "tbl_insert key new rows = Ok (rows @ [new])" by (simp add: tbl_insert_def tbl_find_None_iff)
  show ?thesis by (rule added [OF None ok]) (simp add: fun_eq_iff tbl_find_insert [OF ok])
next
  case (Some r)
  then have "key new \<in> key ` set rows" by (metis option.distinct(1) tbl_find_None_iff)
  then show ?thesis by (intro taken [OF Some]) (simp add: tbl_insert_def)
qed

lemma peers_insert:
  "peer_row_key ` set (tbl_upsert peer_row_key (peer_row_key row) (\<lambda>_. row) row rows) =
     insert (peer_row_key row) (peer_row_key ` set rows)"
  by (rule peers_tbl.keys_upsert)

lemma peers_remove:
  "peer_row_key ` set (tbl_delete (\<lambda>r. pe_public_key r = k) rows) = {(k', a) \<in> peer_row_key ` set rows. k' \<noteq> k}"
  by (auto simp: tbl_delete_def peer_row_key_def)

text \<open>A write on the tables against its promise on the maps.\<close>

lemma db_write_refines:
  assumes "db_inv db" and "\<not> db_closed db"
  shows "case ledger_write c now w (ledger_of db) of
           Some l \<Rightarrow> \<exists>db'. db_write c now w db = Ok db' \<and> ledger_of db' = l \<and> \<not> db_closed db'
         | None \<Rightarrow> \<exists>e. db_write c now w db = Err e"
proof (cases w)
  case (WritePeer p)
  with assms(2) show ?thesis
    by (simp add: persist_peer_def Let_def ledger_of_def peers_insert) (simp add: peer_row_key_def)
next
  case (RemovePeer k)
  with assms(2) show ?thesis
    by (simp add: delete_peer_def ledger_of_def peers_remove)
next
  case (OpenChannel i pub k txid)
  let ?row = "\<lparr>in_initializing_channel_id = i, in_counterparty = k, in_is_public = pub, in_channel_id = None, in_status = None,
         in_txid = txid, in_vout = None, in_open_timestamp = now, in_update_timestamp = now\<rparr>"
  show ?thesis
    by (cases rule: tbl_insert_cases [of in_initializing_channel_id ?row "t_initializing_channels db"])
      (use OpenChannel assms(2) in \<open>simp_all add: persist_initializing_channel_def ledger_of_def\<close>)
next
  case (OpenedChannel t i cv st)
  have *: "in_initializing_channel_id (opened_row t cv st r) = in_initializing_channel_id r" for r
    by (simp add: opened_row_def split: option.splits prod.splits)
  from OpenedChannel assms(2) show ?thesis
    using tbl_find_update_key [of in_initializing_channel_id, OF *]
    by (cases cv; cases st)
      (auto simp: update_initializing_channel_def Let_def ledger_of_def map_change_def opened_row_def [abs_def] fun_eq_iff option.map_ident)
next
  case (CreateChannel i pub k)
  let ?row = "(channel_row_default now)\<lparr>ch_channel_id := i, ch_counterparty := k, ch_is_public := pub\<rparr>"
  show ?thesis
    by (cases rule: tbl_insert_cases [of ch_channel_id ?row "t_channels db"])
      (use CreateChannel assms(2) in \<open>simp_all add: create_channel_def ledger_of_def channel_row_default_def\<close>)
next
  case (WriteChannel t d)
  with assms(2) show ?thesis
    by (auto simp: persist_channel_def ledger_of_def map_merge_def fun_eq_iff channels_tbl.find_upsert split: option.splits)
next
  case (CloseChannel t i reason)
  have "ch_channel_id (close_channel_row t reason r) = ch_channel_id r" for r
    by (simp add: close_channel_row_def)
  from CloseChannel assms(2) tbl_find_update_key [of ch_channel_id, OF this] show ?thesis
    by (auto simp: close_channel_def ledger_of_def map_change_def fun_eq_iff)
next
  case (WriteOutput d i spent)
  with assms(2) spendables_tbl.find_upsert [of _ "(d, i, spent)" "lc_descriptor c" "t_spendable_outputs db"] show ?thesis
    by (auto simp: persist_spendable_output_def ledger_of_def map_merge_def fun_eq_iff split: option.splits)
next
  case (WriteInvoice i)
  have d: "keys_distinct ir_payment_hash (t_invoices db)" using assms(1) by (simp add: db_inv_def)
  have h: "ir_payment_hash (invoice_to_row i) = inv_payment_hash i" by (simp add: invoice_to_row_def)
  from label_used_taken [OF d, of "invoice_to_row i"] invoices_tbl.find_upsert_replaced [of _ "invoice_to_row i" "t_invoices db"]
    WriteInvoice assms(2) h
  show ?thesis by (auto simp: persist_invoice_def Let_def ledger_of_def fun_eq_iff)
next
  case (WritePayment p)
  with assms(2) show ?thesis
    by (auto simp: persist_payment_def ledger_of_def fun_eq_iff payments_tbl.find_upsert_replaced)
next
  case (WriteForward f)
  with assms(2) show ?thesis
    by (auto simp: persist_forward_def ledger_of_def fun_eq_iff forwards_tbl.find_upsert_replaced)
qed

lemma db_write_step: "db_write c now w db = Ok db' \<Longrightarrow> ldk_step db db'"
  by (cases w) (auto intro: ldk_step.intros)

text \<open>A program of writes: a write that fails leaves the store as it is.\<close>

definition db_try :: "ldk_codecs \<Rightarrow> primitive_date_time \<times> ldk_write \<Rightarrow> ldk_database \<Rightarrow> ldk_database" where
  "db_try c tw db = (case db_write c (fst tw) (snd tw) db of Ok db' \<Rightarrow> db' | _ \<Rightarrow> db)"

definition ledger_try :: "ldk_codecs \<Rightarrow> primitive_date_time \<times> ldk_write \<Rightarrow> ledger \<Rightarrow> ledger" where
  "ledger_try c tw l = (case ledger_write c (fst tw) (snd tw) l of Some l' \<Rightarrow> l' | None \<Rightarrow> l)"

lemma db_try_refines:
  assumes "ldk_reachable db" and "\<not> db_closed db"
  shows "ledger_of (db_try c tw db) = ledger_try c tw (ledger_of db)"
    and "ldk_reachable (db_try c tw db)" and "\<not> db_closed (db_try c tw db)"
proof -
  note step = db_write_refines [OF db_inv_reachable [OF assms(1)] assms(2), of c "fst tw" "snd tw"]
  show "ledger_of (db_try c tw db) = ledger_try c tw (ledger_of db)"
    using step by (auto simp: db_try_def ledger_try_def split: option.splits)
  show "ldk_reachable (db_try c tw db)"
    using assms(1) by (auto simp: db_try_def intro: reach_step dest: db_write_step split: outcome.splits)
  show "\<not> db_closed (db_try c tw db)"
    using step assms(2) by (auto simp: db_try_def split: option.splits)
qed

lemma ledger_of_empty: "ledger_of empty_db = empty_ledger"
  by (simp add: ledger_of_def empty_ledger_def empty_db_def)

lemma db_run_refines:
  "ledger_of (fold (db_try c) ws empty_db) = fold (ledger_try c) ws empty_ledger \<and>
   ldk_reachable (fold (db_try c) ws empty_db) \<and> \<not> db_closed (fold (db_try c) ws empty_db)"
proof (induction ws rule: rev_induct)
  case Nil
  then show ?case by (simp add: ledger_of_empty reach_empty) (simp add: empty_db_def)
next
  case (snoc w ws)
  then show ?case using db_try_refines [of "fold (db_try c) ws empty_db" c w] by simp
qed


end
