(* ===== verification/Cli_Client_Correct.thy ===== *)
theory Cli_Client_Correct
  imports Cli_Client
begin

text \<open>
  Every command of the client reaches a route of the API, and the options of a command reach the handler,
  except the label of the list of invoices.
\<close>

lemma str_replace_Nil [simp]: "str_replace p t [] = []"
  by (simp add: str_replace.simps [of p t "[]"])

lemma str_replace_Cons:
  "str_replace p t (c # cs) =
     (if p \<noteq> [] \<and> starts_with (c # cs) p then t @ str_replace p t (drop (length p) (c # cs)) else c # str_replace p t cs)"
  by (simp add: str_replace.simps [of p t "c # cs"])

lemma str_replace_skip:
  assumes "c \<notin> set a"
  shows "str_replace (c # p) t (a @ b) = a @ str_replace (c # p) t b"
  using assms by (induction a) (auto simp: str_replace_Cons starts_with_def)

text \<open>Texts that stand in a segment of a path as they are.\<close>

definition is_alnum :: "char \<Rightarrow> bool" where
  "is_alnum c \<longleftrightarrow> (let n = (of_char c :: nat) in (48 \<le> n \<and> n \<le> 57) \<or> (65 \<le> n \<and> n \<le> 90) \<or> (97 \<le> n \<and> n \<le> 122))"

definition safe_segment :: "string \<Rightarrow> bool" where
  "safe_segment s \<longleftrightarrow> s \<noteq> [] \<and> (\<forall>c \<in> set s. is_alnum c)"

fun cli_safe :: "cli_command \<Rightarrow> bool" where
  "cli_safe (CliDisconnectPeer k) = safe_segment k"
| "cli_safe (CliCloseChannel i fee flag) = safe_segment i"
| "cli_safe (CliNetworkNodes (Some i)) = safe_segment i"
| "cli_safe (CliNetworkChannels (Some i)) = safe_segment i"
| "cli_safe (CliFeeRates (Some s)) = safe_segment s"
| "cli_safe (CliDecode s) = safe_segment s"
| "cli_safe _ = True"

lemma safe_segment_not_mem:
  assumes "safe_segment s"
  shows "CHR ''/'' \<notin> set s" "CHR ''?'' \<notin> set s" "CHR '':'' \<notin> set s" "s \<noteq> []"
  using assms by (auto simp: safe_segment_def is_alnum_def Let_def)

definition served :: "http_method \<Rightarrow> string \<Rightarrow> bool" where
  "served m t \<longleftrightarrow>
     (\<exists>route. (m, route) \<in> set readonly_routes \<union> set admin_routes \<and> route_matches route (target_path t))"

lemma served_literal:
  assumes "list_ex (\<lambda>(m', route). m' = m \<and> route_matches route (target_path t)) (readonly_routes @ admin_routes)"
  shows "served m t"
  using assms by (auto simp: served_def list_ex_iff)

lemma literals_served:
  "served POST ''/v1/utility/signMessage''" "served GET ''/v1/getinfo''" "served GET ''/v1/getBalance''"
  "served GET ''/v1/newaddr''" "served POST ''/v1/withdraw''" "served GET ''/v1/listFunds''"
  "served GET ''/v1/peer/listPeers''" "served POST ''/v1/peer/connect''" "served GET ''/kld/channels''"
  "served GET ''/v1/channel/listPeerChannels''" "served POST ''/v1/channel/openChannel''"
  "served POST ''/v1/channel/setChannelFee''" "served GET ''/v1/network/listNode''" "served GET ''/v1/network/listChannel''"
  "served GET ''/v1/network/feeRates/perkb''" "served POST ''/v1/pay/keysend''" "served POST ''/v1/invoice/genInvoice''"
  "served GET ''/v1/invoice/listInvoices''" "served POST ''/v1/pay''" "served GET ''/v1/pay/listPayments''"
  "served GET ''/v1/estimateChannelLiquidity''" "served GET ''/v1/channel/localremotebal''" "served GET ''/v1/getFees''"
  "served GET ''/v1/channel/listForwards''" "served GET ''/v1/channel/history''" "served GET ''/kld/scorer''"
  by (rule served_literal, code_simp)+

text \<open>A route that ends in one parameter, with a text for it.\<close>

lemma split_segment:
  assumes "d \<notin> set s"
  shows "split_char d (a @ d # s) = split_char d a @ [s]"
proof (induction a)
  case Nil
  with assms show ?case by (simp add: split_char_none)
next
  case (Cons c a)
  then show ?case using split_char_nonempty [of d a] by (auto split: list.splits)
qed

lemma segment_matches_refl: "segment_matches p p"
  by (auto simp: segment_matches_def starts_with_def)

lemma segment_matches_param: "s \<noteq> [] \<Longrightarrow> segment_matches (CHR '':'' # p) s"
  by (simp add: segment_matches_def starts_with_def)

lemma target_path_plain: "CHR ''?'' \<notin> set t \<Longrightarrow> target_path t = t"
  by (auto simp: target_path_def intro: takeWhile_eq_all_conv [THEN iffD2])

lemma served_param:
  assumes "(m, a @ CHR ''/'' # CHR '':'' # p) \<in> set readonly_routes \<union> set admin_routes"
    and "CHR ''/'' \<notin> set p" and "CHR ''?'' \<notin> set a" and "safe_segment s"
  shows "served m (a @ CHR ''/'' # s)"
proof -
  have path: "target_path (a @ CHR ''/'' # s) = a @ CHR ''/'' # s"
    using assms(3) safe_segment_not_mem [OF assms(4)] by (intro target_path_plain) auto
  have "route_matches (a @ CHR ''/'' # CHR '':'' # p) (a @ CHR ''/'' # s)"
    using assms(2) safe_segment_not_mem [OF assms(4)]
    by (simp add: route_matches_def split_segment segment_matches_param list_all2_refl segment_matches_refl
        list_all2_appendI)
  with assms(1) path show ?thesis unfolding served_def by metis
qed

text \<open>The texts of the targets.\<close>

lemma targets:
  "str_replace '':id'' i ''/v1/peer/disconnect/:id'' = ''/v1/peer/disconnect'' @ CHR ''/'' # i"
  "str_replace '':id'' i ''/v1/channel/closeChannel/:id'' = ''/v1/channel/closeChannel'' @ CHR ''/'' # i"
  "str_replace '':id'' i ''/v1/channel/forceCloseChannelWithBoradCast/:id'' = ''/v1/channel/forceCloseChannelWithBoradCast'' @ CHR ''/'' # i"
  "str_replace '':id'' i ''/v1/channel/forceCloseChannelWithoutBoradCast/:id'' = ''/v1/channel/forceCloseChannelWithoutBoradCast'' @ CHR ''/'' # i"
  "str_replace '':id'' i ''/v1/network/listNode/:id'' = ''/v1/network/listNode'' @ CHR ''/'' # i"
  "str_replace '':id'' i ''/v1/network/listChannel/:id'' = ''/v1/network/listChannel'' @ CHR ''/'' # i"
  "str_replace '':style'' i ''/v1/network/feeRates/:style'' = ''/v1/network/feeRates'' @ CHR ''/'' # i"
  "str_replace '':invoice'' i ''/v1/utility/decode/:invoice'' = ''/v1/utility/decode'' @ CHR ''/'' # i"
  "str_replace '':id'' i ''/v1/channel/closeChannel/:id/:fee_rate'' = ''/v1/channel/closeChannel'' @ CHR ''/'' # i @ ''/:fee_rate''"
  by (simp_all add: str_replace_Cons starts_with_def)

lemma params_served:
  assumes "safe_segment i"
  shows "served DELETE (''/v1/peer/disconnect'' @ CHR ''/'' # i)"
    "served DELETE (''/v1/channel/closeChannel'' @ CHR ''/'' # i)"
    "served DELETE (''/v1/channel/forceCloseChannelWithBoradCast'' @ CHR ''/'' # i)"
    "served DELETE (''/v1/channel/forceCloseChannelWithoutBoradCast'' @ CHR ''/'' # i)"
    "served GET (''/v1/network/listNode'' @ CHR ''/'' # i)" "served GET (''/v1/network/listChannel'' @ CHR ''/'' # i)"
    "served GET (''/v1/network/feeRates'' @ CHR ''/'' # i)" "served GET (''/v1/utility/decode'' @ CHR ''/'' # i)"
  by ((rule served_param [OF _ _ _ assms, where p = "''id''"]; simp add: readonly_routes_def admin_routes_def),
      (rule served_param [OF _ _ _ assms, where p = "''id''"]; simp add: readonly_routes_def admin_routes_def),
      (rule served_param [OF _ _ _ assms, where p = "''id''"]; simp add: readonly_routes_def admin_routes_def),
      (rule served_param [OF _ _ _ assms, where p = "''id''"]; simp add: readonly_routes_def admin_routes_def),
      (rule served_param [OF _ _ _ assms, where p = "''id''"]; simp add: readonly_routes_def admin_routes_def),
      (rule served_param [OF _ _ _ assms, where p = "''id''"]; simp add: readonly_routes_def admin_routes_def),
      (rule served_param [OF _ _ _ assms, where p = "''style''"]; simp add: readonly_routes_def admin_routes_def),
      (rule served_param [OF _ _ _ assms, where p = "''invoice''"]; simp add: readonly_routes_def admin_routes_def))

text \<open>Closing with a fee: a route with two parameters.\<close>

lemma closing_fee_target:
  assumes "safe_segment i"
  shows "str_replace '':fee_rate'' f (''/v1/channel/closeChannel'' @ CHR ''/'' # i @ ''/:fee_rate'') =
     ''/v1/channel/closeChannel'' @ CHR ''/'' # i @ CHR ''/'' # f"
proof -
  have "CHR '':'' \<notin> set (''/v1/channel/closeChannel'' @ CHR ''/'' # i @ ''/'')"
    using safe_segment_not_mem [OF assms] by simp
  from str_replace_skip [OF this, of "''fee_rate''" f "'':fee_rate''"] show ?thesis
    by (simp add: str_replace_Cons starts_with_def)
qed

lemma closing_fee_served:
  assumes "safe_segment i" and "safe_segment f"
  shows "served DELETE (''/v1/channel/closeChannel'' @ CHR ''/'' # i @ CHR ''/'' # f)"
proof -
  let ?route = "(''/v1/channel/closeChannel'' @ CHR ''/'' # '':id'') @ CHR ''/'' # '':fee_rate''"
  let ?path = "(''/v1/channel/closeChannel'' @ CHR ''/'' # i) @ CHR ''/'' # f"
  have "target_path ?path = ?path"
    using safe_segment_not_mem [OF assms(1)] safe_segment_not_mem [OF assms(2)] by (intro target_path_plain) auto
  moreover have "route_matches ?route ?path"
    unfolding route_matches_def
    by (subst split_segment, simp, subst split_segment, simp, subst split_segment,
        simp add: safe_segment_not_mem [OF assms(2)], subst split_segment, simp add: safe_segment_not_mem [OF assms(1)])
      (simp add: segment_matches_param safe_segment_not_mem [OF assms(1)] safe_segment_not_mem [OF assms(2)]
        list_all2_appendI list_all2_refl segment_matches_refl)
  moreover have "(DELETE, ?route) \<in> set readonly_routes \<union> set admin_routes" by (simp add: admin_routes_def)
  ultimately have "served DELETE ?path" unfolding served_def by metis
  then show ?thesis by simp
qed

lemma digits_safe: "safe_segment (u32_to_string f)"
  using nat_to_string_is_digit [of _ "unat f"]
  by (force simp: safe_segment_def u32_to_string_def is_alnum_def char_digit_def Let_def split: if_splits)

lemma list_invoices_served: "served GET (''/v1/invoice/listInvoices'' @ ''?'' @ l)"
proof -
  have "target_path (''/v1/invoice/listInvoices'' @ ''?'' @ l) = target_path ''/v1/invoice/listInvoices''"
    by (simp add: target_path_def)
  then show ?thesis using literals_served(18) by (simp only: served_def)
qed

lemma admin_reaches:
  assumes "macaroons_verify lib key" and "r \<in> set readonly_routes \<union> set admin_routes"
  shows "request_allowed lib key (Ok (admin_macaroon lib key)) r = Ok True"
proof -
  have "verify_admin_macaroon lib key (admin_macaroon lib key)" "verify_readonly_macaroon lib key (admin_macaroon lib key)"
    using assms(1) verify_role_values
    by (simp_all add: macaroons_verify_def verify_admin_macaroon_def verify_readonly_macaroon_def admin_macaroon_def)
  then show ?thesis using assms(2) by (auto simp: request_allowed_def route_layer_def)
qed

text \<open>C28: every command of the client sends a request that the API serves: the method and the path belong to a
  route of the node, for any arguments that stand in the path as they are, and with the admin macaroon
  the request is let through to its handler.\<close>

theorem commands_served:
  assumes "run_command c = Ok r" and "cli_safe c" and "macaroons_verify lib key"
  shows "\<exists>route. route_matches route (target_path (rq_target r)) \<and>
     request_allowed lib key (Ok (admin_macaroon lib key)) (rq_method r, route) = Ok True"
proof -
  have "served (rq_method r) (rq_target r)"
  proof (cases c)
    case (CliCloseChannel i fee flag)
    then show ?thesis
      using assms(1,2) params_served(2-4) [of i] closing_fee_served [OF _ digits_safe, of i] closing_fee_target [of i]
      by (cases flag) (auto simp: cli_close_def cli_force_close_def targets cli_plain_def simp del: append.simps append_Cons
          split: option.splits if_splits)
  next
    case (CliFeeRates s)
    have "safe_segment (case s of Some x \<Rightarrow> x | None \<Rightarrow> ''perkb'')"
      using assms(2) CliFeeRates by (cases s) (simp_all add: safe_segment_def is_alnum_def)
    from params_served(7) [OF this] show ?thesis
      using assms(1) CliFeeRates by (auto simp: cli_plain_def targets simp del: append.simps append_Cons)
  next
    case (CliListInvoices l)
    then show ?thesis
      using assms(1) literals_served(18) list_invoices_served
      by (auto simp: cli_plain_def simp del: append.simps append_Cons split: option.splits)
  qed (use assms(1,2) literals_served params_served in
      \<open>auto simp: cli_plain_def cli_with_body_def targets bind_outcome_eq_Ok simp del: append.simps append_Cons
         split: option.splits\<close>)
  then obtain route where "(rq_method r, route) \<in> set readonly_routes \<union> set admin_routes"
      and route: "route_matches route (target_path (rq_target r))"
    by (auto simp: served_def)
  then have "request_allowed lib key (Ok (admin_macaroon lib key)) (rq_method r, route) = Ok True"
    using admin_reaches [OF assms(3)] by blast
  with route show ?thesis by blast
qed

text \<open>The library of the example for macaroons.\<close>

theorem commands_served_witness:
  "\<exists>r route. run_command (CliCloseChannel ''123'' (Some 7) None) = Ok r \<and> route_matches route (target_path (rq_target r)) \<and>
     request_allowed sample_macaroon_lib 7 (Ok (admin_macaroon sample_macaroon_lib 7)) (rq_method r, route) = Ok True"
proof -
  have lib: "macaroons_verify sample_macaroon_lib 7" by (auto simp: macaroons_verify_def sample_macaroon_lib_def)
  have run: "run_command (CliCloseChannel ''123'' (Some 7) None) = Ok (cli_close ''123'' (Some 7))" by simp
  have "cli_safe (CliCloseChannel ''123'' (Some 7) None)" by (simp add: safe_segment_def is_alnum_def)
  from commands_served [OF run this lib] run show ?thesis by blast
qed

section \<open>What does not reach the handler\<close>

text \<open>The label given to the list of invoices does not reach the API: it is put into the query as a name
  without a value, the parameter \<open>label\<close> is absent, and all invoices are listed, while the options of the
  other lists are sent under their names.\<close>

theorem list_invoices_label_lost:
  assumes "safe_segment l" and "l \<noteq> ''label''" and "run_command (CliListInvoices (Some l)) = Ok r"
  shows "param_of ''label'' r = None"
proof -
  have r: "target_query (rq_target r) = l" "rq_params r = []"
    using assms(3) by (auto simp: cli_plain_def target_query_def target_path_def)
  have "CHR ''&'' \<notin> set l" "CHR ''='' \<notin> set l"
    using assms(1) by (auto simp: safe_segment_def is_alnum_def Let_def)
  then have "split_char (CHR ''&'') l = [l]" "split_once (CHR ''='') l = None"
    by (simp_all add: split_char_none split_once_None)
  then show ?thesis using assms(2) by (simp add: param_of_def r query_param_def)
qed

theorem list_invoices_label_lost_witness:
  "\<exists>r. run_command (CliListInvoices (Some ''rent'')) = Ok r \<and> param_of ''label'' r = None"
proof -
  have run: "run_command (CliListInvoices (Some ''rent'')) = Ok (cli_plain GET ''/v1/invoice/listInvoices?rent'')" by simp
  have "safe_segment ''rent''" by (simp add: safe_segment_def is_alnum_def)
  from list_invoices_label_lost [OF this _ run] run show ?thesis by simp
qed

lemma list_params_sent:
  assumes "run_command (CliListPayments b d) = Ok r" and "run_command (CliListForwards s) = Ok r'"
  shows "param_of ''bolt11'' r = b" "param_of ''direction'' r = d" "param_of ''status'' r' = s"
  using assms
  by (auto simp: cli_plain_def param_of_def opt_param_def target_query_def target_path_def query_param_def split: option.splits)

end
