(* ===== verification/Seeds.thy ===== *)
theory Seeds
  imports Macaroon_Auth Mgr_Config
begin

text \<open>
  The secret of a node: its mnemonic, the seeds derived from it (\<^verbatim>\<open>kld/src/key_generator.rs\<close>), the macaroons that
  the node writes at its start (\<^verbatim>\<open>MacaroonAuth::init\<close>), and the manager's way to make the same mnemonic and macaroons
  beforehand (\<^verbatim>\<open>mgr/src/secrets.rs\<close>).  Mnemonics, hashing, and the text form of a macaroon are those of libraries.
\<close>

section \<open>Files and libraries\<close>

text \<open>A file is readable, with its bytes, or exists without being readable (no permission, a directory).\<close>

datatype seed_file = Readable string | Unreadable

type_synonym seed_fs = "string \<rightharpoonup> seed_file"

record seed_io =
  io_write :: "string \<Rightarrow> string \<Rightarrow> seed_fs \<Rightarrow> seed_fs outcome"
  io_mkdir :: "string \<Rightarrow> seed_fs \<Rightarrow> seed_fs outcome"

record 'w mnemonic_lib =
  mn_parse :: "string \<Rightarrow> 'w option"
  mn_words :: "'w \<Rightarrow> string"
  mn_seed :: "'w \<Rightarrow> bytes"
  mn_sha256 :: "bytes \<Rightarrow> bytes"

record ('k, 'm) token_lib =
  tk_key :: "bytes \<Rightarrow> 'k"
  tk_serialize :: "'m \<Rightarrow> string outcome"
  tk_url_decode :: "string \<Rightarrow> string outcome"

definition read_file :: "seed_fs \<Rightarrow> string \<Rightarrow> string option" where
  "read_file fs p = (case fs p of Some (Readable s) \<Rightarrow> Some s | _ \<Rightarrow> None)"

definition read_to_string :: "seed_fs \<Rightarrow> string \<Rightarrow> string option" where
  "read_to_string fs p =
     (case read_file fs p of Some s \<Rightarrow> if utf8_ok (map of_char s) then Some s else None | None \<Rightarrow> None)"

definition path_exists :: "seed_fs \<Rightarrow> string \<Rightarrow> bool" where
  "path_exists fs p \<longleftrightarrow> fs p \<noteq> None"

section \<open>The node\<close>

text \<open>\<open>KeyGenerator::init\<close>; \<open>new\<close> is what the generator of mnemonics returns.\<close>

definition keygen_init :: "seed_io \<Rightarrow> 'w mnemonic_lib \<Rightarrow> string \<Rightarrow> 'w option \<Rightarrow> seed_fs \<Rightarrow> ('w \<times> seed_fs) outcome" where
  "keygen_init io mn mnemonic_path new fs =
     (case read_to_string fs mnemonic_path of
        Some words \<Rightarrow> bind_outcome (ok_or (Msg ''mnemonic'') (mn_parse mn words)) (\<lambda>m. Ok (m, fs))
      | None \<Rightarrow>
          bind_outcome (ok_or (Msg ''Mnemonic generation error'') new) (\<lambda>m.
          bind_outcome (io_write io mnemonic_path (mn_words mn m) fs) (\<lambda>fs1. Ok (m, fs1))))"

definition generate_key :: "'w mnemonic_lib \<Rightarrow> 'w \<Rightarrow> string \<Rightarrow> bytes" where
  "generate_key mn m extra_input = mn_sha256 mn (mn_seed mn m @ map of_char extra_input)"

definition wallet_seed :: "'w mnemonic_lib \<Rightarrow> 'w \<Rightarrow> bytes" where
  "wallet_seed mn m = generate_key mn m ''''"

definition lightning_seed :: "'w mnemonic_lib \<Rightarrow> 'w \<Rightarrow> bytes" where
  "lightning_seed mn m = generate_key mn m ''lightning/0''"

definition macaroon_seed :: "'w mnemonic_lib \<Rightarrow> 'w \<Rightarrow> bytes" where
  "macaroon_seed mn m = generate_key mn m ''macaroon/0''"

definition promise_seed :: "'w mnemonic_lib \<Rightarrow> 'w \<Rightarrow> bytes" where
  "promise_seed mn m = generate_key mn m ''promise_seed''"

text \<open>\<open>MacaroonAuth::init\<close>: the key, and three files under the directory of the data.\<close>

definition macaroon_auth_init ::
  "seed_io \<Rightarrow> ('k, 'm) macaroon_lib \<Rightarrow> ('k, 'm) token_lib \<Rightarrow> bytes \<Rightarrow> string \<Rightarrow> seed_fs \<Rightarrow> ('k \<times> seed_fs) outcome" where
  "macaroon_auth_init io ml tk seed data_dir fs =
     (let key = tk_key tk seed; admin = admin_macaroon ml key; readonly = readonly_macaroon ml key
      in bind_outcome (tk_serialize tk admin) (\<lambda>base64.
         bind_outcome (tk_url_decode tk base64) (\<lambda>buf.
         bind_outcome (io_mkdir io (data_dir @ ''/macaroons'') fs) (\<lambda>fs1.
         bind_outcome (io_write io (data_dir @ ''/macaroons/access.macaroon'') buf fs1) (\<lambda>fs2.
         bind_outcome (tk_serialize tk admin) (\<lambda>a.
         bind_outcome (io_write io (data_dir @ ''/macaroons/admin.macaroon'') a fs2) (\<lambda>fs3.
         bind_outcome (tk_serialize tk readonly) (\<lambda>r.
         bind_outcome (io_write io (data_dir @ ''/macaroons/readonly.macaroon'') r fs3) (\<lambda>fs4. Ok (key, fs4))))))))))"

section \<open>The manager\<close>

text \<open>\<open>generate_mnemonic_and_macaroons\<close>: a file of the mnemonic that exists and cannot be read as text is a panic.\<close>

definition manager_mnemonic :: "seed_io \<Rightarrow> 'w mnemonic_lib \<Rightarrow> string \<Rightarrow> 'w option \<Rightarrow> seed_fs \<Rightarrow> ('w \<times> seed_fs) outcome" where
  "manager_mnemonic io mn dir new fs =
     (let mnemonic_path = path_join dir ''mnemonic''
      in if \<not> path_exists fs mnemonic_path then
           bind_outcome (ok_or (Msg ''mnemonic'') new) (\<lambda>m.
           bind_outcome (io_write io mnemonic_path (mn_words mn m) fs) (\<lambda>fs1. Ok (m, fs1)))
         else case read_to_string fs mnemonic_path of
           Some words \<Rightarrow> bind_outcome (ok_or (Msg ''mnemonic'') (mn_parse mn words)) (\<lambda>m. Ok (m, fs))
         | None \<Rightarrow> Panic)"

definition manager_macaroons ::
  "seed_io \<Rightarrow> ('k, 'm) macaroon_lib \<Rightarrow> ('k, 'm) token_lib \<Rightarrow> bytes \<Rightarrow> string \<Rightarrow> seed_fs \<Rightarrow> seed_fs outcome" where
  "manager_macaroons io ml tk seed dir fs =
     (let key = tk_key tk seed; admin = admin_macaroon ml key; readonly = readonly_macaroon ml key
      in bind_outcome (tk_serialize tk admin) (\<lambda>base64.
         bind_outcome (tk_url_decode tk base64) (\<lambda>buf.
         bind_outcome (io_write io (path_join dir ''access.macaroon'') buf fs) (\<lambda>fs1.
         bind_outcome (tk_serialize tk admin) (\<lambda>a.
         bind_outcome (io_write io (path_join dir ''admin.macaroon'') a fs1) (\<lambda>fs2.
         bind_outcome (tk_serialize tk readonly) (\<lambda>r.
         io_write io (path_join dir ''readonly.macaroon'') r fs2)))))))"

definition generate_mnemonic_and_macaroons ::
  "seed_io \<Rightarrow> 'w mnemonic_lib \<Rightarrow> ('k, 'm) macaroon_lib \<Rightarrow> ('k, 'm) token_lib \<Rightarrow> string \<Rightarrow> 'w option \<Rightarrow> seed_fs \<Rightarrow> seed_fs outcome" where
  "generate_mnemonic_and_macaroons io mn ml tk dir new fs =
     bind_outcome (manager_mnemonic io mn dir new fs) (\<lambda>(m, fs1).
       manager_macaroons io ml tk (mn_sha256 mn (mn_seed mn m @ map of_char ''macaroon/0'')) dir fs1)"

text \<open>\<open>Secrets::new\<close>: the files of a host in a temporary directory, each below it by its path without the leading
  slash; the mode of a file is that of the loop's turn.\<close>

fun secrets_new :: "(string \<Rightarrow> string \<Rightarrow> nat \<Rightarrow> (string \<rightharpoonup> string \<times> nat) \<Rightarrow> (string \<rightharpoonup> string \<times> nat) outcome) \<Rightarrow> string \<Rightarrow>
    secret_file list \<Rightarrow> (string \<rightharpoonup> string \<times> nat) \<Rightarrow> (string \<rightharpoonup> string \<times> nat) outcome" where
  "secrets_new create tmp [] fs = Ok fs"
| "secrets_new create tmp (f # rest) fs =
     bind_outcome (create (path_join tmp (if starts_with (sc_path f) ''/'' then drop 1 (sc_path f) else sc_path f))
        (sc_content f) (sc_mode f) fs)
       (secrets_new create tmp rest)"

end
