(* ===== verification/Node_Start.thy ===== *)
theory Node_Start
  imports Channel_Persistence_Correct Controller Seeds
begin

text \<open>
  The start of the node (\<open>run_kld\<close> of \<^verbatim>\<open>kld/main.rs\<close> and \<open>start_ldk\<close> of \<^verbatim>\<open>ldk/controller.rs\<close>): what it reads from the
  database, where the channel manager comes from, and the order in which the background task brings the
  node up.  What LDK makes of the bytes it reads is a field of the environment.
\<close>

section \<open>The channel manager\<close>

text \<open>The settings that \<open>start_ldk\<close> changes in the default configuration.\<close>

record start_config =
  uc_force_announced_channel_preference :: bool
  uc_announced_channel :: bool
  uc_our_max_accepted_htlcs :: u16
  uc_max_inbound_htlc_value_in_flight_percent_of_channel :: u8
  uc_max_funding_satoshis :: u64
  uc_accept_intercept_htlcs :: bool

definition kld_user_config :: start_config where
  "kld_user_config =
     \<lparr>uc_force_announced_channel_preference = False, uc_announced_channel = True, uc_our_max_accepted_htlcs = 200,
      uc_max_inbound_htlc_value_in_flight_percent_of_channel = 100, uc_max_funding_satoshis = - 1,
      uc_accept_intercept_htlcs = True\<rparr>"

record ('g, 's, 'm) start_env =
  se_read_graph :: "bytes \<Rightarrow> 'g outcome"
  se_new_graph :: 'g
  se_read_scorer :: "bytes \<Rightarrow> 's option"
  se_new_scorer :: "'g \<Rightarrow> 's"
  se_read_monitor :: "bytes \<Rightarrow> (bytes \<times> channel_monitor) outcome"
  se_best_block :: "(bytes \<times> u64) outcome"
    \<comment> \<open>hash and height of \<open>getblockchaininfo\<close>\<close>
  se_new_manager :: "start_config \<Rightarrow> bytes \<Rightarrow> u32 \<Rightarrow> 'm"
  se_read_manager :: "start_config \<Rightarrow> channel_monitor list \<Rightarrow> bytes \<Rightarrow> (bytes \<times> 'm) outcome"
    \<comment> \<open>the hash of the block the manager was written at, and the manager\<close>

record ('g, 's, 'm) started =
  sd_graph :: 'g
  sd_scorer :: 's
  sd_monitors :: "(bytes \<times> channel_monitor) list"
  sd_blockhash :: bytes
  sd_manager :: 'm

definition start_ldk :: "('g, 's, 'm) start_env \<Rightarrow> ldk_database \<Rightarrow> bytes option \<Rightarrow> ('g, 's, 'm) started outcome" where
  "start_ldk env db graph_file =
     bind_outcome (is_first_start db) (\<lambda>first_start.
     bind_outcome (fetch_graph (se_read_graph env) graph_file) (\<lambda>g.
     let graph = (case g of Some x \<Rightarrow> x | None \<Rightarrow> se_new_graph env) in
     bind_outcome (fetch_scorer (se_read_scorer env) db) (\<lambda>s.
     let scorer = (case s of Some (x, _) \<Rightarrow> x | None \<Rightarrow> se_new_scorer env graph) in
     bind_outcome (fetch_channel_monitors (se_read_monitor env) db) (\<lambda>monitors.
     bind_outcome (se_best_block env) (\<lambda>(best_hash, blocks).
     bind_outcome
       (if first_start then Ok (best_hash, se_new_manager env kld_user_config best_hash (ucast blocks))
        else fetch_channel_manager (se_read_manager env kld_user_config (map snd monitors)) db) (\<lambda>(blockhash, manager).
       Ok \<lparr>sd_graph = graph, sd_scorer = scorer, sd_monitors = monitors, sd_blockhash = blockhash, sd_manager = manager\<rparr>))))))"

section \<open>The background task\<close>

datatype start_step =
    SynchroniseListeners "bytes list"
  | WatchChannel out_point
  | PollBlocks
  | KeepWalletInStep
  | ListenForPeers u16
  | KeepChannelPeers
  | BroadcastNodeOnce
  | ProcessEvents
  | ExitProcess nat

text \<open>\<open>sync_to_chain_tip\<close>: the manager and every monitor are brought to the tip from the block each was written at;
  a monitor that cannot be watched is only logged.\<close>

definition sync_to_chain_tip :: "unit outcome \<Rightarrow> bytes \<Rightarrow> (bytes \<times> channel_monitor) list \<Rightarrow> start_step list \<times> unit outcome" where
  "sync_to_chain_tip synchronised manager_blockhash monitors =
     (case synchronised of
        Ok _ \<Rightarrow> (SynchroniseListeners (manager_blockhash # map fst monitors) #
                  map (\<lambda>m. WatchChannel (cm_funding_txo (snd m))) monitors @ [PollBlocks], Ok ())
      | r \<Rightarrow> ([SynchroniseListeners (manager_blockhash # map fst monitors)], r))"

text \<open>The steps after the bitcoin node has synchronised its chain.\<close>

definition background_start :: "unit outcome \<Rightarrow> (u16 \<Rightarrow> unit outcome) \<Rightarrow> u16 \<Rightarrow> ('g, 's, 'm) started \<Rightarrow> start_step list" where
  "background_start synchronised listen peer_port s =
     (case sync_to_chain_tip synchronised (sd_blockhash s) (sd_monitors s) of
        (steps, Ok _) \<Rightarrow> steps @ [KeepWalletInStep, ListenForPeers peer_port] @
           (case listen peer_port of
              Ok _ \<Rightarrow> [KeepChannelPeers, BroadcastNodeOnce, ProcessEvents]
            | _ \<Rightarrow> [ExitProcess 1])
      | (steps, _) \<Rightarrow> steps @ [ExitProcess 1])"

section \<open>The probes\<close>

text \<open>The turns of the task of random probes: the nodes of the graph at the turn, a random number, and whether the
  node quits during the probe. A turn on an empty graph ends the task. \<open>key_ok\<close> is whether the id of a node is a
  public key.\<close>

record probe_turn =
  pt_nodes :: "pubkey list"
  pt_random :: nat
  pt_quit :: bool

fun random_probes :: "(pubkey \<Rightarrow> bool) \<Rightarrow> probe_turn list \<Rightarrow> pubkey list" where
  "random_probes key_ok [] = []"
| "random_probes key_ok (t # ts) =
     (if pt_nodes t = [] then []
      else let k = pt_nodes t ! (pt_random t mod length (pt_nodes t))
        in if \<not> key_ok k then random_probes key_ok ts
           else if pt_quit t then [] else k # random_probes key_ok ts)"

text \<open>The task of probes of the targets, in their order and again from the first; the list tells of each turn whether
  the node quits.\<close>

fun target_probes :: "pubkey list \<Rightarrow> nat \<Rightarrow> bool list \<Rightarrow> pubkey list" where
  "target_probes targets n [] = []"
| "target_probes targets n (quit # qs) =
     (if targets = [] \<or> quit then [] else targets ! (n mod length targets) # target_probes targets (Suc n) qs)"

definition start_probing :: "(pubkey \<Rightarrow> bool) \<Rightarrow> u64 \<Rightarrow> u64 \<Rightarrow> pubkey list \<Rightarrow> probe_turn list \<Rightarrow> pubkey list" where
  "start_probing key_ok interval amt_msat targets turns =
     (if 0 < interval \<and> 0 < amt_msat then
        (if targets = [] then random_probes key_ok turns else target_probes targets 0 (map pt_quit turns))
      else [])"

section \<open>The process\<close>

text \<open>\<open>run_kld\<close> up to the server: the connection has been made (\<open>new_migrate\<close>); the first failure ends the process.\<close>

record ('g, 's, 'm, 'k, 'w) running =
  rn_mnemonic :: 'w
  rn_files :: seed_fs
  rn_priorities :: priorities
  rn_started :: "('g, 's, 'm) started"
  rn_macaroon_key :: 'k

definition run_kld ::
  "seed_io \<Rightarrow> 'w mnemonic_lib \<Rightarrow> ('k, 'c) macaroon_lib \<Rightarrow> ('k, 'c) token_lib \<Rightarrow> network \<Rightarrow> blockchain_info outcome \<Rightarrow>
   (bytes \<Rightarrow> unit outcome) \<Rightarrow> ('g, 's, 'm) start_env \<Rightarrow> unit outcome \<Rightarrow> string \<Rightarrow> string \<Rightarrow> 'w option \<Rightarrow>
   ldk_database \<Rightarrow> bytes option \<Rightarrow> seed_fs \<Rightarrow> ('g, 's, 'm, 'k, 'w) running outcome" where
  "run_kld io mn ml tk net info wallet_new env bind_server mnemonic_path data_dir new_mnemonic db graph_file fs =
     bind_outcome (keygen_init io mn mnemonic_path new_mnemonic fs) (\<lambda>(m, fs1).
     bind_outcome (bitcoind_client_new net info) (\<lambda>_.
     let priorities = set_lowest_fee_estimates priorities_new in
     bind_outcome (wallet_new (wallet_seed mn m)) (\<lambda>_.
     bind_outcome (start_ldk env db graph_file) (\<lambda>started.
     bind_outcome (macaroon_auth_init io ml tk (macaroon_seed mn m) data_dir fs1) (\<lambda>(key, fs2).
     bind_outcome bind_server (\<lambda>_.
       Ok \<lparr>rn_mnemonic = m, rn_files = fs2, rn_priorities = priorities, rn_started = started, rn_macaroon_key = key\<rparr>))))))"

text \<open>The code with which the process ends.\<close>

definition exit_code :: "'a outcome \<Rightarrow> nat" where
  "exit_code r = (case r of Ok _ \<Rightarrow> 0 | Err _ \<Rightarrow> 1 | Panic \<Rightarrow> 101)"

end
