(* ===== verification/Seeds_Correct.thy ===== *)
theory Seeds_Correct
  imports Seeds Mgr_Config_Correct "HOL-Library.Countable"
begin

text \<open>
  From the manager to the requests of the node: the mnemonic that the manager makes, uploads with the secrets of
  every host and leaves alone afterwards gives the node the key under which it accepts the manager's macaroons.
  And what the node does with a mnemonic that it cannot read.
\<close>

section \<open>Documented behaviour\<close>

text \<open>The words of a mnemonic are ASCII text that is read back; the text form of a macaroon is read back and can be
  decoded; writing a file and making a directory succeed.\<close>

definition mnemonics_ok :: "'w mnemonic_lib \<Rightarrow> bool" where
  "mnemonics_ok mn \<longleftrightarrow> (\<forall>m. mn_parse mn (mn_words mn m) = Some m \<and> utf8_ok (map of_char (mn_words mn m)))"

definition tokens_ok :: "('k, 'm) macaroon_lib \<Rightarrow> ('k, 'm) token_lib \<Rightarrow> bool" where
  "tokens_ok ml tk \<longleftrightarrow>
     (\<forall>m. \<exists>s b. tk_serialize tk m = Ok s \<and> ml_deserialize ml s = Some m \<and> tk_url_decode tk s = Ok b) \<and>
     (\<forall>seed. macaroons_verify ml (tk_key tk seed))"

definition disk_ok :: "seed_io \<Rightarrow> bool" where
  "disk_ok io \<longleftrightarrow> (\<forall>p c fs. io_write io p c fs = Ok (fs(p \<mapsto> Readable c))) \<and> (\<forall>p fs. io_mkdir io p fs = Ok fs)"

lemma read_to_string_words:
  "mnemonics_ok mn \<Longrightarrow> fs p = Some (Readable (mn_words mn m)) \<Longrightarrow> read_to_string fs p = Some (mn_words mn m)"
  by (simp add: read_to_string_def read_file_def mnemonics_ok_def)

lemma join_names [simp]:
  "path_join dir ''mnemonic'' \<noteq> path_join dir ''access.macaroon''" "path_join dir ''mnemonic'' \<noteq> path_join dir ''admin.macaroon''"
  "path_join dir ''mnemonic'' \<noteq> path_join dir ''readonly.macaroon''" "path_join dir ''access.macaroon'' \<noteq> path_join dir ''admin.macaroon''"
  "path_join dir ''access.macaroon'' \<noteq> path_join dir ''readonly.macaroon''" "path_join dir ''admin.macaroon'' \<noteq> path_join dir ''readonly.macaroon''"
  by (simp_all add: path_join_def starts_with_def)

lemma token_text:
  assumes "tokens_ok ml tk"
  obtains s b where "tk_serialize tk m = Ok s" and "ml_deserialize ml s = Some m" and "tk_url_decode tk s = Ok b"
  using assms unfolding tokens_ok_def by metis

section \<open>The files of the manager\<close>

text \<open>The directory of secrets once the manager has run: the words of a mnemonic and the macaroons of its key.\<close>

definition secrets_of ::
  "'w mnemonic_lib \<Rightarrow> ('k, 'm) macaroon_lib \<Rightarrow> ('k, 'm) token_lib \<Rightarrow> 'w \<Rightarrow> string \<Rightarrow> seed_fs \<Rightarrow> bool" where
  "secrets_of mn ml tk m dir fs \<longleftrightarrow>
     (let key = tk_key tk (macaroon_seed mn m)
      in fs (path_join dir ''mnemonic'') = Some (Readable (mn_words mn m)) \<and>
         (\<exists>a r b. tk_serialize tk (admin_macaroon ml key) = Ok a \<and> tk_serialize tk (readonly_macaroon ml key) = Ok r \<and>
            tk_url_decode tk a = Ok b \<and> fs (path_join dir ''access.macaroon'') = Some (Readable b) \<and>
            fs (path_join dir ''admin.macaroon'') = Some (Readable a) \<and>
            fs (path_join dir ''readonly.macaroon'') = Some (Readable r)))"

lemma seed_parts: "mn_sha256 mn (mn_seed mn m @ map of_char ''macaroon/0'') = macaroon_seed mn m"
  by (simp add: macaroon_seed_def generate_key_def)

lemma manager_macaroons_write:
  assumes "tokens_ok ml tk" and "disk_ok io" and "fs (path_join dir ''mnemonic'') = Some (Readable (mn_words mn m))"
  shows "\<exists>fs'. manager_macaroons io ml tk (macaroon_seed mn m) dir fs = Ok fs' \<and> secrets_of mn ml tk m dir fs'"
proof -
  let ?key = "tk_key tk (macaroon_seed mn m)"
  obtain a b where a: "tk_serialize tk (admin_macaroon ml ?key) = Ok a" "tk_url_decode tk a = Ok b"
    by (rule token_text [OF assms(1)])
  obtain r where r: "tk_serialize tk (readonly_macaroon ml ?key) = Ok r" by (rule token_text [OF assms(1)])
  show ?thesis
    using assms(2,3) a r by (simp add: manager_macaroons_def secrets_of_def disk_ok_def Let_def)
qed

lemma manager_twice:
  assumes "mnemonics_ok mn" and "disk_ok io" and "secrets_of mn ml tk m dir fs"
  shows "generate_mnemonic_and_macaroons io mn ml tk dir new fs = Ok fs"
proof -
  let ?key = "tk_key tk (macaroon_seed mn m)"
  from assms(3) obtain a r b where f: "fs (path_join dir ''mnemonic'') = Some (Readable (mn_words mn m))"
      "tk_serialize tk (admin_macaroon ml ?key) = Ok a" "tk_serialize tk (readonly_macaroon ml ?key) = Ok r"
      "tk_url_decode tk a = Ok b" "fs (path_join dir ''access.macaroon'') = Some (Readable b)"
      "fs (path_join dir ''admin.macaroon'') = Some (Readable a)" "fs (path_join dir ''readonly.macaroon'') = Some (Readable r)"
    unfolding secrets_of_def Let_def by blast
  have "manager_mnemonic io mn dir new fs = Ok (m, fs)"
    using assms(1) f(1) by (simp add: manager_mnemonic_def path_exists_def read_to_string_words mnemonics_ok_def ok_or_def)
  moreover have "manager_macaroons io ml tk (macaroon_seed mn m) dir fs = Ok fs"
    using assms(2) f by (simp add: manager_macaroons_def disk_ok_def Let_def fun_upd_idem)
  ultimately show ?thesis unfolding generate_mnemonic_and_macaroons_def seed_parts by simp
qed

lemma manager_first:
  assumes "mnemonics_ok mn" and "tokens_ok ml tk" and "disk_ok io" and "fs (path_join dir ''mnemonic'') = None"
  shows "\<exists>fs'. generate_mnemonic_and_macaroons io mn ml tk dir (Some m) fs = Ok fs' \<and> secrets_of mn ml tk m dir fs'"
proof -
  let ?fs = "fs(path_join dir ''mnemonic'' \<mapsto> Readable (mn_words mn m))"
  have "manager_mnemonic io mn dir (Some m) fs = Ok (m, ?fs)"
    using assms(3,4) by (simp add: manager_mnemonic_def path_exists_def ok_or_def disk_ok_def)
  moreover obtain fs' where "manager_macaroons io ml tk (macaroon_seed mn m) dir ?fs = Ok fs'" "secrets_of mn ml tk m dir fs'"
    using manager_macaroons_write [OF assms(2,3), of ?fs dir mn m] by auto
  ultimately show ?thesis unfolding generate_mnemonic_and_macaroons_def seed_parts by simp
qed

section \<open>The files of a host\<close>

lemma host_secrets_mnemonic:
  assumes "host_secrets (read_file fs) (path_exists fs) h dir tokens = Ok files" and "path_exists fs (path_join dir ''mnemonic'')"
  shows "\<exists>c. read_file fs (path_join dir ''mnemonic'') = Some c \<and>
           \<lparr>sc_path = ''/var/lib/secrets/mnemonic'', sc_content = c, sc_mode = MODE_PRIVATE\<rparr> \<in> set files"
  using assms by (auto simp: host_secrets_def read_secret_def outcome_simps)

section \<open>The node\<close>

lemma node_starts:
  assumes "mnemonics_ok mn" and "nfs p = Some (Readable (mn_words mn m))"
  shows "keygen_init io mn p new nfs = Ok (m, nfs)"
  using assms by (simp add: keygen_init_def read_to_string_words mnemonics_ok_def ok_or_def)

lemma node_macaroons:
  assumes "tokens_ok ml tk" and "disk_ok io"
  shows "\<exists>nfs'. macaroon_auth_init io ml tk seed data_dir nfs = Ok (tk_key tk seed, nfs')"
proof -
  let ?key = "tk_key tk seed"
  obtain a b where a: "tk_serialize tk (admin_macaroon ml ?key) = Ok a" "tk_url_decode tk a = Ok b"
    by (rule token_text [OF assms(1)])
  obtain r where r: "tk_serialize tk (readonly_macaroon ml ?key) = Ok r" by (rule token_text [OF assms(1)])
  show ?thesis using assms(2) a r by (simp add: macaroon_auth_init_def disk_ok_def Let_def)
qed

lemma header_macaroon:
  assumes "headers ''sec-websocket-protocol'' = None" and "headers ''macaroon'' = Some v" and "to_str v = Some s"
    and "ml_deserialize ml s = Some m"
  shows "macaroon_from_request ml to_str from_hex headers = Ok m"
  using assms by (simp add: macaroon_from_request_def ok_or_def)

lemma macaroons_open_routes:
  assumes tok: "tokens_ok ml tk" and hex: "\<forall>s. to_str (enc s) = Some s" and key: "key = tk_key tk seed"
    and a: "tk_serialize tk (admin_macaroon ml key) = Ok a" and r: "tk_serialize tk (readonly_macaroon ml key) = Ok r"
  shows "(\<forall>route \<in> set readonly_routes \<union> set admin_routes.
            request_allowed ml key (macaroon_from_request ml to_str from_hex [''macaroon'' \<mapsto> enc a]) route = Ok True)"
    and "(\<forall>route \<in> set readonly_routes.
            request_allowed ml key (macaroon_from_request ml to_str from_hex [''macaroon'' \<mapsto> enc r]) route = Ok True)"
    and "(\<forall>route \<in> set admin_routes.
            request_allowed ml key (macaroon_from_request ml to_str from_hex [''macaroon'' \<mapsto> enc r]) route =
              Err (Msg ''Failed to verify macaroon''))"
proof -
  have ver: "macaroons_verify ml key" using tok key by (simp add: tokens_ok_def)
  have read: "ml_deserialize ml s = Some m" if "tk_serialize tk m = Ok s" for m s
    using token_text [OF tok, of m] that by (metis outcome.inject(1))
  have ma: "macaroon_from_request ml to_str from_hex [''macaroon'' \<mapsto> enc a] = Ok (admin_macaroon ml key)"
    using hex read [OF a] by (simp add: header_macaroon)
  have mr: "macaroon_from_request ml to_str from_hex [''macaroon'' \<mapsto> enc r] = Ok (readonly_macaroon ml key)"
    using hex read [OF r] by (simp add: header_macaroon)
  show "\<forall>route \<in> set readonly_routes \<union> set admin_routes.
            request_allowed ml key (macaroon_from_request ml to_str from_hex [''macaroon'' \<mapsto> enc a]) route = Ok True"
    unfolding ma using roles_admin [OF ver] by blast
  show "\<forall>route \<in> set readonly_routes.
            request_allowed ml key (macaroon_from_request ml to_str from_hex [''macaroon'' \<mapsto> enc r]) route = Ok True"
    unfolding mr using roles_readonly [OF ver] by blast
  show "\<forall>route \<in> set admin_routes.
            request_allowed ml key (macaroon_from_request ml to_str from_hex [''macaroon'' \<mapsto> enc r]) route =
              Err (Msg ''Failed to verify macaroon'')"
    unfolding mr using roles_refused [OF ver, of _ "[]"] by simp
qed

text \<open>C31: What the manager makes opens the node. When the manager makes the mnemonic in an empty directory of secrets and the
  node's file of the mnemonic is the one uploaded with the secrets of the host, then the manager's next run changes no file,
  the node loads that very mnemonic and writes nothing over it, and under the key the node derives every route answers the
  text of the manager's file \<open>admin.macaroon\<close>; the text of \<open>readonly.macaroon\<close> opens the readonly routes
  and no other.\<close>

theorem manager_macaroons_open_node:
  assumes "mnemonics_ok mn" and "tokens_ok ml tk" and "disk_ok io" and "\<forall>s. to_str (enc s) = Some s"
    and "fs (path_join dir ''mnemonic'') = None"
    and "generate_mnemonic_and_macaroons io mn ml tk dir (Some m) fs = Ok fs'"
    and "host_secrets (read_file fs') (path_exists fs') h dir tokens = Ok files"
    and "\<forall>f \<in> set files. sc_path f = ''/var/lib/secrets/mnemonic'' \<longrightarrow> nfs mnemonic_path = Some (Readable (sc_content f))"
  shows "generate_mnemonic_and_macaroons io mn ml tk dir other fs' = Ok fs' \<and>
    keygen_init io mn mnemonic_path new nfs = Ok (m, nfs) \<and>
    (\<exists>key nfs' a r. macaroon_auth_init io ml tk (macaroon_seed mn m) data_dir nfs = Ok (key, nfs') \<and>
       fs' (path_join dir ''admin.macaroon'') = Some (Readable a) \<and> fs' (path_join dir ''readonly.macaroon'') = Some (Readable r) \<and>
       (\<forall>route \<in> set readonly_routes \<union> set admin_routes.
          request_allowed ml key (macaroon_from_request ml to_str from_hex [''macaroon'' \<mapsto> enc a]) route = Ok True) \<and>
       (\<forall>route \<in> set readonly_routes.
          request_allowed ml key (macaroon_from_request ml to_str from_hex [''macaroon'' \<mapsto> enc r]) route = Ok True) \<and>
       (\<forall>route \<in> set admin_routes.
          request_allowed ml key (macaroon_from_request ml to_str from_hex [''macaroon'' \<mapsto> enc r]) route =
            Err (Msg ''Failed to verify macaroon'')))"
proof -
  let ?key = "tk_key tk (macaroon_seed mn m)"
  have fs': "secrets_of mn ml tk m dir fs'" using manager_first [OF assms(1,2,3), of fs dir m] assms(5,6) by auto
  then have words: "fs' (path_join dir ''mnemonic'') = Some (Readable (mn_words mn m))" by (simp add: secrets_of_def Let_def)
  obtain c where "read_file fs' (path_join dir ''mnemonic'') = Some c"
      "\<lparr>sc_path = ''/var/lib/secrets/mnemonic'', sc_content = c, sc_mode = MODE_PRIVATE\<rparr> \<in> set files"
    using host_secrets_mnemonic [OF assms(7)] words by (auto simp: path_exists_def)
  with words assms(8) have node: "nfs mnemonic_path = Some (Readable (mn_words mn m))" by (force simp: read_file_def)
  obtain nfs' where nfs': "macaroon_auth_init io ml tk (macaroon_seed mn m) data_dir nfs = Ok (?key, nfs')"
    using node_macaroons [OF assms(2,3)] by blast
  obtain a r where ar: "tk_serialize tk (admin_macaroon ml ?key) = Ok a" "tk_serialize tk (readonly_macaroon ml ?key) = Ok r"
      "fs' (path_join dir ''admin.macaroon'') = Some (Readable a)" "fs' (path_join dir ''readonly.macaroon'') = Some (Readable r)"
    using fs' unfolding secrets_of_def Let_def by blast
  have "keygen_init io mn mnemonic_path new nfs = Ok (m, nfs)" by (rule node_starts [OF assms(1)]) (rule node)
  then show ?thesis
    using manager_twice [OF assms(1,3) fs'] nfs' ar
      macaroons_open_routes [OF assms(2,4) refl ar(1,2), of from_hex]
    by blast
qed


section \<open>Libraries for the examples\<close>

definition sample_mnemonics :: "nat mnemonic_lib" where
  "sample_mnemonics = \<lparr>mn_parse = (\<lambda>s. Some (length s)), mn_words = (\<lambda>n. replicate n (CHR ''a'')), mn_seed = (\<lambda>n. [of_nat n]),
     mn_sha256 = (\<lambda>b. b)\<rparr>"

definition sample_io :: seed_io where
  "sample_io = \<lparr>io_write = (\<lambda>p c fs. Ok (fs(p \<mapsto> Readable c))), io_mkdir = (\<lambda>_ fs. Ok fs)\<rparr>"

text \<open>Macaroons by their number: the text of a macaroon is as long as its number.\<close>

definition counted_macaroons :: "(nat, nat \<times> string list) macaroon_lib" where
  "counted_macaroons = sample_macaroon_lib\<lparr>ml_deserialize := \<lambda>s. Some (from_nat (length s))\<rparr>"

definition counted_tokens :: "(nat, nat \<times> string list) token_lib" where
  "counted_tokens = \<lparr>tk_key = length, tk_serialize = (\<lambda>m. Ok (replicate (to_nat m) (CHR ''a''))), tk_url_decode = Ok\<rparr>"

lemma sample_libs_ok: "mnemonics_ok sample_mnemonics" "tokens_ok counted_macaroons counted_tokens" "disk_ok sample_io"
proof -
  have "utf8_ok (map of_char (replicate n (CHR ''a'')))" for n by (induction n) simp_all
  then show "mnemonics_ok sample_mnemonics" by (simp add: mnemonics_ok_def sample_mnemonics_def)
  show "tokens_ok counted_macaroons counted_tokens"
    by (auto simp: tokens_ok_def counted_macaroons_def counted_tokens_def macaroons_verify_def sample_macaroon_lib_def)
  show "disk_ok sample_io" by (simp add: disk_ok_def sample_io_def)
qed

text \<open>A directory with every other secret of a host.\<close>

definition sample_secrets :: seed_fs where
  "sample_secrets = (\<lambda>p. if p = path_join ''s'' ''mnemonic'' then None else Some (Readable ''x''))"

definition header_text :: "bytes \<Rightarrow> string option" where
  "header_text b = Some (map (\<lambda>x. char_of (unat x)) b)"

lemma header_text_bytes: "header_text (map of_char s) = Some s"
proof -
  have "char_of (unat (of_char c :: 8 word)) = c" for c
  proof -
    have "of_char c < (256 :: nat)" by (rule nat_of_char_less_256)
    then have "unat (of_nat (of_char c) :: 8 word) = of_char c" by (simp add: unat_of_nat)
    then show ?thesis by (metis char_of_char of_nat_of_char)
  qed
  then show ?thesis by (simp add: header_text_def comp_def)
qed

lemma all_secrets_read:
  "\<exists>files. host_secrets (\<lambda>p. Some (f p)) (\<lambda>_. True) h dir tokens = Ok files \<and>
     (\<forall>x \<in> set files. sc_path x = ''/var/lib/secrets/mnemonic'' \<longrightarrow> sc_content x = f (path_join dir ''mnemonic''))"
  by (auto simp: host_secrets_def read_secret_def ok_or_def secret_sources_def telegraf_secret_def promtail_secret_def
      split: option.splits)

theorem manager_macaroons_open_node_witness:
  "\<exists>fs' a key.
     generate_mnemonic_and_macaroons sample_io sample_mnemonics counted_macaroons counted_tokens ''s'' (Some 3) sample_secrets = Ok fs' \<and>
     keygen_init sample_io sample_mnemonics ''m'' None [''m'' \<mapsto> Readable ''aaa''] = Ok (3, [''m'' \<mapsto> Readable ''aaa'']) \<and>
     fs' ''s/admin.macaroon'' = Some (Readable a) \<and>
     request_allowed counted_macaroons key
       (macaroon_from_request counted_macaroons header_text (\<lambda>_. None) [''macaroon'' \<mapsto> map of_char a]) (POST, ''/v1/pay'') = Ok True"
proof -
  obtain fs' where fs': "generate_mnemonic_and_macaroons sample_io sample_mnemonics counted_macaroons counted_tokens ''s'' (Some 3)
      sample_secrets = Ok fs'" "\<forall>p. \<exists>c. fs' p = Some (Readable c)"
    by (auto simp: generate_mnemonic_and_macaroons_def manager_mnemonic_def manager_macaroons_def path_exists_def sample_io_def
        sample_secrets_def counted_tokens_def ok_or_def Let_def)
  have words: "fs' (path_join ''s'' ''mnemonic'') = Some (Readable ''aaa'')"
    using manager_first [OF sample_libs_ok, of sample_secrets "''s''" 3] fs'(1)
    by (auto simp: sample_secrets_def secrets_of_def Let_def sample_mnemonics_def numeral_3_eq_3)
  obtain f where f: "\<And>p. fs' p = Some (Readable (f p))" using fs'(2) by metis
  then have rd: "read_file fs' = (\<lambda>p. Some (f p))" "path_exists fs' = (\<lambda>_. True)"
    by (auto simp: read_file_def path_exists_def)
  obtain files where files: "host_secrets (read_file fs') (path_exists fs') sample_kld_host ''s'' [] = Ok files"
      "\<forall>x \<in> set files. sc_path x = ''/var/lib/secrets/mnemonic'' \<longrightarrow> sc_content x = f (path_join ''s'' ''mnemonic'')"
    using all_secrets_read [of f sample_kld_host "''s''" "[]"] unfolding rd by blast
  have node: "\<forall>x \<in> set files. sc_path x = ''/var/lib/secrets/mnemonic'' \<longrightarrow>
      [''m'' \<mapsto> Readable ''aaa''] ''m'' = Some (Readable (sc_content x))"
    using files(2) words f [of "path_join ''s'' ''mnemonic''"] by simp
  have route: "(POST, ''/v1/pay'') \<in> set readonly_routes \<union> set admin_routes" by (simp add: admin_routes_def)
  have path: "path_join ''s'' ''admin.macaroon'' = ''s/admin.macaroon''" by (simp add: path_join_def starts_with_def)
  have empty: "sample_secrets (path_join ''s'' ''mnemonic'') = None" by (simp add: sample_secrets_def)
  show ?thesis
    using manager_macaroons_open_node [OF sample_libs_ok, of header_text "map of_char" sample_secrets "''s''" 3 fs' sample_kld_host "[]" files
        "[''m'' \<mapsto> Readable ''aaa'']" "''m''" None None "''d''" "\<lambda>_. None", OF _ empty fs'(1) files(1) node] route fs'(1)
    unfolding path by (auto simp: header_text_bytes)
qed


end
