(* ===== verification/Node_Start_Correct.thy ===== *)
theory Node_Start_Correct
  imports Node_Start Seeds_Correct
begin

text \<open>
  What a restart of the node keeps and what it loses, the order in which the background task brings the node up, and
  the tasks of probes.
\<close>

section \<open>The database after a session\<close>

lemma callbacks_first_start:
  assumes "spawned_by_callbacks ts" and "set ts' \<subseteq> set ts"
  shows "is_first_start (fst (run_all opw sn ts' (empty_db, []))) = Ok True"
proof -
  have "t_channel_manager (fst (run_all opw sn ts' (empty_db, []))) = []"
    using callbacks_no_async_manager [OF assms(1)] assms(2) by (subst run_all_manager) (auto simp: empty_db_def)
  then show ?thesis by (simp add: is_first_start_def query_opt_def on_conn_def run_all_closed empty_db_def)
qed

lemma stored_monitor_after:
  assumes "inj opw" and "Async (StoreMonitor op latest b u) \<in> set ts"
  shows "\<exists>latest' b'. stored_monitor opw op (fst (run_all opw sn ts (empty_db, []))) = Some (monitor_row_of opw op latest' b')"
proof -
  have "(latest, b) \<in> set (List.map_filter (task_for op) ts)"
    using assms(2) by (force simp: List.map_filter_def)
  then obtain l' b' rest where "rev (List.map_filter (task_for op) ts) = (l', b') # rest"
    by (cases "rev (List.map_filter (task_for op) ts)") auto
  with run_all_monitor [OF assms(1), of empty_db op sn ts "[]"] show ?thesis by (auto simp: empty_db_def)
qed

lemma collect_Ok_mem: "collect f xs = Ok ys \<Longrightarrow> x \<in> set xs \<Longrightarrow> \<exists>y \<in> set ys. f x = Ok y"
  unfolding collect_eq_Ok list_all2_conv_all_nth in_set_conv_nth by (metis nth_mem)

lemma fetched_monitor:
  assumes "inj opw" and "parse_out_point (opw op) = Ok op" and "Async (StoreMonitor op latest b u) \<in> set ts"
    and "fetch_channel_monitors rd (fst (run_all opw sn ts (empty_db, []))) = Ok ms"
  shows "\<exists>m \<in> set ms. cm_funding_txo (snd m) = op"
proof -
  obtain l' b' where row: "stored_monitor opw op (fst (run_all opw sn ts (empty_db, []))) = Some (monitor_row_of opw op l' b')"
    using stored_monitor_after [OF assms(1,3)] by blast
  then have "monitor_row_of opw op l' b' \<in> set (t_channel_monitors (fst (run_all opw sn ts (empty_db, []))))"
    by (auto simp: stored_monitor_def dest: tbl_find_SomeD)
  moreover have "collect (fetch_channel_monitor rd) (t_channel_monitors (fst (run_all opw sn ts (empty_db, [])))) = Ok ms"
    using assms(4) unfolding fetch_channel_monitors_def on_conn_eq_Ok by blast
  ultimately obtain m where m: "m \<in> set ms" "fetch_channel_monitor rd (monitor_row_of opw op l' b') = Ok m"
    by (meson collect_Ok_mem)
  obtain blockhash mon where mon: "m = (blockhash, mon)" by fastforce
  have parts: "op_txid (cm_funding_txo mon) = op_txid op" "op_index (cm_funding_txo mon) = op_index op"
    using m(2) assms(2) unfolding mon
    by (auto simp: fetch_channel_monitor_def monitor_row_of_def bind_outcome_eq_Ok split: if_splits)
  have "cm_funding_txo mon = op" by (rule out_point.equality) (simp_all add: parts)
  with m(1) mon show ?thesis by force
qed

section \<open>Restart\<close>

definition macaroon_paths :: "string \<Rightarrow> string set" where
  "macaroon_paths data_dir = {data_dir @ ''/macaroons/access.macaroon'', data_dir @ ''/macaroons/admin.macaroon'',
     data_dir @ ''/macaroons/readonly.macaroon''}"

lemma macaroon_files_written:
  assumes "disk_ok io" and "macaroon_auth_init io ml tk seed data_dir fs = Ok (key, fs')"
  shows "key = tk_key tk seed \<and> (\<forall>p. p \<notin> macaroon_paths data_dir \<longrightarrow> fs' p = fs p)"
  using assms by (auto simp: macaroon_auth_init_def disk_ok_def Let_def outcome_simps macaroon_paths_def)

lemma keygen_file:
  assumes "disk_ok io" and "mnemonics_ok mn" and "keygen_init io mn p new fs = Ok (m, fs')"
  shows "keygen_init io mn p new' fs' = Ok (m, fs')"
proof (cases "read_to_string fs p")
  case None
  with assms have "fs' = fs(p \<mapsto> Readable (mn_words mn m))"
    by (auto simp: keygen_init_def disk_ok_def outcome_simps)
  then have "fs' p = Some (Readable (mn_words mn m))" by simp
  then show ?thesis by (rule node_starts [OF assms(2)])
next
  case (Some words)
  with assms(3) have "fs' = fs" "mn_parse mn words = Some m" by (auto simp: keygen_init_def outcome_simps)
  with Some show ?thesis by (simp add: keygen_init_def ok_or_def)
qed

lemma keygen_reads_path:
  "fs p = fs' p \<Longrightarrow> keygen_init io mn p new fs = Ok (m, fs) \<Longrightarrow> read_to_string fs p \<noteq> None \<Longrightarrow>
     keygen_init io mn p new fs' = Ok (m, fs')"
  by (auto simp: keygen_init_def read_to_string_def read_file_def outcome_simps split: option.splits seed_file.splits if_splits)

lemma keygen_left:
  assumes "disk_ok io" and "mnemonics_ok mn" and "keygen_init io mn p new fs = Ok (m, fs')"
  shows "read_to_string fs' p \<noteq> None"
proof (cases "read_to_string fs p")
  case None
  with assms have "fs' = fs(p \<mapsto> Readable (mn_words mn m))"
    by (auto simp: keygen_init_def disk_ok_def outcome_simps)
  then show ?thesis using read_to_string_words [OF assms(2), of fs' p m] by simp
qed (use assms(3) in \<open>auto simp: keygen_init_def outcome_simps\<close>)

lemma start_ldk_first:
  "is_first_start db = Ok True \<Longrightarrow> start_ldk env db file = Ok s \<Longrightarrow>
     \<exists>h n. se_best_block env = Ok (h, n) \<and> sd_manager s = se_new_manager env kld_user_config h (ucast n) \<and> sd_blockhash s = h"
  by (auto simp: start_ldk_def outcome_simps Let_def)

lemma start_ldk_monitors:
  "start_ldk env db file = Ok s \<Longrightarrow> fetch_channel_monitors (se_read_monitor env) db = Ok (sd_monitors s)"
  by (auto simp: start_ldk_def outcome_simps Let_def)

text \<open>C33: What a restart keeps and what it loses. When a node that started on an empty database is started again, whatever
  callbacks LDK made in between and in whatever order their tasks ran, it has the same mnemonic and the same key of its
  macaroons, and it finds every monitor whose task was run; but its channel manager is a new one, made at the best block of
  the moment, although channels are being watched.\<close>

theorem restart_keeps_keys_not_manager:
  assumes "disk_ok io" and "mnemonics_ok mn" and "mnemonic_path \<notin> macaroon_paths data_dir"
    and "run_kld io mn ml tk net info wallet_new env bind_server mnemonic_path data_dir new_mnemonic empty_db file fs = Ok r"
    and "spawned_by_callbacks ts" and "set ts' \<subseteq> set ts" and "inj op_write" and "parse_out_point (op_write op) = Ok op"
    and "run_kld io mn ml tk net info' wallet_new' env' bind_server' mnemonic_path data_dir new_mnemonic'
           (fst (run_all op_write sn ts' (empty_db, []))) file' (rn_files r) = Ok r'"
  shows "rn_mnemonic r' = rn_mnemonic r \<and> rn_macaroon_key r' = rn_macaroon_key r \<and>
    (\<exists>best_hash height. se_best_block env' = Ok (best_hash, height) \<and>
       sd_manager (rn_started r') = se_new_manager env' kld_user_config best_hash (ucast height)) \<and>
    (\<forall>latest bytes u. Async (StoreMonitor op latest bytes u) \<in> set ts' \<longrightarrow>
       (\<exists>m \<in> set (sd_monitors (rn_started r')). cm_funding_txo (snd m) = op))"
proof -
  let ?db = "fst (run_all op_write sn ts' (empty_db, []))"
  obtain m fs1 key fs2 where one: "keygen_init io mn mnemonic_path new_mnemonic fs = Ok (m, fs1)"
      "macaroon_auth_init io ml tk (macaroon_seed mn m) data_dir fs1 = Ok (key, fs2)"
      "rn_mnemonic r = m" "rn_files r = fs2" "rn_macaroon_key r = key"
    using assms(4) by (auto simp: run_kld_def outcome_simps Let_def)
  have "fs2 mnemonic_path = fs1 mnemonic_path" using macaroon_files_written [OF assms(1) one(2)] assms(3) by simp
  then have again: "keygen_init io mn mnemonic_path new_mnemonic' fs2 = Ok (m, fs2)"
    by (intro keygen_reads_path [OF _ keygen_file [OF assms(1,2) one(1)] keygen_left [OF assms(1,2) one(1)]]) simp
  obtain key' fs3 where two: "macaroon_auth_init io ml tk (macaroon_seed mn m) data_dir fs2 = Ok (key', fs3)"
      "rn_mnemonic r' = m" "rn_macaroon_key r' = key'" "start_ldk env' ?db file' = Ok (rn_started r')"
    using assms(9) again one(4) by (auto simp: run_kld_def outcome_simps Let_def)
  have "key' = key"
    using macaroon_files_written [OF assms(1) one(2)] macaroon_files_written [OF assms(1) two(1)] by simp
  moreover have "\<exists>best_hash height. se_best_block env' = Ok (best_hash, height) \<and>
       sd_manager (rn_started r') = se_new_manager env' kld_user_config best_hash (ucast height)"
    using start_ldk_first [OF callbacks_first_start [OF assms(5,6)] two(4)] by blast
  moreover have "\<exists>m \<in> set (sd_monitors (rn_started r')). cm_funding_txo (snd m) = op"
    if "Async (StoreMonitor op latest bytes u) \<in> set ts'" for latest bytes u
    by (rule fetched_monitor [OF assms(7,8) that start_ldk_monitors [OF two(4)]])
  ultimately show ?thesis using one(3,5) two(2,3) by simp
qed

text \<open>A node with one channel: the monitor is stored, the manager is handed over, and the node starts again.\<close>

definition be_op_write :: "out_point \<Rightarrow> bytes" where
  "be_op_write op = op_txid op @ [ucast (drop_bit 8 (op_index op)), ucast (op_index op)]"

lemma inj_be_op_write: "inj be_op_write"
  by (rule injI) (auto simp: be_op_write_def intro: out_point.equality u16_bytes_inject)

lemma parse_sample_op: "parse_out_point (be_op_write sample_op) = Ok sample_op"
  by (simp add: be_op_write_def sample_op_def parse_out_point_def)

definition sample_start_env :: "nat \<Rightarrow> (unit, unit, nat) start_env" where
  "sample_start_env height =
     \<lparr>se_read_graph = (\<lambda>_. Ok ()), se_new_graph = (), se_read_scorer = (\<lambda>_. None), se_new_scorer = (\<lambda>_. ()),
      se_read_monitor = (\<lambda>_. Ok ([], sample_monitor 3)), se_best_block = Ok ([7], of_nat height),
      se_new_manager = (\<lambda>_ _ h. unat h), se_read_manager = (\<lambda>_ _ b. Ok (b, 0))\<rparr>"

definition sample_tasks :: "spawned list" where
  "sample_tasks = persist_manager (\<lambda>b. b) [1] (snd (persist_new_channel cm_state sample_op (sample_monitor 3) 9 []))"

definition sample_chain :: blockchain_info where
  "sample_chain = \<lparr>bi_chain = ''main'', bi_blocks = 1, bi_headers = 1, bi_median_time = 1, bi_verification_progress = 1\<rparr>"

abbreviation sample_run :: "nat \<Rightarrow> ldk_database \<Rightarrow> seed_fs \<Rightarrow> (unit, unit, nat, nat, nat) running outcome" where
  "sample_run height db fs \<equiv> run_kld sample_io sample_mnemonics counted_macaroons counted_tokens Bitcoin (Ok sample_chain)
     (\<lambda>_. Ok ()) (sample_start_env height) (Ok ()) ''m'' ''d'' (Some 3) db None fs"

lemma sample_run_succeeds:
  assumes "is_first_start db = Ok True" and "fetch_scorer (se_read_scorer (sample_start_env h)) db = Ok None"
    and "fetch_channel_monitors (se_read_monitor (sample_start_env h)) db = Ok ms"
  shows "\<exists>r. sample_run h db fs = Ok r"
proof -
  obtain m fs1 where k: "keygen_init sample_io sample_mnemonics ''m'' (Some 3) fs = Ok (m, fs1)"
    by (cases "read_to_string fs ''m''") (simp_all add: keygen_init_def sample_io_def sample_mnemonics_def ok_or_def)
  obtain fs2 where "macaroon_auth_init sample_io counted_macaroons counted_tokens (macaroon_seed sample_mnemonics m) ''d'' fs1 =
      Ok (tk_key counted_tokens (macaroon_seed sample_mnemonics m), fs2)"
    using node_macaroons [OF sample_libs_ok(2,3)] by blast
  moreover have "\<exists>s. start_ldk (sample_start_env h) db None = Ok s"
    using assms by (simp add: start_ldk_def fetch_graph_def sample_start_env_def)
  ultimately show ?thesis
    using k by (auto simp: run_kld_def bitcoind_client_new_def network_matches_def sample_chain_def)
qed

theorem restart_keeps_keys_not_manager_witness:
  "\<exists>r r'. sample_run 5 empty_db Map.empty = Ok r \<and>
     sample_run 8 (fst (run_all be_op_write \<lparr>pdt_secs = 0, pdt_nanosecond = 0\<rparr> sample_tasks (empty_db, []))) (rn_files r) = Ok r' \<and>
     rn_mnemonic r' = rn_mnemonic r \<and> sd_manager (rn_started r') = 8 \<and>
     (\<exists>m \<in> set (sd_monitors (rn_started r')). cm_funding_txo (snd m) = sample_op)"
proof -
  let ?sn = "\<lparr>pdt_secs = 0, pdt_nanosecond = 0\<rparr>"
  let ?db = "fst (run_all be_op_write ?sn sample_tasks (empty_db, []))"
  have cb: "spawned_by_callbacks sample_tasks" unfolding sample_tasks_def by (intro spawned_by_callbacks.intros)
  have db: "?db = empty_db\<lparr>t_channel_monitors := [monitor_row_of be_op_write sample_op 3 [3]]\<rparr>"
    by (simp add: run_all_def sample_tasks_def persist_manager_def persist_new_channel_def empty_db_def tbl_upsert_def
        sample_monitor_def)
  have first: "is_first_start empty_db = Ok True" "is_first_start ?db = Ok True"
    by (simp_all add: callbacks_first_start [OF cb subset_refl]) (simp add: is_first_start_def empty_db_def query_opt_def)
  have "fetch_scorer (se_read_scorer (sample_start_env h)) empty_db = Ok None"
    "fetch_scorer (se_read_scorer (sample_start_env h)) ?db = Ok None"
    "fetch_channel_monitors (se_read_monitor (sample_start_env h)) empty_db = Ok []" for h
    unfolding db by (simp_all add: fetch_scorer_def fetch_channel_monitors_def empty_db_def query_opt_def)
  moreover have "fetch_channel_monitors (se_read_monitor (sample_start_env h)) ?db = Ok [([], sample_monitor 3)]" for h
    unfolding db using parse_sample_op
    by (simp add: fetch_channel_monitors_def fetch_channel_monitor_def empty_db_def monitor_row_of_def sample_start_env_def
        sample_monitor_def)
  ultimately obtain r r' where r: "sample_run 5 empty_db Map.empty = Ok r" "sample_run 8 ?db (rn_files r) = Ok r'"
    using sample_run_succeeds first by meson
  have "''m'' \<notin> macaroon_paths ''d''" by (simp add: macaroon_paths_def)
  moreover have "\<exists>l b u. Async (StoreMonitor sample_op l b u) \<in> set sample_tasks"
    by (auto simp: sample_tasks_def persist_manager_def persist_new_channel_def)
  ultimately show ?thesis
    using restart_keeps_keys_not_manager [OF sample_libs_ok(3,1) _ r(1) cb subset_refl inj_be_op_write parse_sample_op r(2)] r
    by (auto simp: sample_start_env_def)
qed

section \<open>The order of the background task\<close>

text \<open>Peers are only listened to when the monitors of all channels are watched and the wallet is kept in step; the
  events of LDK are only handled after that.\<close>

lemma peers_after_monitors:
  assumes "background_start synchronised listen port s = before @ ListenForPeers p # after"
  shows "(\<forall>m \<in> set (sd_monitors s). WatchChannel (cm_funding_txo (snd m)) \<in> set before) \<and> KeepWalletInStep \<in> set before \<and>
    ProcessEvents \<notin> set before"
proof (cases synchronised)
  case (Ok u)
  let ?pre = "SynchroniseListeners (sd_blockhash s # map fst (sd_monitors s)) #
      map (\<lambda>m. WatchChannel (cm_funding_txo (snd m))) (sd_monitors s) @ [PollBlocks, KeepWalletInStep]"
  have "\<exists>post. background_start synchronised listen port s = ?pre @ ListenForPeers port # post \<and> (\<forall>q. ListenForPeers q \<notin> set post)"
    using Ok by (auto simp: background_start_def sync_to_chain_tip_def split: outcome.splits)
  then obtain post where eq: "?pre @ ListenForPeers port # post = before @ ListenForPeers p # after"
    and post: "\<forall>q. ListenForPeers q \<notin> set post"
    using assms by auto
  have "before = ?pre"
    using eq post by (auto simp: append_eq_append_conv2 append_eq_Cons_conv Cons_eq_append_conv map_eq_append_conv)
  then show ?thesis by auto
qed (use assms in \<open>auto simp: background_start_def sync_to_chain_tip_def append_eq_Cons_conv Cons_eq_append_conv\<close>)

section \<open>Probes\<close>

text \<open>The targets are probed in turn, each once in every round.\<close>

lemma target_probes_nth:
  "i < n \<Longrightarrow> targets \<noteq> [] \<Longrightarrow> target_probes targets k (replicate n False) ! i = targets ! ((k + i) mod length targets)"
proof (induction n arbitrary: i k)
  case (Suc n)
  then show ?case by (cases i) auto
qed simp

text \<open>The task of random probes ends at its first turn, at once after the start, when the graph is still empty, as it is
  when a node starts for the first time: whatever the graph holds later, no probe is sent.\<close>

lemma random_probes_end_on_empty_graph:
  "pt_nodes t = [] \<Longrightarrow> start_probing key_ok interval amt [] (t # ts) = []"
  by (simp add: start_probing_def)

text \<open>The fee rates that the process starts with are below the least that LDK is allowed to send, and nothing raises them.\<close>

lemma start_fees_below_minimum:
  "run_kld io mn ml tk net info wallet_new env bind_server mnemonic_path data_dir new_mnemonic db file fs = Ok r \<Longrightarrow>
     priorities_get (rn_priorities r) target = 253 \<and> priorities_get (rn_priorities r) target < MIN_FEERATE"
  by (cases target)
    (auto simp: run_kld_def outcome_simps Let_def set_lowest_fee_estimates_def list_class_def priorities_get_def
      priorities_new_def MIN_FEERATE_def)

end
