(* ===== verification/Metrics.thy ===== *)
theory Metrics
  imports Controller Durable_Connection Macaroon_Auth
begin

text \<open>
  The exporter of the metrics (\<^verbatim>\<open>prometheus.rs\<close>): the gauges, the health of the node, and the answer to a request.
  A gauge of 64-bit floats holds the number it was converted from; the text format is that of a library.
\<close>

section \<open>Gauges\<close>

datatype gauge_value = IntValue int | FloatValue u64 | FloatThousandths u64

type_synonym gauges = "string \<rightharpoonup> gauge_value"

definition gauge_names :: "string list" where
  "gauge_names = [''uptime'', ''node_count'', ''network_channel_count'', ''channel_count'', ''peer_count'', ''wallet_balance'',
     ''channel_balance'', ''fee'', ''block_height'', ''on_chain_sweep_fee'', ''non_anchor_channel_fee'',
     ''channel_close_minimum_fee'', ''anchor_channel_fee'', ''min_allowed_anchor_channel_remote_fee'',
     ''min_allowed_non_anchor_channel_remote_fee'', ''scorer_update_timestamp'']"

text \<open>The exporter registers its gauges and then the counters of the probes, one after the other; a name that is taken is an
  error, and the exporter does not start.\<close>

fun register_all :: "string list \<Rightarrow> gauges \<Rightarrow> gauges outcome" where
  "register_all [] g = Ok g"
| "register_all (n # ns) g =
     (if g n \<noteq> None then Err (Msg ''Duplicate metrics collector registration attempted'')
      else register_all ns (g(n \<mapsto> IntValue 0)))"

definition start_exporter :: "gauges \<Rightarrow> gauges outcome" where
  "start_exporter g = register_all (gauge_names @ [''probe_total_count'', ''probe_successful_count'', ''probe_failed_count'']) g"

text \<open>A gauge that is not registered is not set.\<close>

definition set_gauge :: "string \<Rightarrow> gauge_value \<Rightarrow> gauges \<Rightarrow> gauges" where
  "set_gauge n v g = (if g n = None then g else g(n \<mapsto> v))"

definition set_gauge_ok :: "string \<Rightarrow> gauge_value outcome \<Rightarrow> gauges \<Rightarrow> gauges" where
  "set_gauge_ok n r g = (case r of Ok v \<Rightarrow> set_gauge n v g | _ \<Rightarrow> g)"

section \<open>What is measured\<close>

record measures =
  ms_uptime_millis :: u64
  ms_graph_nodes :: nat
  ms_graph_channels :: nat
  ms_peers :: nat
  ms_wallet_balance :: "u64 outcome"
    \<comment> \<open>the confirmed balance of the wallet\<close>
  ms_active_channels :: "channel_details list"
  ms_block_height :: "u32 outcome"
  ms_priorities :: priorities

text \<open>\<open>try_into\<close> an \<open>i64\<close>, or its largest number.\<close>

definition count_as_i64 :: "nat \<Rightarrow> int" where
  "count_as_i64 n = (if n < 2 ^ 63 then int n else 2 ^ 63 - 1)"

definition metrics_wallet_balance :: "u64 outcome \<Rightarrow> u64" where
  "metrics_wallet_balance balance = (case balance of Ok b \<Rightarrow> b | _ \<Rightarrow> 0)"

definition total_channel_balance :: "channel_details list \<Rightarrow> u64" where
  "total_channel_balance channels = fold (\<lambda>c total. total + cd_balance_msat c) channels 0"

definition update_gauges :: "measures \<Rightarrow> ldk_database \<Rightarrow> gauges \<Rightarrow> gauges" where
  "update_gauges m db g =
     (let fee = (\<lambda>t. IntValue (uint (priorities_get (ms_priorities m) t)));
          g = set_gauge ''uptime'' (FloatValue (ms_uptime_millis m)) g;
          g = set_gauge ''node_count'' (IntValue (count_as_i64 (ms_graph_nodes m))) g;
          g = set_gauge ''network_channel_count'' (IntValue (count_as_i64 (ms_graph_channels m))) g;
          g = set_gauge_ok ''channel_count'' (bind_outcome (open_channel_count db) (\<lambda>n. Ok (IntValue n))) g;
          g = set_gauge ''peer_count'' (IntValue (count_as_i64 (ms_peers m))) g;
          g = set_gauge ''wallet_balance'' (FloatValue (metrics_wallet_balance (ms_wallet_balance m))) g;
          g = set_gauge ''channel_balance'' (FloatThousandths (total_channel_balance (ms_active_channels m))) g;
          g = set_gauge_ok ''fee'' (bind_outcome (fetch_total_forwards db) (\<lambda>t. Ok (FloatValue (tf_fee t)))) g;
          g = set_gauge_ok ''block_height'' (bind_outcome (ms_block_height m) (\<lambda>h. Ok (IntValue (uint h)))) g;
          g = set_gauge ''on_chain_sweep_fee'' (fee OnChainSweep) g;
          g = set_gauge ''non_anchor_channel_fee'' (fee NonAnchorChannelFee) g;
          g = set_gauge ''channel_close_minimum_fee'' (fee ChannelCloseMinimum) g;
          g = set_gauge ''anchor_channel_fee'' (fee AnchorChannelFee) g;
          g = set_gauge ''min_allowed_anchor_channel_remote_fee'' (fee MinAllowedAnchorChannelRemoteFee) g;
          g = set_gauge ''min_allowed_non_anchor_channel_remote_fee'' (fee MinAllowedNonAnchorChannelRemoteFee) g
      in set_gauge_ok ''scorer_update_timestamp''
           (bind_outcome (fetch_scorer_update_time db) (\<lambda>t. Ok (IntValue (odt_secs t)))) g)"

section \<open>Requests\<close>

text \<open>\<open>Service\<close> of the connection: it is synchronised by definition.\<close>

definition db_is_synchronised :: "durable_connection \<Rightarrow> bool" where
  "db_is_synchronised dc = True"

definition health :: "durable_connection \<Rightarrow> bool \<Rightarrow> bool \<Rightarrow> string" where
  "health dc bitcoind_synchronised bitcoind_connected =
     (if db_is_synchronised dc \<and> bitcoind_synchronised then ''OK''
      else if is_connected dc \<and> bitcoind_connected then ''SYNCING''
      else ''ERROR'')"

datatype exporter_reply = ReplyText string | ReplyGauges gauges | ReplyNotFound

definition exporter_response ::
  "http_method \<times> string \<Rightarrow> nat \<Rightarrow> durable_connection \<Rightarrow> bool \<Rightarrow> bool \<Rightarrow> measures \<Rightarrow> ldk_database \<Rightarrow> gauges \<Rightarrow>
   gauges \<times> exporter_reply" where
  "exporter_response req pid dc synced reachable m db g =
     (if req = (GET, ''/health'') then (g, ReplyText (health dc synced reachable))
      else if req = (GET, ''/pid'') then (g, ReplyText (nat_to_string pid))
      else if req = (GET, ''/metrics'') then (let g' = update_gauges m db g in (g', ReplyGauges g'))
      else (g, ReplyNotFound))"

text \<open>\<open>start_prometheus_exporter\<close>: after the gauges the address is parsed; \<open>Server::bind\<close> panics where it cannot bind, and
  \<open>served\<close> is how the server ends.\<close>

definition start_prometheus_exporter ::
  "(string \<Rightarrow> 'a option) \<Rightarrow> ('a \<Rightarrow> bool) \<Rightarrow> unit outcome \<Rightarrow> string \<Rightarrow> gauges \<Rightarrow> unit outcome" where
  "start_prometheus_exporter parse can_bind served address g =
     bind_outcome (start_exporter g) (\<lambda>_.
     bind_outcome (ok_or (Msg ''Failed to parse exporter'') (parse address)) (\<lambda>a.
       if \<not> can_bind a then Panic
       else case served of Ok x \<Rightarrow> Ok x | Err e \<Rightarrow> Err (Msg ''Failed to start server'') | Panic \<Rightarrow> Panic))"

section \<open>Correctness\<close>

lemma set_gauge_other [simp]: "k \<noteq> n \<Longrightarrow> set_gauge n v g k = g k" "k \<noteq> n \<Longrightarrow> set_gauge_ok n r g k = g k"
  by (auto simp: set_gauge_def set_gauge_ok_def split: outcome.splits)

lemma set_gauge_same: "g n = Some w \<Longrightarrow> set_gauge n v g n = Some v"
  by (simp add: set_gauge_def)

lemma set_gauge_ok_failed: "\<forall>v. r \<noteq> Ok v \<Longrightarrow> set_gauge_ok n r g = g"
  by (cases r) (simp_all add: set_gauge_ok_def)

lemma register_all_names:
  "register_all ns g = Ok g' \<Longrightarrow> (\<forall>n \<in> set ns. g' n \<noteq> None) \<and> (\<forall>n. g n \<noteq> None \<longrightarrow> g' n \<noteq> None)"
proof (induction ns arbitrary: g)
  case (Cons n ns)
  then have "register_all ns (g(n \<mapsto> IntValue 0)) = Ok g'" by (auto split: if_splits)
  from Cons.IH [OF this] show ?case by (auto split: if_splits)
qed simp

lemma started_gauges: "start_exporter g = Ok g' \<Longrightarrow> n \<in> set gauge_names \<Longrightarrow> g' n \<noteq> None"
  unfolding start_exporter_def using register_all_names by fastforce

text \<open>The registry is one for the process: an exporter does not start twice in it.\<close>

lemma not_started_twice:
  assumes "start_exporter g = Ok g'"
  shows "start_prometheus_exporter parse can_bind served address g' =
    Err (Msg ''Duplicate metrics collector registration attempted'')"
proof -
  have "g' ''uptime'' \<noteq> None" using started_gauges [OF assms] by (simp add: gauge_names_def)
  then have "start_exporter g' = Err (Msg ''Duplicate metrics collector registration attempted'')"
    by (simp add: start_exporter_def gauge_names_def)
  then show ?thesis by (simp add: start_prometheus_exporter_def)
qed

lemma balance_fold:
  "unat acc + sum_list (map (\<lambda>c. unat (cd_balance_msat c)) cs) < 2 ^ 64 \<Longrightarrow>
     unat (fold (\<lambda>c total. total + cd_balance_msat c) cs acc) = unat acc + sum_list (map (\<lambda>c. unat (cd_balance_msat c)) cs)"
proof (induction cs arbitrary: acc)
  case (Cons c cs)
  have "unat (acc + cd_balance_msat c) = unat acc + unat (cd_balance_msat c)"
    using Cons.prems by (simp add: unat_word_ariths)
  with Cons.IH [of "acc + cd_balance_msat c"] Cons.prems show ?case by simp
qed simp

lemma gauge_values:
  assumes "\<forall>n \<in> set gauge_names. g n \<noteq> None"
  shows "update_gauges m db g ''channel_balance'' = Some (FloatThousandths (total_channel_balance (ms_active_channels m)))"
    "update_gauges m db g ''node_count'' = Some (IntValue (count_as_i64 (ms_graph_nodes m)))"
    "update_gauges m db g ''network_channel_count'' = Some (IntValue (count_as_i64 (ms_graph_channels m)))"
    "update_gauges m db g ''peer_count'' = Some (IntValue (count_as_i64 (ms_peers m)))"
    "update_gauges m db g ''anchor_channel_fee'' = Some (IntValue (uint (priorities_get (ms_priorities m) AnchorChannelFee)))"
    "db_closed db \<Longrightarrow> update_gauges m db g ''channel_count'' = g ''channel_count''"
    "db_closed db \<Longrightarrow> update_gauges m db g ''fee'' = g ''fee''"
proof -
  have reg: "\<exists>w. g n = Some w" if "n \<in> set gauge_names" for n using assms that by auto
  obtain w1 w2 w3 w4 w5 where w: "g ''channel_balance'' = Some w1" "g ''node_count'' = Some w2"
      "g ''network_channel_count'' = Some w3" "g ''peer_count'' = Some w4" "g ''anchor_channel_fee'' = Some w5"
    using reg by (fastforce simp: gauge_names_def)
  show "update_gauges m db g ''channel_balance'' = Some (FloatThousandths (total_channel_balance (ms_active_channels m)))"
    "update_gauges m db g ''node_count'' = Some (IntValue (count_as_i64 (ms_graph_nodes m)))"
    "update_gauges m db g ''network_channel_count'' = Some (IntValue (count_as_i64 (ms_graph_channels m)))"
    "update_gauges m db g ''peer_count'' = Some (IntValue (count_as_i64 (ms_peers m)))"
    "update_gauges m db g ''anchor_channel_fee'' = Some (IntValue (uint (priorities_get (ms_priorities m) AnchorChannelFee)))"
    by (simp_all add: update_gauges_def Let_def set_gauge_same w)
  assume closed: "db_closed db"
  have "set_gauge_ok ''channel_count'' (bind_outcome (open_channel_count db) (\<lambda>n. Ok (IntValue n))) f = f"
    "set_gauge_ok ''fee'' (bind_outcome (fetch_total_forwards db) (\<lambda>t. Ok (FloatValue (tf_fee t)))) f = f" for f
    using closed by (simp_all add: open_channel_count_def fetch_total_forwards_def set_gauge_ok_failed)
  then show "update_gauges m db g ''channel_count'' = g ''channel_count''" "update_gauges m db g ''fee'' = g ''fee''"
    by (simp_all add: update_gauges_def Let_def)
qed

lemma count_min: "count_as_i64 n = min (int n) (2 ^ 63 - 1)"
  by (simp add: count_as_i64_def)


definition sample_measures :: "channel_details list \<Rightarrow> measures" where
  "sample_measures cs =
     \<lparr>ms_uptime_millis = 5, ms_graph_nodes = 3, ms_graph_channels = 4, ms_peers = 2, ms_wallet_balance = Err DbClosed,
      ms_active_channels = cs, ms_block_height = Ok 9, ms_priorities = priorities_new\<rparr>"


text \<open>The health of the node does not depend on its database. Whenever the bitcoin node is synchronised, the answer is OK,
  also while the connection to the database is closed and every read fails; SYNCING and ERROR are only told of the bitcoin
  node.\<close>

theorem health_ignores_database:
  "health dc synced reachable = ''OK'' \<longleftrightarrow> synced"
  by (simp add: health_def db_is_synchronised_def)

end
