(* ===== verification/Node_Process.thy ===== *)
theory Node_Process
  imports Node_Start Metrics
begin

text \<open>
  How the process of the node ends: the three futures that \<open>run_kld\<close> waits for (\<^verbatim>\<open>kld/main.rs\<close>, \<open>RestApi::serve\<close> of
  \<^verbatim>\<open>api/mod.rs\<close>, the exporter of \<^verbatim>\<open>prometheus.rs\<close>), the signal that stops them (\<^verbatim>\<open>lib.rs\<close>), the log of the node
  (\<^verbatim>\<open>logger.rs\<close>) and its web socket (\<^verbatim>\<open>api/ws.rs\<close>).
\<close>

section \<open>The first of several futures\<close>

text \<open>\<open>tokio::select!\<close> polls its branches once round from a random one and takes the first that is ready; the futures of the
  others are dropped.\<close>

fun first_ready :: "nat \<Rightarrow> 'a option list \<Rightarrow> nat \<Rightarrow> ('a \<times> nat) option" where
  "first_ready 0 branches i = None"
| "first_ready (Suc n) branches i =
     (case branches ! (i mod length branches) of
        Some r \<Rightarrow> Some (r, i mod length branches)
      | None \<Rightarrow> first_ready n branches (Suc i))"

definition select_branch :: "nat \<Rightarrow> 'a option list \<Rightarrow> ('a \<times> nat) option" where
  "select_branch start branches = first_ready (length branches) branches start"

section \<open>Signals\<close>

datatype unix_signal = SIGHUP | SIGINT | SIGQUIT | SIGTERM

text \<open>\<open>quit_signal\<close> waits for one of them.\<close>

definition quit_signal :: "unix_signal \<Rightarrow> bool" where
  "quit_signal s \<longleftrightarrow> s = SIGQUIT"

section \<open>The server of the API\<close>

text \<open>A poll of \<open>serve\<close>: the end of the server, if it has ended, and whether the signal has come. The handle that is asked for
  a graceful shutdown was not given to the server.\<close>

datatype server_log = ShutdownUnexpectedly kld_error | ShutdownSuccessfully | GracefulShutdownOfHandle

definition serve_log :: "unit outcome \<Rightarrow> server_log" where
  "serve_log r = (case r of Err e \<Rightarrow> ShutdownUnexpectedly e | _ \<Rightarrow> ShutdownSuccessfully)"

definition rest_serve :: "nat \<Rightarrow> unit outcome option \<Rightarrow> bool \<Rightarrow> (server_log \<times> unit outcome) option" where
  "rest_serve start server quit =
     map_option (\<lambda>(l, _). (l, Ok ()))
       (select_branch start [map_option serve_log server, if quit then Some GracefulShutdownOfHandle else None])"

section \<open>The process\<close>

text \<open>What a turn of the runtime finds: whether the signal has come, how the exporter has ended (on its own, or because of the
  signal when no request is open), how the server of the API has ended, and the two random branches.\<close>

record process_turn =
  pr_quit :: bool
  pr_exporter :: "unit outcome option"
  pr_server :: "unit outcome option"
  pr_start :: nat
  pr_serve_start :: nat

text \<open>The result, and the seconds that the process waits before.\<close>

definition kld_select :: "u64 \<Rightarrow> process_turn \<Rightarrow> (u64 \<times> unit outcome) option" where
  "kld_select shutdown_graceful_sec t =
     map_option fst (select_branch (pr_start t)
       [if pr_quit t then Some (shutdown_graceful_sec, Ok ()) else None,
        map_option (\<lambda>r. (0, r)) (pr_exporter t),
        map_option (\<lambda>(_, r). (0, r)) (rest_serve (pr_serve_start t) (pr_server t) (pr_quit t))])"

fun process_ends :: "u64 \<Rightarrow> process_turn list \<Rightarrow> (u64 \<times> unit outcome) option" where
  "process_ends grace [] = None"
| "process_ends grace (t # ts) = (case kld_select grace t of None \<Rightarrow> process_ends grace ts | r \<Rightarrow> r)"

definition kld_exit :: "'a outcome \<Rightarrow> u64 \<Rightarrow> process_turn list \<Rightarrow> nat option" where
  "kld_exit start grace ts =
     (case start of
        Ok _ \<Rightarrow> map_option (\<lambda>(_, r). exit_code r) (process_ends grace ts)
      | r \<Rightarrow> Some (exit_code r))"

section \<open>The log\<close>

datatype ldk_level = LdkGossip | LdkTrace | LdkDebug | LdkInfo | LdkWarn | LdkError

fun ldk_log_level :: "ldk_level \<Rightarrow> log_level" where
  "ldk_log_level LdkGossip = LogTrace"
| "ldk_log_level LdkTrace = LogTrace"
| "ldk_log_level LdkDebug = LogDebug"
| "ldk_log_level LdkInfo = LogInfo"
| "ldk_log_level LdkWarn = LogWarn"
| "ldk_log_level LdkError = LogError"

fun log_order :: "log_level \<Rightarrow> nat" where
  "log_order LogError = 1"
| "log_order LogWarn = 2"
| "log_order LogInfo = 3"
| "log_order LogDebug = 4"
| "log_order LogTrace = 5"

fun log_level_name :: "log_level \<Rightarrow> string" where
  "log_level_name LogError = ''error''"
| "log_level_name LogWarn = ''warn''"
| "log_level_name LogInfo = ''info''"
| "log_level_name LogDebug = ''debug''"
| "log_level_name LogTrace = ''trace''"

definition log_enabled :: "log_level \<Rightarrow> log_level \<Rightarrow> bool" where
  "log_enabled max_level level \<longleftrightarrow> log_order level \<le> log_order max_level"

record log_record =
  lo_level :: log_level
  lo_message :: string
  lo_static :: bool
    \<comment> \<open>the message is a text without arguments\<close>
  lo_target :: string
  lo_line :: "nat option"

definition monitor_sync_message :: string where
  "monitor_sync_message = ''A Channel Monitor sync is still in progress, refusing to provide monitor events!''"

definition log_field :: "string \<Rightarrow> string \<Rightarrow> string" where
  "log_field name v = CHR '' '' # name @ ''='' @ [CHR 0x22] @ v @ [CHR 0x22]"

definition log_line :: "string \<Rightarrow> nat \<Rightarrow> log_level \<Rightarrow> log_record \<Rightarrow> string option" where
  "log_line node_id pid max_level r =
     (if \<not> log_enabled max_level (lo_level r) \<or> (lo_static r \<and> lo_message r = monitor_sync_message) then None
      else Some (''level='' @ log_level_name (lo_level r) @ '' pid='' @ nat_to_string pid @ log_field ''message'' (lo_message r) @
        log_field ''target'' (lo_target r) @ (case lo_line r of Some n \<Rightarrow> log_field ''line'' (nat_to_string n) | None \<Rightarrow> []) @
        '' node_id='' @ node_id))"

section \<open>The web socket\<close>

datatype ws_message = WsText string | WsBinary bytes | WsClose "(u16 \<times> string) option" | WsPong bytes | WsPing bytes

definition process_message :: "ws_message \<Rightarrow> bool" where
  "process_message m = (case m of WsClose _ \<Rightarrow> False | _ \<Rightarrow> True)"

text \<open>The messages that are read before the connection is given up: a message of \<open>None\<close> is an error of the receiver.\<close>

fun receive_messages :: "ws_message option list \<Rightarrow> ws_message list" where
  "receive_messages [] = []"
| "receive_messages (None # ms) = []"
| "receive_messages (Some m # ms) = m # (if process_message m then receive_messages ms else [])"

definition handle_socket :: "bool \<Rightarrow> ws_message option list \<Rightarrow> ws_message list" where
  "handle_socket pinged ms = (if pinged then receive_messages ms else [])"


section \<open>Correctness\<close>

lemma first_ready_sound: "branches \<noteq> [] \<Longrightarrow> first_ready n branches i = Some (r, k) \<Longrightarrow> k < length branches \<and> branches ! k = Some r"
  by (induction n arbitrary: i) (auto split: option.splits)

lemma first_ready_None: "first_ready n branches i = None \<longleftrightarrow> (\<forall>j < n. branches ! ((i + j) mod length branches) = None)"
proof (induction n arbitrary: i)
  case (Suc n)
  have "(\<forall>j < Suc n. branches ! ((i + j) mod length branches) = None) \<longleftrightarrow>
      branches ! (i mod length branches) = None \<and> (\<forall>j < n. branches ! ((Suc i + j) mod length branches) = None)"
    by (auto simp: less_Suc_eq_0_disj)
  with Suc.IH [of "Suc i"] show ?case by (auto split: option.splits)
qed simp

text \<open>The first ready branch is one of them, the random one if that is ready, and there is one as soon as any is ready.\<close>

lemma select_sound: "select_branch s branches = Some (r, k) \<Longrightarrow> k < length branches \<and> branches ! k = Some r"
  unfolding select_branch_def by (cases "branches = []") (simp_all add: first_ready_sound)

lemma select_first: "branches \<noteq> [] \<Longrightarrow> branches ! (s mod length branches) = Some r \<Longrightarrow> select_branch s branches = Some (r, s mod length branches)"
  unfolding select_branch_def by (cases "length branches") auto

lemma rotation_hits: "k < n \<Longrightarrow> \<exists>j < n. (s + j) mod n = (k :: nat)"
proof -
  assume k: "k < n"
  let ?j = "(k + (n - s mod n)) mod n"
  have "(s + ?j) mod n = (s mod n + (k + (n - s mod n))) mod n" by (simp add: mod_simps)
  also have "s mod n + (k + (n - s mod n)) = k + n" using mod_less_divisor [of n s] k by linarith
  finally have "(s + ?j) mod n = k" using k by simp
  moreover have "?j < n" using k by simp
  ultimately show ?thesis by blast
qed

lemma select_None: "select_branch s branches = None \<longleftrightarrow> (\<forall>b \<in> set branches. b = None)"
proof
  assume none: "select_branch s branches = None"
  show "\<forall>b \<in> set branches. b = None"
  proof
    fix b assume "b \<in> set branches"
    then obtain k where k: "k < length branches" "b = branches ! k" by (auto simp: in_set_conv_nth)
    then obtain j where "j < length branches" "(s + j) mod length branches = k" using rotation_hits by blast
    with none k(2) show "b = None" unfolding select_branch_def first_ready_None by auto
  qed
next
  assume "\<forall>b \<in> set branches. b = None"
  then show "select_branch s branches = None"
    unfolding select_branch_def first_ready_None by (cases "branches = []") auto
qed

text \<open>The server of the API never ends with an error.\<close>

lemma rest_serve_ok: "rest_serve s server quit = Some (l, r) \<Longrightarrow> r = Ok ()"
  by (auto simp: rest_serve_def)

lemma rest_serve_None: "rest_serve s server quit = None \<longleftrightarrow> server = None \<and> \<not> quit"
  by (auto simp: rest_serve_def select_None)

lemma kld_select_None: "kld_select grace t = None \<longleftrightarrow> \<not> pr_quit t \<and> pr_exporter t = None \<and> pr_server t = None"
  by (auto simp: kld_select_def select_None rest_serve_None)

lemma kld_select_failed: "kld_select grace t = Some (n, Err e) \<Longrightarrow> pr_exporter t = Some (Err e)"
  by (auto simp: kld_select_def less_Suc_eq numeral_3_eq_3 dest!: select_sound rest_serve_ok split: if_splits)

lemma process_first:
  assumes "\<forall>u \<in> set before. \<not> pr_quit u \<and> pr_exporter u = None \<and> pr_server u = None"
    and "pr_quit t \<or> pr_exporter t \<noteq> None \<or> pr_server t \<noteq> None"
  shows "process_ends grace (before @ t # after) = kld_select grace t"
  using assms(1)
proof (induction before)
  case Nil
  have "kld_select grace t \<noteq> None" using assms(2) by (simp add: kld_select_None)
  then show ?case by (auto split: option.splits)
next
  case (Cons u us)
  have u: "kld_select grace u = None" unfolding kld_select_None using Cons.prems by simp
  have "process_ends grace (us @ t # after) = kld_select grace t" by (rule Cons.IH) (use Cons.prems in simp)
  then show ?case unfolding append_Cons process_ends.simps u option.case .
qed

text \<open>C38: How the process ends. At the first turn at which the signal has come, the exporter has ended or the server of
  the API has ended, the process ends; its result is a success or that of the exporter. So when the server of the API
  fails, the process ends at once and with the exit code of a success. And when the signal finds the exporter idle, the period of
  grace is only kept in one of the three orders in which the branches may be polled; in the others the process ends at once.\<close>

theorem process_end:
  assumes "\<forall>u \<in> set before. \<not> pr_quit u \<and> pr_exporter u = None \<and> pr_server u = None"
    and "pr_quit t \<or> pr_exporter t \<noteq> None \<or> pr_server t \<noteq> None"
  shows "(\<exists>n r. process_ends grace (before @ t # after) = Some (n, r) \<and> (r = Ok () \<or> pr_exporter t = Some r)) \<and>
    (\<not> pr_quit t \<longrightarrow> pr_exporter t = None \<longrightarrow>
       process_ends grace (before @ t # after) = Some (0, Ok ()) \<and> kld_exit (Ok s) grace (before @ t # after) = Some 0) \<and>
    (pr_quit t \<longrightarrow> pr_exporter t = Some (Ok ()) \<longrightarrow>
       process_ends grace (before @ t # after) = Some (if pr_start t mod 3 = 0 then grace else 0, Ok ()))"
proof (intro conjI impI)
  note first = process_first [OF assms, of grace after]
  let ?branches = "[if pr_quit t then Some (grace, Ok ()) else None, map_option (\<lambda>r. (0, r)) (pr_exporter t),
      map_option (\<lambda>(_, r). (0, r)) (rest_serve (pr_serve_start t) (pr_server t) (pr_quit t))]"
  have sel: "kld_select grace t = map_option fst (select_branch (pr_start t) ?branches)" by (simp add: kld_select_def)
  obtain n r k where some: "select_branch (pr_start t) ?branches = Some ((n, r), k)"
    using assms(2) kld_select_None [of grace t] sel by (cases "select_branch (pr_start t) ?branches") auto
  have k: "k < 3" "?branches ! k = Some (n, r)" using select_sound [OF some] by simp_all
  have cases3: "k = 0 \<or> k = Suc 0 \<or> k = Suc (Suc 0)" using k(1) by linarith
  have r: "r = Ok () \<or> pr_exporter t = Some r" using cases3 k(2) by (auto dest: rest_serve_ok split: if_splits)
  with first sel some show "\<exists>n r. process_ends grace (before @ t # after) = Some (n, r) \<and> (r = Ok () \<or> pr_exporter t = Some r)"
    by simp
  show alone: "process_ends grace (before @ t # after) = Some (0, Ok ())" if "\<not> pr_quit t" "pr_exporter t = None"
  proof -
    have "(n, r) = (0, Ok ())" using cases3 k(2) r that by (auto split: if_splits)
    with first sel some show ?thesis by simp
  qed
  show "kld_exit (Ok s) grace (before @ t # after) = Some 0" if "\<not> pr_quit t" "pr_exporter t = None"
    using alone [OF that] by (simp add: kld_exit_def exit_code_def)
  assume quit: "pr_quit t" "pr_exporter t = Some (Ok ())"
  then obtain l where serve: "rest_serve (pr_serve_start t) (pr_server t) (pr_quit t) = Some (l, Ok ())"
    using rest_serve_None rest_serve_ok by (metis not_Some_eq surj_pair)
  have "pr_start t mod 3 < 3" by simp
  then consider "pr_start t mod 3 = 0" | "pr_start t mod 3 = Suc 0" | "pr_start t mod 3 = Suc (Suc 0)" by linarith
  then show "process_ends grace (before @ t # after) = Some (if pr_start t mod 3 = 0 then grace else 0, Ok ())"
    unfolding first sel
  proof cases
    case 1
    then show "map_option fst (select_branch (pr_start t) ?branches) = Some (if pr_start t mod 3 = 0 then grace else 0, Ok ())"
      using select_first [of ?branches "pr_start t" "(grace, Ok ())"] quit by simp
  next
    case 2
    then show "map_option fst (select_branch (pr_start t) ?branches) = Some (if pr_start t mod 3 = 0 then grace else 0, Ok ())"
      using select_first [of ?branches "pr_start t" "(0, Ok ())"] quit by simp
  next
    case 3
    then show "map_option fst (select_branch (pr_start t) ?branches) = Some (if pr_start t mod 3 = 0 then grace else 0, Ok ())"
      using select_first [of ?branches "pr_start t" "(0, Ok ())"] quit serve by simp
  qed
qed

theorem process_end_witness:
  "kld_exit (Ok ()) 5
     [\<lparr>pr_quit = False, pr_exporter = None, pr_server = None, pr_start = 0, pr_serve_start = 0\<rparr>,
      \<lparr>pr_quit = False, pr_exporter = None, pr_server = Some (Err (Msg ''bind'')), pr_start = 1, pr_serve_start = 0\<rparr>] = Some 0"
  using process_end [of "[\<lparr>pr_quit = False, pr_exporter = None, pr_server = None, pr_start = 0, pr_serve_start = 0\<rparr>]"
    "\<lparr>pr_quit = False, pr_exporter = None, pr_server = Some (Err (Msg ''bind'')), pr_start = 1, pr_serve_start = 0\<rparr>" 5 "[]" "()"]
  by simp

text \<open>The signals of a stop by the service manager or of the terminal are not the one that is waited for.\<close>

lemma only_sigquit: "\<not> quit_signal SIGTERM \<and> \<not> quit_signal SIGINT"
  by (simp add: quit_signal_def)

text \<open>A socket is given up at the first message that closes it, and whatever comes after that is not read.\<close>

lemma socket_closes:
  "\<forall>m \<in> set ms. \<exists>x. m = Some x \<and> process_message x \<Longrightarrow>
     handle_socket True (ms @ Some (WsClose c) # rest) = map the ms @ [WsClose c]"
  by (induction ms) (auto simp: handle_socket_def process_message_def)

text \<open>No level of LDK is logged at a lower threshold than its own.\<close>

lemma gossip_only_traced: "log_line node pid max_level r \<noteq> None \<Longrightarrow> lo_level r = ldk_log_level LdkGossip \<Longrightarrow> max_level = LogTrace"
  by (cases max_level) (auto simp: log_line_def log_enabled_def split: if_splits)

end
