(* ===== verification/Ldk_Errors.thy ===== *)
theory Ldk_Errors
  imports Rust_Text
begin

text \<open>
  The messages that the errors of LDK become (\<^verbatim>\<open>ldk/mod.rs\<close>), with the warnings that are logged on the way.
\<close>

datatype api_error =
    APIMisuseError string
  | FeeRateTooHigh string u32
  | InvalidRoute string
  | ChannelUnavailable string
  | MonitorUpdateInProgress
  | IncompatibleShutdownScript string
    \<comment> \<open>the script as it is printed\<close>

fun ldk_error :: "api_error \<Rightarrow> string" where
  "ldk_error (APIMisuseError err) = ''Misuse error: '' @ err"
| "ldk_error (FeeRateTooHigh err feerate) = err @ '' feerate: '' @ u32_to_string feerate"
| "ldk_error (InvalidRoute err) = ''Invalid route provided: '' @ err"
| "ldk_error (ChannelUnavailable err) = ''Channel unavailable: '' @ err"
| "ldk_error MonitorUpdateInProgress = ''Client indicated a channel monitor update is in progress but not yet complete''"
| "ldk_error (IncompatibleShutdownScript script) = ''Provided a scriptpubkey format not accepted by peer: '' @ script"

definition lightning_error :: "string \<Rightarrow> string" where
  "lightning_error err = err"

datatype retryable_failure = PaymentExpired | RouteNotFound | DuplicateRetryable

fun retryable_send_failure :: "retryable_failure \<Rightarrow> string" where
  "retryable_send_failure PaymentExpired = ''Payment failure: payment has expired''"
| "retryable_send_failure RouteNotFound = ''Payment failure: route not found''"
| "retryable_send_failure DuplicateRetryable = ''Payment failure: duplicate payment''"

datatype sign_or_creation = SignError | CreationError string

fun sign_or_creation_error :: "sign_or_creation \<Rightarrow> string" where
  "sign_or_creation_error SignError = ''Error signing invoice''"
| "sign_or_creation_error (CreationError e) = ''Error creating invoice: '' @ e"

text \<open>The results of the paths of a payment: \<open>None\<close> is a path that was sent.\<close>

datatype payment_failure =
    ParameterError api_error
  | PathParameterError "api_error option list"
  | AllFailedResendSafe "api_error list"
  | DuplicatePayment
  | PartialFailure "api_error option list"

text \<open>The warnings, and the message.\<close>

fun payment_send_failure :: "payment_failure \<Rightarrow> string list \<times> string" where
  "payment_send_failure (ParameterError e) = ([], ldk_error e)"
| "payment_send_failure (PathParameterError results) =
     (List.map_filter (map_option ldk_error) results, ''Payment failure: Path parameter error. Check logs for more details.'')"
| "payment_send_failure (AllFailedResendSafe errors) =
     (map ldk_error errors, ''Payment failure: All failed, resend safe. Check logs for more details.'')"
| "payment_send_failure DuplicatePayment = ([], ''Payment failed: Duplicate Payment'')"
| "payment_send_failure (PartialFailure results) =
     (List.map_filter (map_option ldk_error) results, ''Payment failed: Partial failure. Check logs for more details.'')"

datatype decode_failure =
    UnknownVersion | UnknownRequiredFeature | InvalidValue | ShortRead | BadLengthDescriptor | DecodeIo string
  | UnsupportedCompression

fun decode_error :: "decode_failure \<Rightarrow> string" where
  "decode_error UnknownVersion = ''Unknown version''"
| "decode_error UnknownRequiredFeature = ''Unknown required feature''"
| "decode_error InvalidValue = ''Invalid value''"
| "decode_error ShortRead = ''Short read''"
| "decode_error BadLengthDescriptor = ''Bad length descriptor''"
| "decode_error (DecodeIo e) = e"
| "decode_error UnsupportedCompression = ''Unsupported compression''"

text \<open>\<open>keysend_payment\<close> goes on after a partial failure that is only the wait for monitors; every other failure is
  returned with its message.\<close>

definition keysend_failure :: "payment_failure \<Rightarrow> string option" where
  "keysend_failure e =
     (case e of
        PartialFailure results \<Rightarrow>
          if list_all (\<lambda>r. r = None \<or> r = Some MonitorUpdateInProgress) results then None
          else Some (snd (payment_send_failure e))
      | _ \<Rightarrow> Some (snd (payment_send_failure e)))"

text \<open>Nothing is lost when a keysend goes on: then the failure has no other error, so all its warnings would be the wait.\<close>

lemma keysend_goes_on:
  "keysend_failure e = None \<longleftrightarrow>
     (\<exists>results. e = PartialFailure results \<and>
        set (fst (payment_send_failure e)) \<subseteq> {ldk_error MonitorUpdateInProgress} \<and>
        (\<forall>r \<in> set results. \<forall>x. r = Some x \<longrightarrow> x = MonitorUpdateInProgress))"
  by (cases e) (auto simp: keysend_failure_def list_all_iff List.map_filter_def split: if_splits option.splits)

end
