(* ===== verification/Mgr_Commands.thy ===== *)
theory Mgr_Commands
  imports Mgr_Config
begin

text \<open>
  The programs that the manager runs on and for the hosts (\<^verbatim>\<open>mgr/src\<close>: \<open>command\<close>, \<open>ssh\<close>, \<open>utils\<close>, \<open>reboot\<close>,
  \<open>nixos_rebuild\<close>, \<open>install\<close>), the choice of hosts and the question of \<open>main\<close>, and the files of the flake.  A step
  adds the programs it runs to a log; the world says how each ends, by its place in the log.
\<close>

section \<open>Programs\<close>

datatype exit_status = Exited int | Signalled

type_synonym cmd_log = "(string \<times> string list) list"

text \<open>\<open>None\<close> is a program that could not be started.\<close>

type_synonym world = "nat \<Rightarrow> exit_status option"

type_synonym 'a cmd = "world \<Rightarrow> cmd_log \<Rightarrow> cmd_log \<times> 'a outcome"

definition cmd_return :: "'a outcome \<Rightarrow> 'a cmd" where
  "cmd_return r w log = (log, r)"

definition cmd_bind :: "'a cmd \<Rightarrow> ('a \<Rightarrow> 'b cmd) \<Rightarrow> 'b cmd" where
  "cmd_bind m f w log = (case m w log of
     (log', Ok x) \<Rightarrow> f x w log' | (log', Err e) \<Rightarrow> (log', Err e) | (log', Panic) \<Rightarrow> (log', Panic))"

definition run_program :: "string \<Rightarrow> string list \<Rightarrow> exit_status option cmd" where
  "run_program prog args w log = (log @ [(prog, args)], Ok (w (length log)))"

fun join_with :: "string \<Rightarrow> string list \<Rightarrow> string" where
  "join_with sep [] = []"
| "join_with sep [s] = s"
| "join_with sep (s # t # ts) = s @ sep @ join_with sep (t # ts)"

definition int_to_text :: "int \<Rightarrow> string" where
  "int_to_text i = (if i < 0 then CHR ''-'' # nat_to_string (nat (- i)) else nat_to_string (nat i))"

definition status_to_pretty_err :: "exit_status option \<Rightarrow> string \<Rightarrow> string list \<Rightarrow> unit outcome" where
  "status_to_pretty_err res command args =
     (case res of
        None \<Rightarrow> Err (Msg (''failed to start this command: '' @ command))
      | Some (Exited code) \<Rightarrow>
          if code = 0 then Ok ()
          else Err (Msg (''command '' @ command @ '' failed ('' @ command @ '' '' @ join_with '' '' args @ '') with exit code: '' @
                 int_to_text code))
      | Some Signalled \<Rightarrow> Err (Msg (''command '' @ command @ '' ('' @ command @ '' '' @ join_with '' '' args @ '') was terminated by a signal'')))"

definition run_checked :: "string \<Rightarrow> string list \<Rightarrow> unit cmd" where
  "run_checked prog args = cmd_bind (run_program prog args) (\<lambda>s. cmd_return (status_to_pretty_err s prog args))"

section \<open>Remote programs\<close>

fun mgr_ssh :: "host list \<Rightarrow> string list \<Rightarrow> unit cmd" where
  "mgr_ssh [] command = cmd_return (Ok ())"
| "mgr_ssh (h # hs) command = cmd_bind (run_checked ''ssh'' ([deploy_ssh_target h, ''--''] @ command)) (\<lambda>_. mgr_ssh hs command)"

definition generate_key_pair :: "string \<Rightarrow> unit cmd" where
  "generate_key_pair p = run_checked ''ssh-keygen'' [''-N'', '''', ''-f'', p, ''-C'', ''kld-mgr'']"

definition mgr_reboot :: "host list \<Rightarrow> unit cmd" where
  "mgr_reboot hosts = mgr_ssh hosts [''nohup reboot &>/dev/null & exit'']"

definition timeout_ssh :: "host \<Rightarrow> string list \<Rightarrow> bool \<Rightarrow> exit_status cmd" where
  "timeout_ssh h command learn_known_host_key =
     cmd_bind (run_program ''ssh'' ([''-o'', ''ConnectTimeout=10'', ''-o'', ''StrictHostKeyChecking=no''] @
         (if learn_known_host_key then [] else [''-o'', ''UserKnownHostsFile=/dev/null'']) @ [deploy_ssh_target h, ''--''] @ command))
       (\<lambda>s. cmd_return (ok_or (Msg ''Failed to run ssh...'') s))"

text \<open>The key is written to the program and the beginning of what it prints is checked. \<open>answer\<close> is \<open>None\<close> when the key
  cannot be written, and else what the program prints, if that can be read. Its exit status is not asked for.\<close>

definition unlock_over_ssh :: "(host \<Rightarrow> nat \<Rightarrow> string option option) \<Rightarrow> host \<Rightarrow> string option \<Rightarrow> unit cmd" where
  "unlock_over_ssh answer h key_file w log =
     (case key_file of
        None \<Rightarrow> (log, Err (Msg ''key file''))
      | Some _ \<Rightarrow>
          let log' = log @ [(''ssh'', [''-p'', ''2222'', ''-o'', ''ConnectTimeout=10'', ''-o'', ''StrictHostKeyChecking=no'',
                deploy_ssh_target h, ''cryptsetup-askpass''])]
          in case w (length log) of
               None \<Rightarrow> (log', Err (Msg ''ssh''))
             | Some _ \<Rightarrow>
                 (case answer h (length log) of
                    None \<Rightarrow> (log', Err (Msg ''failed to enter password''))
                  | Some (Some out) \<Rightarrow> if starts_with out ''Passphrase for'' then (log', Ok ())
                                else (log', Err (Msg ''sshd response unexpected''))
                  | Some None \<Rightarrow> (log', Err (Msg ''sshd response unexpected''))))"

definition try_unlock_over_ssh :: "(host \<Rightarrow> nat \<Rightarrow> string option option) \<Rightarrow> host \<Rightarrow> string option \<Rightarrow> unit cmd" where
  "try_unlock_over_ssh answer h key_file w log =
     (case timeout_ssh h [''exit''] True w log of
        (log', Ok (Exited code)) \<Rightarrow>
          if code = 0 then (log', Ok ()) else unlock_over_ssh answer h key_file w log'
      | (log', _) \<Rightarrow> unlock_over_ssh answer h key_file w log')"

section \<open>Rebuilding a host\<close>

definition rebuild_args :: "bool \<Rightarrow> string \<Rightarrow> string \<Rightarrow> string \<Rightarrow> string list" where
  "rebuild_args macos action uri target =
     [if action = ''rollback'' then ''switch'' else action, ''--flake'', uri, ''--option'', ''accept-flake-config'', ''true'',
      ''--target-host'', target, ''--build-host'', if macos then target else '''', ''--use-substitutes'', ''--fast''] @
     (if action = ''rollback'' then [''--rollback''] else [])"

text \<open>The loop over \<open>1..3\<close>: a first failure is only a warning.\<close>

fun rebuild_tries :: "string list \<Rightarrow> nat list \<Rightarrow> unit cmd" where
  "rebuild_tries args [] w log = (log, Ok ())"
| "rebuild_tries args (i # is) w log =
     (case run_checked ''nixos-rebuild'' args w log of
        (log', Ok _) \<Rightarrow> (log', Ok ())
      | (log', e) \<Rightarrow> if i = 1 then rebuild_tries args is w log' else (log', e))"

definition upload_secrets :: "string \<Rightarrow> string \<Rightarrow> unit cmd" where
  "upload_secrets path target =
     run_checked ''rsync'' [''-vrlF'', ''-e'', ''ssh'', path @ ''/'', target @ '':/'']"

text \<open>\<open>secrets\<close> is the preparation of the secrets of the host, with the directory that holds them.\<close>

definition nixos_rebuild :: "bool \<Rightarrow> string \<Rightarrow> host \<Rightarrow> string \<Rightarrow> string outcome \<Rightarrow> bool \<Rightarrow> unit cmd" where
  "nixos_rebuild macos action h flake_path secrets collect_garbage =
     cmd_bind (cmd_return secrets) (\<lambda>dir.
     cmd_bind (upload_secrets dir (deploy_ssh_target h)) (\<lambda>_.
     cmd_bind (rebuild_tries (rebuild_args macos action (flake_uri h flake_path) (deploy_ssh_target h)) [1, 2]) (\<lambda>_.
       if collect_garbage then
         cmd_bind (run_program ''ssh'' [deploy_ssh_target h, ''--'', ''nix-collect-garbage'', ''--delete-older-than'', ''14d''])
           (\<lambda>_. cmd_return (Ok ()))
       else cmd_return (Ok ()))))"

section \<open>Installation\<close>

text \<open>The loop until the host is unlocked, of which the fuel is the number of turns: \<open>None\<close> has not ended yet.\<close>

fun unlock_loop :: "nat \<Rightarrow> (host \<Rightarrow> nat \<Rightarrow> string option option) \<Rightarrow> host \<Rightarrow> string option \<Rightarrow> world \<Rightarrow> cmd_log \<Rightarrow> cmd_log option" where
  "unlock_loop 0 answer h key_file w log = None"
| "unlock_loop (Suc n) answer h key_file w log =
     (case try_unlock_over_ssh answer h key_file w log of
        (log', Ok _) \<Rightarrow> Some log'
      | (log', _) \<Rightarrow> unlock_loop n answer h key_file w log')"

definition install_args :: "bool \<Rightarrow> bool \<Rightarrow> bool \<Rightarrow> host \<Rightarrow> string \<Rightarrow> string \<Rightarrow> string \<Rightarrow> string \<Rightarrow> string list" where
  "install_args macos debug no_reboot h secrets_path disk_key kexec_url flake_path =
     [''--extra-files'', secrets_path, ''--disk-encryption-keys'', ''/var/lib/disk_encryption_key'', disk_key, ''--kexec'', kexec_url,
      ''--flake'', flake_uri h flake_path, ''--option'', ''accept-flake-config'', ''true''] @
     (if macos then [''--build-on-remote''] else []) @ (if debug then [''--debug''] else []) @
     (if no_reboot then [''--no-reboot''] else []) @
     [if ho_install_ssh_user h = [] then ho_hostname h else ho_install_ssh_user h @ ''@'' @ ho_hostname h]"

text \<open>One host, outside of tests and debugging, where the last loop is not entered.\<close>

definition install_host ::
  "nat \<Rightarrow> (host \<Rightarrow> nat \<Rightarrow> string option option) \<Rightarrow> (host \<Rightarrow> string outcome) \<Rightarrow> bool \<Rightarrow> bool \<Rightarrow> bool \<Rightarrow> string \<Rightarrow> string option \<Rightarrow>
   string \<Rightarrow> string \<Rightarrow> host \<Rightarrow> world \<Rightarrow> cmd_log \<Rightarrow> (cmd_log \<times> unit outcome) option" where
  "install_host fuel answer secrets macos debug no_reboot disk_key key_file kexec_url flake_path h w log =
     (case cmd_bind (cmd_return (secrets h)) (\<lambda>dir. run_checked ''nixos-anywhere''
            (install_args macos debug no_reboot h dir disk_key kexec_url flake_path)) w log of
        (log1, Ok _) \<Rightarrow>
          if no_reboot then Some (log1, Ok ())
          else (case unlock_loop fuel answer h key_file w log1 of
                  None \<Rightarrow> None
                | Some log2 \<Rightarrow> Some (cmd_bind (run_program ''ssh-keygen'' [''-R'', ho_hostname h]) (\<lambda>s.
                    cmd_return (case s of None \<Rightarrow> Err (Msg ''Failed to run ssh-keygen to remove old keys...'') | Some _ \<Rightarrow> Ok ())) w log2))
      | r \<Rightarrow> Some r)"

fun install_hosts :: "(host \<Rightarrow> world \<Rightarrow> cmd_log \<Rightarrow> (cmd_log \<times> unit outcome) option) \<Rightarrow> host list \<Rightarrow> world \<Rightarrow> cmd_log \<Rightarrow>
    (cmd_log \<times> unit outcome) option" where
  "install_hosts one [] w log = Some (log, Ok ())"
| "install_hosts one (h # hs) w log =
     (case one h w log of Some (log', Ok _) \<Rightarrow> install_hosts one hs w log' | r \<Rightarrow> r)"

definition flake_show :: "string \<Rightarrow> unit cmd" where
  "flake_show path = run_checked ''nix'' [''flake'', ''show'', ''--extra-experimental-features'', ''flakes nix-command'', path]"

definition mgr_install :: "(host \<Rightarrow> world \<Rightarrow> cmd_log \<Rightarrow> (cmd_log \<times> unit outcome) option) \<Rightarrow> string \<Rightarrow> host list \<Rightarrow> world \<Rightarrow> cmd_log \<Rightarrow>
    (cmd_log \<times> unit outcome) option" where
  "mgr_install one flake_path hosts w log =
     (case flake_show flake_path w log of
        (log', Ok _) \<Rightarrow> install_hosts one hosts w log'
      | (log', e) \<Rightarrow> Some (log', e))"

section \<open>The commands of the manager\<close>

fun filter_names :: "string list \<Rightarrow> (string \<times> host) list \<Rightarrow> host list outcome" where
  "filter_names [] hosts = Ok []"
| "filter_names (n # ns) hosts =
     (case map_of hosts n of
        Some h \<Rightarrow> bind_outcome (filter_names ns hosts) (\<lambda>hs. Ok (h # hs))
      | None \<Rightarrow> Err (Msg (''no host named '' @ [CHR 0x27] @ n @ [CHR 0x27] @ '' found in configuration'')))"

definition filter_hosts :: "string \<Rightarrow> (string \<times> host) list \<Rightarrow> host list outcome" where
  "filter_hosts host_spec hosts =
     (if host_spec = [] then Ok (map snd hosts) else filter_names (split_char (CHR '','') host_spec) hosts)"

text \<open>The line of the answer, or \<open>None\<close> when it cannot be read.\<close>

fun trim_newlines :: "string \<Rightarrow> string" where
  "trim_newlines s = rev (dropWhile (\<lambda>c. c = CHR 0x0A) (rev s))"

definition ask_yes_no :: "string option \<Rightarrow> bool" where
  "ask_yes_no line =
     (case line of None \<Rightarrow> False | Some l \<Rightarrow> map ascii_lower (trim_newlines l) \<in> {''y'', ''yes''})"

definition main_install ::
  "bool \<Rightarrow> string option \<Rightarrow> string \<Rightarrow> (string \<times> host) list \<Rightarrow> (host list \<Rightarrow> world \<Rightarrow> cmd_log \<Rightarrow> (cmd_log \<times> unit outcome) option) \<Rightarrow>
   world \<Rightarrow> cmd_log \<Rightarrow> (cmd_log \<times> unit outcome) option" where
  "main_install yes answer host_spec hosts install w log =
     (case filter_hosts host_spec hosts of
        Ok hs \<Rightarrow> if \<not> yes \<and> \<not> ask_yes_no answer then Some (log, Ok ()) else install hs w log
      | Err e \<Rightarrow> Some (log, Err e)
      | Panic \<Rightarrow> Some (log, Panic))"


section \<open>Correctness\<close>

lemma status_ok: "status_to_pretty_err s p a = Ok () \<longleftrightarrow> s = Some (Exited 0)"
  by (auto simp: status_to_pretty_err_def split: option.splits exit_status.splits)

lemma status_zero [simp]: "status_to_pretty_err (Some (Exited 0)) p a = Ok ()"
  by (simp add: status_ok)

lemma status_no_panic: "status_to_pretty_err s p a \<noteq> Panic"
  by (auto simp: status_to_pretty_err_def split: option.splits exit_status.splits)

lemma run_checked_eq: "run_checked p a w log = (log @ [(p, a)], status_to_pretty_err (w (length log)) p a)"
  by (simp add: run_checked_def cmd_bind_def run_program_def cmd_return_def)

lemma status_failed: "s \<noteq> Some (Exited 0) \<Longrightarrow> \<exists>e. status_to_pretty_err s p a = Err e"
  using status_ok [of s p a] status_no_panic [of s p a] by (cases "status_to_pretty_err s p a") auto

declare rebuild_tries.simps [simp del]

lemma rebuild_tries_eq:
  "rebuild_tries args [Suc 0, 2] w log =
     (if w (length log) = Some (Exited 0) then (log @ [(''nixos-rebuild'', args)], Ok ())
      else (log @ [(''nixos-rebuild'', args), (''nixos-rebuild'', args)],
            status_to_pretty_err (w (Suc (length log))) ''nixos-rebuild'' args))"
proof (cases "w (length log) = Some (Exited 0)")
  case True
  then show ?thesis by (simp add: rebuild_tries.simps run_checked_eq status_ok)
next
  case False
  obtain e where e: "status_to_pretty_err (w (length log)) ''nixos-rebuild'' args = Err e" using status_failed [OF False] by blast
  show ?thesis
    using False by (cases "status_to_pretty_err (w (Suc (length log))) ''nixos-rebuild'' args")
      (simp_all add: rebuild_tries.simps run_checked_eq e)
qed

lemma upload_eq:
  "upload_secrets dir target w log =
     (log @ [(''rsync'', [''-vrlF'', ''-e'', ''ssh'', dir @ ''/'', target @ '':/''])],
      status_to_pretty_err (w (length log)) ''rsync'' [''-vrlF'', ''-e'', ''ssh'', dir @ ''/'', target @ '':/''])"
  by (simp add: upload_secrets_def run_checked_eq)

text \<open>The whole of a rebuild whose secrets could be prepared.\<close>

lemma nixos_rebuild_eq:
  "nixos_rebuild macos action h flake_path (Ok dir) collect_garbage w log =
     (let target = deploy_ssh_target h; rsync = (''rsync'', [''-vrlF'', ''-e'', ''ssh'', dir @ ''/'', target @ '':/'']);
          args = rebuild_args macos action (flake_uri h flake_path) target; try = (''nixos-rebuild'', args); n = length log;
          gc = (if collect_garbage then [(''ssh'', [target, ''--'', ''nix-collect-garbage'', ''--delete-older-than'', ''14d''])] else [])
      in if w n \<noteq> Some (Exited 0) then (log @ [rsync], status_to_pretty_err (w n) ''rsync'' (snd rsync))
         else if w (Suc n) = Some (Exited 0) then (log @ [rsync, try] @ gc, Ok ())
         else if w (Suc (Suc n)) = Some (Exited 0) then (log @ [rsync, try, try] @ gc, Ok ())
         else (log @ [rsync, try, try], status_to_pretty_err (w (Suc (Suc n))) ''nixos-rebuild'' args))"
proof -
  let ?target = "deploy_ssh_target h" and ?args = "rebuild_args macos action (flake_uri h flake_path) (deploy_ssh_target h)"
  note defs = nixos_rebuild_def cmd_bind_def cmd_return_def upload_eq rebuild_tries_eq run_program_def Let_def
  consider (up) "w (length log) \<noteq> Some (Exited 0)"
    | (one) "w (length log) = Some (Exited 0)" "w (Suc (length log)) = Some (Exited 0)"
    | (two) "w (length log) = Some (Exited 0)" "w (Suc (length log)) \<noteq> Some (Exited 0)" "w (Suc (Suc (length log))) = Some (Exited 0)"
    | (none) "w (length log) = Some (Exited 0)" "w (Suc (length log)) \<noteq> Some (Exited 0)" "w (Suc (Suc (length log))) \<noteq> Some (Exited 0)"
    by blast
  then show ?thesis
  proof cases
    case up
    obtain e where "status_to_pretty_err (w (length log)) ''rsync'' [''-vrlF'', ''-e'', ''ssh'', dir @ ''/'', ?target @ '':/''] = Err e"
      using status_failed [OF up] by blast
    with up show ?thesis by (simp add: defs)
  next
    case one
    then have "status_to_pretty_err (w (length log)) ''rsync'' [''-vrlF'', ''-e'', ''ssh'', dir @ ''/'', ?target @ '':/''] = Ok ()"
      by (simp add: status_ok)
    with one show ?thesis by (simp add: defs)
  next
    case two
    then have "status_to_pretty_err (w (length log)) ''rsync'' [''-vrlF'', ''-e'', ''ssh'', dir @ ''/'', ?target @ '':/''] = Ok ()"
      "status_to_pretty_err (w (Suc (Suc (length log)))) ''nixos-rebuild'' ?args = Ok ()"
      by (simp_all add: status_ok)
    with two show ?thesis by (simp add: defs)
  next
    case none
    then have "status_to_pretty_err (w (length log)) ''rsync'' [''-vrlF'', ''-e'', ''ssh'', dir @ ''/'', ?target @ '':/''] = Ok ()"
      by (simp add: status_ok)
    moreover obtain e where "status_to_pretty_err (w (Suc (Suc (length log)))) ''nixos-rebuild'' ?args = Err e"
      using status_failed [OF none(3)] by blast
    ultimately show ?thesis using none by (simp add: defs)
  qed
qed

text \<open>C36: A rebuild tries twice and no more. \<open>nixos_rebuild\<close> of a host whose secrets could be prepared ends well exactly when
  the upload of the secrets ends well and one of the two tries does; the secrets are uploaded before the first try, the
  second try is only made when the first has failed, and a failing garbage collection changes nothing.\<close>

theorem nixos_rebuild_tries:
  assumes "nixos_rebuild macos action h flake_path (Ok dir) collect_garbage w log = (log', r)"
  shows "(r = Ok () \<longleftrightarrow> w (length log) = Some (Exited 0) \<and>
            (w (Suc (length log)) = Some (Exited 0) \<or> w (Suc (Suc (length log))) = Some (Exited 0))) \<and>
    (\<exists>ran. log' = log @ ran \<and> length (filter (\<lambda>c. fst c = ''nixos-rebuild'') ran) \<le> 2 \<and> fst (hd ran) = ''rsync'' \<and>
       (w (Suc (length log)) = Some (Exited 0) \<longrightarrow> length (filter (\<lambda>c. fst c = ''nixos-rebuild'') ran) \<le> 1))"
  using assms unfolding nixos_rebuild_eq Let_def by (auto simp: status_ok split: if_splits)

theorem nixos_rebuild_tries_witness:
  "\<forall>h. \<exists>log'. nixos_rebuild False ''switch'' h ''/f'' (Ok ''s'') True
     (\<lambda>n. if n = 1 then Some Signalled else Some (Exited (if n = 3 then 1 else 0))) [] = (log', Ok ())"
proof
  fix h
  obtain log' r where r: "nixos_rebuild False ''switch'' h ''/f'' (Ok ''s'') True
      (\<lambda>n. if n = 1 then Some Signalled else Some (Exited (if n = 3 then 1 else 0))) [] = (log', r)" by fastforce
  from nixos_rebuild_tries [OF r] r show "\<exists>log'. nixos_rebuild False ''switch'' h ''/f'' (Ok ''s'') True
     (\<lambda>n. if n = 1 then Some Signalled else Some (Exited (if n = 3 then 1 else 0))) [] = (log', Ok ())" by simp
qed

text \<open>Without a yes, on the command line or as the answer, an installation runs no program.\<close>

lemma install_needs_consent:
  "\<not> yes \<Longrightarrow> \<not> ask_yes_no answer \<Longrightarrow> \<exists>r. main_install yes answer host_spec hosts install w log = Some (log, r)"
  by (auto simp: main_install_def split: outcome.splits)

text \<open>The hosts of a list of names, in its order; one unknown name is an error.\<close>

lemma filter_names_ok:
  "filter_names ns hosts = Ok hs \<longleftrightarrow> map (map_of hosts) ns = map Some hs"
  by (induction ns arbitrary: hs) (auto simp: bind_outcome_eq_Ok split: option.splits)

text \<open>The answer to the question for the key counts as unlocked however the program ends, also when the key was refused.\<close>

lemma unlock_ignores_status:
  "w (length log) = Some s \<Longrightarrow> answer h (length log) = Some (Some out) \<Longrightarrow> starts_with out ''Passphrase for'' \<Longrightarrow>
     snd (unlock_over_ssh answer h (Some key) w log) = Ok ()"
  by (simp add: unlock_over_ssh_def Let_def)

text \<open>The loop of an installation ends at the first turn that unlocks, whatever the earlier turns met.\<close>

lemma unlock_loop_ends:
  "unlock_loop n answer h key_file w log = Some log' \<Longrightarrow> n \<le> m \<Longrightarrow> unlock_loop m answer h key_file w log = Some log'"
proof (induction n arbitrary: m log)
  case (Suc n)
  then obtain m' where "m = Suc m'" "n \<le> m'" by (cases m) auto
  with Suc show ?case by (auto split: prod.splits outcome.splits)
qed simp

end
