(* ===== verification/Certificates.thy ===== *)
theory Certificates
  imports Mgr_Config
begin

text \<open>
  The certificates that the manager makes for the lightning nodes (\<^verbatim>\<open>mgr/src/certs/lightning.rs\<close>).  A file of
  the directory holds a private key, a certificate (of a key, signed by a key, with the addresses it names),
  a request for one, or a text.  The program \<^verbatim>\<open>openssl\<close> is a function of its arguments and of the files, and
  the decoder of certificates gives the general names of a file.
\<close>

section \<open>Files\<close>

datatype cert_file = KeyFile nat | CertFile nat nat "ip_addr set" | RequestFile nat | TextFile string

type_synonym cert_fs = "string \<rightharpoonup> cert_file"

record cert_env =
  ce_openssl :: "string list \<Rightarrow> cert_fs \<Rightarrow> cert_fs outcome"
  ce_names :: "cert_file \<Rightarrow> bytes list outcome"
  ce_write :: "string \<Rightarrow> cert_file \<Rightarrow> cert_fs \<Rightarrow> cert_fs outcome"
  ce_show_ip :: "ip_addr \<Rightarrow> string"
  ce_is_ip :: "string \<Rightarrow> bool"

text \<open>\<open>Path::exists\<close>.\<close>

definition file_exists :: "cert_fs \<Rightarrow> string \<Rightarrow> bool" where
  "file_exists fs p \<longleftrightarrow> fs p \<noteq> None"

section \<open>The steps\<close>

definition create_tls_key :: "cert_env \<Rightarrow> string \<Rightarrow> cert_fs \<Rightarrow> cert_fs outcome" where
  "create_tls_key env p fs = ce_openssl env [''ecparam'', ''-genkey'', ''-name'', ''secp384r1'', ''-out'', p] fs"

definition create_ca_cert :: "cert_env \<Rightarrow> string \<Rightarrow> string \<Rightarrow> cert_fs \<Rightarrow> cert_fs outcome" where
  "create_ca_cert env ca_cert ca_key fs =
     (if file_exists fs ca_cert then Ok fs
      else ce_openssl env [''req'', ''-new'', ''-x509'', ''-days'', ''10950'', ''-key'', ca_key, ''-out'', ca_cert,
             ''-subj'', ''/CN=Kld CA''] fs)"

text \<open>\<open>san_from_cert\<close>: the addresses among the names, of four or of sixteen bytes; no file, no addresses.\<close>

definition name_ip :: "bytes \<Rightarrow> ip_addr option" where
  "name_ip b = (if length b = 4 then Some (IpV4 b) else if length b = 16 then Some (IpV6 b) else None)"

definition san_from_cert :: "cert_env \<Rightarrow> string \<Rightarrow> cert_fs \<Rightarrow> ip_addr set outcome" where
  "san_from_cert env p fs =
     (case fs p of
        None \<Rightarrow> Ok {}
      | Some f \<Rightarrow> bind_outcome (ce_names env f) (\<lambda>ns. Ok (set (List.map_filter name_ip ns))))"

text \<open>Whether the certificate misses an address of the host. The second test is of the address of version 4
  again, as in the code.\<close>

definition has_new_ip :: "host \<Rightarrow> ip_addr set \<Rightarrow> bool" where
  "has_new_ip h san \<longleftrightarrow>
     (case ho_ipv4_address h of Some ip \<Rightarrow> ip \<notin> san \<and> ho_api_ip_access_list h \<noteq> [] | None \<Rightarrow> False) \<or>
     (case ho_ipv4_address h of Some ip \<Rightarrow> ip \<notin> san \<and> ho_api_ip_access_list h \<noteq> [] | None \<Rightarrow> False)"

abbreviation line :: "string \<Rightarrow> string" where "line s \<equiv> s @ [CHR 0x0A]"

definition ip_entry :: "cert_env \<Rightarrow> nat \<Rightarrow> ip_addr \<Rightarrow> string" where
  "ip_entry env n ip = line (''IP.'' @ nat_to_string n @ '' = '' @ ce_show_ip env ip)"

definition cert_conf :: "cert_env \<Rightarrow> host \<Rightarrow> string" where
  "cert_conf env h =
     (let base = line ''[req]'' @ line ''req_extensions = v3_req'' @ line ''distinguished_name = req_distinguished_name'' @
            line ''[req_distinguished_name]'' @ line ''[ v3_req ]'' @ line ''basicConstraints = CA:FALSE'' @
            line ''keyUsage = nonRepudiation, digitalSignature, keyEncipherment'' @ line ''subjectAltName = @alt_names'' @
            line ''[alt_names]'' @ line ''DNS.1 = localhost'' @ line ''IP.1 = 127.0.0.1'' @ line ''IP.2 = ::1'';
          (c4, n4) = (case ho_ipv4_address h of Some ip \<Rightarrow> (ip_entry env 3 ip, 4) | None \<Rightarrow> ([], 3));
          (c6, n6) = (case ho_ipv6_address h of Some ip \<Rightarrow> (ip_entry env n4 ip, n4 + 1) | None \<Rightarrow> ([], n4))
      in base @ c4 @ c6 @
         (if ce_is_ip env (ho_hostname h) then line (''IP.'' @ nat_to_string n6 @ '' = '' @ ho_hostname h)
          else line (''DNS.2 = '' @ ho_hostname h)))"

definition create_cert :: "cert_env \<Rightarrow> string \<Rightarrow> string \<Rightarrow> string \<Rightarrow> host \<Rightarrow> cert_fs \<Rightarrow> cert_fs outcome" where
  "create_cert env dir ca_key ca_cert h fs =
     (let key_path = path_join dir (ho_name h @ ''.key''); cert_path = path_join dir (ho_name h @ ''.pem'')
      in bind_outcome (san_from_cert env cert_path fs) (\<lambda>san.
         bind_outcome (if file_exists fs key_path then Ok fs else create_tls_key env key_path fs) (\<lambda>fs1.
           if \<not> has_new_ip h san \<and> file_exists fs1 cert_path then Ok fs1
           else
             let conf_path = path_join dir ''cert.conf''
             in bind_outcome (ce_write env conf_path (TextFile (cert_conf env h)) fs1) (\<lambda>fs2.
                bind_outcome (ce_openssl env [''req'', ''-new'', ''-key'', key_path, ''-out'', cert_path, ''-config'',
                   conf_path, ''-subj'', ''/CN=localhost''] fs2) (\<lambda>fs3.
                ce_openssl env [''x509'', ''-req'', ''-days'', ''10950'', ''-in'', cert_path, ''-CA'', ca_cert, ''-CAkey'', ca_key,
                   ''-set_serial'', ''01'', ''-out'', cert_path, ''-extensions'', ''v3_req'', ''-extfile'', conf_path] fs3)))))"

text \<open>The loop over the hosts, in the order of their names.\<close>

fun create_certs :: "cert_env \<Rightarrow> string \<Rightarrow> string \<Rightarrow> string \<Rightarrow> host list \<Rightarrow> cert_fs \<Rightarrow> cert_fs outcome" where
  "create_certs env dir ca_key ca_cert [] fs = Ok fs"
| "create_certs env dir ca_key ca_cert (h # hs) fs =
     bind_outcome (create_cert env dir ca_key ca_cert h fs) (create_certs env dir ca_key ca_cert hs)"

definition create_lightning_certs :: "cert_env \<Rightarrow> string \<Rightarrow> host list \<Rightarrow> cert_fs \<Rightarrow> cert_fs outcome" where
  "create_lightning_certs env dir hosts fs =
     (let ca_key = path_join dir ''ca.key''; ca_cert = path_join dir ''ca.pem''
      in bind_outcome (if file_exists fs ca_key then Ok fs else create_tls_key env ca_key fs) (\<lambda>fs1.
         bind_outcome (create_ca_cert env ca_cert ca_key fs1) (create_certs env dir ca_key ca_cert hosts)))"

section \<open>What openssl does\<close>

text \<open>The documented effect of the four commands and of writing a file: a new key that no file of the directory
  uses, a certificate that the key signs itself, a request for a key, and a certificate for the key of a
  request, signed with the key of the authority, which must belong to its certificate, with the addresses
  of the configuration (\<open>conf_ips\<close>).\<close>

definition keys_in :: "cert_fs \<Rightarrow> nat set" where
  "keys_in fs = {k. \<exists>f \<in> ran fs. f = KeyFile k \<or> f = RequestFile k \<or> (\<exists>i s. f = CertFile k i s \<or> f = CertFile i k s)}"

definition openssl_ok :: "cert_env \<Rightarrow> (string \<Rightarrow> ip_addr set) \<Rightarrow> bool" where
  "openssl_ok env conf_ips \<longleftrightarrow>
     (\<forall>p fs. finite (dom fs) \<longrightarrow> (\<exists>k. k \<notin> keys_in fs \<and>
        ce_openssl env [''ecparam'', ''-genkey'', ''-name'', ''secp384r1'', ''-out'', p] fs = Ok (fs(p \<mapsto> KeyFile k)))) \<and>
     (\<forall>key out fs k subj. fs key = Some (KeyFile k) \<longrightarrow>
        ce_openssl env [''req'', ''-new'', ''-x509'', ''-days'', ''10950'', ''-key'', key, ''-out'', out, ''-subj'', subj] fs =
          Ok (fs(out \<mapsto> CertFile k k {}))) \<and>
     (\<forall>key out conf fs k subj. fs key = Some (KeyFile k) \<longrightarrow>
        ce_openssl env [''req'', ''-new'', ''-key'', key, ''-out'', out, ''-config'', conf, ''-subj'', subj] fs =
          Ok (fs(out \<mapsto> RequestFile k))) \<and>
     (\<forall>req ca_cert ca_key out conf fs k ca s t. fs req = Some (RequestFile k) \<longrightarrow> fs ca_cert = Some (CertFile ca ca s) \<longrightarrow>
        fs ca_key = Some (KeyFile ca) \<longrightarrow> fs conf = Some (TextFile t) \<longrightarrow>
        ce_openssl env [''x509'', ''-req'', ''-days'', ''10950'', ''-in'', req, ''-CA'', ca_cert, ''-CAkey'', ca_key,
          ''-set_serial'', ''01'', ''-out'', out, ''-extensions'', ''v3_req'', ''-extfile'', conf] fs =
          Ok (fs(out \<mapsto> CertFile k ca (conf_ips t)))) \<and>
     (\<forall>p f fs. ce_write env p f fs = Ok (fs(p \<mapsto> f))) \<and>
     (\<forall>k i t. \<exists>ns. ce_names env (CertFile k i (conf_ips t)) = Ok ns \<and> set (List.map_filter name_ip ns) = conf_ips t)"

end
