(* ===== verification/Certificates_Correct.thy ===== *)
theory Certificates_Correct
  imports Certificates Mgr_Config_Correct
begin

text \<open>
  What the directory of certificates holds after the manager has run: every host has a key and a certificate of
  that key, signed by the authority, that names the address the host is reached at; and the two ways in which
  the code leaves this state for good.
\<close>

section \<open>The state of the directory\<close>

definition host_key :: "string \<Rightarrow> host \<Rightarrow> string" where
  "host_key dir h = path_join dir (ho_name h @ ''.key'')"

definition host_cert :: "string \<Rightarrow> host \<Rightarrow> string" where
  "host_cert dir h = path_join dir (ho_name h @ ''.pem'')"

abbreviation ca_key_of :: "string \<Rightarrow> string" where "ca_key_of dir \<equiv> path_join dir ''ca.key''"
abbreviation ca_cert_of :: "string \<Rightarrow> string" where "ca_cert_of dir \<equiv> path_join dir ''ca.pem''"
abbreviation conf_of :: "string \<Rightarrow> string" where "conf_of dir \<equiv> path_join dir ''cert.conf''"

definition ca_ready :: "string \<Rightarrow> cert_fs \<Rightarrow> nat \<Rightarrow> bool" where
  "ca_ready dir fs ca \<longleftrightarrow> fs (ca_key_of dir) = Some (KeyFile ca) \<and> (\<exists>s. fs (ca_cert_of dir) = Some (CertFile ca ca s))"

definition cert_usable :: "(string \<Rightarrow> ip_addr set) \<Rightarrow> string \<Rightarrow> nat \<Rightarrow> host \<Rightarrow> cert_fs \<Rightarrow> bool" where
  "cert_usable conf_ips dir ca h fs \<longleftrightarrow>
     (\<exists>k t. fs (host_key dir h) = Some (KeyFile k) \<and> fs (host_cert dir h) = Some (CertFile k ca (conf_ips t)))"

definition cert_current :: "(string \<Rightarrow> ip_addr set) \<Rightarrow> string \<Rightarrow> nat \<Rightarrow> host \<Rightarrow> cert_fs \<Rightarrow> bool" where
  "cert_current conf_ips dir ca h fs \<longleftrightarrow>
     (\<exists>k t. fs (host_key dir h) = Some (KeyFile k) \<and> fs (host_cert dir h) = Some (CertFile k ca (conf_ips t)) \<and>
        \<not> has_new_ip h (conf_ips t))"

definition cert_startable :: "(string \<Rightarrow> ip_addr set) \<Rightarrow> string \<Rightarrow> nat \<Rightarrow> host \<Rightarrow> cert_fs \<Rightarrow> bool" where
  "cert_startable conf_ips dir ca h fs \<longleftrightarrow> cert_usable conf_ips dir ca h fs \<or>
     (fs (host_cert dir h) = None \<and> (fs (host_key dir h) = None \<or> (\<exists>k. fs (host_key dir h) = Some (KeyFile k))))"

text \<open>The directories that the manager finds: nothing yet, an authority with certificates of existing keys, or a
  run that stopped between two files (the key of the authority without its certificate, the key of a host
  without its certificate).\<close>

definition certs_before :: "(string \<Rightarrow> ip_addr set) \<Rightarrow> string \<Rightarrow> host list \<Rightarrow> cert_fs \<Rightarrow> bool" where
  "certs_before conf_ips dir hosts fs \<longleftrightarrow> finite (dom fs) \<and>
     ((\<exists>ca. ca_ready dir fs ca \<and> (\<forall>h \<in> set hosts. cert_startable conf_ips dir ca h fs)) \<or>
      (fs (ca_cert_of dir) = None \<and> (fs (ca_key_of dir) = None \<or> (\<exists>k. fs (ca_key_of dir) = Some (KeyFile k))) \<and>
        (\<forall>h \<in> set hosts. fs (host_cert dir h) = None \<and>
           (fs (host_key dir h) = None \<or> (\<exists>k. fs (host_key dir h) = Some (KeyFile k))))))"

definition certs_ready :: "(string \<Rightarrow> ip_addr set) \<Rightarrow> string \<Rightarrow> host list \<Rightarrow> cert_fs \<Rightarrow> bool" where
  "certs_ready conf_ips dir hosts fs \<longleftrightarrow> (\<exists>ca. ca_ready dir fs ca \<and> (\<forall>h \<in> set hosts. cert_current conf_ips dir ca h fs))"

definition conf_names_host :: "cert_env \<Rightarrow> (string \<Rightarrow> ip_addr set) \<Rightarrow> host \<Rightarrow> bool" where
  "conf_names_host env conf_ips h \<longleftrightarrow> set_option (ho_ipv4_address h) \<union> set_option (ho_ipv6_address h) \<subseteq> conf_ips (cert_conf env h)"

section \<open>Names of files\<close>

text \<open>A name without a slash is the name of a file of the directory; \<open>ca\<close> is the name of the authority.\<close>

definition plain_name :: "host \<Rightarrow> bool" where
  "plain_name h \<longleftrightarrow> CHR ''/'' \<notin> set (ho_name h) \<and> ho_name h \<noteq> ''ca''"

lemma join_plain:
  "CHR ''/'' \<notin> set a \<Longrightarrow> CHR ''/'' \<notin> set b \<Longrightarrow> path_join d a = path_join d b \<longleftrightarrow> a = b"
  unfolding path_join_def starts_with_def by (cases a; cases b) auto

lemma join_neq: "a \<noteq> b \<Longrightarrow> CHR ''/'' \<notin> set a \<Longrightarrow> CHR ''/'' \<notin> set b \<Longrightarrow> path_join d a \<noteq> path_join d b"
  by (simp add: join_plain)

lemma join_neq': "b \<noteq> a \<Longrightarrow> CHR ''/'' \<notin> set b \<Longrightarrow> CHR ''/'' \<notin> set a \<Longrightarrow> path_join d a \<noteq> path_join d b"
  by (simp add: join_plain)

lemma suffix_differs: "last e \<noteq> last e' \<Longrightarrow> e \<noteq> [] \<Longrightarrow> e' \<noteq> [] \<Longrightarrow> a @ e \<noteq> b @ e'"
  by (metis last_appendR)

lemma key_not_cert: "a @ ''.key'' \<noteq> b @ ''.pem''" "a @ ''.key'' \<noteq> ''cert.conf''" "a @ ''.pem'' \<noteq> ''cert.conf''"
    "a @ ''.key'' \<noteq> ''ca.pem''" "a @ ''.pem'' \<noteq> ''ca.key''"
  using suffix_differs [of "''.key''" "''.pem''" a b] suffix_differs [of "''.key''" "''cert.conf''" a "[]"]
    suffix_differs [of "''.pem''" "''cert.conf''" a "[]"] suffix_differs [of "''.key''" "''ca.pem''" a "[]"]
    suffix_differs [of "''.pem''" "''ca.key''" a "[]"]
  by simp_all

lemma same_suffix: "a @ ''.key'' = ''ca.key'' \<longleftrightarrow> a = ''ca''" "a @ ''.pem'' = ''ca.pem'' \<longleftrightarrow> a = ''ca''"
  using append_same_eq [of a "''.key''" "''ca''"] append_same_eq [of a "''.pem''" "''ca''"] by simp_all

lemma host_paths_raw:
  assumes "plain_name h"
  shows "host_key d h \<noteq> conf_of d" "host_cert d h \<noteq> conf_of d" "host_key d h \<noteq> ca_cert_of d" "host_cert d h \<noteq> ca_key_of d"
    "host_key d h \<noteq> ca_key_of d" "host_cert d h \<noteq> ca_cert_of d"
  using assms key_not_cert [of "ho_name h"] same_suffix [of "ho_name h"]
  unfolding plain_name_def host_key_def host_cert_def
  by - (rule join_neq; simp; fail)+

lemma two_hosts_raw:
  assumes "plain_name h" and "plain_name g"
  shows "host_key d h \<noteq> host_cert d g"
  using assms key_not_cert(1) [of "ho_name h" "ho_name g"]
  unfolding plain_name_def host_key_def host_cert_def
  by - (rule join_neq; simp)

lemma same_host:
  assumes "plain_name h" and "plain_name g"
  shows "host_key d h = host_key d g \<longleftrightarrow> ho_name h = ho_name g" "host_cert d h = host_cert d g \<longleftrightarrow> ho_name h = ho_name g"
  using assms unfolding plain_name_def host_key_def host_cert_def
  by - (subst join_plain; simp; fail)+

lemmas host_paths = host_paths_raw host_paths_raw [symmetric] two_hosts_raw two_hosts_raw [symmetric] same_host

lemma ca_paths [simp]: "ca_key_of d \<noteq> ca_cert_of d" "ca_cert_of d \<noteq> ca_key_of d" "ca_key_of d \<noteq> conf_of d"
  "conf_of d \<noteq> ca_key_of d" "ca_cert_of d \<noteq> conf_of d" "conf_of d \<noteq> ca_cert_of d"
  by (subst join_plain; simp)+

section \<open>One host\<close>

lemma create_cert_alt:
  "create_cert env dir (ca_key_of dir) (ca_cert_of dir) h fs =
     bind_outcome (san_from_cert env (host_cert dir h) fs) (\<lambda>san.
     bind_outcome (if file_exists fs (host_key dir h) then Ok fs else create_tls_key env (host_key dir h) fs) (\<lambda>fs1.
       if \<not> has_new_ip h san \<and> file_exists fs1 (host_cert dir h) then Ok fs1
       else bind_outcome (ce_write env (conf_of dir) (TextFile (cert_conf env h)) fs1) (\<lambda>fs2.
            bind_outcome (ce_openssl env [''req'', ''-new'', ''-key'', host_key dir h, ''-out'', host_cert dir h, ''-config'',
               conf_of dir, ''-subj'', ''/CN=localhost''] fs2) (\<lambda>fs3.
            ce_openssl env [''x509'', ''-req'', ''-days'', ''10950'', ''-in'', host_cert dir h, ''-CA'', ca_cert_of dir, ''-CAkey'',
               ca_key_of dir, ''-set_serial'', ''01'', ''-out'', host_cert dir h, ''-extensions'', ''v3_req'', ''-extfile'', conf_of dir] fs3))))"
  unfolding create_cert_def host_key_def host_cert_def Let_def ..

lemma openssl_key:
  assumes "openssl_ok env ips" and "finite (dom fs)"
  obtains k where "k \<notin> keys_in fs" and "create_tls_key env p fs = Ok (fs(p \<mapsto> KeyFile k))"
  using conjunct1 [OF assms(1) [unfolded openssl_ok_def]] assms(2) unfolding create_tls_key_def by blast

lemma openssl_write: "openssl_ok env ips \<Longrightarrow> ce_write env p f fs = Ok (fs(p \<mapsto> f))"
  unfolding openssl_ok_def by (elim conjE) simp

lemma openssl_request:
  "openssl_ok env ips \<Longrightarrow> fs key = Some (KeyFile k) \<Longrightarrow>
     ce_openssl env [''req'', ''-new'', ''-key'', key, ''-out'', out, ''-config'', conf, ''-subj'', subj] fs = Ok (fs(out \<mapsto> RequestFile k))"
  unfolding openssl_ok_def by (elim conjE) simp

lemma openssl_self:
  "openssl_ok env ips \<Longrightarrow> fs key = Some (KeyFile k) \<Longrightarrow>
     ce_openssl env [''req'', ''-new'', ''-x509'', ''-days'', ''10950'', ''-key'', key, ''-out'', out, ''-subj'', subj] fs =
       Ok (fs(out \<mapsto> CertFile k k {}))"
  unfolding openssl_ok_def by (elim conjE) simp

lemma openssl_sign:
  "openssl_ok env ips \<Longrightarrow> fs req = Some (RequestFile k) \<Longrightarrow> fs ca_cert = Some (CertFile ca ca s) \<Longrightarrow>
     fs ca_key = Some (KeyFile ca) \<Longrightarrow> fs conf = Some (TextFile t) \<Longrightarrow>
     ce_openssl env [''x509'', ''-req'', ''-days'', ''10950'', ''-in'', req, ''-CA'', ca_cert, ''-CAkey'', ca_key,
       ''-set_serial'', ''01'', ''-out'', out, ''-extensions'', ''v3_req'', ''-extfile'', conf] fs = Ok (fs(out \<mapsto> CertFile k ca (ips t)))"
  unfolding openssl_ok_def by (elim conjE) simp

lemma openssl_names:
  "openssl_ok env ips \<Longrightarrow> fs p = Some (CertFile k i (ips t)) \<Longrightarrow> san_from_cert env p fs = Ok (ips t)"
  unfolding openssl_ok_def san_from_cert_def by (metis bind_outcome.simps(1) option.simps(5))


lemma conf_current: "conf_names_host env ips h \<Longrightarrow> \<not> has_new_ip h (ips (cert_conf env h))"
  by (auto simp: conf_names_host_def has_new_ip_def split: option.splits)

lemma sign_host:
  assumes ok: "openssl_ok env ips" and name: "plain_name h" and ca: "ca_ready dir fs ca" and key: "fs (host_key dir h) = Some (KeyFile k)"
  shows "bind_outcome (ce_write env (conf_of dir) (TextFile (cert_conf env h)) fs) (\<lambda>fs2.
           bind_outcome (ce_openssl env [''req'', ''-new'', ''-key'', host_key dir h, ''-out'', host_cert dir h, ''-config'',
             conf_of dir, ''-subj'', ''/CN=localhost''] fs2) (\<lambda>fs3.
           ce_openssl env [''x509'', ''-req'', ''-days'', ''10950'', ''-in'', host_cert dir h, ''-CA'', ca_cert_of dir, ''-CAkey'',
             ca_key_of dir, ''-set_serial'', ''01'', ''-out'', host_cert dir h, ''-extensions'', ''v3_req'', ''-extfile'', conf_of dir] fs3)) =
         Ok (fs(conf_of dir \<mapsto> TextFile (cert_conf env h), host_cert dir h \<mapsto> CertFile k ca (ips (cert_conf env h))))"
proof -
  obtain s where ca': "fs (ca_key_of dir) = Some (KeyFile ca)" "fs (ca_cert_of dir) = Some (CertFile ca ca s)"
    using ca by (auto simp: ca_ready_def)
  let ?fs2 = "fs(conf_of dir \<mapsto> TextFile (cert_conf env h))" and ?c = "host_cert dir h"
  note p = host_paths [OF name] openssl_write [OF ok]
  have req: "ce_openssl env [''req'', ''-new'', ''-key'', host_key dir h, ''-out'', ?c, ''-config'', conf_of dir, ''-subj'', subj] ?fs2
      = Ok (?fs2(?c \<mapsto> RequestFile k))" for subj
    by (rule openssl_request [OF ok]) (simp add: p key)
  have sign: "ce_openssl env [''x509'', ''-req'', ''-days'', ''10950'', ''-in'', ?c, ''-CA'', ca_cert_of dir, ''-CAkey'', ca_key_of dir,
        ''-set_serial'', ''01'', ''-out'', ?c, ''-extensions'', ''v3_req'', ''-extfile'', conf_of dir] (?fs2(?c \<mapsto> RequestFile k))
      = Ok (?fs2(?c \<mapsto> RequestFile k, ?c \<mapsto> CertFile k ca (ips (cert_conf env h))))"
    by (rule openssl_sign [OF ok, where s = s]) (simp_all add: p ca')
  show ?thesis by (simp add: p req sign)
qed

lemma san_startable:
  "openssl_ok env ips \<Longrightarrow> cert_startable ips dir ca h fs \<Longrightarrow> \<exists>san. san_from_cert env (host_cert dir h) fs = Ok san"
  unfolding cert_startable_def cert_usable_def by (auto simp: san_from_cert_def intro: openssl_names [unfolded san_from_cert_def])

definition off_host :: "string \<Rightarrow> host \<Rightarrow> cert_fs \<Rightarrow> cert_fs \<Rightarrow> bool" where
  "off_host dir h fs fs' \<longleftrightarrow> (\<forall>p. p \<notin> {host_key dir h, host_cert dir h, conf_of dir} \<longrightarrow> fs' p = fs p)"

lemma create_cert_current:
  assumes ok: "openssl_ok env ips" and name: "plain_name h" and cur: "cert_current ips dir ca h fs"
  shows "create_cert env dir (ca_key_of dir) (ca_cert_of dir) h fs = Ok fs"
proof -
  obtain k t where f: "fs (host_key dir h) = Some (KeyFile k)" "fs (host_cert dir h) = Some (CertFile k ca (ips t))"
      "\<not> has_new_ip h (ips t)"
    using cur by (auto simp: cert_current_def)
  have "san_from_cert env (host_cert dir h) fs = Ok (ips t)" by (rule openssl_names [OF ok]) (rule f)
  then show ?thesis by (simp add: create_cert_alt f file_exists_def)
qed

lemma create_cert_makes:
  assumes ok: "openssl_ok env ips" and name: "plain_name h" and fin: "finite (dom fs)" and ca: "ca_ready dir fs ca"
    and conf: "conf_names_host env ips h" and start: "cert_startable ips dir ca h fs"
  obtains fs' where "create_cert env dir (ca_key_of dir) (ca_cert_of dir) h fs = Ok fs'" and "cert_current ips dir ca h fs'"
    and "ca_ready dir fs' ca" and "finite (dom fs')" and "off_host dir h fs fs'"
proof -
  note p = host_paths [OF name] two_hosts_raw [OF name name] two_hosts_raw [OF name name, symmetric]
  obtain san where san: "san_from_cert env (host_cert dir h) fs = Ok san" using san_startable [OF ok start] by blast
  obtain k fs1 where fs1: "(if file_exists fs (host_key dir h) then Ok fs else create_tls_key env (host_key dir h) fs) = Ok fs1"
      "fs1 (host_key dir h) = Some (KeyFile k)" "fs1 = fs \<or> (fs1 = fs(host_key dir h \<mapsto> KeyFile k) \<and> fs (host_cert dir h) = None)"
  proof (cases "fs (host_key dir h)")
    case None
    obtain k where "create_tls_key env (host_key dir h) fs = Ok (fs(host_key dir h \<mapsto> KeyFile k))"
      by (rule openssl_key [OF ok fin])
    with None start show ?thesis by (intro that [of "fs(host_key dir h \<mapsto> KeyFile k)" k]) (auto simp: file_exists_def cert_startable_def cert_usable_def)
  next
    case (Some f)
    with start obtain k where "f = KeyFile k" by (auto simp: cert_startable_def cert_usable_def)
    with Some show ?thesis by (intro that [of fs]) (auto simp: file_exists_def)
  qed
  have fin1: "finite (dom fs1)" and ca1: "ca_ready dir fs1 ca" and off1: "off_host dir h fs fs1"
    using fs1(3) fin ca p by (auto simp: ca_ready_def off_host_def)
  show ?thesis
  proof (cases "\<not> has_new_ip h san \<and> file_exists fs1 (host_cert dir h)")
    case True
    then have "fs1 = fs" "fs (host_cert dir h) \<noteq> None" using fs1(3) p by (auto simp: file_exists_def)
    with start obtain k' t where kt: "fs (host_key dir h) = Some (KeyFile k')" "fs (host_cert dir h) = Some (CertFile k' ca (ips t))"
      by (auto simp: cert_startable_def cert_usable_def)
    have "san_from_cert env (host_cert dir h) fs = Ok (ips t)" by (rule openssl_names [OF ok]) (rule kt)
    with san have "san = ips t" by simp
    with True kt have "cert_current ips dir ca h fs" by (auto simp: cert_current_def)
    with True show ?thesis using \<open>fs1 = fs\<close> fin1 ca1 off1 fs1(1) by (intro that [of fs]) (simp_all add: create_cert_alt san)
  next
    case False
    let ?fs' = "fs1(conf_of dir \<mapsto> TextFile (cert_conf env h), host_cert dir h \<mapsto> CertFile k ca (ips (cert_conf env h)))"
    have "create_cert env dir (ca_key_of dir) (ca_cert_of dir) h fs = Ok ?fs'"
      using False by (auto simp: create_cert_alt san fs1(1) sign_host [OF ok name ca1 fs1(2)])
    moreover have "cert_current ips dir ca h ?fs'" using fs1(2) p conf_current [OF conf] by (auto simp: cert_current_def)
    moreover have "ca_ready dir ?fs' ca" using ca1 p by (auto simp: ca_ready_def)
    moreover have "finite (dom ?fs')" "off_host dir h fs ?fs'" using fin1 off1 p by (auto simp: off_host_def)
    ultimately show ?thesis by (rule that)
  qed
qed


section \<open>All hosts\<close>

lemma other_host_kept:
  assumes "off_host dir h fs fs'" and "plain_name h" and "plain_name g" and "ho_name h \<noteq> ho_name g"
  shows "fs' (host_key dir g) = fs (host_key dir g)" "fs' (host_cert dir g) = fs (host_cert dir g)"
  using assms host_paths [OF assms(2)] host_paths [OF assms(3)] by (auto simp: off_host_def)

lemma create_certs_make:
  assumes ok: "openssl_ok env ips" and "\<forall>h \<in> set hosts. plain_name h \<and> conf_names_host env ips h" and "distinct (map ho_name hosts)"
    and "finite (dom fs)" and "ca_ready dir fs ca" and "\<forall>h \<in> set hosts. cert_startable ips dir ca h fs"
  shows "\<exists>fs'. create_certs env dir (ca_key_of dir) (ca_cert_of dir) hosts fs = Ok fs' \<and> ca_ready dir fs' ca \<and>
           (\<forall>h \<in> set hosts. cert_current ips dir ca h fs') \<and>
           (\<forall>g. plain_name g \<longrightarrow> ho_name g \<notin> ho_name ` set hosts \<longrightarrow>
              fs' (host_key dir g) = fs (host_key dir g) \<and> fs' (host_cert dir g) = fs (host_cert dir g))"
  using assms(2-)
proof (induction hosts arbitrary: fs)
  case (Cons h hs)
  then have h: "plain_name h" "conf_names_host env ips h" "cert_startable ips dir ca h fs" by simp_all
  obtain fs1 where fs1: "create_cert env dir (ca_key_of dir) (ca_cert_of dir) h fs = Ok fs1" "cert_current ips dir ca h fs1"
      "ca_ready dir fs1 ca" "finite (dom fs1)" "off_host dir h fs fs1"
    by (rule create_cert_makes [OF ok h(1) Cons.prems(3,4) h(2,3)])
  have start: "\<forall>g \<in> set hs. cert_startable ips dir ca g fs1"
  proof
    fix g assume g: "g \<in> set hs"
    with Cons.prems have "plain_name g" "ho_name h \<noteq> ho_name g" "cert_startable ips dir ca g fs" by auto
    with other_host_kept [OF fs1(5) h(1)] show "cert_startable ips dir ca g fs1"
      by (auto simp: cert_startable_def cert_usable_def)
  qed
  from Cons.IH [OF _ _ fs1(4,3) start] Cons.prems obtain fs' where fs':
    "create_certs env dir (ca_key_of dir) (ca_cert_of dir) hs fs1 = Ok fs'" "ca_ready dir fs' ca"
    "\<forall>g \<in> set hs. cert_current ips dir ca g fs'"
    "\<forall>g. plain_name g \<longrightarrow> ho_name g \<notin> ho_name ` set hs \<longrightarrow>
       fs' (host_key dir g) = fs1 (host_key dir g) \<and> fs' (host_cert dir g) = fs1 (host_cert dir g)"
    by auto
  have "cert_current ips dir ca h fs'"
    using fs1(2) fs'(4) h(1) Cons.prems(2) by (auto simp: cert_current_def)
  moreover have "fs' (host_key dir g) = fs (host_key dir g) \<and> fs' (host_cert dir g) = fs (host_cert dir g)"
    if "plain_name g" and "ho_name g \<notin> ho_name ` set (h # hs)" for g
    using fs'(4) other_host_kept [OF fs1(5) h(1) that(1)] that by auto
  ultimately show ?case using fs1(1) fs' by auto
qed simp

lemma create_certs_current:
  assumes ok: "openssl_ok env ips" and "\<forall>h \<in> set hosts. plain_name h \<and> cert_current ips dir ca h fs"
  shows "create_certs env dir (ca_key_of dir) (ca_cert_of dir) hosts fs = Ok fs"
  using assms(2) by (induction hosts) (auto simp: create_cert_current [OF ok])

lemma ca_made:
  assumes ok: "openssl_ok env ips" and "finite (dom fs)"
    and "ca_ready dir fs ca \<or> (fs (ca_cert_of dir) = None \<and> (fs (ca_key_of dir) = None \<or> (\<exists>k. fs (ca_key_of dir) = Some (KeyFile k))))"
  obtains fs1 ca' where "create_lightning_certs env dir hosts fs = create_certs env dir (ca_key_of dir) (ca_cert_of dir) hosts fs1"
    and "ca_ready dir fs1 ca'" and "finite (dom fs1)" and "\<forall>p. p \<notin> {ca_key_of dir, ca_cert_of dir} \<longrightarrow> fs1 p = fs p"
    and "ca_ready dir fs ca \<longrightarrow> fs1 = fs \<and> ca' = ca"
proof (cases "ca_ready dir fs ca")
  case True
  then have "create_lightning_certs env dir hosts fs = create_certs env dir (ca_key_of dir) (ca_cert_of dir) hosts fs"
    by (auto simp: create_lightning_certs_def ca_ready_def file_exists_def create_ca_cert_def)
  with True assms(2) show ?thesis by (intro that [of fs ca]) auto
next
  case False
  with assms(3) have none: "fs (ca_cert_of dir) = None" by blast
  obtain k fs0 where fs0: "(if file_exists fs (ca_key_of dir) then Ok fs else create_tls_key env (ca_key_of dir) fs) = Ok fs0"
      "fs0 (ca_key_of dir) = Some (KeyFile k)" "fs0 = fs \<or> fs0 = fs(ca_key_of dir \<mapsto> KeyFile k)"
  proof (cases "fs (ca_key_of dir)")
    case None
    obtain k where "create_tls_key env (ca_key_of dir) fs = Ok (fs(ca_key_of dir \<mapsto> KeyFile k))"
      by (rule openssl_key [OF ok assms(2)])
    with None show ?thesis by (intro that [of "fs(ca_key_of dir \<mapsto> KeyFile k)" k]) (auto simp: file_exists_def)
  next
    case (Some f)
    with False assms(3) obtain k where "f = KeyFile k" by auto
    with Some show ?thesis by (intro that [of fs k]) (auto simp: file_exists_def)
  qed
  let ?fs1 = "fs0(ca_cert_of dir \<mapsto> CertFile k k {})"
  have "fs0 (ca_cert_of dir) = None" using fs0(3) none by auto
  then have "create_ca_cert env (ca_cert_of dir) (ca_key_of dir) fs0 = Ok ?fs1"
    by (simp add: create_ca_cert_def file_exists_def openssl_self [OF ok] fs0(2))
  then have "create_lightning_certs env dir hosts fs = create_certs env dir (ca_key_of dir) (ca_cert_of dir) hosts ?fs1"
    using fs0(1) by (simp add: create_lightning_certs_def Let_def)
  moreover have "ca_ready dir ?fs1 k" using fs0(2) by (auto simp: ca_ready_def)
  ultimately show ?thesis using fs0(3) assms(2) False by (intro that [of ?fs1 k]) auto
qed

lemma lightning_certs_made:
  assumes ok: "openssl_ok env ips" and "\<forall>h \<in> set hosts. plain_name h \<and> conf_names_host env ips h" and "distinct (map ho_name hosts)"
    and before: "certs_before ips dir hosts fs"
  shows "\<exists>fs'. create_lightning_certs env dir hosts fs = Ok fs' \<and> certs_ready ips dir hosts fs' \<and>
           create_lightning_certs env dir hosts fs' = Ok fs'"
proof -
  have fin: "finite (dom fs)" using before by (simp add: certs_before_def)
  let ?none = "fs (ca_cert_of dir) = None \<and> (fs (ca_key_of dir) = None \<or> (\<exists>k. fs (ca_key_of dir) = Some (KeyFile k)))"
  let ?new = "\<forall>h \<in> set hosts. fs (host_cert dir h) = None \<and>
           (fs (host_key dir h) = None \<or> (\<exists>k. fs (host_key dir h) = Some (KeyFile k)))"
  obtain ca where state: "(ca_ready dir fs ca \<and> (\<forall>h \<in> set hosts. cert_startable ips dir ca h fs)) \<or> (?none \<and> ?new)"
    using before unfolding certs_before_def by blast
  then have ca: "ca_ready dir fs ca \<or> ?none" by blast
  have old: "\<forall>h \<in> set hosts. cert_startable ips dir ca h fs" if "ca_ready dir fs ca"
    using state that by (auto simp: ca_ready_def)
  have new: "?new" if "\<not> ca_ready dir fs ca"
    using state that by blast
  obtain fs1 ca' where fs1: "create_lightning_certs env dir hosts fs = create_certs env dir (ca_key_of dir) (ca_cert_of dir) hosts fs1"
      "ca_ready dir fs1 ca'" "finite (dom fs1)" "\<forall>p. p \<notin> {ca_key_of dir, ca_cert_of dir} \<longrightarrow> fs1 p = fs p"
      "ca_ready dir fs ca \<longrightarrow> fs1 = fs \<and> ca' = ca"
    by (rule ca_made [OF ok fin ca, where hosts = hosts])
  have "cert_startable ips dir ca' h fs1" if h: "h \<in> set hosts" for h
  proof (cases "ca_ready dir fs ca")
    case True with fs1(5) old h show ?thesis by auto
  next
    case False
    have "plain_name h" using assms(2) h by blast
    with fs1(4) host_paths [OF this] new [OF False] h show ?thesis by (auto simp: cert_startable_def)
  qed
  with create_certs_make [OF ok assms(2,3) fs1(3,2)] fs1(1) obtain fs' where
    fs': "create_lightning_certs env dir hosts fs = Ok fs'" "ca_ready dir fs' ca'" "\<forall>h \<in> set hosts. cert_current ips dir ca' h fs'"
    by auto
  have "create_lightning_certs env dir hosts fs' = create_certs env dir (ca_key_of dir) (ca_cert_of dir) hosts fs'"
    using fs'(2) by (auto simp: create_lightning_certs_def ca_ready_def file_exists_def create_ca_cert_def)
  moreover have "\<dots> = Ok fs'" using create_certs_current [OF ok, of hosts dir ca' fs'] assms(2) fs'(3) by blast
  ultimately show ?thesis using fs' by (auto simp: certs_ready_def)
qed


section \<open>Lost files and new addresses\<close>

lemma create_certs_append:
  "create_certs env dir ck cc (xs @ ys) fs = bind_outcome (create_certs env dir ck cc xs fs) (create_certs env dir ck cc ys)"
proof (induction xs arbitrary: fs)
  case (Cons x xs)
  then show ?case by (cases "create_cert env dir ck cc x fs") simp_all
qed simp

text \<open>A certificate that names the address is left alone, whatever key lies beside it.\<close>

definition cert_left :: "(string \<Rightarrow> ip_addr set) \<Rightarrow> string \<Rightarrow> host \<Rightarrow> cert_fs \<Rightarrow> bool" where
  "cert_left ips dir h fs \<longleftrightarrow> fs (host_key dir h) \<noteq> None \<and>
     (\<exists>k i t. fs (host_cert dir h) = Some (CertFile k i (ips t)) \<and> \<not> has_new_ip h (ips t))"

lemma create_certs_left:
  assumes ok: "openssl_ok env ips" and "\<forall>h \<in> set hosts. cert_left ips dir h fs"
  shows "create_certs env dir (ca_key_of dir) (ca_cert_of dir) hosts fs = Ok fs"
  using assms(2)
proof (induction hosts)
  case (Cons h hs)
  then obtain k i t where c: "fs (host_cert dir h) = Some (CertFile k i (ips t))" "\<not> has_new_ip h (ips t)" "fs (host_key dir h) \<noteq> None"
    by (auto simp: cert_left_def)
  have "san_from_cert env (host_cert dir h) fs = Ok (ips t)" by (rule openssl_names [OF ok]) (rule c)
  with c Cons show ?case by (simp add: create_cert_alt file_exists_def)
qed simp

lemma all_left:
  assumes "openssl_ok env ips" and "fs (ca_key_of dir) \<noteq> None" and "fs (ca_cert_of dir) \<noteq> None" and "\<forall>h \<in> set hosts. cert_left ips dir h fs"
  shows "create_lightning_certs env dir hosts fs = Ok fs"
proof -
  have "create_lightning_certs env dir hosts fs = create_certs env dir (ca_key_of dir) (ca_cert_of dir) hosts fs"
    using assms(2,3) by (auto simp: create_lightning_certs_def file_exists_def create_ca_cert_def)
  also have "\<dots> = Ok fs" by (rule create_certs_left [OF assms(1,4)])
  finally show ?thesis .
qed

lemma current_left: "cert_current ips dir ca h fs \<Longrightarrow> cert_left ips dir h fs"
  by (auto simp: cert_current_def cert_left_def)

lemma ca_present:
  "fs (ca_key_of dir) \<noteq> None \<Longrightarrow> fs (ca_cert_of dir) \<noteq> None \<Longrightarrow>
     create_lightning_certs env dir hosts fs = create_certs env dir (ca_key_of dir) (ca_cert_of dir) hosts fs"
  by (auto simp: create_lightning_certs_def file_exists_def create_ca_cert_def)

lemma host_key_lost:
  assumes ok: "openssl_ok env ips" and names: "\<forall>h \<in> set hosts. plain_name h" and dist: "distinct (map ho_name hosts)"
    and fin: "finite (dom fs)" and ready: "certs_ready ips dir hosts fs" and h: "h \<in> set hosts"
  shows "\<exists>fs' k k' ca s. create_lightning_certs env dir hosts (fs(host_key dir h := None)) = Ok fs' \<and>
           fs' (host_key dir h) = Some (KeyFile k') \<and> fs' (host_cert dir h) = Some (CertFile k ca s) \<and> k' \<noteq> k \<and>
           create_lightning_certs env dir hosts fs' = Ok fs'"
proof -
  let ?fs = "fs(host_key dir h := None)"
  obtain ca where ca: "ca_ready dir fs ca" "\<forall>g \<in> set hosts. cert_current ips dir ca g fs" using ready by (auto simp: certs_ready_def)
  have name: "plain_name h" using names h by blast
  note p = host_paths [OF name] two_hosts_raw [OF name name] two_hosts_raw [OF name name, symmetric]
  obtain as bs where split: "hosts = as @ h # bs" using h by (meson split_list)
  obtain k t where c: "fs (host_cert dir h) = Some (CertFile k ca (ips t))" "\<not> has_new_ip h (ips t)"
    using ca(2) h by (auto simp: cert_current_def)
  obtain k' where k': "k' \<notin> keys_in ?fs" "create_tls_key env (host_key dir h) ?fs = Ok (?fs(host_key dir h \<mapsto> KeyFile k'))"
    using openssl_key [OF ok, of ?fs "host_key dir h"] fin by auto
  let ?fs' = "?fs(host_key dir h \<mapsto> KeyFile k')"
  have cert: "?fs (host_cert dir h) = Some (CertFile k ca (ips t))" using c(1) p by simp
  then have new: "k' \<noteq> k" using k'(1) unfolding keys_in_def ran_def by blast
  have left: "cert_left ips dir g (?fs(host_key dir h := v))" if "g \<in> set as \<union> set bs" for g v
  proof -
    have "ho_name h \<notin> ho_name ` (set as \<union> set bs)" using dist split by auto
    with that have "ho_name g \<noteq> ho_name h" by (metis imageI)
    with that split have g: "g \<in> set hosts" "ho_name g \<noteq> ho_name h" by auto
    have "plain_name g" using names g(1) by blast
    then show ?thesis using current_left [of ips dir ca g fs] ca(2) g p host_paths(7,8,9) [OF \<open>plain_name g\<close>] host_paths [OF \<open>plain_name g\<close>] name
      by (auto simp: cert_left_def)
  qed
  have "san_from_cert env (host_cert dir h) ?fs = Ok (ips t)" by (rule openssl_names [OF ok]) (rule cert)
  then have one: "create_cert env dir (ca_key_of dir) (ca_cert_of dir) h ?fs = Ok ?fs'"
    using c(2) cert k'(2) p by (simp add: create_cert_alt file_exists_def)
  have "create_certs env dir (ca_key_of dir) (ca_cert_of dir) as ?fs = Ok ?fs"
    using create_certs_left [OF ok, of as dir ?fs] left [of _ None] by simp
  moreover have "create_certs env dir (ca_key_of dir) (ca_cert_of dir) bs ?fs' = Ok ?fs'"
    using create_certs_left [OF ok, of bs dir ?fs'] left by blast
  ultimately have "create_certs env dir (ca_key_of dir) (ca_cert_of dir) hosts ?fs = Ok ?fs'"
    using one by (simp add: split create_certs_append)
  moreover have "?fs (ca_key_of dir) \<noteq> None" "?fs (ca_cert_of dir) \<noteq> None" "?fs' (ca_key_of dir) \<noteq> None" "?fs' (ca_cert_of dir) \<noteq> None"
    using ca(1) p by (auto simp: ca_ready_def)
  moreover have "create_certs env dir (ca_key_of dir) (ca_cert_of dir) hosts ?fs' = Ok ?fs'"
  proof (rule create_certs_left [OF ok], rule ballI)
    fix g assume "g \<in> set hosts"
    then consider "g = h" | "g \<in> set as \<union> set bs" using split by auto
    then show "cert_left ips dir g ?fs'"
    proof cases
      case 1 with c(2) cert p show ?thesis by (auto simp: cert_left_def)
    qed (rule left)
  qed
  ultimately show ?thesis using cert new p
    by (intro exI [of _ ?fs'] exI [of _ k] exI [of _ k'] exI [of _ ca] exI [of _ "ips t"]) (simp add: ca_present)
qed

lemma ca_key_lost:
  assumes ok: "openssl_ok env ips" and names: "\<forall>h \<in> set hosts. plain_name h"
    and fin: "finite (dom fs)" and ready: "certs_ready ips dir hosts fs"
  shows "\<exists>fs' k k' s. create_lightning_certs env dir hosts (fs(ca_key_of dir := None)) = Ok fs' \<and>
           fs' (ca_key_of dir) = Some (KeyFile k') \<and> fs' (ca_cert_of dir) = Some (CertFile k k s) \<and> k' \<noteq> k \<and>
           create_lightning_certs env dir hosts fs' = Ok fs'"
proof -
  let ?fs = "fs(ca_key_of dir := None)"
  obtain ca s where ca: "fs (ca_cert_of dir) = Some (CertFile ca ca s)" "\<forall>g \<in> set hosts. cert_current ips dir ca g fs"
    using ready by (auto simp: certs_ready_def ca_ready_def)
  obtain k' where k': "k' \<notin> keys_in ?fs" "create_tls_key env (ca_key_of dir) ?fs = Ok (?fs(ca_key_of dir \<mapsto> KeyFile k'))"
    using openssl_key [OF ok, of ?fs "ca_key_of dir"] fin by auto
  let ?fs' = "?fs(ca_key_of dir \<mapsto> KeyFile k')"
  have cert: "?fs (ca_cert_of dir) = Some (CertFile ca ca s)" using ca(1) by simp
  then have new: "k' \<noteq> ca" using k'(1) unfolding keys_in_def ran_def by blast
  have all: "create_certs env dir (ca_key_of dir) (ca_cert_of dir) hosts ?fs' = Ok ?fs'"
  proof (rule create_certs_left [OF ok], rule ballI)
    fix g assume g: "g \<in> set hosts"
    with names have "plain_name g" by blast
    from host_paths [OF this] current_left [of ips dir ca g fs] ca(2) g show "cert_left ips dir g ?fs'"
      by (auto simp: cert_left_def)
  qed
  have "create_lightning_certs env dir hosts ?fs = Ok ?fs'"
    using k'(2) cert all by (simp add: create_lightning_certs_def file_exists_def create_ca_cert_def)
  with all cert new show ?thesis
    by (intro exI [of _ ?fs'] exI [of _ ca] exI [of _ k'] exI [of _ s]) (simp add: ca_present)
qed


lemma cert_left_ipv6: "cert_left ips dir (h\<lparr>ho_ipv6_address := x\<rparr>) fs \<longleftrightarrow> cert_left ips dir h fs"
  by (cases "ho_ipv4_address h") (simp_all add: cert_left_def has_new_ip_def host_key_def host_cert_def)


text \<open>C30: A lost file is not repaired. When the key of a host is gone, the next run makes a new key and leaves the old
  certificate, so that the certificate is not of the key; when the key of the authority is gone, the run makes a new
  one and leaves the old certificate of the authority. In both cases every later run accepts the result. A new
  address of version 6 of a host is never written into its certificate: the run changes nothing.\<close>

theorem lost_key_never_repaired:
  assumes "openssl_ok env ips" and "\<forall>h \<in> set hosts. plain_name h" and "distinct (map ho_name hosts)"
    and "finite (dom fs)" and "certs_ready ips dir hosts fs"
  shows "(\<forall>h \<in> set hosts. \<exists>fs' k k' ca s.
            create_lightning_certs env dir hosts (fs(host_key dir h := None)) = Ok fs' \<and>
            fs' (host_key dir h) = Some (KeyFile k') \<and> fs' (host_cert dir h) = Some (CertFile k ca s) \<and> k' \<noteq> k \<and>
            create_lightning_certs env dir hosts fs' = Ok fs') \<and>
         (\<exists>fs' k k' s. create_lightning_certs env dir hosts (fs(ca_key_of dir := None)) = Ok fs' \<and>
            fs' (ca_key_of dir) = Some (KeyFile k') \<and> fs' (ca_cert_of dir) = Some (CertFile k k s) \<and> k' \<noteq> k \<and>
            create_lightning_certs env dir hosts fs' = Ok fs') \<and>
         create_lightning_certs env dir (map (\<lambda>h. h\<lparr>ho_ipv6_address := new_address h\<rparr>) hosts) fs = Ok fs"
proof (intro conjI ballI)
  show "\<exists>fs' k k' ca s. create_lightning_certs env dir hosts (fs(host_key dir h := None)) = Ok fs' \<and>
            fs' (host_key dir h) = Some (KeyFile k') \<and> fs' (host_cert dir h) = Some (CertFile k ca s) \<and> k' \<noteq> k \<and>
            create_lightning_certs env dir hosts fs' = Ok fs'" if "h \<in> set hosts" for h
    by (rule host_key_lost [OF assms that])
  show "\<exists>fs' k k' s. create_lightning_certs env dir hosts (fs(ca_key_of dir := None)) = Ok fs' \<and>
            fs' (ca_key_of dir) = Some (KeyFile k') \<and> fs' (ca_cert_of dir) = Some (CertFile k k s) \<and> k' \<noteq> k \<and>
            create_lightning_certs env dir hosts fs' = Ok fs'"
    by (rule ca_key_lost [OF assms(1,2,4,5)])
  obtain ca where ca: "ca_ready dir fs ca" "\<forall>g \<in> set hosts. cert_current ips dir ca g fs" using assms(5) by (auto simp: certs_ready_def)
  have "fs (ca_key_of dir) \<noteq> None" "fs (ca_cert_of dir) \<noteq> None" using ca(1) by (auto simp: ca_ready_def)
  moreover have "\<forall>g \<in> set (map (\<lambda>h. h\<lparr>ho_ipv6_address := new_address h\<rparr>) hosts). cert_left ips dir g fs"
    using ca(2) by (auto simp: cert_left_ipv6 intro: current_left)
  ultimately show "create_lightning_certs env dir (map (\<lambda>h. h\<lparr>ho_ipv6_address := new_address h\<rparr>) hosts) fs = Ok fs"
    by (rule all_left [OF assms(1)])
qed


section \<open>A program that does what openssl documents\<close>

definition sample_openssl :: "string list \<Rightarrow> cert_fs \<Rightarrow> cert_fs outcome" where
  "sample_openssl a fs =
     (if a ! 0 = ''ecparam'' then Ok (fs(a ! 5 \<mapsto> KeyFile (Suc (Max (insert 0 (keys_in fs))))))
      else if a ! 0 = ''req'' \<and> a ! 2 = ''-x509'' then
        (case fs (a ! 6) of Some (KeyFile k) \<Rightarrow> Ok (fs(a ! 8 \<mapsto> CertFile k k {})) | _ \<Rightarrow> Err (Msg ''key''))
      else if a ! 0 = ''req'' then
        (case fs (a ! 3) of Some (KeyFile k) \<Rightarrow> Ok (fs(a ! 5 \<mapsto> RequestFile k)) | _ \<Rightarrow> Err (Msg ''key''))
      else
        (case (fs (a ! 5), fs (a ! 7), fs (a ! 9)) of
           (Some (RequestFile k), Some (CertFile ca _ _), Some (KeyFile ck)) \<Rightarrow>
             if ca = ck then Ok (fs(a ! 13 \<mapsto> CertFile k ca {IpV4 [10, 0, 0, 1], IpV6 (replicate 16 1)})) else Err (Msg ''mismatch'')
         | _ \<Rightarrow> Err (Msg ''request'')))"

definition sample_cert_env :: cert_env where
  "sample_cert_env = \<lparr>ce_openssl = sample_openssl,
     ce_names = (\<lambda>f. case f of CertFile _ _ _ \<Rightarrow> Ok [[10, 0, 0, 1], replicate 16 1] | _ \<Rightarrow> Err (Msg ''not a certificate'')),
     ce_write = (\<lambda>p f fs. Ok (fs(p \<mapsto> f))), ce_show_ip = (\<lambda>_. ''10.0.0.1''), ce_is_ip = (\<lambda>s. s = ''10.0.0.1'')\<rparr>"

lemma finite_keys: "finite (dom fs) \<Longrightarrow> finite (keys_in fs)"
proof -
  assume "finite (dom fs)"
  then have "finite (\<Union> ((\<lambda>f. case f of KeyFile k \<Rightarrow> {k} | CertFile k i s \<Rightarrow> {k, i} | RequestFile k \<Rightarrow> {k} | TextFile t \<Rightarrow> {}) ` ran fs))"
    by (auto intro: finite_ran split: cert_file.split)
  then show ?thesis by (rule finite_subset [rotated]) (auto simp: keys_in_def)
qed

lemma sample_openssl_ok: "openssl_ok sample_cert_env (\<lambda>_. {IpV4 [10, 0, 0, 1], IpV6 (replicate 16 1)})"
proof -
  have fresh: "Suc (Max (insert 0 (keys_in fs))) \<notin> keys_in fs" if "finite (dom fs)" for fs
  proof
    assume "Suc (Max (insert 0 (keys_in fs))) \<in> keys_in fs"
    then have "Suc (Max (insert 0 (keys_in fs))) \<le> Max (insert 0 (keys_in fs))"
      using finite_keys [OF that] by (intro Max_ge) auto
    then show False by simp
  qed
  have "set (List.map_filter name_ip [[10, 0, 0, 1], replicate 16 1]) = {IpV4 [10, 0, 0, 1], IpV6 (replicate 16 1)}"
    by (simp add: List.map_filter_def name_ip_def)
  then show ?thesis
    unfolding openssl_ok_def
    by (intro conjI) (use fresh in \<open>auto simp: sample_cert_env_def sample_openssl_def\<close>)
qed

lemma sample_host: "ho_name sample_kld_host = ''kld-00''" "ho_ipv4_address sample_kld_host = Some (IpV4 [10, 0, 0, 1])"
    "ho_ipv6_address sample_kld_host = Some (IpV6 (replicate 16 1))" "ho_api_ip_access_list sample_kld_host = []"
  by (simp_all add: sample_kld_host_def host_of_def sample_host_config_def Let_def)

lemma sample_names: "conf_names_host sample_cert_env (\<lambda>_. {IpV4 [10, 0, 0, 1], IpV6 (replicate 16 1)}) sample_kld_host"
    "plain_name sample_kld_host"
  by (simp_all add: conf_names_host_def plain_name_def sample_host)


definition sample_certs :: cert_fs where
  "sample_certs = [''certs/ca.key'' \<mapsto> KeyFile 1, ''certs/ca.pem'' \<mapsto> CertFile 1 1 {}, ''certs/kld-00.key'' \<mapsto> KeyFile 2,
     ''certs/kld-00.pem'' \<mapsto> CertFile 2 1 {IpV4 [10, 0, 0, 1], IpV6 (replicate 16 1)}]"

theorem lost_key_never_repaired_witness:
  "\<exists>fs' k k' ca s.
     create_lightning_certs sample_cert_env ''certs'' [sample_kld_host] (sample_certs(''certs/kld-00.key'' := None)) = Ok fs' \<and>
     fs' ''certs/kld-00.key'' = Some (KeyFile k') \<and> fs' ''certs/kld-00.pem'' = Some (CertFile k ca s) \<and> k' \<noteq> k"
proof -
  have paths: "host_key ''certs'' sample_kld_host = ''certs/kld-00.key''" "host_cert ''certs'' sample_kld_host = ''certs/kld-00.pem''"
    "ca_key_of ''certs'' = ''certs/ca.key''" "ca_cert_of ''certs'' = ''certs/ca.pem''"
    by (simp_all add: host_key_def host_cert_def path_join_def starts_with_def sample_host)
  have "cert_current (\<lambda>_. {IpV4 [10, 0, 0, 1], IpV6 (replicate 16 1)}) ''certs'' 1 sample_kld_host sample_certs"
    unfolding cert_current_def paths
    by (simp add: sample_certs_def has_new_ip_def sample_host)
  then have "certs_ready (\<lambda>_. {IpV4 [10, 0, 0, 1], IpV6 (replicate 16 1)}) ''certs'' [sample_kld_host] sample_certs"
    unfolding certs_ready_def ca_ready_def paths by (auto simp: sample_certs_def)
  moreover have "finite (dom sample_certs)" by (simp add: sample_certs_def)
  ultimately show ?thesis
    using lost_key_never_repaired [OF sample_openssl_ok, of "[sample_kld_host]" sample_certs "''certs''" "\<lambda>_. None"]
    by (auto simp: sample_names paths)
qed

end
