(* ===== verification/Cockroach_Certs.thy ===== *)
theory Cockroach_Certs
  imports Certificates_Correct
begin

text \<open>
  The certificates of the database nodes (\<^verbatim>\<open>mgr/src/certs/cockroachdb.rs\<close>), over the files of the certificates of the
  lightning nodes.  The program \<^verbatim>\<open>cockroach\<close> and the renaming of a file are functions of the files.
\<close>

record cockroach_env =
  cr_cockroach :: "string list \<Rightarrow> cert_fs \<Rightarrow> cert_fs outcome"
  cr_rename :: "string \<Rightarrow> string \<Rightarrow> cert_fs \<Rightarrow> cert_fs outcome"

definition create_ca :: "cockroach_env \<Rightarrow> string \<Rightarrow> cert_fs \<Rightarrow> cert_fs outcome" where
  "create_ca env dir fs =
     (let ca_key = path_join dir ''ca.key''; ca_crt = path_join dir ''ca.crt''
      in if file_exists fs ca_key \<and> file_exists fs ca_crt then Ok fs
         else bind_outcome (if file_exists fs ca_key then cr_rename env ca_key (path_join dir ''ca.key.old'') fs else Ok fs)
           (cr_cockroach env [''cert'', ''create-ca'', ''--certs-dir'', dir, ''--ca-key'', ca_key, ''--lifetime'', ''262800h'',
              ''--overwrite'']))"

definition create_client_cert :: "cockroach_env \<Rightarrow> string \<Rightarrow> string \<Rightarrow> cert_fs \<Rightarrow> cert_fs outcome" where
  "create_client_cert env dir username fs =
     (if file_exists fs (path_join dir (''client.'' @ username @ ''.key'')) \<and>
         file_exists fs (path_join dir (''client.'' @ username @ ''.crt'')) then Ok fs
      else cr_cockroach env [''cert'', ''create-client'', username, ''--certs-dir'', dir, ''--ca-key'', path_join dir ''ca.key'',
             ''--lifetime'', ''262799h'', ''--overwrite''] fs)"

definition create_node_cert :: "cockroach_env \<Rightarrow> string \<Rightarrow> host \<Rightarrow> cert_fs \<Rightarrow> cert_fs outcome" where
  "create_node_cert env dir h fs =
     (let node_key = path_join dir (ho_name h @ ''.node.key''); node_crt = path_join dir (ho_name h @ ''.node.crt'')
      in if file_exists fs node_key \<and> file_exists fs node_crt then Ok fs
         else bind_outcome (cr_cockroach env [''cert'', ''create-node'', ho_name h, ''localhost'', ''--certs-dir'', dir, ''--ca-key'',
                path_join dir ''ca.key'', ''--lifetime'', ''262799h'', ''--overwrite''] fs) (\<lambda>fs1.
              bind_outcome (cr_rename env (path_join dir ''node.crt'') node_crt fs1)
                (cr_rename env (path_join dir ''node.key'') node_key)))"

fun create_node_certs :: "cockroach_env \<Rightarrow> string \<Rightarrow> host list \<Rightarrow> cert_fs \<Rightarrow> cert_fs outcome" where
  "create_node_certs env dir [] fs = Ok fs"
| "create_node_certs env dir (h # hs) fs = bind_outcome (create_node_cert env dir h fs) (create_node_certs env dir hs)"

definition create_cockroachdb_certs :: "cockroach_env \<Rightarrow> string \<Rightarrow> host list \<Rightarrow> cert_fs \<Rightarrow> cert_fs outcome" where
  "create_cockroachdb_certs env dir hosts fs =
     bind_outcome (create_ca env dir fs) (\<lambda>fs1.
     bind_outcome (create_client_cert env dir ''root'' fs1) (\<lambda>fs2.
     bind_outcome (create_client_cert env dir ''kld'' fs2) (create_node_certs env dir hosts)))"

section \<open>What cockroach does\<close>

text \<open>The documented effect of the three commands: a new authority, and a key with a certificate that the authority signs.\<close>

definition cockroach_ok :: "cockroach_env \<Rightarrow> bool" where
  "cockroach_ok env \<longleftrightarrow>
     (\<forall>dir fs. finite (dom fs) \<longrightarrow> (\<exists>k. k \<notin> keys_in fs \<and>
        cr_cockroach env [''cert'', ''create-ca'', ''--certs-dir'', dir, ''--ca-key'', path_join dir ''ca.key'', ''--lifetime'',
          ''262800h'', ''--overwrite''] fs =
        Ok (fs(path_join dir ''ca.key'' \<mapsto> KeyFile k, path_join dir ''ca.crt'' \<mapsto> CertFile k k {})))) \<and>
     (\<forall>dir fs user ca s. finite (dom fs) \<longrightarrow> fs (path_join dir ''ca.key'') = Some (KeyFile ca) \<longrightarrow>
        fs (path_join dir ''ca.crt'') = Some (CertFile ca ca s) \<longrightarrow> (\<exists>k.
        cr_cockroach env [''cert'', ''create-client'', user, ''--certs-dir'', dir, ''--ca-key'', path_join dir ''ca.key'',
          ''--lifetime'', ''262799h'', ''--overwrite''] fs =
        Ok (fs(path_join dir (''client.'' @ user @ ''.key'') \<mapsto> KeyFile k,
               path_join dir (''client.'' @ user @ ''.crt'') \<mapsto> CertFile k ca {})))) \<and>
     (\<forall>dir fs node ca s. finite (dom fs) \<longrightarrow> fs (path_join dir ''ca.key'') = Some (KeyFile ca) \<longrightarrow>
        fs (path_join dir ''ca.crt'') = Some (CertFile ca ca s) \<longrightarrow> (\<exists>k.
        cr_cockroach env [''cert'', ''create-node'', node, ''localhost'', ''--certs-dir'', dir, ''--ca-key'',
          path_join dir ''ca.key'', ''--lifetime'', ''262799h'', ''--overwrite''] fs =
        Ok (fs(path_join dir ''node.key'' \<mapsto> KeyFile k, path_join dir ''node.crt'' \<mapsto> CertFile k ca {})))) \<and>
     (\<forall>a b f fs. fs a = Some f \<longrightarrow> cr_rename env a b fs = Ok (fs(a := None, b \<mapsto> f)))"

section \<open>The state of the directory\<close>

text \<open>A key and a certificate of it that the authority \<open>ca\<close> signed.\<close>

definition signed_pair :: "string \<Rightarrow> nat \<Rightarrow> string \<Rightarrow> cert_fs \<Rightarrow> bool" where
  "signed_pair dir ca name fs \<longleftrightarrow>
     (\<exists>k s. fs (path_join dir (name @ ''.key'')) = Some (KeyFile k) \<and> fs (path_join dir (name @ ''.crt'')) = Some (CertFile k ca s))"

definition db_pairs :: "host list \<Rightarrow> string list" where
  "db_pairs hosts = [''client.root'', ''client.kld''] @ map (\<lambda>h. ho_name h @ ''.node'') hosts"

definition db_ca :: "string \<Rightarrow> nat \<Rightarrow> cert_fs \<Rightarrow> bool" where
  "db_ca dir ca fs \<longleftrightarrow> fs (path_join dir ''ca.key'') = Some (KeyFile ca) \<and> (\<exists>s. fs (path_join dir ''ca.crt'') = Some (CertFile ca ca s))"

definition db_certs_ready :: "string \<Rightarrow> host list \<Rightarrow> nat \<Rightarrow> cert_fs \<Rightarrow> bool" where
  "db_certs_ready dir hosts ca fs \<longleftrightarrow> db_ca dir ca fs \<and> (\<forall>n \<in> set (db_pairs hosts). signed_pair dir ca n fs)"

section \<open>A directory with everything\<close>

definition pair_exists :: "string \<Rightarrow> string \<Rightarrow> cert_fs \<Rightarrow> bool" where
  "pair_exists dir name fs \<longleftrightarrow> fs (path_join dir (name @ ''.key'')) \<noteq> None \<and> fs (path_join dir (name @ ''.crt'')) \<noteq> None"

lemma nodes_kept:
  "\<forall>h \<in> set hosts. pair_exists dir (ho_name h @ ''.node'') fs \<Longrightarrow> create_node_certs env dir hosts fs = Ok fs"
  by (induction hosts) (auto simp: create_node_cert_def pair_exists_def file_exists_def Let_def)

lemma pairs_kept:
  assumes "\<forall>n \<in> set (db_pairs hosts). pair_exists dir n fs"
  shows "bind_outcome (create_client_cert env dir ''root'' fs) (\<lambda>fs2.
           bind_outcome (create_client_cert env dir ''kld'' fs2) (create_node_certs env dir hosts)) = Ok fs"
proof -
  have "pair_exists dir ''client.root'' fs" "pair_exists dir ''client.kld'' fs"
    "\<forall>h \<in> set hosts. pair_exists dir (ho_name h @ ''.node'') fs"
    using assms by (auto simp: db_pairs_def)
  then show ?thesis
    using nodes_kept [of hosts dir fs env] by (simp add: create_client_cert_def pair_exists_def file_exists_def)
qed

lemma signed_exists: "signed_pair dir ca n fs \<Longrightarrow> pair_exists dir n fs"
  by (auto simp: signed_pair_def pair_exists_def)

text \<open>A complete directory is left as it is.\<close>

lemma ready_kept:
  assumes "db_certs_ready dir hosts ca fs"
  shows "create_cockroachdb_certs env dir hosts fs = Ok fs"
proof -
  have "create_ca env dir fs = Ok fs" using assms by (auto simp: create_ca_def db_certs_ready_def db_ca_def file_exists_def Let_def)
  moreover have "\<forall>n \<in> set (db_pairs hosts). pair_exists dir n fs"
    using assms by (auto simp: db_certs_ready_def intro: signed_exists)
  ultimately show ?thesis by (simp add: create_cockroachdb_certs_def pairs_kept)
qed


section \<open>The authority is replaced\<close>

lemma pair_paths:
  assumes "n \<in> set (db_pairs hosts)" and "\<forall>h \<in> set hosts. plain_name h"
  shows "path_join dir (n @ ''.key'') \<notin> {path_join dir ''ca.key'', path_join dir ''ca.crt'', path_join dir ''ca.key.old''}"
    and "path_join dir (n @ ''.crt'') \<notin> {path_join dir ''ca.key'', path_join dir ''ca.crt'', path_join dir ''ca.key.old''}"
proof -
  have n: "CHR ''/'' \<notin> set n" "5 \<le> length n" using assms by (auto simp: db_pairs_def plain_name_def)
  have key: "n @ ''.key'' \<noteq> ''ca.key''" "n @ ''.key'' \<noteq> ''ca.crt''" "n @ ''.crt'' \<noteq> ''ca.key''" "n @ ''.crt'' \<noteq> ''ca.crt''"
    using n(2) by (auto dest: arg_cong [of _ _ length])
  have old: "n @ ''.key'' \<noteq> ''ca.key.old''" "n @ ''.crt'' \<noteq> ''ca.key.old''"
    using suffix_differs [of "''.key''" "''ca.key.old''" n "[]"] suffix_differs [of "''.crt''" "''ca.key.old''" n "[]"] by simp_all
  show "path_join dir (n @ ''.key'') \<notin> {path_join dir ''ca.key'', path_join dir ''ca.crt'', path_join dir ''ca.key.old''}"
    using n(1) key old by (simp add: join_plain)
  show "path_join dir (n @ ''.crt'') \<notin> {path_join dir ''ca.key'', path_join dir ''ca.crt'', path_join dir ''ca.key.old''}"
    using n(1) key old by (simp add: join_plain)
qed

lemma db_ca_paths: "path_join dir ''ca.key'' \<noteq> path_join dir ''ca.crt''" "path_join dir ''ca.key'' \<noteq> path_join dir ''ca.key.old''"
    "path_join dir ''ca.crt'' \<noteq> path_join dir ''ca.key.old''"
  by (simp_all add: join_plain)

text \<open>C35: A replaced authority. When the certificate of the authority of a complete directory is lost, the manager makes a new
  authority and leaves every certificate of a client and of a node as it is: each is still signed by the old authority, none
  by the new one, and every later run leaves it so. The hosts then get the new \<open>ca.crt\<close> beside certificates that it does
  not verify.\<close>

theorem replaced_ca_signs_nothing:
  assumes "cockroach_ok env" and "\<forall>h \<in> set hosts. plain_name h" and "finite (dom fs)" and "db_certs_ready dir hosts ca fs"
  shows "\<exists>fs' ca'. create_cockroachdb_certs env dir hosts (fs(path_join dir ''ca.crt'' := None)) = Ok fs' \<and> ca' \<noteq> ca \<and>
    db_ca dir ca' fs' \<and> (\<forall>n \<in> set (db_pairs hosts). signed_pair dir ca n fs' \<and> \<not> signed_pair dir ca' n fs') \<and>
    create_cockroachdb_certs env dir hosts fs' = Ok fs'"
proof -
  let ?key = "path_join dir ''ca.key''" and ?crt = "path_join dir ''ca.crt''" and ?old = "path_join dir ''ca.key.old''"
  let ?fs1 = "fs(?crt := None, ?key := None, ?old \<mapsto> KeyFile ca)"
  note paths = db_ca_paths [of dir] db_ca_paths [of dir, symmetric]
  have key: "fs ?key = Some (KeyFile ca)" using assms(4) by (simp add: db_certs_ready_def db_ca_def)
  have rename: "cr_rename env ?key ?old (fs(?crt := None)) = Ok ?fs1"
    using assms(1) key paths unfolding cockroach_ok_def by simp
  obtain ca' where ca': "ca' \<notin> keys_in ?fs1"
      "cr_cockroach env [''cert'', ''create-ca'', ''--certs-dir'', dir, ''--ca-key'', ?key, ''--lifetime'', ''262800h'', ''--overwrite''] ?fs1 =
       Ok (?fs1(?key \<mapsto> KeyFile ca', ?crt \<mapsto> CertFile ca' ca' {}))"
    using conjunct1 [OF assms(1) [unfolded cockroach_ok_def], rule_format, of ?fs1 dir] assms(3) by auto
  let ?fs' = "?fs1(?key \<mapsto> KeyFile ca', ?crt \<mapsto> CertFile ca' ca' {})"
  have "KeyFile ca \<in> ran ?fs1" by (rule ranI [of _ ?old]) simp
  then have new: "ca' \<noteq> ca" using ca'(1) by (auto simp: keys_in_def)
  have ca_made: "create_ca env dir (fs(?crt := None)) = Ok ?fs'"
    using key rename ca'(2) paths by (simp add: create_ca_def file_exists_def)
  have signed: "signed_pair dir ca n ?fs' \<and> \<not> signed_pair dir ca' n ?fs'" if "n \<in> set (db_pairs hosts)" for n
  proof -
    have "signed_pair dir ca n fs" using assms(4) that by (simp add: db_certs_ready_def)
    with pair_paths [OF that assms(2), of dir] new show ?thesis by (auto simp: signed_pair_def)
  qed
  then have pairs: "\<forall>n \<in> set (db_pairs hosts). pair_exists dir n ?fs'" using signed_exists by blast
  have "create_cockroachdb_certs env dir hosts (fs(?crt := None)) = Ok ?fs'"
    unfolding create_cockroachdb_certs_def ca_made bind_outcome.simps pairs_kept [OF pairs] ..
  moreover have again: "create_ca env dir ?fs' = Ok ?fs'" using paths by (simp add: create_ca_def file_exists_def)
  have "create_cockroachdb_certs env dir hosts ?fs' = Ok ?fs'"
    unfolding create_cockroachdb_certs_def again bind_outcome.simps pairs_kept [OF pairs] ..
  moreover have "db_ca dir ca' ?fs'" using paths by (simp add: db_ca_def)
  ultimately show ?thesis using new signed by blast
qed

definition sample_cockroach :: cockroach_env where
  "sample_cockroach =
     \<lparr>cr_cockroach = (\<lambda>a fs. let k = Suc (Max (insert 0 (keys_in fs))); ca = (case fs (path_join (a ! 4) ''ca.key'') of Some (KeyFile c) \<Rightarrow> c | _ \<Rightarrow> 0)
        in if a ! 1 = ''create-ca'' then Ok (fs(path_join (a ! 3) ''ca.key'' \<mapsto> KeyFile k, path_join (a ! 3) ''ca.crt'' \<mapsto> CertFile k k {}))
           else if a ! 1 = ''create-client'' then
             Ok (fs(path_join (a ! 4) (''client.'' @ a ! 2 @ ''.key'') \<mapsto> KeyFile k, path_join (a ! 4) (''client.'' @ a ! 2 @ ''.crt'') \<mapsto> CertFile k ca {}))
           else (case fs (path_join (a ! 5) ''ca.key'') of Some (KeyFile c) \<Rightarrow>
             Ok (fs(path_join (a ! 5) ''node.key'' \<mapsto> KeyFile k, path_join (a ! 5) ''node.crt'' \<mapsto> CertFile k c {})) | _ \<Rightarrow> Err (Msg ''ca''))),
      cr_rename = (\<lambda>a b fs. case fs a of Some f \<Rightarrow> Ok (fs(a := None, b \<mapsto> f)) | None \<Rightarrow> Err (Msg ''rename''))\<rparr>"

lemma sample_cockroach_ok: "cockroach_ok sample_cockroach"
proof -
  have fresh: "Suc (Max (insert 0 (keys_in fs))) \<notin> keys_in fs" if "finite (dom fs)" for fs
  proof
    assume "Suc (Max (insert 0 (keys_in fs))) \<in> keys_in fs"
    then have "Suc (Max (insert 0 (keys_in fs))) \<le> Max (insert 0 (keys_in fs))"
      using finite_keys [OF that] by (intro Max_ge) auto
    then show False by simp
  qed
  show ?thesis
    unfolding cockroach_ok_def
    by (intro conjI allI impI; (intro exI [of _ "Suc (Max (insert 0 (keys_in _)))"])?) (auto simp: sample_cockroach_def Let_def fresh)
qed

theorem replaced_ca_signs_nothing_witness:
  "\<exists>fs' ca'. create_cockroachdb_certs sample_cockroach ''c'' [] (Map.empty(''c/ca.key'' \<mapsto> KeyFile 1, ''c/client.root.key'' \<mapsto> KeyFile 2,
       ''c/client.root.crt'' \<mapsto> CertFile 2 1 {}, ''c/client.kld.key'' \<mapsto> KeyFile 3, ''c/client.kld.crt'' \<mapsto> CertFile 3 1 {})) = Ok fs' \<and>
     ca' \<noteq> 1 \<and> db_ca ''c'' ca' fs' \<and> signed_pair ''c'' 1 ''client.root'' fs'"
proof -
  let ?fs = "Map.empty(''c/ca.key'' \<mapsto> KeyFile 1, ''c/client.root.key'' \<mapsto> KeyFile 2, ''c/client.root.crt'' \<mapsto> CertFile 2 1 {},
      ''c/client.kld.key'' \<mapsto> KeyFile 3, ''c/client.kld.crt'' \<mapsto> CertFile 3 1 {}, ''c/ca.crt'' \<mapsto> CertFile 1 1 {})"
  have j: "path_join ''c'' n = ''c/'' @ n" if "\<not> starts_with n ''/''" for n using that by (simp add: path_join_def)
  have "db_certs_ready ''c'' [] 1 ?fs"
    by (simp add: db_certs_ready_def db_ca_def db_pairs_def signed_pair_def path_join_def starts_with_def)
  moreover have "?fs(path_join ''c'' ''ca.crt'' := None) = Map.empty(''c/ca.key'' \<mapsto> KeyFile 1, ''c/client.root.key'' \<mapsto> KeyFile 2,
       ''c/client.root.crt'' \<mapsto> CertFile 2 1 {}, ''c/client.kld.key'' \<mapsto> KeyFile 3, ''c/client.kld.crt'' \<mapsto> CertFile 3 1 {})"
    by (simp add: path_join_def starts_with_def fun_eq_iff)
  moreover have "''client.root'' \<in> set (db_pairs [])" by (simp add: db_pairs_def)
  ultimately show ?thesis
    using replaced_ca_signs_nothing [OF sample_cockroach_ok, of "[]" ?fs "''c''" 1] by fastforce
qed

end
