(* ===== verification/Mgr_Deploy.thy ===== *)
theory Mgr_Deploy
  imports Mgr_Commands Cockroach_Certs Seeds_Correct
begin

text \<open>
  The flake that the manager generates (\<^verbatim>\<open>mgr/src/flake.rs\<close>, \<^verbatim>\<open>generate_config.rs\<close>) and its program (\<^verbatim>\<open>main.rs\<close>): the
  files that an installation prepares before it runs, and the other commands.  The certificates of the two
  kinds and the other secrets are three directories.
\<close>

section \<open>The flake\<close>

type_synonym text_fs = "string \<rightharpoonup> string"

text \<open>Variables of the environment that are set, the writer of tables, and the writing of a file.\<close>

record flake_env =
  fe_flake_check :: bool
  fe_debug :: bool
  fe_toml :: "host \<Rightarrow> string outcome"
  fe_write :: "string \<Rightarrow> string \<Rightarrow> text_fs \<Rightarrow> text_fs outcome"

definition quoted :: "string \<Rightarrow> string" where
  "quoted s = [CHR 0x22] @ s @ [CHR 0x22]"

definition global_fields :: "flake_env \<Rightarrow> string \<Rightarrow> nat \<Rightarrow> string" where
  "global_fields env deployment_flake order =
     line (''deployment_flake = '' @ quoted deployment_flake) @ line (''upgrade_order = '' @ nat_to_string order) @
     (if fe_flake_check env \<or> fe_debug env then line ''keep_root = true'' else [])"

definition flake_host :: "flake_env \<Rightarrow> host \<Rightarrow> host" where
  "flake_host env h =
     (if \<not> fe_flake_check env \<and> fe_debug env \<and> ho_nixos_module h = ''kld-node'' then h\<lparr>ho_nixos_module := ''kld-test''\<rparr> else h)"

text \<open>The loop over the hosts: one table each.\<close>

fun write_host_tables :: "flake_env \<Rightarrow> string \<Rightarrow> string \<Rightarrow> nat \<Rightarrow> (string \<times> host) list \<Rightarrow> text_fs \<Rightarrow> text_fs outcome" where
  "write_host_tables env tmp deployment order [] fs = Ok fs"
| "write_host_tables env tmp deployment order ((name, h) # hs) fs =
     bind_outcome (fe_write env (path_join tmp (name @ ''.toml'')) [] fs) (\<lambda>fs1.
     bind_outcome (fe_toml env (flake_host env h)) (\<lambda>t.
     bind_outcome (fe_write env (path_join tmp (name @ ''.toml'')) (global_fields env deployment order @ t) fs1)
       (write_host_tables env tmp deployment (Suc order) hs)))"

definition nixos_configuration :: "string \<times> host \<Rightarrow> string" where
  "nixos_configuration nh =
     (let (name, h) = nh;
          modules = join_with [CHR 0x0A] (map (\<lambda>m. ''      lightning-knd.nixosModules.'' @ quoted m)
            (ho_nixos_module h # ho_extra_nixos_modules h))
      in line (''  nixosConfigurations.'' @ quoted name @ '' = lightning-knd.inputs.nixpkgs.lib.nixosSystem {'') @
         line (''    system = '' @ quoted ''x86_64-linux'' @ '';'') @ line ''    modules = ['' @ line modules @
         line (''      { kuutamo.deployConfig = builtins.fromTOML (builtins.readFile (builtins.path { name = '' @ quoted ''node.toml'' @
           ''; path = ./'' @ name @ ''.toml; })); }'') @
         line ''    ];'' @ ''  };'')"

definition flake_text :: "string \<Rightarrow> string" where
  "flake_text knd_flake =
     line ''{'' @ line (''  inputs.lightning-knd.url = '' @ quoted knd_flake @ '';'') @ line [] @
     line ''  nixConfig.extra-substituters = ['' @ line (''    '' @ quoted ''https://cache.garnix.io'') @ line ''  ];'' @ line [] @
     line ''  nixConfig.extra-trusted-public-keys = ['' @
     line (''    '' @ quoted ''cache.garnix.io:CTFPyKSLcx5RMJKfLo5EEPUObbA78b0YQ2DTCJXqr9g='') @ line ''  ];'' @ line [] @
     line ''  outputs = inputs: import ./configurations.nix inputs;'' @ line ''}''"

definition generate_nixos_flake :: "flake_env \<Rightarrow> string \<Rightarrow> config \<Rightarrow> text_fs outcome" where
  "generate_nixos_flake env tmp c =
     bind_outcome (write_host_tables env tmp (gl_deployment_flake (co_global c)) 0 (co_hosts c) Map.empty) (\<lambda>fs1.
     let configurations = join_with [CHR 0x0A] (map (\<lambda>(name, h). nixos_configuration (name, flake_host env h)) (co_hosts c))
     in bind_outcome (fe_write env (path_join tmp ''configurations.nix'')
            (line ''{ lightning-knd, ... }: {'' @ line configurations @ line ''}'') fs1) (\<lambda>fs2.
        fe_write env (path_join tmp ''flake.nix'') (flake_text (gl_knd_flake (co_global c))) fs2))"

text \<open>\<open>generate_config\<close>: the files of the flake are copied, one by one, in the order of the directory, of which an entry
  may be unreadable.\<close>

fun copy_entries ::
  "(string \<Rightarrow> string \<Rightarrow> text_fs \<Rightarrow> text_fs outcome) \<Rightarrow> string \<Rightarrow> string \<Rightarrow> string outcome list \<Rightarrow> text_fs \<Rightarrow> text_fs outcome" where
  "copy_entries copy src dst [] fs = Ok fs"
| "copy_entries copy src dst (e # es) fs =
     bind_outcome e (\<lambda>n. bind_outcome (copy (path_join src n) (path_join dst n) fs) (copy_entries copy src dst es))"

record copy_env =
  cy_mkdir :: "string \<Rightarrow> text_fs \<Rightarrow> text_fs outcome"
  cy_read_dir :: "string \<Rightarrow> text_fs \<Rightarrow> string outcome list outcome"
  cy_copy :: "string \<Rightarrow> string \<Rightarrow> text_fs \<Rightarrow> text_fs outcome"

definition generate_config :: "copy_env \<Rightarrow> string \<Rightarrow> string \<Rightarrow> text_fs \<Rightarrow> text_fs outcome" where
  "generate_config env directory flake_path fs =
     bind_outcome (cy_mkdir env directory fs) (\<lambda>fs1.
     bind_outcome (cy_read_dir env flake_path fs1) (\<lambda>entries. copy_entries (cy_copy env) flake_path directory entries fs1))"

section \<open>What an installation prepares\<close>

record mgr_files =
  mf_lightning :: cert_fs
  mf_cockroach :: cert_fs
  mf_secrets :: seed_fs

text \<open>\<open>de_keygen\<close> is the program \<open>ssh-keygen\<close>, without an answer to its questions: \<open>None\<close> cannot be started.\<close>

record ('w, 'k, 'm) deploy_env =
  de_cert :: cert_env
  de_cockroach :: cockroach_env
  de_io :: seed_io
  de_mnemonics :: "'w mnemonic_lib"
  de_macaroons :: "('k, 'm) macaroon_lib"
  de_tokens :: "('k, 'm) token_lib"
  de_keygen :: "string list \<Rightarrow> seed_fs \<Rightarrow> (exit_status \<times> seed_fs) option"
  de_random_key :: string
  de_new_mnemonic :: "'w option"

text \<open>The exit status is not asked for.\<close>

definition create_deploy_key :: "('w, 'k, 'm) deploy_env \<Rightarrow> string \<Rightarrow> seed_fs \<Rightarrow> seed_fs outcome" where
  "create_deploy_key env dir fs =
     bind_outcome (io_mkdir (de_io env) (path_join dir ''ssh'') fs) (\<lambda>fs1.
     bind_outcome (ok_or (Msg ''ssh-keygen'') (de_keygen env [''-q'', ''-t'', ''ed25519'', ''-C'', ''deploy_key'', ''-N'', '''', ''-f'',
         path_join dir ''ssh'' @ ''/id_ed25519''] fs1)) (\<lambda>(_, fs2). Ok fs2))"

definition make_sshd_key :: "('w, 'k, 'm) deploy_env \<Rightarrow> string \<Rightarrow> seed_fs \<Rightarrow> seed_fs outcome" where
  "make_sshd_key env p fs =
     (let args = [''-N'', '''', ''-f'', p, ''-C'', ''kld-mgr'']
      in case de_keygen env args fs of
           None \<Rightarrow> bind_outcome (status_to_pretty_err None ''ssh-keygen'' args) (\<lambda>_. Ok fs)
         | Some (s, fs') \<Rightarrow> bind_outcome (status_to_pretty_err (Some s) ''ssh-keygen'' args) (\<lambda>_. Ok fs'))"

fun sshd_keys :: "('w, 'k, 'm) deploy_env \<Rightarrow> string \<Rightarrow> string list \<Rightarrow> seed_fs \<Rightarrow> seed_fs outcome" where
  "sshd_keys env sshd_dir [] fs = Ok fs"
| "sshd_keys env sshd_dir (n # ns) fs =
     bind_outcome (if path_exists fs (path_join sshd_dir n) then Ok fs else make_sshd_key env (path_join sshd_dir n) fs)
       (sshd_keys env sshd_dir ns)"

definition prepare_install :: "('w, 'k, 'm) deploy_env \<Rightarrow> bool \<Rightarrow> config \<Rightarrow> mgr_files \<Rightarrow> mgr_files outcome" where
  "prepare_install env generate_secret_on_remote c files =
     (let dir = gl_secret_directory (co_global c); hosts = map snd (co_hosts c)
      in bind_outcome (create_deploy_key env dir (mf_secrets files)) (\<lambda>s1.
         bind_outcome (create_lightning_certs (de_cert env) (path_join dir ''lightning'') hosts (mf_lightning files)) (\<lambda>l.
         bind_outcome (create_cockroachdb_certs (de_cockroach env) (path_join dir ''cockroachdb'') hosts (mf_cockroach files)) (\<lambda>d.
         bind_outcome (io_mkdir (de_io env) (path_join dir ''sshd'') s1) (\<lambda>s2.
         bind_outcome (sshd_keys env (path_join dir ''sshd'') (map fst (co_hosts c)) s2) (\<lambda>s3.
         bind_outcome (if path_exists s3 (path_join dir ''disk_encryption_key'') then Ok s3
             else io_write (de_io env) (path_join dir ''disk_encryption_key'') (de_random_key env) s3) (\<lambda>s4.
         bind_outcome (if generate_secret_on_remote then Ok s4
             else generate_mnemonic_and_macaroons (de_io env) (de_mnemonics env) (de_macaroons env) (de_tokens env) dir
               (de_new_mnemonic env) s4) (\<lambda>s5.
           Ok \<lparr>mf_lightning = l, mf_cockroach = d, mf_secrets = s5\<rparr>))))))))"

text \<open>A file of the secrets, wherever it is; \<open>text_of\<close> is the text of a key or certificate.\<close>

definition read_secret_file :: "(cert_file \<Rightarrow> string) \<Rightarrow> mgr_files \<Rightarrow> string \<Rightarrow> string option" where
  "read_secret_file text_of files p =
     (case mf_lightning files p of
        Some f \<Rightarrow> Some (text_of f)
      | None \<Rightarrow> (case mf_cockroach files p of Some f \<Rightarrow> Some (text_of f) | None \<Rightarrow> read_file (mf_secrets files) p))"

definition deployed_secrets :: "(cert_file \<Rightarrow> string) \<Rightarrow> mgr_files \<Rightarrow> config \<Rightarrow> host \<Rightarrow> secret_file list outcome" where
  "deployed_secrets text_of files c h =
     host_secrets (read_secret_file text_of files) (path_exists (mf_secrets files)) h (gl_secret_directory (co_global c))
       (gl_access_tokens (co_global c))"

section \<open>The other commands\<close>

definition main_ssh :: "string \<Rightarrow> string list option \<Rightarrow> (string \<times> host) list \<Rightarrow> unit cmd" where
  "main_ssh host_spec command hosts =
     cmd_bind (cmd_return (filter_hosts host_spec hosts)) (\<lambda>hs. mgr_ssh hs (get_or [] command))"

definition main_reboot :: "string \<Rightarrow> (string \<times> host) list \<Rightarrow> unit cmd" where
  "main_reboot host_spec hosts = cmd_bind (cmd_return (filter_hosts host_spec hosts)) mgr_reboot"

fun unlock_hosts :: "(host \<Rightarrow> nat \<Rightarrow> string option option) \<Rightarrow> string option \<Rightarrow> host list \<Rightarrow> unit cmd" where
  "unlock_hosts answer key_file [] = cmd_return (Ok ())"
| "unlock_hosts answer key_file (h # hs) =
     cmd_bind (try_unlock_over_ssh answer h key_file) (\<lambda>_. unlock_hosts answer key_file hs)"

text \<open>\<open>read\<close> is the file system; the key is that of the option or that of the directory of secrets.\<close>

definition main_unlock ::
  "(host \<Rightarrow> nat \<Rightarrow> string option option) \<Rightarrow> (string \<Rightarrow> string option) \<Rightarrow> string option \<Rightarrow> string \<Rightarrow> config \<Rightarrow> unit cmd" where
  "main_unlock answer read key_file host_spec c =
     (let key = get_or (path_join (gl_secret_directory (co_global c)) ''disk_encryption_key'') key_file
      in cmd_bind (cmd_return (filter_hosts host_spec (co_hosts c))) (unlock_hosts answer (read key)))"

text \<open>\<open>system_info\<close>: what is printed for each host; a host that cannot be asked does not stop the command. \<open>output\<close> is the
  output and the errors of the program at its place in the log.\<close>

definition print_host_info :: "(nat \<Rightarrow> string \<times> string option) \<Rightarrow> host \<Rightarrow> string cmd" where
  "print_host_info output h w log =
     (let log' = log @ [(''ssh'', [deploy_ssh_target h, ''--'', ''kld-ctl'', ''system-info''])]; n = length log
      in (log', Ok (line ([CHR ''[''] @ ho_name h @ '']'') @
           (case w n of
              Some (Exited code) \<Rightarrow>
                if code = 0 then fst (output n)
                else line (''fetch system info of '' @ ho_name h @ '' error: '' @ get_or ''fail to decode stderr'' (snd (output n)))
            | Some Signalled \<Rightarrow>
                line (''fetch system info of '' @ ho_name h @ '' error: '' @ get_or ''fail to decode stderr'' (snd (output n)))
            | None \<Rightarrow> line (''Fail to fetch system info from '' @ ho_name h)))))"

fun print_hosts :: "(nat \<Rightarrow> string \<times> string option) \<Rightarrow> host list \<Rightarrow> string cmd" where
  "print_hosts output [] = cmd_return (Ok [])"
| "print_hosts output (h # hs) =
     cmd_bind (print_host_info output h) (\<lambda>s. cmd_bind (print_hosts output hs) (\<lambda>t. cmd_return (Ok (s @ line (line []) @ t))))"

definition system_info :: "string \<Rightarrow> (nat \<Rightarrow> string \<times> string option) \<Rightarrow> string \<Rightarrow> (string \<times> host) list \<Rightarrow> string cmd" where
  "system_info version output host_spec hosts =
     cmd_bind (cmd_return (filter_hosts host_spec hosts)) (\<lambda>hs.
     cmd_bind (print_hosts output hs) (\<lambda>t. cmd_return (Ok (line (line (''kld-mgr version: '' @ version)) @ t))))"

section \<open>The program\<close>

datatype mgr_command =
    GenerateConfig string
  | GenerateExample
  | Install string string bool bool bool
    \<comment> \<open>hosts, kexec url, debug, no reboot, generate secret on remote\<close>
  | Ssh string "string list option"
  | Reboot string
  | SystemInfo string
  | Unlock string "string option"

text \<open>\<open>ma_load\<close> loads the configuration, whether with a preset mnemonic and whether with a check of the repository of the
  deployment; \<open>ma_install\<close> is the installation of the hosts from the kexec url, with debugging, without reboot.\<close>

record ('w, 'k, 'm) main_env =
  ma_deploy :: "('w, 'k, 'm) deploy_env"
  ma_flake :: flake_env
  ma_copy :: copy_env
  ma_flake_path :: string
  ma_yes :: bool
  ma_reply :: "string option"
  ma_example :: string
  ma_version :: string
  ma_load :: "bool \<Rightarrow> bool \<Rightarrow> config outcome"
  ma_answer :: "host \<Rightarrow> nat \<Rightarrow> string option option"
  ma_output :: "nat \<Rightarrow> string \<times> string option"
  ma_install :: "string \<Rightarrow> bool \<Rightarrow> bool \<Rightarrow> config \<Rightarrow> mgr_files \<Rightarrow> host list \<Rightarrow> world \<Rightarrow> cmd_log \<Rightarrow> (cmd_log \<times> unit outcome) option"

record main_state =
  mt_files :: mgr_files
  mt_texts :: text_fs
  mt_log :: cmd_log

definition silent :: "main_state \<Rightarrow> cmd_log \<times> unit outcome \<Rightarrow> main_state \<times> string outcome" where
  "silent st r = (st\<lparr>mt_log := fst r\<rparr>, bind_outcome (snd r) (\<lambda>_. Ok []))"

definition failed :: "main_state \<Rightarrow> 'a outcome \<Rightarrow> main_state \<times> string outcome" where
  "failed st r = (st, bind_outcome r (\<lambda>_. Ok []))"

definition run_install ::
  "('w, 'k, 'm) main_env \<Rightarrow> string \<Rightarrow> string \<Rightarrow> bool \<Rightarrow> bool \<Rightarrow> bool \<Rightarrow> world \<Rightarrow> main_state \<Rightarrow> (main_state \<times> string outcome) option" where
  "run_install env hosts kexec_url debug no_reboot on_remote w st =
     (case ma_load env (\<not> on_remote) True of
        Ok c \<Rightarrow>
          (case prepare_install (ma_deploy env) on_remote c (mt_files st) of
             Ok files \<Rightarrow>
               (case generate_nixos_flake (ma_flake env) (ma_flake_path env) c of
                  Ok flake \<Rightarrow>
                    let st' = st\<lparr>mt_files := files, mt_texts := mt_texts st ++ flake\<rparr>
                    in map_option (silent st')
                         (main_install (ma_yes env) (ma_reply env) hosts (co_hosts c) (ma_install env kexec_url debug no_reboot c files)
                            w (mt_log st'))
                | r \<Rightarrow> Some (failed (st\<lparr>mt_files := files\<rparr>) r))
           | r \<Rightarrow> Some (failed st r))
      | r \<Rightarrow> Some (failed st r))"

definition mgr_main :: "('w, 'k, 'm) main_env \<Rightarrow> mgr_command \<Rightarrow> world \<Rightarrow> main_state \<Rightarrow> (main_state \<times> string outcome) option" where
  "mgr_main env command w st =
     (case command of
        GenerateExample \<Rightarrow> Some (st, Ok (line (ma_example env)))
      | Install hosts kexec_url debug no_reboot on_remote \<Rightarrow> run_install env hosts kexec_url debug no_reboot on_remote w st
      | Unlock hosts key_file \<Rightarrow>
          (case ma_load env False False of
             Ok c \<Rightarrow> Some (silent st (main_unlock (ma_answer env) (read_file (mf_secrets (mt_files st))) key_file hosts c w (mt_log st)))
           | r \<Rightarrow> Some (failed st r))
      | _ \<Rightarrow>
          (case ma_load env False False of
             Ok c \<Rightarrow>
               (case generate_nixos_flake (ma_flake env) (ma_flake_path env) c of
                  Ok flake \<Rightarrow>
                    let st' = st\<lparr>mt_texts := mt_texts st ++ flake\<rparr>
                    in (case command of
                          GenerateConfig directory \<Rightarrow>
                            (case generate_config (ma_copy env) directory (ma_flake_path env) (mt_texts st') of
                               Ok texts \<Rightarrow> Some (st'\<lparr>mt_texts := texts\<rparr>, Ok [])
                             | r \<Rightarrow> Some (failed st' r))
                        | Ssh hosts cmdline \<Rightarrow> Some (silent st' (main_ssh hosts cmdline (co_hosts c) w (mt_log st')))
                        | Reboot hosts \<Rightarrow> Some (silent st' (main_reboot hosts (co_hosts c) w (mt_log st')))
                        | SystemInfo hosts \<Rightarrow>
                            (let (log, r) = system_info (ma_version env) (ma_output env) hosts (co_hosts c) w (mt_log st')
                             in Some (st'\<lparr>mt_log := log\<rparr>, r))
                        | _ \<Rightarrow> Some (st', Panic))
                | r \<Rightarrow> Some (failed st r))
           | r \<Rightarrow> Some (failed st r)))"

end
