(* ===== verification/Mgr_Deploy_Correct.thy ===== *)
theory Mgr_Deploy_Correct
  imports Mgr_Deploy
begin

text \<open>
  An installation prepares every secret that it then copies to a host, and preparing it again changes nothing; the tables
  of the flake.
\<close>

section \<open>Steps that settle\<close>

text \<open>The contract of everything that the manager prepares: from what it may find it makes what is needed, and it leaves what
  is needed as it is.\<close>

locale settling_step =
  fixes step :: "'s \<Rightarrow> 's outcome" and before :: "'s \<Rightarrow> bool" and ready :: "'s \<Rightarrow> bool"
  assumes makes: "before s \<Longrightarrow> \<exists>s'. step s = Ok s' \<and> ready s'"
    and keeps: "ready s \<Longrightarrow> step s = Ok s"
begin

lemma settles: "before s \<Longrightarrow> \<exists>s'. step s = Ok s' \<and> ready s' \<and> step s' = Ok s'"
  using makes keeps by blast

lemma kept_for_ever: "ready s \<Longrightarrow> ((\<lambda>r. bind_outcome r step) ^^ n) (Ok s) = Ok s"
  by (induction n) (simp_all add: keeps)

lemma every_run:
  assumes "before s"
  shows "\<exists>s'. ready s' \<and> (\<forall>n. ((\<lambda>r. bind_outcome r step) ^^ Suc n) (Ok s) = Ok s')"
proof -
  obtain s' where s': "step s = Ok s'" "ready s'" using makes [OF assms] by blast
  have "((\<lambda>r. bind_outcome r step) ^^ Suc n) (Ok s) = Ok s'" for n
    unfolding funpow_Suc_right comp_def bind_outcome.simps s'(1) by (rule kept_for_ever [OF s'(2)])
  with s'(2) show ?thesis by blast
qed

end

section \<open>Paths\<close>

lemma join_join:
  "n \<noteq> [] \<Longrightarrow> last d \<noteq> CHR ''/'' \<Longrightarrow> d \<noteq> [] \<Longrightarrow> hd n \<noteq> CHR ''/'' \<Longrightarrow> hd d \<noteq> CHR ''/'' \<Longrightarrow>
     path_join (path_join dir d) n = path_join dir (d @ CHR ''/'' # n)"
  by (cases n; cases d) (auto simp: path_join_def starts_with_def)

section \<open>The certificates of the database\<close>

text \<open>The directories that the manager finds: none of its files, or an authority, with some of the pairs it has signed.\<close>

definition db_started :: "string \<Rightarrow> host list \<Rightarrow> nat \<Rightarrow> cert_fs \<Rightarrow> bool" where
  "db_started dir hosts ca fs \<longleftrightarrow> finite (dom fs) \<and> db_ca dir ca fs \<and>
     (\<forall>n \<in> set (db_pairs hosts). signed_pair dir ca n fs \<or> \<not> pair_exists dir n fs)"

definition db_before :: "string \<Rightarrow> host list \<Rightarrow> cert_fs \<Rightarrow> bool" where
  "db_before dir hosts fs \<longleftrightarrow> (\<exists>ca. db_started dir hosts ca fs) \<or>
     (finite (dom fs) \<and> fs (path_join dir ''ca.key'') = None \<and> fs (path_join dir ''ca.crt'') = None \<and>
        (\<forall>n \<in> set (db_pairs hosts). \<not> pair_exists dir n fs))"

definition pair_name :: "string \<Rightarrow> bool" where
  "pair_name n \<longleftrightarrow> CHR ''/'' \<notin> set n \<and> n \<noteq> ''ca'' \<and> n \<noteq> ''node''"

lemma db_pair_names: "\<forall>h \<in> set hosts. plain_name h \<Longrightarrow> n \<in> set (db_pairs hosts) \<Longrightarrow> pair_name n"
  by (auto simp: db_pairs_def pair_name_def plain_name_def dest: arg_cong [of _ _ length])

lemma key_not_crt: "a @ ''.key'' \<noteq> b @ ''.crt''"
  using suffix_differs [of "''.key''" "''.crt''" a b] by simp

lemma pair_files:
  assumes "pair_name n" and "pair_name m"
  shows "path_join dir (n @ ''.key'') \<noteq> path_join dir (m @ ''.crt'')"
    "path_join dir (m @ ''.crt'') \<noteq> path_join dir (n @ ''.key'')"
    "path_join dir (n @ ''.key'') = path_join dir (m @ ''.key'') \<longleftrightarrow> n = m"
    "path_join dir (n @ ''.crt'') = path_join dir (m @ ''.crt'') \<longleftrightarrow> n = m"
  using assms key_not_crt [of n m] by (auto simp: pair_name_def join_plain)

lemma pair_ca_files:
  assumes "pair_name n"
  shows "path_join dir (n @ ''.key'') \<noteq> path_join dir ''ca.key''" "path_join dir (n @ ''.crt'') \<noteq> path_join dir ''ca.key''"
    "path_join dir (n @ ''.key'') \<noteq> path_join dir ''ca.crt''" "path_join dir (n @ ''.crt'') \<noteq> path_join dir ''ca.crt''"
    "path_join dir (n @ ''.key'') \<noteq> path_join dir ''node.key''" "path_join dir (n @ ''.crt'') \<noteq> path_join dir ''node.key''"
    "path_join dir (n @ ''.key'') \<noteq> path_join dir ''node.crt''" "path_join dir (n @ ''.crt'') \<noteq> path_join dir ''node.crt''"
proof -
  have n: "CHR ''/'' \<notin> set n" "n \<noteq> ''ca''" "n \<noteq> ''node''" using assms by (auto simp: pair_name_def)
  note same = append_same_eq [of n "''.key''" "''ca''"] append_same_eq [of n "''.crt''" "''ca''"]
    append_same_eq [of n "''.key''" "''node''"] append_same_eq [of n "''.crt''" "''node''"]
  note differ = key_not_crt [of n "''ca''"] key_not_crt [of n "''node''"] key_not_crt [of "''ca''" n, symmetric]
    key_not_crt [of "''node''" n, symmetric]
  show "path_join dir (n @ ''.key'') \<noteq> path_join dir ''ca.key''" "path_join dir (n @ ''.crt'') \<noteq> path_join dir ''ca.key''"
    "path_join dir (n @ ''.key'') \<noteq> path_join dir ''ca.crt''" "path_join dir (n @ ''.crt'') \<noteq> path_join dir ''ca.crt''"
    "path_join dir (n @ ''.key'') \<noteq> path_join dir ''node.key''" "path_join dir (n @ ''.crt'') \<noteq> path_join dir ''node.key''"
    "path_join dir (n @ ''.key'') \<noteq> path_join dir ''node.crt''" "path_join dir (n @ ''.crt'') \<noteq> path_join dir ''node.crt''"
    using n same differ by (simp_all add: join_plain)
qed

lemma ca_node_files:
  "path_join dir ''ca.key'' \<noteq> path_join dir ''node.key''" "path_join dir ''ca.key'' \<noteq> path_join dir ''node.crt''"
  "path_join dir ''ca.crt'' \<noteq> path_join dir ''node.key''" "path_join dir ''ca.crt'' \<noteq> path_join dir ''node.crt''"
  "path_join dir ''node.crt'' \<noteq> path_join dir ''node.key''"
  by (simp_all add: join_plain)

text \<open>What the making of a pair leaves: the new pair is signed, the authority and every other pair are as they were.\<close>

definition makes_pair :: "string \<Rightarrow> nat \<Rightarrow> string \<Rightarrow> cert_fs \<Rightarrow> cert_fs \<Rightarrow> bool" where
  "makes_pair dir ca n fs fs' \<longleftrightarrow> finite (dom fs') \<and> db_ca dir ca fs' \<and> signed_pair dir ca n fs' \<and>
     (\<forall>m. pair_name m \<longrightarrow> m \<noteq> n \<longrightarrow>
        fs' (path_join dir (m @ ''.key'')) = fs (path_join dir (m @ ''.key'')) \<and>
        fs' (path_join dir (m @ ''.crt'')) = fs (path_join dir (m @ ''.crt'')))"

lemma makes_pair_refl: "finite (dom fs) \<Longrightarrow> db_ca dir ca fs \<Longrightarrow> signed_pair dir ca n fs \<Longrightarrow> makes_pair dir ca n fs fs"
  by (simp add: makes_pair_def)

lemma started_step:
  assumes "db_started dir hosts ca fs" and "makes_pair dir ca n fs fs'" and "\<forall>h \<in> set hosts. plain_name h"
  shows "db_started dir hosts ca fs'"
proof -
  have "signed_pair dir ca m fs' \<or> \<not> pair_exists dir m fs'" if m: "m \<in> set (db_pairs hosts)" for m
  proof (cases "m = n")
    case True
    with assms(2) show ?thesis by (simp add: makes_pair_def)
  next
    case False
    with assms(2) db_pair_names [OF assms(3) m]
    have "fs' (path_join dir (m @ ''.key'')) = fs (path_join dir (m @ ''.key''))"
      "fs' (path_join dir (m @ ''.crt'')) = fs (path_join dir (m @ ''.crt''))" by (simp_all add: makes_pair_def)
    moreover have "signed_pair dir ca m fs \<or> \<not> pair_exists dir m fs" using assms(1) m by (simp add: db_started_def)
    ultimately show ?thesis by (simp add: signed_pair_def pair_exists_def)
  qed
  with assms(2) show ?thesis by (auto simp: db_started_def makes_pair_def)
qed

lemma signed_step:
  "makes_pair dir ca n fs fs' \<Longrightarrow> signed_pair dir ca m fs \<Longrightarrow> pair_name m \<Longrightarrow> signed_pair dir ca m fs'"
  by (cases "m = n") (simp_all add: makes_pair_def signed_pair_def)

lemma client_made:
  assumes ok: "cockroach_ok env" and st: "db_started dir hosts ca fs" and u: "''client.'' @ u \<in> set (db_pairs hosts)"
    and plain: "\<forall>h \<in> set hosts. plain_name h"
  shows "\<exists>fs'. create_client_cert env dir u fs = Ok fs' \<and> makes_pair dir ca (''client.'' @ u) fs fs'"
proof (cases "pair_exists dir (''client.'' @ u) fs")
  case True
  with st u have "signed_pair dir ca (''client.'' @ u) fs" by (auto simp: db_started_def)
  moreover have "create_client_cert env dir u fs = Ok fs"
    using True by (simp add: create_client_cert_def pair_exists_def file_exists_def)
  ultimately show ?thesis using st makes_pair_refl by (auto simp: db_started_def)
next
  case False
  have ca: "db_ca dir ca fs" "finite (dom fs)" using st by (auto simp: db_started_def)
  obtain s where s: "fs (path_join dir ''ca.key'') = Some (KeyFile ca)" "fs (path_join dir ''ca.crt'') = Some (CertFile ca ca s)"
    using ca(1) by (auto simp: db_ca_def)
  let ?n = "''client.'' @ u"
  obtain k where k: "cr_cockroach env [''cert'', ''create-client'', u, ''--certs-dir'', dir, ''--ca-key'', path_join dir ''ca.key'',
      ''--lifetime'', ''262799h'', ''--overwrite''] fs =
      Ok (fs(path_join dir (?n @ ''.key'') \<mapsto> KeyFile k, path_join dir (?n @ ''.crt'') \<mapsto> CertFile k ca {}))"
    using ok s ca(2) unfolding cockroach_ok_def by (metis append_assoc)
  have name: "pair_name ?n" by (rule db_pair_names [OF plain u])
  let ?fs' = "fs(path_join dir (?n @ ''.key'') \<mapsto> KeyFile k, path_join dir (?n @ ''.crt'') \<mapsto> CertFile k ca {})"
  have made: "create_client_cert env dir u fs = Ok ?fs'"
    using False k by (auto simp: create_client_cert_def pair_exists_def file_exists_def)
  have "db_ca dir ca ?fs'" using pair_ca_files [OF name, of dir] s by (simp add: db_ca_def del: append.simps append_Cons)
  moreover have "signed_pair dir ca ?n ?fs'"
    using pair_files [OF name name, of dir] by (simp add: signed_pair_def del: append.simps append_Cons)
  moreover have "?fs' (path_join dir (m @ ''.key'')) = fs (path_join dir (m @ ''.key'')) \<and>
      ?fs' (path_join dir (m @ ''.crt'')) = fs (path_join dir (m @ ''.crt''))" if "pair_name m" "m \<noteq> ?n" for m
    using pair_files [OF that(1) name, of dir] pair_files [OF name that(1), of dir] that(2) by (simp del: append.simps append_Cons)
  ultimately have "makes_pair dir ca ?n fs ?fs'" using ca(2) by (simp add: makes_pair_def del: append.simps append_Cons)
  with made show ?thesis by blast
qed

lemma node_made:
  assumes ok: "cockroach_ok env" and st: "db_started dir hosts ca fs" and h: "h \<in> set hosts"
    and plain: "\<forall>h \<in> set hosts. plain_name h"
  shows "\<exists>fs'. create_node_cert env dir h fs = Ok fs' \<and> makes_pair dir ca (ho_name h @ ''.node'') fs fs'"
proof -
  let ?n = "ho_name h @ ''.node''"
  have n: "?n \<in> set (db_pairs hosts)" using h by (simp add: db_pairs_def)
  have name: "pair_name ?n" by (rule db_pair_names [OF plain n])
  have files: "ho_name h @ ''.node.key'' = ?n @ ''.key''" "ho_name h @ ''.node.crt'' = ?n @ ''.crt''" by simp_all
  show ?thesis
  proof (cases "pair_exists dir ?n fs")
    case True
    with st n have "signed_pair dir ca ?n fs" by (auto simp: db_started_def)
    moreover have "create_node_cert env dir h fs = Ok fs"
      using True unfolding create_node_cert_def files by (simp add: pair_exists_def file_exists_def)
    ultimately show ?thesis using st makes_pair_refl by (auto simp: db_started_def)
  next
    case False
    have ca: "db_ca dir ca fs" "finite (dom fs)" using st by (auto simp: db_started_def)
    obtain s where s: "fs (path_join dir ''ca.key'') = Some (KeyFile ca)" "fs (path_join dir ''ca.crt'') = Some (CertFile ca ca s)"
      using ca(1) by (auto simp: db_ca_def)
    let ?key = "path_join dir (?n @ ''.key'')" and ?crt = "path_join dir (?n @ ''.crt'')"
    let ?nkey = "path_join dir ''node.key''" and ?ncrt = "path_join dir ''node.crt''"
    obtain k where k: "cr_cockroach env [''cert'', ''create-node'', ho_name h, ''localhost'', ''--certs-dir'', dir, ''--ca-key'',
        path_join dir ''ca.key'', ''--lifetime'', ''262799h'', ''--overwrite''] fs = Ok (fs(?nkey \<mapsto> KeyFile k, ?ncrt \<mapsto> CertFile k ca {}))"
      using ok s ca(2) unfolding cockroach_ok_def by metis
    let ?fs1 = "fs(?nkey \<mapsto> KeyFile k, ?ncrt \<mapsto> CertFile k ca {})"
    let ?fs2 = "?fs1(?ncrt := None, ?crt \<mapsto> CertFile k ca {})"
    let ?fs' = "?fs2(?nkey := None, ?key \<mapsto> KeyFile k)"
    note other = pair_ca_files [OF name, of dir] pair_ca_files [OF name, of dir, symmetric] ca_node_files [of dir]
      ca_node_files [of dir, symmetric] pair_files [OF name name, of dir]
    have ren: "cr_rename env a b g = Ok (g(a := None, b \<mapsto> f))" if "g a = Some f" for a b f g
      using ok that unfolding cockroach_ok_def by blast
    have r1: "cr_rename env ?ncrt ?crt ?fs1 = Ok ?fs2" by (rule ren) simp
    have r2: "cr_rename env ?nkey ?key ?fs2 = Ok ?fs'" by (rule ren) (use other in \<open>simp del: append.simps append_Cons\<close>)
    have "\<not> (file_exists fs ?key \<and> file_exists fs ?crt)" using False by (simp add: pair_exists_def file_exists_def)
    then have made: "create_node_cert env dir h fs = Ok ?fs'"
      unfolding create_node_cert_def files Let_def k by (simp only: if_False bind_outcome.simps r1 r2)
    have "db_ca dir ca ?fs'" using other s by (simp add: db_ca_def del: append.simps append_Cons)
    moreover have "signed_pair dir ca ?n ?fs'" using other by (simp add: signed_pair_def del: append.simps append_Cons)
    moreover have "?fs' (path_join dir (m @ ''.key'')) = fs (path_join dir (m @ ''.key'')) \<and>
        ?fs' (path_join dir (m @ ''.crt'')) = fs (path_join dir (m @ ''.crt''))" if "pair_name m" "m \<noteq> ?n" for m
      using pair_files [OF that(1) name, of dir] pair_files [OF name that(1), of dir] that(2) pair_ca_files [OF that(1), of dir]
      by (simp del: append.simps append_Cons)
    ultimately have "makes_pair dir ca ?n fs ?fs'" using ca(2) by (simp add: makes_pair_def del: append.simps append_Cons)
    with made show ?thesis by blast
  qed
qed

lemma nodes_made:
  assumes "cockroach_ok env" and "db_started dir all ca fs" and "set hosts \<subseteq> set all" and "\<forall>h \<in> set all. plain_name h"
  shows "\<exists>fs'. create_node_certs env dir hosts fs = Ok fs' \<and> db_started dir all ca fs' \<and>
           (\<forall>h \<in> set hosts. signed_pair dir ca (ho_name h @ ''.node'') fs') \<and>
           (\<forall>n. pair_name n \<longrightarrow> signed_pair dir ca n fs \<longrightarrow> signed_pair dir ca n fs')"
  using assms(2,3)
proof (induction hosts arbitrary: fs)
  case (Cons h hosts)
  have h: "h \<in> set all" using Cons.prems(2) by simp
  obtain fs1 where fs1: "create_node_cert env dir h fs = Ok fs1" "makes_pair dir ca (ho_name h @ ''.node'') fs fs1"
    using node_made [OF assms(1) Cons.prems(1) h assms(4)] by blast
  have name: "pair_name (ho_name h @ ''.node'')" using db_pair_names [OF assms(4)] h by (simp add: db_pairs_def)
  obtain fs' where fs': "create_node_certs env dir hosts fs1 = Ok fs'" "db_started dir all ca fs'"
      "\<forall>h \<in> set hosts. signed_pair dir ca (ho_name h @ ''.node'') fs'"
      "\<forall>n. pair_name n \<longrightarrow> signed_pair dir ca n fs1 \<longrightarrow> signed_pair dir ca n fs'"
    using Cons.IH [OF started_step [OF Cons.prems(1) fs1(2) assms(4)]] Cons.prems(2) by auto
  have "signed_pair dir ca (ho_name h @ ''.node'') fs'" using fs'(4) fs1(2) name by (simp add: makes_pair_def)
  moreover have "signed_pair dir ca n fs'" if "pair_name n" "signed_pair dir ca n fs" for n
    using fs'(4) that signed_step [OF fs1(2) that(2,1)] by blast
  ultimately show ?case using fs1(1) fs' by auto
qed simp

lemma ca_started:
  assumes ok: "cockroach_ok env" and before: "db_before dir hosts fs" and plain: "\<forall>h \<in> set hosts. plain_name h"
  shows "\<exists>fs' ca. create_ca env dir fs = Ok fs' \<and> db_started dir hosts ca fs'"
proof (cases "\<exists>ca. db_started dir hosts ca fs")
  case True
  then obtain ca where "db_started dir hosts ca fs" by blast
  moreover from this have "create_ca env dir fs = Ok fs"
    by (auto simp: db_started_def db_ca_def create_ca_def file_exists_def)
  ultimately show ?thesis by blast
next
  case False
  with before have none: "finite (dom fs)" "fs (path_join dir ''ca.key'') = None" "fs (path_join dir ''ca.crt'') = None"
      "\<forall>n \<in> set (db_pairs hosts). \<not> pair_exists dir n fs"
    by (auto simp: db_before_def)
  let ?key = "path_join dir ''ca.key''" and ?crt = "path_join dir ''ca.crt''"
  obtain k where k: "cr_cockroach env [''cert'', ''create-ca'', ''--certs-dir'', dir, ''--ca-key'', ?key, ''--lifetime'',
      ''262800h'', ''--overwrite''] fs = Ok (fs(?key \<mapsto> KeyFile k, ?crt \<mapsto> CertFile k k {}))"
    using conjunct1 [OF ok [unfolded cockroach_ok_def], rule_format, of fs dir] none(1) by blast
  let ?fs' = "fs(?key \<mapsto> KeyFile k, ?crt \<mapsto> CertFile k k {})"
  have "create_ca env dir fs = Ok ?fs'" using none k by (simp add: create_ca_def file_exists_def)
  moreover have "db_started dir hosts k ?fs'"
  proof -
    have "\<not> pair_exists dir n ?fs'" if n: "n \<in> set (db_pairs hosts)" for n
      using none(4) n pair_ca_files [OF db_pair_names [OF plain n], of dir] by (simp add: pair_exists_def)
    then show ?thesis using none(1) db_ca_paths [of dir] by (simp add: db_started_def db_ca_def)
  qed
  ultimately show ?thesis by blast
qed

text \<open>Whatever run came before, all pairs are signed by one authority, and the next run changes nothing.\<close>

lemma db_certs_made:
  assumes ok: "cockroach_ok env" and before: "db_before dir hosts fs" and plain: "\<forall>h \<in> set hosts. plain_name h"
  shows "\<exists>fs' ca. create_cockroachdb_certs env dir hosts fs = Ok fs' \<and> db_certs_ready dir hosts ca fs'"
proof -
  obtain fs1 ca where fs1: "create_ca env dir fs = Ok fs1" "db_started dir hosts ca fs1" using ca_started [OF assms] by blast
  have root: "''client.'' @ ''root'' \<in> set (db_pairs hosts)" and kld: "''client.'' @ ''kld'' \<in> set (db_pairs hosts)"
    by (simp_all add: db_pairs_def)
  obtain fs2 where fs2: "create_client_cert env dir ''root'' fs1 = Ok fs2" "makes_pair dir ca (''client.'' @ ''root'') fs1 fs2"
    using client_made [OF ok fs1(2) root plain] by blast
  note st2 = started_step [OF fs1(2) fs2(2) plain]
  obtain fs3 where fs3: "create_client_cert env dir ''kld'' fs2 = Ok fs3" "makes_pair dir ca (''client.'' @ ''kld'') fs2 fs3"
    using client_made [OF ok st2 kld plain] by blast
  note st3 = started_step [OF st2 fs3(2) plain]
  obtain fs' where fs': "create_node_certs env dir hosts fs3 = Ok fs'" "db_started dir hosts ca fs'"
      "\<forall>h \<in> set hosts. signed_pair dir ca (ho_name h @ ''.node'') fs'"
      "\<forall>n. pair_name n \<longrightarrow> signed_pair dir ca n fs3 \<longrightarrow> signed_pair dir ca n fs'"
    using nodes_made [OF ok st3 order_refl plain] by blast
  note names = db_pair_names [OF plain root] db_pair_names [OF plain kld]
  have "signed_pair dir ca (''client.'' @ ''root'') fs2" "signed_pair dir ca (''client.'' @ ''kld'') fs3"
    using fs2(2) fs3(2) by (simp_all only: makes_pair_def)
  then have "signed_pair dir ca (''client.'' @ ''root'') fs'" "signed_pair dir ca (''client.'' @ ''kld'') fs'"
    using fs'(4) names signed_step [OF fs3(2) _ names(1)] by blast+
  then have "db_certs_ready dir hosts ca fs'"
    using fs'(2,3) by (simp add: db_certs_ready_def db_started_def db_pairs_def)
  moreover have "create_cockroachdb_certs env dir hosts fs = Ok fs'"
    unfolding create_cockroachdb_certs_def fs1(1) bind_outcome.simps fs2(1) fs3(1) fs'(1) ..
  ultimately show ?thesis by blast
qed


lemma certs_kept:
  assumes "openssl_ok env ips" and "\<forall>h \<in> set hosts. plain_name h" and "certs_ready ips dir hosts fs"
  shows "create_lightning_certs env dir hosts fs = Ok fs"
proof -
  obtain ca where ca: "ca_ready dir fs ca" "\<forall>h \<in> set hosts. cert_current ips dir ca h fs" using assms(3) by (auto simp: certs_ready_def)
  have "create_certs env dir (ca_key_of dir) (ca_cert_of dir) hosts fs = Ok fs"
    using create_certs_current [OF assms(1)] assms(2) ca(2) by blast
  with ca(1) show ?thesis by (auto simp: create_lightning_certs_def ca_ready_def file_exists_def create_ca_cert_def)
qed

interpretation lightning_dir: settling_step "create_lightning_certs env dir hosts"
    "\<lambda>fs. openssl_ok env ips \<and> (\<forall>h \<in> set hosts. plain_name h \<and> conf_names_host env ips h) \<and> distinct (map ho_name hosts) \<and>
       certs_before ips dir hosts fs"
    "\<lambda>fs. openssl_ok env ips \<and> (\<forall>h \<in> set hosts. plain_name h) \<and> certs_ready ips dir hosts fs"
  for env ips dir hosts
proof unfold_locales
  fix s
  assume "openssl_ok env ips \<and> (\<forall>h \<in> set hosts. plain_name h \<and> conf_names_host env ips h) \<and> distinct (map ho_name hosts) \<and>
       certs_before ips dir hosts s"
  then show "\<exists>s'. create_lightning_certs env dir hosts s = Ok s' \<and> openssl_ok env ips \<and> (\<forall>h \<in> set hosts. plain_name h) \<and>
       certs_ready ips dir hosts s'"
    using lightning_certs_made [of env ips hosts dir s] by blast
qed (use certs_kept in blast)

interpretation database_dir: settling_step "create_cockroachdb_certs env dir hosts"
    "\<lambda>fs. cockroach_ok env \<and> db_before dir hosts fs \<and> (\<forall>h \<in> set hosts. plain_name h)"
    "\<lambda>fs. \<exists>ca. db_certs_ready dir hosts ca fs"
  for env dir hosts
  by unfold_locales (use db_certs_made ready_kept in blast)+

section \<open>The other secrets\<close>

text \<open>The documented behaviour of \<open>ssh-keygen\<close>: a new pair of files, or, when the file exists and its question is not
  answered, nothing.\<close>

definition keygen_ok :: "('w, 'k, 'm) deploy_env \<Rightarrow> bool" where
  "keygen_ok env \<longleftrightarrow> (\<forall>p fs args.
     args \<in> {[''-q'', ''-t'', ''ed25519'', ''-C'', ''deploy_key'', ''-N'', '''', ''-f'', p], [''-N'', '''', ''-f'', p, ''-C'', ''kld-mgr'']} \<longrightarrow>
     (if fs p = None then \<exists>a b. de_keygen env args fs = Some (Exited 0, fs(p \<mapsto> Readable a, p @ ''.pub'' \<mapsto> Readable b))
      else \<exists>s. de_keygen env args fs = Some (s, fs)))"

definition deploy_libs_ok :: "('w, 'k, 'm) deploy_env \<Rightarrow> (string \<Rightarrow> ip_addr set) \<Rightarrow> bool" where
  "deploy_libs_ok env ips \<longleftrightarrow> openssl_ok (de_cert env) ips \<and> cockroach_ok (de_cockroach env) \<and> disk_ok (de_io env) \<and>
     mnemonics_ok (de_mnemonics env) \<and> tokens_ok (de_macaroons env) (de_tokens env) \<and> keygen_ok env \<and> de_new_mnemonic env \<noteq> None"

text \<open>Every file can be read; files are only added, and not those of the mnemonic and of the macaroons.\<close>

definition all_readable :: "seed_fs \<Rightarrow> bool" where
  "all_readable fs \<longleftrightarrow> (\<forall>p. fs p \<noteq> Some Unreadable)"

definition token_files :: "string set" where
  "token_files = {''mnemonic'', ''access.macaroon'', ''admin.macaroon'', ''readonly.macaroon''}"

definition adds_files :: "string \<Rightarrow> seed_fs \<Rightarrow> seed_fs \<Rightarrow> bool" where
  "adds_files dir fs fs' \<longleftrightarrow> all_readable fs' \<and> (\<forall>p. fs p \<noteq> None \<longrightarrow> fs' p \<noteq> None) \<and>
     (\<forall>n \<in> token_files. fs' (path_join dir n) = fs (path_join dir n))"

lemma adds_refl: "all_readable fs \<Longrightarrow> adds_files dir fs fs"
  by (simp add: adds_files_def)

lemma adds_trans: "adds_files dir fs fs1 \<Longrightarrow> adds_files dir fs1 fs2 \<Longrightarrow> adds_files dir fs fs2"
  by (auto simp: adds_files_def)

lemma adds_written:
  "all_readable fs \<Longrightarrow> \<forall>n \<in> token_files. p \<noteq> path_join dir n \<Longrightarrow> adds_files dir fs (fs(p \<mapsto> Readable c))"
  by (auto simp: adds_files_def all_readable_def)

lemma join_eq: "\<not> starts_with a ''/'' \<Longrightarrow> \<not> starts_with b ''/'' \<Longrightarrow> path_join dir a = path_join dir b \<longleftrightarrow> a = b"
  by (simp add: path_join_def)

lemma join_append: "\<not> starts_with a ''/'' \<Longrightarrow> a \<noteq> [] \<Longrightarrow> path_join dir a @ b = path_join dir (a @ b)"
  by (cases a) (simp_all add: path_join_def starts_with_def)

lemma not_token_file: "CHR ''/'' \<in> set a \<Longrightarrow> \<not> starts_with a ''/'' \<Longrightarrow> \<forall>n \<in> token_files. path_join dir a \<noteq> path_join dir n"
  by (auto simp: token_files_def join_eq starts_with_def)

lemma keygen_adds:
  assumes "keygen_ok env" and "all_readable fs" and "CHR ''/'' \<in> set a" and "\<not> starts_with a ''/''" and "p = path_join dir a"
    and "args \<in> {[''-q'', ''-t'', ''ed25519'', ''-C'', ''deploy_key'', ''-N'', '''', ''-f'', p], [''-N'', '''', ''-f'', p, ''-C'', ''kld-mgr'']}"
  shows "\<exists>s fs'. de_keygen env args fs = Some (s, fs') \<and> adds_files dir fs fs' \<and> fs' p \<noteq> None \<and>
           (fs p = None \<longrightarrow> s = Exited 0 \<and> fs' (p @ ''.pub'') \<noteq> None) \<and> (fs p \<noteq> None \<longrightarrow> fs' = fs)"
proof (cases "fs p")
  case None
  with assms(1,6) obtain x y where made: "de_keygen env args fs = Some (Exited 0, fs(p \<mapsto> Readable x, p @ ''.pub'' \<mapsto> Readable y))"
    unfolding keygen_ok_def by meson
  have a: "a \<noteq> []" using assms(3) by auto
  have pub: "p @ ''.pub'' = path_join dir (a @ ''.pub'')" using assms(4,5) a by (simp add: join_append)
  have "\<forall>n \<in> token_files. p \<noteq> path_join dir n" using not_token_file [OF assms(3,4)] assms(5) by simp
  moreover have "\<forall>n \<in> token_files. p @ ''.pub'' \<noteq> path_join dir n"
    using not_token_file [of "a @ ''.pub''"] assms(3,4) a unfolding pub by (cases a) (auto simp: starts_with_def)
  ultimately have "adds_files dir fs (fs(p \<mapsto> Readable x, p @ ''.pub'' \<mapsto> Readable y))"
    using assms(2) by (auto simp: adds_files_def all_readable_def)
  with made None show ?thesis by auto
next
  case (Some f)
  with assms(1,6) obtain s where "de_keygen env args fs = Some (s, fs)" unfolding keygen_ok_def by (metis option.distinct(1))
  with Some assms(2) show ?thesis by (auto intro: adds_refl)
qed

lemma deploy_key_made:
  assumes "keygen_ok env" and "disk_ok (de_io env)" and "all_readable fs"
    and "fs (path_join dir ''ssh/id_ed25519'') \<noteq> None \<longrightarrow> fs (path_join dir ''ssh/id_ed25519.pub'') \<noteq> None"
  shows "\<exists>fs'. create_deploy_key env dir fs = Ok fs' \<and> adds_files dir fs fs' \<and> fs' (path_join dir ''ssh/id_ed25519'') \<noteq> None \<and>
           fs' (path_join dir ''ssh/id_ed25519.pub'') \<noteq> None \<and> (fs (path_join dir ''ssh/id_ed25519'') \<noteq> None \<longrightarrow> fs' = fs)"
proof -
  let ?p = "path_join dir ''ssh/id_ed25519''"
  have p: "path_join dir ''ssh'' @ ''/id_ed25519'' = ?p" by (simp add: join_append starts_with_def)
  have pub: "?p @ ''.pub'' = path_join dir ''ssh/id_ed25519.pub''" by (simp add: join_append starts_with_def)
  let ?args = "[''-q'', ''-t'', ''ed25519'', ''-C'', ''deploy_key'', ''-N'', '''', ''-f'', ?p]"
  have "CHR ''/'' \<in> set ''ssh/id_ed25519''" "\<not> starts_with ''ssh/id_ed25519'' ''/''" by (simp_all add: starts_with_def)
  note made = keygen_adds [OF assms(1,3) this refl, of ?args dir]
  obtain s fs' where gen: "de_keygen env ?args fs = Some (s, fs')"
      "adds_files dir fs fs'" "fs' ?p \<noteq> None"
      "fs ?p = None \<longrightarrow> s = Exited 0 \<and> fs' (?p @ ''.pub'') \<noteq> None" "fs ?p \<noteq> None \<longrightarrow> fs' = fs"
    using made [OF insertI1] by (elim exE conjE) (rule that)
  have "io_mkdir (de_io env) q fs = Ok fs" for q using assms(2) by (simp add: disk_ok_def)
  then have "create_deploy_key env dir fs = Ok fs'" by (simp add: create_deploy_key_def p gen(1) ok_or_def)
  with gen assms(4) show ?thesis unfolding pub by metis
qed

lemma sshd_dir_path:
  "CHR ''/'' \<notin> set n \<Longrightarrow> path_join (path_join dir ''sshd'') n = path_join dir (''sshd/'' @ n)"
  by (cases n) (auto simp: path_join_def starts_with_def)

lemma sshd_keys_made:
  assumes "keygen_ok env" and "all_readable fs" and "\<forall>n \<in> set names. CHR ''/'' \<notin> set n"
  shows "\<exists>fs'. sshd_keys env (path_join dir ''sshd'') names fs = Ok fs' \<and> adds_files dir fs fs' \<and>
           (\<forall>n \<in> set names. fs' (path_join dir (''sshd/'' @ n)) \<noteq> None)"
  using assms(2,3)
proof (induction names arbitrary: fs)
  case Nil
  then show ?case by (simp add: adds_refl)
next
  case (Cons n names)
  let ?p = "path_join dir (''sshd/'' @ n)"
  have p: "path_join (path_join dir ''sshd'') n = ?p" by (rule sshd_dir_path) (use Cons.prems(2) in simp)
  obtain fs1 where fs1: "(if path_exists fs ?p then Ok fs else make_sshd_key env ?p fs) = Ok fs1" "adds_files dir fs fs1" "fs1 ?p \<noteq> None"
  proof (cases "fs ?p")
    case (Some f)
    then show ?thesis using Cons.prems(1) by (intro that [of fs]) (auto simp: path_exists_def adds_refl)
  next
    case None
    let ?args = "[''-N'', '''', ''-f'', ?p, ''-C'', ''kld-mgr'']"
    have "CHR ''/'' \<in> set (''sshd/'' @ n)" "\<not> starts_with (''sshd/'' @ n) ''/''" by (simp_all add: starts_with_def)
    note made = keygen_adds [OF assms(1) Cons.prems(1) this refl, of ?args dir]
    obtain s fs1 where gen: "de_keygen env ?args fs = Some (s, fs1)" "adds_files dir fs fs1"
        "fs1 ?p \<noteq> None" "fs ?p = None \<longrightarrow> s = Exited 0 \<and> fs1 (?p @ ''.pub'') \<noteq> None"
      using made [OF insertI2 [OF singletonI]] by (elim exE conjE) (rule that)
    then have "make_sshd_key env ?p fs = Ok fs1" using None by (simp add: make_sshd_key_def)
    with None gen show ?thesis by (intro that [of fs1]) (auto simp: path_exists_def)
  qed
  have rd: "all_readable fs1" using fs1(2) by (simp add: adds_files_def)
  obtain fs' where fs': "sshd_keys env (path_join dir ''sshd'') names fs1 = Ok fs'" "adds_files dir fs1 fs'"
      "\<forall>n \<in> set names. fs' (path_join dir (''sshd/'' @ n)) \<noteq> None"
    using Cons.IH [OF rd] Cons.prems(2) by auto
  have "fs' ?p \<noteq> None" using fs'(2) fs1(3) by (auto simp: adds_files_def)
  moreover have "sshd_keys env (path_join dir ''sshd'') (n # names) fs = Ok fs'" unfolding sshd_keys.simps p fs1(1) bind_outcome.simps fs'(1) ..
  ultimately show ?case using fs'(3) adds_trans [OF fs1(2) fs'(2)] by auto
qed

lemma sshd_keys_kept:
  "\<forall>n \<in> set names. CHR ''/'' \<notin> set n \<and> fs (path_join dir (''sshd/'' @ n)) \<noteq> None \<Longrightarrow>
     sshd_keys env (path_join dir ''sshd'') names fs = Ok fs"
  by (induction names) (auto simp: sshd_dir_path path_exists_def)


lemma macaroons_add:
  assumes "disk_ok io" and "manager_macaroons io ml tk seed dir fs = Ok fs'"
  shows "(all_readable fs \<longrightarrow> all_readable fs') \<and> (\<forall>p. fs p \<noteq> None \<longrightarrow> fs' p \<noteq> None)"
  using assms by (auto simp: manager_macaroons_def Let_def bind_outcome_eq_Ok disk_ok_def all_readable_def split: if_splits)

text \<open>The mnemonic and the macaroons: those of an earlier run, or none yet.\<close>

definition tokens_before :: "('w, 'k, 'm) deploy_env \<Rightarrow> string \<Rightarrow> seed_fs \<Rightarrow> bool" where
  "tokens_before env dir fs \<longleftrightarrow> fs (path_join dir ''mnemonic'') = None \<or>
     (\<exists>m. secrets_of (de_mnemonics env) (de_macaroons env) (de_tokens env) m dir fs)"

lemma tokens_kept: "adds_files dir fs fs' \<Longrightarrow> tokens_before env dir fs \<Longrightarrow> tokens_before env dir fs'"
  by (auto simp: tokens_before_def adds_files_def token_files_def secrets_of_def Let_def)

lemma tokens_made:
  assumes libs: "deploy_libs_ok env ips" and rd: "all_readable fs" and before: "tokens_before env dir fs"
  shows "\<exists>fs' m. generate_mnemonic_and_macaroons (de_io env) (de_mnemonics env) (de_macaroons env) (de_tokens env) dir
             (de_new_mnemonic env) fs = Ok fs' \<and> all_readable fs' \<and> (\<forall>p. fs p \<noteq> None \<longrightarrow> fs' p \<noteq> None) \<and>
           secrets_of (de_mnemonics env) (de_macaroons env) (de_tokens env) m dir fs'"
proof -
  let ?io = "de_io env" and ?mn = "de_mnemonics env" and ?ml = "de_macaroons env" and ?tk = "de_tokens env"
  have ok: "mnemonics_ok ?mn" "tokens_ok ?ml ?tk" "disk_ok ?io" using libs by (simp_all add: deploy_libs_ok_def)
  from before consider m where "secrets_of ?mn ?ml ?tk m dir fs" | "fs (path_join dir ''mnemonic'') = None"
    unfolding tokens_before_def by metis
  then show ?thesis
  proof cases
    case 1
    with manager_twice [OF ok(1,3) 1] rd show ?thesis by blast
  next
    case 2
    obtain m where m: "de_new_mnemonic env = Some m" using libs by (auto simp: deploy_libs_ok_def)
    obtain fs' where fs': "generate_mnemonic_and_macaroons ?io ?mn ?ml ?tk dir (Some m) fs = Ok fs'" "secrets_of ?mn ?ml ?tk m dir fs'"
      using manager_first [OF ok, of fs dir m] 2 by metis
    let ?fs1 = "fs(path_join dir ''mnemonic'' \<mapsto> Readable (mn_words ?mn m))"
    have "manager_mnemonic ?io ?mn dir (Some m) fs = Ok (m, ?fs1)"
      using 2 ok(3) by (simp add: manager_mnemonic_def path_exists_def disk_ok_def ok_or_def)
    then have "manager_macaroons ?io ?ml ?tk (mn_sha256 ?mn (mn_seed ?mn m @ map of_char ''macaroon/0'')) dir ?fs1 = Ok fs'"
      using fs'(1) by (simp add: generate_mnemonic_and_macaroons_def)
    note added = macaroons_add [OF ok(3) this]
    have "all_readable ?fs1" using rd by (simp add: all_readable_def)
    with added have "all_readable fs'" by blast
    moreover have "\<forall>p. fs p \<noteq> None \<longrightarrow> fs' p \<noteq> None" using conjunct2 [OF added] by (metis fun_upd_apply option.distinct(1))
    ultimately show ?thesis using fs' unfolding m by blast
  qed
qed

section \<open>All secrets of a host\<close>

lemma secrets_read:
  assumes "\<forall>e \<in> set (secret_sources (ho_name h)). read (path_join dir (fst (snd e))) \<noteq> None"
    and "read (path_join dir ''disk_encryption_key'') \<noteq> None"
    and "exists (path_join dir ''mnemonic'') \<longrightarrow> read (path_join dir ''mnemonic'') \<noteq> None"
  shows "\<exists>files. host_secrets read exists h dir tokens = Ok files"
proof -
  have ok: "\<exists>f. read_secret read dir e = Ok f" if "read (path_join dir (fst (snd e))) \<noteq> None" for e
    using that by (cases e) (auto simp: read_secret_def ok_or_def)
  then have "\<exists>g. \<forall>e \<in> set (secret_sources (ho_name h)). read_secret read dir e = Ok (g e)"
    using assms(1) by metis
  then obtain g where "collect (read_secret read dir) (secret_sources (ho_name h)) = Ok (map g (secret_sources (ho_name h)))"
    using collect_all_ok by metis
  moreover obtain d where "read_secret read dir (''/var/lib/secrets/disk_encryption_key'', ''disk_encryption_key'',
      ''failed to read disk_encrypted_key'', MODE_PRIVATE) = Ok d"
    using ok assms(2) by fastforce
  moreover obtain m where "(if exists (path_join dir ''mnemonic'')
      then bind_outcome (read_secret read dir (''/var/lib/secrets/mnemonic'', ''mnemonic'', ''failed to read mnemonic'', MODE_PRIVATE))
        (\<lambda>f. Ok [f]) else Ok []) = Ok m"
    using ok [of "(''/var/lib/secrets/mnemonic'', ''mnemonic'', ''failed to read mnemonic'', MODE_PRIVATE)"] assms(3)
    by (cases "exists (path_join dir ''mnemonic'')") auto
  ultimately show ?thesis by (simp add: host_secrets_def)
qed


text \<open>The keys of ssh and of the disk.\<close>

definition keys_present :: "string \<Rightarrow> string list \<Rightarrow> seed_fs \<Rightarrow> bool" where
  "keys_present dir names fs \<longleftrightarrow> fs (path_join dir ''ssh/id_ed25519'') \<noteq> None \<and> fs (path_join dir ''ssh/id_ed25519.pub'') \<noteq> None \<and>
     fs (path_join dir ''disk_encryption_key'') \<noteq> None \<and> (\<forall>n \<in> set names. fs (path_join dir (''sshd/'' @ n)) \<noteq> None)"

lemma keys_made:
  assumes libs: "deploy_libs_ok env ips" and rd: "all_readable fs"
    and pub: "fs (path_join dir ''ssh/id_ed25519'') \<noteq> None \<longrightarrow> fs (path_join dir ''ssh/id_ed25519.pub'') \<noteq> None"
    and names: "\<forall>n \<in> set names. CHR ''/'' \<notin> set n"
  shows "\<exists>s1 s3 s4. create_deploy_key env dir fs = Ok s1 \<and> sshd_keys env (path_join dir ''sshd'') names s1 = Ok s3 \<and>
     (if path_exists s3 (path_join dir ''disk_encryption_key'') then Ok s3
      else io_write (de_io env) (path_join dir ''disk_encryption_key'') (de_random_key env) s3) = Ok s4 \<and>
     adds_files dir fs s4 \<and> keys_present dir names s4"
proof -
  have ok: "keygen_ok env" "disk_ok (de_io env)" using libs by (simp_all add: deploy_libs_ok_def)
  obtain s1 where s1: "create_deploy_key env dir fs = Ok s1" "adds_files dir fs s1" "s1 (path_join dir ''ssh/id_ed25519'') \<noteq> None"
      "s1 (path_join dir ''ssh/id_ed25519.pub'') \<noteq> None"
    using deploy_key_made [OF ok rd pub] by metis
  have rd1: "all_readable s1" using s1(2) by (simp add: adds_files_def)
  obtain s3 where s3: "sshd_keys env (path_join dir ''sshd'') names s1 = Ok s3" "adds_files dir s1 s3"
      "\<forall>n \<in> set names. s3 (path_join dir (''sshd/'' @ n)) \<noteq> None"
    using sshd_keys_made [OF ok(1) rd1 names] by metis
  let ?disk = "path_join dir ''disk_encryption_key''"
  let ?s4 = "if path_exists s3 ?disk then s3 else s3(?disk \<mapsto> Readable (de_random_key env))"
  have rd3: "all_readable s3" using s3(2) by (simp add: adds_files_def)
  have "\<forall>n \<in> token_files. ?disk \<noteq> path_join dir n" by (simp add: token_files_def join_eq starts_with_def)
  then have added: "adds_files dir s3 ?s4" using adds_refl [OF rd3] adds_written [OF rd3] by simp
  obtain s4 where s4: "(if path_exists s3 ?disk then Ok s3 else io_write (de_io env) ?disk (de_random_key env) s3) = Ok s4"
      "adds_files dir s3 s4" "s4 ?disk \<noteq> None"
    using added ok(2) by (intro that [of ?s4]) (auto simp: disk_ok_def path_exists_def)
  have kept: "s4 p \<noteq> None" if "s1 p \<noteq> None \<or> s3 p \<noteq> None" for p
    using that s3(2) s4(2) unfolding adds_files_def by metis
  have "keys_present dir names s4" unfolding keys_present_def using s1(3,4) s3(3) s4(3) kept by blast
  then show ?thesis using s1(1) s3(1) s4(1) adds_trans [OF s1(2) adds_trans [OF s3(2) s4(2)]] by blast
qed

lemma keys_kept:
  assumes libs: "deploy_libs_ok env ips" and rd: "all_readable fs" and present: "keys_present dir names fs"
    and names: "\<forall>n \<in> set names. CHR ''/'' \<notin> set n"
  shows "create_deploy_key env dir fs = Ok fs" "sshd_keys env (path_join dir ''sshd'') names fs = Ok fs"
    "path_exists fs (path_join dir ''disk_encryption_key'')"
proof -
  have ok: "keygen_ok env" "disk_ok (de_io env)" using libs by (simp_all add: deploy_libs_ok_def)
  have pub: "fs (path_join dir ''ssh/id_ed25519'') \<noteq> None \<longrightarrow> fs (path_join dir ''ssh/id_ed25519.pub'') \<noteq> None"
    using present by (simp add: keys_present_def)
  show "create_deploy_key env dir fs = Ok fs"
    using deploy_key_made [OF ok rd pub] present unfolding keys_present_def by metis
  show "sshd_keys env (path_join dir ''sshd'') names fs = Ok fs"
    by (rule sshd_keys_kept) (use present names in \<open>simp add: keys_present_def\<close>)
  show "path_exists fs (path_join dir ''disk_encryption_key'')" using present by (simp add: keys_present_def path_exists_def)
qed

text \<open>The directories that an installation may find.\<close>

definition files_before :: "('w, 'k, 'm) deploy_env \<Rightarrow> (string \<Rightarrow> ip_addr set) \<Rightarrow> config \<Rightarrow> mgr_files \<Rightarrow> bool" where
  "files_before env ips c files \<longleftrightarrow>
     (let dir = gl_secret_directory (co_global c); hosts = map snd (co_hosts c); fs = mf_secrets files
      in certs_before ips (path_join dir ''lightning'') hosts (mf_lightning files) \<and>
         db_before (path_join dir ''cockroachdb'') hosts (mf_cockroach files) \<and> all_readable fs \<and> tokens_before env dir fs \<and>
         (fs (path_join dir ''ssh/id_ed25519'') \<noteq> None \<longrightarrow> fs (path_join dir ''ssh/id_ed25519.pub'') \<noteq> None))"

definition hosts_ok :: "('w, 'k, 'm) deploy_env \<Rightarrow> (string \<Rightarrow> ip_addr set) \<Rightarrow> config \<Rightarrow> bool" where
  "hosts_ok env ips c \<longleftrightarrow> distinct (map fst (co_hosts c)) \<and>
     (\<forall>(n, h) \<in> set (co_hosts c). ho_name h = n \<and> plain_name h \<and> conf_names_host (de_cert env) ips h)"

text \<open>Everything that a host is given exists.\<close>

lemma sources_exist:
  assumes certs: "certs_ready ips (path_join dir ''lightning'') hosts (mf_lightning files)"
    and db: "db_certs_ready (path_join dir ''cockroachdb'') hosts ca (mf_cockroach files)"
    and keys: "keys_present dir names (mf_secrets files)" and rd: "all_readable (mf_secrets files)"
    and h: "h \<in> set hosts" "ho_name h \<in> set names" "plain_name h"
  shows "\<exists>s. host_secrets (read_secret_file text_of files) (path_exists (mf_secrets files)) h dir tokens = Ok s"
proof (rule secrets_read)
  let ?read = "read_secret_file text_of files"
  have one: "?read p \<noteq> None" if "mf_lightning files p \<noteq> None \<or> mf_cockroach files p \<noteq> None \<or> mf_secrets files p \<noteq> None" for p
  proof -
    have "mf_secrets files p \<noteq> Some Unreadable" using rd by (simp add: all_readable_def)
    with that show ?thesis by (auto simp: read_secret_file_def read_file_def split: option.splits seed_file.splits)
  qed
  have l: "path_join (path_join dir ''lightning'') n = path_join dir (''lightning/'' @ n)" if "n \<noteq> []" "hd n \<noteq> CHR ''/''" for n
    using join_join [of n "''lightning''" dir] that by simp
  have d: "path_join (path_join dir ''cockroachdb'') n = path_join dir (''cockroachdb/'' @ n)" if "n \<noteq> []" "hd n \<noteq> CHR ''/''" for n
    using join_join [of n "''cockroachdb''" dir] that by simp
  have name: "hd (ho_name h @ x) \<noteq> CHR ''/''" if "x \<noteq> []" "hd x \<noteq> CHR ''/''" for x
    using h(3) that by (cases "ho_name h") (auto simp: plain_name_def)
  have lightning: "mf_lightning files (path_join (path_join dir ''lightning'') n) \<noteq> None"
    if "n \<in> {''ca.pem'', ho_name h @ ''.pem'', ho_name h @ ''.key''}" for n
    using certs h(1) that unfolding certs_ready_def ca_ready_def cert_current_def host_key_def host_cert_def by auto
  have "signed_pair (path_join dir ''cockroachdb'') ca n (mf_cockroach files)" if "n \<in> {''client.root'', ''client.kld'', ho_name h @ ''.node''}" for n
    using db h(1) that by (auto simp: db_certs_ready_def db_pairs_def)
  then have cockroach: "mf_cockroach files (path_join (path_join dir ''cockroachdb'') n) \<noteq> None"
    if "n \<in> {''ca.crt'', ''client.root.crt'', ''client.root.key'', ''client.kld.crt'', ''client.kld.key'', ho_name h @ ''.node.crt'', ho_name h @ ''.node.key''}" for n
    using db that unfolding db_certs_ready_def db_ca_def signed_pair_def by fastforce
  have lr: "?read (path_join dir (''lightning/'' @ n)) \<noteq> None" if "n \<in> {''ca.pem'', ho_name h @ ''.pem'', ho_name h @ ''.key''}" for n
    using one lightning [OF that] l [of n] that name by (auto simp del: append.simps append_Cons)
  have dr: "?read (path_join dir (''cockroachdb/'' @ n)) \<noteq> None"
    if "n \<in> {''ca.crt'', ''client.root.crt'', ''client.root.key'', ''client.kld.crt'', ''client.kld.key'', ho_name h @ ''.node.crt'', ho_name h @ ''.node.key''}" for n
    using one cockroach [OF that] d [of n] that name by (auto simp del: append.simps append_Cons)
  have kr: "?read (path_join dir (''sshd/'' @ ho_name h)) \<noteq> None" "?read (path_join dir ''ssh/id_ed25519'') \<noteq> None"
    "?read (path_join dir ''ssh/id_ed25519.pub'') \<noteq> None"
    using one keys h(2) unfolding keys_present_def by blast+
  show "\<forall>e \<in> set (secret_sources (ho_name h)). ?read (path_join dir (fst (snd e))) \<noteq> None"
    unfolding secret_sources_def
    using lr [of "''ca.pem''"] lr [of "ho_name h @ ''.pem''"] lr [of "ho_name h @ ''.key''"] dr [of "''ca.crt''"] dr [of "''client.root.crt''"]
      dr [of "''client.root.key''"] dr [of "''client.kld.crt''"] dr [of "''client.kld.key''"] dr [of "ho_name h @ ''.node.crt''"]
      dr [of "ho_name h @ ''.node.key''"] kr
    by simp
  show "?read (path_join dir ''disk_encryption_key'') \<noteq> None" using keys by (intro one) (simp add: keys_present_def)
  show "path_exists (mf_secrets files) (path_join dir ''mnemonic'') \<longrightarrow> ?read (path_join dir ''mnemonic'') \<noteq> None"
    using one by (simp add: path_exists_def)
qed


text \<open>The directories after an installation.\<close>

definition files_ready :: "('w, 'k, 'm) deploy_env \<Rightarrow> (string \<Rightarrow> ip_addr set) \<Rightarrow> bool \<Rightarrow> config \<Rightarrow> mgr_files \<Rightarrow> bool" where
  "files_ready env ips on_remote c files \<longleftrightarrow>
     (let dir = gl_secret_directory (co_global c); hosts = map snd (co_hosts c)
      in certs_ready ips (path_join dir ''lightning'') hosts (mf_lightning files) \<and>
         (\<exists>ca. db_certs_ready (path_join dir ''cockroachdb'') hosts ca (mf_cockroach files)) \<and>
         all_readable (mf_secrets files) \<and> keys_present dir (map fst (co_hosts c)) (mf_secrets files) \<and>
         (on_remote \<or> (\<exists>m. secrets_of (de_mnemonics env) (de_macaroons env) (de_tokens env) m dir (mf_secrets files))))"

lemma hosts_okD:
  assumes "hosts_ok env ips c"
  shows "\<forall>h \<in> set (map snd (co_hosts c)). plain_name h \<and> conf_names_host (de_cert env) ips h"
    "distinct (map ho_name (map snd (co_hosts c)))" "\<forall>n \<in> set (map fst (co_hosts c)). CHR ''/'' \<notin> set n"
    "(n, h) \<in> set (co_hosts c) \<Longrightarrow> ho_name h = n \<and> plain_name h"
proof -
  have host: "ho_name h = n" "plain_name h" "conf_names_host (de_cert env) ips h" if "(n, h) \<in> set (co_hosts c)" for n h
    using assms that by (auto simp: hosts_ok_def)
  show "\<forall>h \<in> set (map snd (co_hosts c)). plain_name h \<and> conf_names_host (de_cert env) ips h" using host by auto
  have names: "map ho_name (map snd (co_hosts c)) = map fst (co_hosts c)" using host(1) by auto
  show "distinct (map ho_name (map snd (co_hosts c)))" unfolding names using assms by (simp add: hosts_ok_def)
  show "\<forall>n \<in> set (map fst (co_hosts c)). CHR ''/'' \<notin> set n" using host by (fastforce simp: plain_name_def)
  show "(n, h) \<in> set (co_hosts c) \<Longrightarrow> ho_name h = n \<and> plain_name h" using host by blast
qed

lemma install_makes:
  assumes libs: "deploy_libs_ok env ips" and hosts: "hosts_ok env ips c" and "files_before env ips c files"
  shows "\<exists>files'. prepare_install env on_remote c files = Ok files' \<and> files_ready env ips on_remote c files'"
proof -
  let ?dir = "gl_secret_directory (co_global c)" and ?hosts = "map snd (co_hosts c)" and ?names = "map fst (co_hosts c)"
  have ok: "openssl_ok (de_cert env) ips" "cockroach_ok (de_cockroach env)" "disk_ok (de_io env)"
    using libs by (simp_all add: deploy_libs_ok_def)
  note host = hosts_okD [OF hosts]
  have before: "certs_before ips (path_join ?dir ''lightning'') ?hosts (mf_lightning files)"
    "db_before (path_join ?dir ''cockroachdb'') ?hosts (mf_cockroach files)" "all_readable (mf_secrets files)"
    "tokens_before env ?dir (mf_secrets files)"
    "mf_secrets files (path_join ?dir ''ssh/id_ed25519'') \<noteq> None \<longrightarrow> mf_secrets files (path_join ?dir ''ssh/id_ed25519.pub'') \<noteq> None"
    using assms(3) by (simp_all add: files_before_def Let_def)
  obtain l where l: "create_lightning_certs (de_cert env) (path_join ?dir ''lightning'') ?hosts (mf_lightning files) = Ok l"
      "certs_ready ips (path_join ?dir ''lightning'') ?hosts l"
    using lightning_dir.makes ok(1) host(1,2) before(1) by blast
  obtain d where d: "create_cockroachdb_certs (de_cockroach env) (path_join ?dir ''cockroachdb'') ?hosts (mf_cockroach files) = Ok d"
      "\<exists>ca. db_certs_ready (path_join ?dir ''cockroachdb'') ?hosts ca d"
    using database_dir.makes ok(2) host(1) before(2) by blast
  obtain s1 s3 s4 where s: "create_deploy_key env ?dir (mf_secrets files) = Ok s1"
      "sshd_keys env (path_join ?dir ''sshd'') ?names s1 = Ok s3"
      "(if path_exists s3 (path_join ?dir ''disk_encryption_key'') then Ok s3
        else io_write (de_io env) (path_join ?dir ''disk_encryption_key'') (de_random_key env) s3) = Ok s4"
      "adds_files ?dir (mf_secrets files) s4" "keys_present ?dir ?names s4"
    using keys_made [OF libs before(3,5) host(3)] by metis
  let ?tokens = "generate_mnemonic_and_macaroons (de_io env) (de_mnemonics env) (de_macaroons env) (de_tokens env) ?dir (de_new_mnemonic env)"
  have rd4: "all_readable s4" using s(4) by (simp add: adds_files_def)
  obtain s5 where s5: "(if on_remote then Ok s4 else ?tokens s4) = Ok s5" "all_readable s5" "\<forall>p. s4 p \<noteq> None \<longrightarrow> s5 p \<noteq> None"
      "on_remote \<or> (\<exists>m. secrets_of (de_mnemonics env) (de_macaroons env) (de_tokens env) m ?dir s5)"
  proof (cases on_remote)
    case True
    with rd4 show ?thesis by (intro that [of s4]) simp_all
  next
    case False
    with tokens_made [OF libs rd4 tokens_kept [OF s(4) before(4)]] show ?thesis by (metis that)
  qed
  have mkdir: "io_mkdir (de_io env) p fs = Ok fs" for p fs using ok(3) by (simp add: disk_ok_def)
  have "prepare_install env on_remote c files = Ok \<lparr>mf_lightning = l, mf_cockroach = d, mf_secrets = s5\<rparr>"
    unfolding prepare_install_def Let_def s(1) l(1) d(1) mkdir bind_outcome.simps s(2,3) s5(1) ..
  moreover have "keys_present ?dir ?names s5" using s(5) s5(3) unfolding keys_present_def by blast
  ultimately show ?thesis using l(2) d(2) s5(2,4) by (simp add: files_ready_def Let_def)
qed

lemma install_keeps:
  assumes libs: "deploy_libs_ok env ips" and hosts: "hosts_ok env ips c" and ready: "files_ready env ips on_remote c files"
  shows "prepare_install env on_remote c files = Ok files"
proof -
  let ?dir = "gl_secret_directory (co_global c)" and ?hosts = "map snd (co_hosts c)" and ?names = "map fst (co_hosts c)"
  have ok: "openssl_ok (de_cert env) ips" "disk_ok (de_io env)" "mnemonics_ok (de_mnemonics env)"
    using libs by (simp_all add: deploy_libs_ok_def)
  note host = hosts_okD [OF hosts]
  have r: "certs_ready ips (path_join ?dir ''lightning'') ?hosts (mf_lightning files)"
    "\<exists>ca. db_certs_ready (path_join ?dir ''cockroachdb'') ?hosts ca (mf_cockroach files)" "all_readable (mf_secrets files)"
    "keys_present ?dir ?names (mf_secrets files)"
    "on_remote \<or> (\<exists>m. secrets_of (de_mnemonics env) (de_macaroons env) (de_tokens env) m ?dir (mf_secrets files))"
    using ready by (simp_all add: files_ready_def Let_def)
  note kept = keys_kept [OF libs r(3,4) host(3)]
  have l: "create_lightning_certs (de_cert env) (path_join ?dir ''lightning'') ?hosts (mf_lightning files) = Ok (mf_lightning files)"
    using certs_kept [OF ok(1) _ r(1)] host(1) by blast
  note d = database_dir.keeps [OF r(2)]
  have t: "(if on_remote then Ok (mf_secrets files) else generate_mnemonic_and_macaroons (de_io env) (de_mnemonics env) (de_macaroons env)
      (de_tokens env) ?dir (de_new_mnemonic env) (mf_secrets files)) = Ok (mf_secrets files)"
    using r(5) manager_twice [OF ok(3,2)] by (cases on_remote) auto
  have mkdir: "io_mkdir (de_io env) p fs = Ok fs" for p fs using ok(2) by (simp add: disk_ok_def)
  show ?thesis
    unfolding prepare_install_def Let_def kept(1,2) l d mkdir bind_outcome.simps by (simp only: kept(3) if_True bind_outcome.simps t) simp
qed

interpretation install: settling_step "prepare_install env on_remote c"
    "\<lambda>files. deploy_libs_ok env ips \<and> hosts_ok env ips c \<and> files_before env ips c files"
    "\<lambda>files. deploy_libs_ok env ips \<and> hosts_ok env ips c \<and> files_ready env ips on_remote c files"
  for env ips on_remote c
  by unfold_locales (use install_makes install_keeps in blast)+

lemma secrets_complete:
  assumes "hosts_ok env ips c" and "files_ready env ips on_remote c files" and "(n, h) \<in> set (co_hosts c)"
  shows "\<exists>s. deployed_secrets text_of files c h = Ok s"
proof -
  have h: "h \<in> set (map snd (co_hosts c))" "ho_name h \<in> set (map fst (co_hosts c))" "plain_name h"
    using hosts_okD(4) [OF assms(1,3)] assms(3) by force+
  from assms(2) obtain ca where r: "certs_ready ips (path_join (gl_secret_directory (co_global c)) ''lightning'') (map snd (co_hosts c)) (mf_lightning files)"
      "db_certs_ready (path_join (gl_secret_directory (co_global c)) ''cockroachdb'') (map snd (co_hosts c)) ca (mf_cockroach files)"
      "keys_present (gl_secret_directory (co_global c)) (map fst (co_hosts c)) (mf_secrets files)" "all_readable (mf_secrets files)"
    by (auto simp: files_ready_def Let_def)
  show ?thesis unfolding deployed_secrets_def by (rule sources_exist [OF r h])
qed

text \<open>C37: An installation prepares all that it deploys. From the directories that any earlier run has left (none of the
  files, all, or those of a run that stopped), preparing an installation succeeds; then the secrets of every host of the
  configuration can be read, with no file missing; and every further installation leaves the same files, so that it
  deploys the same certificates, keys, mnemonic and macaroons.\<close>

theorem install_prepares_secrets:
  assumes "deploy_libs_ok env ips" and "hosts_ok env ips c" and "files_before env ips c files"
  shows "\<exists>files'. (\<forall>n. ((\<lambda>r. bind_outcome r (prepare_install env on_remote c)) ^^ Suc n) (Ok files) = Ok files') \<and>
    (\<forall>(n, h) \<in> set (co_hosts c). \<exists>s. deployed_secrets text_of files' c h = Ok s)"
proof -
  obtain files' where "files_ready env ips on_remote c files'"
      "\<forall>n. ((\<lambda>r. bind_outcome r (prepare_install env on_remote c)) ^^ Suc n) (Ok files) = Ok files'"
    using install.every_run assms by blast
  with secrets_complete [OF assms(2)] show ?thesis by blast
qed

definition sample_keygen :: "string list \<Rightarrow> seed_fs \<Rightarrow> (exit_status \<times> seed_fs) option" where
  "sample_keygen args fs =
     (let p = (if args ! 0 = ''-q'' then args ! 8 else args ! 3)
      in if fs p = None then Some (Exited 0, fs(p \<mapsto> Readable [], p @ ''.pub'' \<mapsto> Readable [])) else Some (Exited 1, fs))"

definition sample_deploy :: "(nat, nat, nat \<times> string list) deploy_env" where
  "sample_deploy =
     \<lparr>de_cert = sample_cert_env, de_cockroach = sample_cockroach, de_io = sample_io, de_mnemonics = sample_mnemonics,
      de_macaroons = counted_macaroons, de_tokens = counted_tokens, de_keygen = sample_keygen, de_random_key = ''k'',
      de_new_mnemonic = Some 3\<rparr>"


lemma sample_deploy_ok: "deploy_libs_ok sample_deploy (\<lambda>_. {IpV4 [10, 0, 0, 1], IpV6 (replicate 16 1)})"
  by (auto simp: deploy_libs_ok_def sample_deploy_def sample_openssl_ok sample_cockroach_ok sample_libs_ok keygen_ok_def
      sample_keygen_def)

definition sample_deploy_config :: config where
  "sample_deploy_config =
     \<lparr>co_hosts = [(''kld-00'', sample_kld_host)],
      co_global = \<lparr>gl_deployment_flake = ''d'', gl_access_tokens = ''t'', gl_knd_flake = ''f'', gl_secret_directory = ''s''\<rparr>\<rparr>"

theorem install_prepares_secrets_witness:
  "\<exists>files' s. prepare_install sample_deploy False sample_deploy_config \<lparr>mf_lightning = Map.empty, mf_cockroach = Map.empty, mf_secrets = Map.empty\<rparr> =
       Ok files' \<and> deployed_secrets (\<lambda>_. ''x'') files' sample_deploy_config sample_kld_host = Ok s"
proof -
  let ?files = "\<lparr>mf_lightning = Map.empty, mf_cockroach = Map.empty, mf_secrets = Map.empty\<rparr>"
  have "hosts_ok sample_deploy (\<lambda>_. {IpV4 [10, 0, 0, 1], IpV6 (replicate 16 1)}) sample_deploy_config"
    using sample_names by (simp add: hosts_ok_def sample_deploy_config_def sample_deploy_def sample_host)
  moreover have "files_before sample_deploy (\<lambda>_. {IpV4 [10, 0, 0, 1], IpV6 (replicate 16 1)}) sample_deploy_config ?files"
    by (simp add: files_before_def certs_before_def db_before_def pair_exists_def all_readable_def tokens_before_def)
  ultimately obtain files' where files':
      "\<forall>n. ((\<lambda>r. bind_outcome r (prepare_install sample_deploy False sample_deploy_config)) ^^ Suc n) (Ok ?files) = Ok files'"
      "\<forall>(n, h) \<in> set (co_hosts sample_deploy_config). \<exists>s. deployed_secrets (\<lambda>_. ''x'') files' sample_deploy_config h = Ok s"
    using install_prepares_secrets [OF sample_deploy_ok] by blast
  from spec [OF files'(1), of 0] have "prepare_install sample_deploy False sample_deploy_config ?files = Ok files'" by simp
  with files'(2) show ?thesis by (auto simp: sample_deploy_config_def)
qed

section \<open>The tables of the flake\<close>

definition writes_ok :: "flake_env \<Rightarrow> bool" where
  "writes_ok env \<longleftrightarrow> (\<forall>p t fs. fe_write env p t fs = Ok (fs(p \<mapsto> t)))"

lemma toml_paths:
  "CHR ''/'' \<notin> set a \<Longrightarrow> CHR ''/'' \<notin> set b \<Longrightarrow> path_join tmp (a @ ''.toml'') = path_join tmp (b @ ''.toml'') \<longleftrightarrow> a = b"
  "CHR ''/'' \<notin> set a \<Longrightarrow> path_join tmp (a @ ''.toml'') \<noteq> path_join tmp ''configurations.nix''"
  "CHR ''/'' \<notin> set a \<Longrightarrow> path_join tmp (a @ ''.toml'') \<noteq> path_join tmp ''flake.nix''"
  using suffix_differs [of "''.toml''" "''configurations.nix''" a "[]"] suffix_differs [of "''.toml''" "''flake.nix''" a "[]"]
  by (simp_all add: join_plain)

lemma tables_written:
  assumes "writes_ok env" and "write_host_tables env tmp dep k hs fs = Ok fs'"
    and "distinct (map fst hs)" and "\<forall>n \<in> set (map fst hs). CHR ''/'' \<notin> set n"
  shows "(\<forall>i < length hs. \<exists>t. fe_toml env (flake_host env (snd (hs ! i))) = Ok t \<and>
             fs' (path_join tmp (fst (hs ! i) @ ''.toml'')) = Some (global_fields env dep (k + i) @ t)) \<and>
         (\<forall>p. p \<notin> (\<lambda>n. path_join tmp (n @ ''.toml'')) ` set (map fst hs) \<longrightarrow> fs' p = fs p)"
  using assms(2-4)
proof (induction hs arbitrary: k fs)
  case (Cons x hs)
  obtain n h where x: "x = (n, h)" by (cases x)
  let ?p = "path_join tmp (n @ ''.toml'')"
  obtain t where t: "fe_toml env (flake_host env h) = Ok t"
    and rest: "write_host_tables env tmp dep (Suc k) hs (fs(?p \<mapsto> global_fields env dep k @ t)) = Ok fs'"
    using Cons.prems(1) assms(1) by (auto simp: x writes_ok_def bind_outcome_eq_Ok)
  note ih = Cons.IH [OF rest]
  have other: "?p \<notin> (\<lambda>n. path_join tmp (n @ ''.toml'')) ` set (map fst hs)"
  proof
    assume "?p \<in> (\<lambda>n. path_join tmp (n @ ''.toml'')) ` set (map fst hs)"
    then obtain m where m: "m \<in> set (map fst hs)" "?p = path_join tmp (m @ ''.toml'')" by blast
    then have "n = m" using toml_paths(1) [of n m tmp] Cons.prems(3) by (simp add: x)
    with m(1) Cons.prems(2) show False by (simp add: x)
  qed
  have here: "fs' ?p = Some (global_fields env dep k @ t)"
    using ih other Cons.prems(2,3) by (simp add: x)
  have "\<exists>t. fe_toml env (flake_host env (snd ((x # hs) ! i))) = Ok t \<and>
      fs' (path_join tmp (fst ((x # hs) ! i) @ ''.toml'')) = Some (global_fields env dep (k + i) @ t)" if "i < length (x # hs)" for i
    using that ih Cons.prems(2,3) here t by (cases i) (auto simp: x)
  moreover have "fs' p = fs p" if "p \<notin> (\<lambda>n. path_join tmp (n @ ''.toml'')) ` set (map fst (x # hs))" for p
    using that ih Cons.prems(2,3) by (auto simp: x)
  ultimately show ?case by blast
qed simp

text \<open>Every host has a table with the order of its upgrade, which is its place among the names.\<close>

lemma upgrade_order_written:
  assumes "writes_ok env" and "generate_nixos_flake env tmp c = Ok fs" and "distinct (map fst (co_hosts c))"
    and "\<forall>n \<in> set (map fst (co_hosts c)). CHR ''/'' \<notin> set n" and "i < length (co_hosts c)"
  shows "\<exists>t. fe_toml env (flake_host env (snd (co_hosts c ! i))) = Ok t \<and>
    fs (path_join tmp (fst (co_hosts c ! i) @ ''.toml'')) = Some (global_fields env (gl_deployment_flake (co_global c)) i @ t)"
proof -
  obtain fs1 where fs1: "write_host_tables env tmp (gl_deployment_flake (co_global c)) 0 (co_hosts c) Map.empty = Ok fs1"
      "\<exists>a b. fs = fs1(path_join tmp ''configurations.nix'' \<mapsto> a, path_join tmp ''flake.nix'' \<mapsto> b)"
    using assms(1,2) by (auto simp: generate_nixos_flake_def writes_ok_def bind_outcome_eq_Ok Let_def)
  have "CHR ''/'' \<notin> set (fst (co_hosts c ! i))" using assms(4,5) by simp
  with tables_written [OF assms(1) fs1(1) assms(3,4)] fs1(2) assms(5) toml_paths(2,3) show ?thesis by fastforce
qed

end
