(* ===== verification/System_Info.thy ===== *)
theory System_Info
  imports Mgr_Commands
begin

text \<open>
  The program on the hosts that tells their state (\<^verbatim>\<open>ctl/src/system_info.rs\<close>).  The outputs of the programs it runs and the
  file that it reads are arguments.
\<close>

section \<open>Texts\<close>

text \<open>\<open>split(pattern).nth(1)\<close>: what stands between the first two places of the pattern, or after the only one.\<close>

fun find_text :: "string \<Rightarrow> string \<Rightarrow> (string \<times> string) option" where
  "find_text p [] = (if p = [] then Some ([], []) else None)"
| "find_text p (c # cs) =
     (if starts_with (c # cs) p then Some ([], drop (length p) (c # cs))
      else map_option (\<lambda>(a, b). (c # a, b)) (find_text p cs))"

definition second_part :: "string \<Rightarrow> string \<Rightarrow> string option" where
  "second_part p s =
     (case find_text p s of
        None \<Rightarrow> None
      | Some (_, rest) \<Rightarrow> Some (case find_text p rest of Some (v, _) \<Rightarrow> v | None \<Rightarrow> rest))"

definition first_line :: "string \<Rightarrow> string" where
  "first_line s = hd (split_char (CHR 0x0A) s)"

section \<open>The information\<close>

text \<open>The output of a program: \<open>None\<close> when it cannot be run, and then what it prints, if that is text.\<close>

definition program_version :: "string \<Rightarrow> string option option \<Rightarrow> string option" where
  "program_version p out = (case out of Some (Some s) \<Rightarrow> second_part p (first_line s) | _ \<Rightarrow> None)"

definition bitcoind_version :: "string option option \<Rightarrow> string option" where
  "bitcoind_version = program_version ''Bitcoin Core version ''"

definition cockroach_version :: "string option option \<Rightarrow> string option" where
  "cockroach_version = program_version ''Build Tag:        ''"

definition kld_cli_version :: "string option option \<Rightarrow> string option" where
  "kld_cli_version = program_version ''kld ''"

record system_file =
  sy_git_sha :: string
  sy_git_commit_date :: string
  sy_deployment_flake :: "string option"
  sy_upgrade_time :: "string option"

record system_env =
  sv_version :: string
  sv_encrypted :: "bool option"
    \<comment> \<open>whether \<open>cryptsetup\<close> ends well, if it can be run\<close>
  sv_file :: "system_file option"
  sv_bitcoind :: "string option option"
  sv_cockroach :: "string option option"
  sv_kld_cli :: "string option option"

definition opt_info :: "string \<Rightarrow> string option \<Rightarrow> (string \<times> string) list" where
  "opt_info name v = (case v of Some s \<Rightarrow> [(name, s)] | None \<Rightarrow> [])"

definition host_info :: "system_env \<Rightarrow> (string \<times> string) list" where
  "host_info env =
     [(''kld-ctl version'', sv_version env),
      (''disk encrypted'', case sv_encrypted env of Some True \<Rightarrow> ''true'' | Some False \<Rightarrow> ''false'' | None \<Rightarrow> ''unknown'')] @
     (case sv_file env of
        None \<Rightarrow> []
      | Some f \<Rightarrow> [(''git sha'', sy_git_sha f), (''git commit date'', sy_git_commit_date f)] @
          opt_info ''deployment flake'' (sy_deployment_flake f) @ opt_info ''upgrade time'' (sy_upgrade_time f)) @
     opt_info ''bitcoind version'' (bitcoind_version (sv_bitcoind env)) @
     opt_info ''cockroach version'' (cockroach_version (sv_cockroach env)) @
     opt_info ''kld-cli version'' (kld_cli_version (sv_kld_cli env))"

definition ctl_system_info :: "bool \<Rightarrow> system_env \<Rightarrow> string" where
  "ctl_system_info inline env =
     (if inline then join_with '' '' (map (\<lambda>(k, v). map (\<lambda>c. if c = CHR '' '' then CHR ''-'' else c) k @ ''='' @ v) (host_info env))
      else join_with [CHR 0x0A] (map (\<lambda>(k, v). k @ '': '' @ v) (host_info env)))"


section \<open>Correctness\<close>

lemma starts_with_self: "starts_with (p @ s) p"
  by (simp add: starts_with_def)

lemma find_text_here: "find_text p (p @ s) = Some ([], s)"
proof (cases "p @ s")
  case (Cons c cs)
  then show ?thesis using starts_with_self [of p s] by (metis append_eq_conv_conj find_text.simps(2))
qed simp

text \<open>The version is what follows the label, whatever lines come after, unless the label stands in it again.\<close>

lemma version_read:
  assumes "CHR 0x0A \<notin> set p \<union> set v" and "find_text p v = None"
  shows "program_version p (Some (Some (p @ v @ CHR 0x0A # rest))) = Some v"
proof -
  have "first_line (p @ v @ CHR 0x0A # rest) = p @ v"
    using split_char_append [of "CHR 0x0A" "p @ v" rest] assms(1) by (simp add: first_line_def)
  then show ?thesis using assms(2) by (simp add: program_version_def second_part_def find_text_here)
qed

text \<open>The label of cockroach must be on the first line of its output.\<close>

lemma first_line_only:
  assumes "CHR 0x0A \<notin> set l" and "find_text p l = None"
  shows "program_version p (Some (Some (l @ CHR 0x0A # rest))) = None"
  using split_char_append [of "CHR 0x0A" l rest] assms by (simp add: program_version_def first_line_def second_part_def)

end
