(* ===== verification/Node_Runs.thy ===== *)
theory Node_Runs
  imports Controller_Correct Ldk_Database_Correct
begin

text \<open>
  Runs of the whole node: events of LDK, steps of payments and of channel openings, the tasks that store
  forwards, and every other write to the database, in any order.  What no run breaks is shown once
  for each part of the state: the keys of the tables, what the tables have recorded, and the tables
  of the waiting requests.
\<close>

section \<open>Runs\<close>

text \<open>The remaining writes are those of \<open>ldk_step\<close>: the API that stores peers and invoices, the
  updates of all channels, the tasks of LDK's callbacks, and the loss and return of the connection.\<close>

inductive node_turn :: "node \<Rightarrow> node \<Rightarrow> bool" where
  turn_event: "node_turn n (fst (handle_event env e n))"
| turn_payment: "node_turn n (snd (payment_step call n))"
| turn_open: "node_turn n (snd (open_step txid_of sn op n))"
| turn_forward: "node_turn n (run_forward enc n)"
| turn_write: "ldk_step (n_db n) db \<Longrightarrow> node_turn n (n\<lparr>n_db := db\<rparr>)"

definition node_run :: "node \<Rightarrow> node \<Rightarrow> bool" where
  "node_run = node_turn\<^sup>*\<^sup>*"

lemma node_run_induct [consumes 1, case_names here turn]:
  assumes "node_run n n'" and "P n" and "\<And>m m'. node_run n m \<Longrightarrow> node_turn m m' \<Longrightarrow> P m \<Longrightarrow> P m'"
  shows "P n'"
  using assms(1) unfolding node_run_def
  by (induction rule: rtranclp_induct) (use assms(2,3) in \<open>auto simp: node_run_def\<close>)

section \<open>Steps within a relation\<close>

text \<open>A step of the event handler relates a part of the state before it to that part after it. A step that keeps
  the part is one within equality.\<close>

definition stays :: "(node \<Rightarrow> 'p) \<Rightarrow> ('p \<Rightarrow> 'p \<Rightarrow> bool) \<Rightarrow> 'a node_step \<Rightarrow> bool" where
  "stays part rel m \<longleftrightarrow> (\<forall>n. rel (part n) (part (fst (m n))))"

lemma staysD: "stays part rel m \<Longrightarrow> rel (part n) (part (fst (m n)))"
  by (simp add: stays_def)

lemma stays_eq: "stays part (=) m \<longleftrightarrow> keeps part m"
  by (auto simp: stays_def keeps_def)

named_theorems stays_cases "case distinctions of a step within a relation"

lemma stays_option [stays_cases]:
  "stays part rel g \<Longrightarrow> (\<And>x. stays part rel (f x)) \<Longrightarrow> stays part rel (case o' of None \<Rightarrow> g | Some x \<Rightarrow> f x)"
  by (cases o') simp_all

lemma stays_outcome [stays_cases]:
  "(\<And>x. stays part rel (f x)) \<Longrightarrow> (\<And>e. stays part rel (g e)) \<Longrightarrow> stays part rel h \<Longrightarrow>
   stays part rel (case r of Ok x \<Rightarrow> f x | Err e \<Rightarrow> g e | Panic \<Rightarrow> h)"
  by (cases r) simp_all

lemma stays_prod [stays_cases]:
  "(\<And>x y. stays part rel (f x y)) \<Longrightarrow> stays part rel (case p of (x, y) \<Rightarrow> f x y)"
  by (cases p) simp_all

lemma stays_if [stays_cases]:
  "stays part rel f \<Longrightarrow> stays part rel g \<Longrightarrow> stays part rel (if b then f else g)"
  by simp

lemma stays_purpose [stays_cases]:
  "(\<And>x y. stays part rel (f x y)) \<Longrightarrow> (\<And>x. stays part rel (g x)) \<Longrightarrow>
   stays part rel (case p of InvoicePayment x y \<Rightarrow> f x y | SpontaneousPayment x \<Rightarrow> g x)"
  by (cases p) simp_all

lemma stays_failure [stays_cases]:
  "(\<And>x. stays part rel (f x)) \<Longrightarrow> (\<And>x. stays part rel (g x)) \<Longrightarrow>
   stays part rel (case p of InitialSend x \<Rightarrow> f x | OnPath x \<Rightarrow> g x)"
  by (cases p) simp_all

text \<open>What a relation needs so that the steps of a handler can be put together.\<close>

locale step_relation =
  fixes rel :: "'p \<Rightarrow> 'p \<Rightarrow> bool"
  assumes rel_refl: "rel p p" and rel_trans: "rel p q \<Longrightarrow> rel q r \<Longrightarrow> rel p r"
begin

lemma stays_keeps: "keeps part m \<Longrightarrow> stays part rel m"
  by (simp add: stays_def keepsD rel_refl)

lemma stays_bind:
  assumes "stays part rel m" and "\<And>x. stays part rel (f x)"
  shows "stays part rel (node_bind m f)"
  unfolding stays_def
proof
  fix n
  obtain n' r where m: "m n = (n', r)" by (cases "m n")
  have "rel (part n) (part n')" using staysD [OF assms(1), of n] m by simp
  moreover have "rel (part n') (part (fst (f x n')))" for x using staysD [OF assms(2)] .
  ultimately show "rel (part n) (part (fst (node_bind m f n)))"
    by (auto simp: node_bind_fst m split: outcome.splits intro: rel_trans)
qed

lemmas stays_intros = stays_bind stays_keeps [OF keeps_return] stays_keeps [OF keeps_lift]

end

section \<open>The database\<close>

interpretation writes: step_relation "ldk_step\<^sup>*\<^sup>*"
  by unfold_locales auto

named_theorems db_intros "steps that write to the database as the interface of its writes allows"

lemma stays_db_write:
  assumes "\<And>db db'. f db = Ok db' \<Longrightarrow> ldk_step db db'"
  shows "stays n_db ldk_step\<^sup>*\<^sup>* (db_write f)" and "stays n_db ldk_step\<^sup>*\<^sup>* (db_write_logged f)"
  using assms by (auto simp: stays_def db_write_def db_write_logged_def split: outcome.splits)

lemma stays_writes [db_intros]:
  "stays n_db ldk_step\<^sup>*\<^sup>* (db_write (update_initializing_channel now i cv st))"
  "stays n_db ldk_step\<^sup>*\<^sup>* (db_write_logged (update_initializing_channel now i cv st))"
  "stays n_db ldk_step\<^sup>*\<^sup>* (db_write (persist_channel cenc now sn cd))"
  "stays n_db ldk_step\<^sup>*\<^sup>* (db_write (create_channel sn c pub pk))"
  "stays n_db ldk_step\<^sup>*\<^sup>* (db_write (close_channel now c reason))"
  "stays n_db ldk_step\<^sup>*\<^sup>* (db_write_logged (close_channel now c reason))"
  "stays n_db ldk_step\<^sup>*\<^sup>* (db_write (persist_payment p))"
  "stays n_db ldk_step\<^sup>*\<^sup>* (db_write_logged (persist_spendable_output senc d oc spent))"
  by (rule stays_db_write, erule ldk_step.intros)+

lemma keeps_db_basic:
  "keeps n_db (node_call c)" "keeps n_db (take_funding k)" "keeps n_db (answer_funding ch rv)"
  "keeps n_db (take_payment i)" "keeps n_db (answer_payment ch prv)" "keeps n_db (spawn_forward fwd)"
  by (auto simp: keeps_def node_call_def take_funding_def answer_funding_def take_payment_def answer_payment_def
      spawn_forward_def senders_get_def)

lemmas db_keeps = keeps_db_basic [THEN writes.stays_keeps]

declare writes.stays_intros [db_intros] db_keeps [db_intros] stays_cases [db_intros]

lemma stays_persist_outputs [db_intros]: "stays n_db ldk_step\<^sup>*\<^sup>* (persist_outputs env cid spent ds)"
  by (induction ds) (auto intro!: db_intros)

lemma stays_channel_closed [db_intros]: "stays n_db ldk_step\<^sup>*\<^sup>* (channel_closed env cid uid reason)"
  unfolding channel_closed_def by (intro db_intros) (simp add: stays_def)

lemma stays_handlers [db_intros]:
  "stays n_db ldk_step\<^sup>*\<^sup>* (funding_generation_ready env tmp k v script uid)"
  "stays n_db ldk_step\<^sup>*\<^sup>* (channel_pending env cid former k vout)"
  "stays n_db ldk_step\<^sup>*\<^sup>* (channel_ready env cid uid k)"
  "stays n_db ldk_step\<^sup>*\<^sup>* (claim_payment purpose)"
  "stays n_db ldk_step\<^sup>*\<^sup>* (payment_claimed env h purpose a)"
  "stays n_db ldk_step\<^sup>*\<^sup>* (payment_forwarded env pchan next fee amt)"
  "stays n_db ldk_step\<^sup>*\<^sup>* (htlc_handling_failed env prev dest)"
  "stays n_db ldk_step\<^sup>*\<^sup>* (pending_htlcs_forwardable env m)"
  "stays n_db ldk_step\<^sup>*\<^sup>* (spendable_outputs env ds ochan)"
  "stays n_db ldk_step\<^sup>*\<^sup>* (discard_funding env cid txid)"
  "stays n_db ldk_step\<^sup>*\<^sup>* (payment_path_failed failure)"
  "stays n_db ldk_step\<^sup>*\<^sup>* (htlc_intercepted iid scid h msat)"
  unfolding handler_defs by (intro db_intros)+

lemma db_after_event: "ldk_step\<^sup>*\<^sup>* (n_db n) (n_db (fst (handle_event env e n)))"
proof (cases "event_payment_id e")
  case None
  then have "stays n_db ldk_step\<^sup>*\<^sup>* (handle_event env e)"
    by (cases e) (simp_all add: event_payment_id_def payment_sent_none db_intros)
  then show ?thesis by (rule staysD)
qed (simp add: payments_after_event(3))

lemma db_after_payment_step: "ldk_step\<^sup>*\<^sup>* (n_db n) (n_db (snd (payment_step call n)))"
  by (cases "(call, n)" rule: payment_step.cases)
    (auto split: prod.splits outcome.splits option.splits intro: ldk_step.step_invoice ldk_step.step_payment)

lemma db_after_open_step: "ldk_step\<^sup>*\<^sup>* (n_db n) (n_db (snd (open_step txid_of sn op n)))"
  by (cases "(txid_of, sn, op, n)" rule: open_step.cases)
    (auto split: prod.splits outcome.splits option.splits intro: ldk_step.step_initializing)

lemma db_after_forward: "ldk_step\<^sup>*\<^sup>* (n_db n) (n_db (run_forward enc n))"
  by (auto simp: run_forward_def split: list.splits outcome.splits intro: ldk_step.step_forward)

lemma db_after_turn: "node_turn n n' \<Longrightarrow> ldk_step\<^sup>*\<^sup>* (n_db n) (n_db n')"
  by (induction rule: node_turn.induct)
    (auto simp: db_after_event db_after_payment_step db_after_open_step db_after_forward)

lemma db_after_run: "node_run n n' \<Longrightarrow> ldk_step\<^sup>*\<^sup>* (n_db n) (n_db n')"
  by (induction rule: node_run_induct) (auto dest: db_after_turn)

lemma reachable_after_writes: "ldk_step\<^sup>*\<^sup>* db db' \<Longrightarrow> ldk_reachable db \<Longrightarrow> ldk_reachable db'"
  by (induction rule: rtranclp_induct) (auto intro: ldk_reachable.intros)


section \<open>What the tables keep\<close>

text \<open>The tables whose rows are never deleted: the keys that are stored, and the channels that have been closed.\<close>

definition closed_channels :: "ldk_database \<Rightarrow> bytes set" where
  "closed_channels db = ch_channel_id ` {r \<in> set (t_channels db). ch_closure_reason r \<noteq> None}"

definition db_keeps :: "ldk_database \<Rightarrow> ldk_database \<Rightarrow> bool" where
  "db_keeps db db' \<longleftrightarrow>
     pr_id ` set (t_payments db) \<subseteq> pr_id ` set (t_payments db') \<and>
     ir_payment_hash ` set (t_invoices db) \<subseteq> ir_payment_hash ` set (t_invoices db') \<and>
     fr_id ` set (t_forwards db) \<subseteq> fr_id ` set (t_forwards db') \<and>
     mo_out_point ` set (t_channel_monitors db) \<subseteq> mo_out_point ` set (t_channel_monitors db') \<and>
     spendable_row_key ` set (t_spendable_outputs db) \<subseteq> spendable_row_key ` set (t_spendable_outputs db') \<and>
     ch_channel_id ` set (t_channels db) \<subseteq> ch_channel_id ` set (t_channels db') \<and>
     closed_channels db \<subseteq> closed_channels db' \<and>
     in_initializing_channel_id ` set (t_initializing_channels db)
       \<subseteq> in_initializing_channel_id ` set (t_initializing_channels db')"

interpretation kept: step_relation db_keeps
proof unfold_locales
  show "db_keeps p p" for p by (simp add: db_keeps_def)
  show "db_keeps p r" if "db_keeps p q" and "db_keeps q r" for p q r
    using that unfolding db_keeps_def by (elim conjE) (intro conjI; (rule subset_trans, assumption, assumption))
qed

lemma image_kept: "(\<And>r. r \<in> A \<Longrightarrow> f r \<in> B \<and> key (f r) = key r) \<Longrightarrow> key ` A \<subseteq> key ` B"
  by (metis image_eqI image_subsetI)

lemma keys_after_update: "(\<And>r. key (upd r) = key r) \<Longrightarrow> key ` set (tbl_update p upd rows) = key ` set rows"
  by (induction rows) (simp_all add: tbl_update_def)

lemma closed_after_persist:
  "closed_channels db \<subseteq> closed_channels (db\<lparr>t_channels := tbl_upsert ch_channel_id (cd_channel_id c)
     (channel_row_update enc now c) new (t_channels db)\<rparr>)"
proof (cases "cd_channel_id c \<in> ch_channel_id ` set (t_channels db)")
  case True
  then show ?thesis
    unfolding closed_channels_def
    by (intro image_kept [where f = "\<lambda>r. if ch_channel_id r = cd_channel_id c then channel_row_update enc now c r else r"])
      (auto simp: tbl_upsert_def channel_row_update_def Let_def split: option.splits)
qed (auto simp: closed_channels_def tbl_upsert_def)

lemma closed_after_close:
  "closed_channels db \<subseteq> closed_channels (db\<lparr>t_channels := tbl_update p (close_channel_row now reason) (t_channels db)\<rparr>)"
  unfolding closed_channels_def
  by (rule image_kept [where f = "\<lambda>r. if p r then close_channel_row now reason r else r"])
    (auto simp: tbl_update_def close_channel_row_def)

lemma keeps_task: "run_task opw sn t (db, a) = (db', a') \<Longrightarrow> db_keeps db db'"
  by (cases t) (auto simp: db_keeps_def Let_def closed_channels_def monitors_tbl.keys_upsert split: if_splits)

lemma keeps_spawned: "run_spawned opw sn t (db, a) = (db', a') \<Longrightarrow> db_keeps db db'"
  by (cases t) (auto dest: keeps_task intro: kept.rel_refl)

lemma keeps_spendable: "persist_spendable_output enc d oc spent db = Ok db' \<Longrightarrow> db_keeps db db'"
  using spendables_tbl.keys_upsert [of "(d, oc, spent)"]
  by (auto simp: persist_spendable_output_def outcome_simps db_keeps_def closed_channels_def)

lemma keeps_invoice: "persist_invoice i db = Ok db' \<Longrightarrow> db_keeps db db'"
  by (auto simp: persist_invoice_def Let_def outcome_simps db_keeps_def closed_channels_def invoices_tbl.keys_upsert
      split: if_splits)

lemma keeps_persist_channel: "persist_channel enc now sn c db = Ok db' \<Longrightarrow> db_keeps db db'"
  using closed_after_persist [of db c enc now]
  by (auto simp: persist_channel_def outcome_simps db_keeps_def channels_tbl.keys_upsert)

lemma keeps_close: "close_channel now c reason db = Ok db' \<Longrightarrow> db_keeps db db'"
  using closed_after_close [of db]
  by (auto simp: close_channel_def outcome_simps db_keeps_def keys_after_update close_channel_row_def)

lemma keeps_create: "create_channel sn c pub pk db = Ok db' \<Longrightarrow> db_keeps db db'"
  by (auto simp: create_channel_def outcome_simps db_keeps_def closed_channels_def tbl_insert_def split: if_splits)

lemma keeps_initializing: "persist_initializing_channel sn i pub pk txid db = Ok db' \<Longrightarrow> db_keeps db db'"
  by (auto simp: persist_initializing_channel_def outcome_simps db_keeps_def closed_channels_def tbl_insert_def
      split: if_splits)

lemma keeps_update_initializing: "update_initializing_channel now i cv st db = Ok db' \<Longrightarrow> db_keeps db db'"
  by (auto simp: update_initializing_channel_def Let_def outcome_simps db_keeps_def closed_channels_def keys_after_update
      split: option.splits)

lemma keeps_peer: "persist_peer enc p db = Ok db' \<Longrightarrow> db_keeps db db'" "delete_peer pk db = Ok db' \<Longrightarrow> db_keeps db db'"
  by (auto simp: persist_peer_def delete_peer_def Let_def outcome_simps db_keeps_def closed_channels_def)

lemma keeps_payment: "persist_payment p db = Ok db' \<Longrightarrow> db_keeps db db'"
  by (auto simp: persist_payment_def outcome_simps db_keeps_def closed_channels_def payments_tbl.keys_upsert)

lemma keeps_forward: "persist_forward enc f db = Ok db' \<Longrightarrow> db_keeps db db'"
  by (auto simp: persist_forward_def outcome_simps db_keeps_def closed_channels_def forwards_tbl.keys_upsert)

lemmas keeps_writes =
  keeps_spawned keeps_spendable keeps_invoice keeps_persist_channel keeps_close keeps_create keeps_initializing
  keeps_update_initializing keeps_peer keeps_payment keeps_forward

lemma keeps_after_step: "ldk_step db db' \<Longrightarrow> db_keeps db db'"
proof (induction rule: ldk_step.induct)
  case (step_connection db b)
  then show ?case by (simp add: db_keeps_def closed_channels_def)
qed (erule keeps_writes)+

lemma keeps_after_writes: "ldk_step\<^sup>*\<^sup>* db db' \<Longrightarrow> db_keeps db db'"
  by (induction rule: rtranclp_induct) (auto intro: kept.rel_refl kept.rel_trans keeps_after_step)


section \<open>The tables of waiting requests\<close>

text \<open>What a step may do to such a table: its senders stay distinct and waiting, and an answer that a caller can
  receive stays the same.\<close>

definition requests_keep :: "('k, 'v, 'rv) async_senders \<Rightarrow> ('k, 'v, 'rv) async_senders \<Rightarrow> bool" where
  "requests_keep s s' \<longleftrightarrow> (senders_inv s \<longrightarrow> senders_inv s') \<and> (\<forall>c r. receive c s = Some r \<longrightarrow> receive c s' = Some r)"

interpretation requests: step_relation requests_keep
  by unfold_locales (auto simp: requests_keep_def)

lemma receive_insert: "receive c s = Some r \<Longrightarrow> receive c (fst (senders_insert k v s)) = Some r"
  by (auto simp: receive_def senders_insert_def Let_def drop_sender_def nth_append nth_list_update
      split: if_splits option.splits oneshot.splits)

lemma receive_get [simp]: "receive c (fst (senders_get k s)) = receive c s"
  by (simp add: receive_def senders_get_def)

lemma receive_send: "receive c s = Some r \<Longrightarrow> receive c (send_answer c' rv s) = Some r"
  by (auto simp: receive_def send_answer_def nth_list_update split: if_splits oneshot.splits)

lemma respond_get_send:
  "as_senders s k = Some (v, c) \<Longrightarrow> send_answer c rv (fst (senders_get k s)) = senders_respond k rv s"
  by (simp add: senders_respond_def senders_get_def)

lemma requests_keep_insert: "requests_keep s (fst (senders_insert k v s))"
  by (simp add: requests_keep_def senders_inv_insert receive_insert)

lemma requests_keep_get: "requests_keep s (fst (senders_get k s))"
  by (simp add: requests_keep_def senders_inv_get)

lemma requests_keep_respond: "requests_keep s (senders_respond k rv s)"
proof (cases "as_senders s k")
  case (Some p)
  then have "receive c s = Some r \<Longrightarrow> receive c (senders_respond k rv s) = Some r" for c r
    by (cases p) (simp add: receive_send flip: respond_get_send [of s k _ _ rv])
  then show ?thesis by (simp add: requests_keep_def senders_inv_respond)
qed (simp add: respond_without_request requests.rel_refl)

lemma payments_after_turn: "node_turn n n' \<Longrightarrow> requests_keep (n_payments n) (n_payments n')"
proof (induction rule: node_turn.induct)
  case (turn_event n env e)
  show ?case
    by (cases "event_payment_id e")
      (auto simp: keepsD [OF keeps_payments_event] payments_after_event(1) requests.rel_refl requests_keep_respond
        split: option.splits)
next
  case (turn_payment n call)
  show ?case
  proof (cases "inserts_payment call")
    case (Some i)
    then obtain p where "call = PayStored p" by (auto simp: inserts_payment_def split: payment_call.splits)
    then show ?thesis by (simp add: case_prod_beta requests_keep_insert)
  qed (simp add: payment_step_payments requests.rel_refl)
qed (simp_all add: open_step_payments run_forward_payments requests.rel_refl)

lemma funding_ready_table:
  "(\<exists>rv. n_funding (fst (funding_generation_ready env tmp k v script uid n)) = senders_respond (ucast uid) rv (n_funding n)) \<or>
   n_funding (fst (funding_generation_ready env tmp k v script uid n)) = fst (senders_get (ucast uid) (n_funding n))"
proof (cases "as_senders (n_funding n) (ucast uid)")
  case None
  then have "take_funding (ucast uid) n = (n\<lparr>n_funding := fst (senders_get (ucast uid) (n_funding n))\<rparr>,
      Err (Msg ''Can't find funding transaction for user_channel_id''))"
    by (simp add: take_funding_def senders_get_def)
  then show ?thesis by (simp add: funding_generation_ready_def node_bind_def)
next
  case (Some p)
  obtain rate c where p: "p = (rate, c)" by (cases p)
  have got: "take_funding (ucast uid) n = (n\<lparr>n_funding := fst (senders_get (ucast uid) (n_funding n))\<rparr>, Ok (rate, c))"
    using Some p by (simp add: take_funding_def senders_get_def)
  note send = respond_get_send [OF Some [unfolded p]]
  show ?thesis
    by (auto simp: funding_generation_ready_def node_bind_def got node_call_def answer_funding_def node_lift_def
        db_write_logged_def send split: outcome.splits)
qed

lemma keeps_funding_outputs [keeps_intros]: "keeps n_funding (persist_outputs env cid spent ds)"
  by (induction ds) (auto intro: keeps_intros)

lemma keeps_funding_handlers [keeps_intros]:
  "keeps n_funding (channel_pending env cid former k vout)"
  "keeps n_funding (channel_ready env cid uid k)"
  "keeps n_funding (claim_payment purpose)"
  "keeps n_funding (payment_claimed env h purpose a)"
  "keeps n_funding (payment_forwarded env pchan next fee amt)"
  "keeps n_funding (htlc_handling_failed env prev dest)"
  "keeps n_funding (pending_htlcs_forwardable env m)"
  "keeps n_funding (spendable_outputs env ds ochan)"
  "keeps n_funding (discard_funding env cid txid)"
  "keeps n_funding (payment_path_failed failure)"
  "keeps n_funding (htlc_intercepted iid scid h msat)"
  "keeps n_funding (payment_sent opid pre h ofee)"
  "keeps n_funding (payment_failed_event pid reason)"
  unfolding handler_defs payment_sent_def payment_failed_event_def by (intro keeps_intros)+

lemma channel_closed_table:
  "\<exists>rv. n_funding (fst (channel_closed env cid uid reason n)) = senders_respond (ucast uid) rv (n_funding n)"
  by (auto simp: channel_closed_def node_bind_def db_write_def split: outcome.splits)

lemma funding_after_event: "requests_keep (n_funding n) (n_funding (fst (handle_event env e n)))"
proof (cases e)
  case (FundingGenerationReady tmp k v script uid)
  then show ?thesis
    using funding_ready_table [of env tmp k v script uid n] requests_keep_respond requests_keep_get by fastforce
next
  case (ChannelClosed cid uid reason)
  then show ?thesis
    using channel_closed_table [of env cid uid reason n] requests_keep_respond by fastforce
qed (simp_all add: keepsD [OF keeps_funding_handlers(1)] keepsD keeps_intros requests.rel_refl)

lemma funding_after_turn: "node_turn n n' \<Longrightarrow> requests_keep (n_funding n) (n_funding n')"
proof (induction rule: node_turn.induct)
  case (turn_payment n call)
  show ?case
    by (cases "(call, n)" rule: payment_step.cases)
      (auto simp: requests.rel_refl split: prod.splits outcome.splits option.splits)
next
  case (turn_open n txid_of sn op)
  show ?case
    by (cases "(txid_of, sn, op, n)" rule: open_step.cases)
      (auto simp: requests.rel_refl case_prod_beta requests_keep_insert split: outcome.splits option.splits)
qed (simp_all add: funding_after_event requests.rel_refl run_forward_def split: list.splits)

lemma requests_after_run:
  assumes "node_run n n'"
  shows "requests_keep (n_payments n) (n_payments n')" and "requests_keep (n_funding n) (n_funding n')"
  using assms
  by (induction rule: node_run_induct)
    (auto intro: requests.rel_refl requests.rel_trans payments_after_turn funding_after_turn)


section \<open>What every run keeps\<close>


definition claimed_event :: ldk_event where
  "claimed_event = PaymentClaimed (replicate 32 1) (SpontaneousPayment (replicate 32 2)) 1000"

definition claimed_node :: node where
  "claimed_node = fst (handle_event sample_env claimed_event empty_node)"

lemma run_one: "node_turn n n' \<Longrightarrow> node_run n n'"
  by (simp add: node_run_def)

lemma claimed_run: "node_run empty_node claimed_node"
  unfolding claimed_node_def by (intro run_one node_turn.turn_event)




end
