(* ===== verification/Node_Queries.thy ===== *)
theory Node_Queries
  imports Controller
begin

text \<open>
  What is left of the node beside its operations: the listener for inbound connections (\<open>listen\<close> of
  \<^verbatim>\<open>ldk/peer_manager.rs\<close>), and the questions to the controller that combine what it is made of
  (\<^verbatim>\<open>ldk/controller.rs\<close>).  Questions that pass on the answer of one call to LDK or to the database are
  that call.
\<close>

section \<open>Inbound connections\<close>

text \<open>What \<open>accept\<close> gives: a stream and its address, and whether the stream can be converted, or an error.\<close>

datatype incoming = Accepted bool socket_addr | AcceptError string

datatype listener_line = StreamFailed | AcceptFailed string

definition listen_address :: "u16 \<Rightarrow> string" where
  "listen_address port = ''0.0.0.0:'' @ nat_to_string (unat port)"

definition listen :: "(string \<Rightarrow> bool) \<Rightarrow> u16 \<Rightarrow> string outcome" where
  "listen bind port =
     (if bind (listen_address port) then Ok (listen_address port) else Err (Msg ''Failed to bind to listen port''))"

text \<open>A turn of the loop: the stream is set up in a task of its own, or a line is logged.\<close>

fun listen_turn :: "incoming \<Rightarrow> socket_addr + listener_line" where
  "listen_turn (Accepted True a) = Inl a"
| "listen_turn (Accepted False a) = Inr StreamFailed"
| "listen_turn (AcceptError e) = Inr (AcceptFailed e)"

fun listen_loop :: "incoming list \<Rightarrow> socket_addr list \<times> listener_line list" where
  "listen_loop [] = ([], [])"
| "listen_loop (i # is) =
     (case listen_loop is of (tasks, ls) \<Rightarrow>
        (case listen_turn i of Inl a \<Rightarrow> (a # tasks, ls) | Inr l \<Rightarrow> (tasks, l # ls)))"

text \<open>No failure of one connection keeps a later one from being set up.\<close>

lemma listen_loop_accepts: "fst (listen_loop (xs @ ys)) = fst (listen_loop xs) @ fst (listen_loop ys)"
  by (induction xs) (simp_all add: case_prod_beta split: sum.splits)

lemma accepted_is_set_up: "a \<in> set (fst (listen_loop xs)) \<longleftrightarrow> Accepted True a \<in> set xs"
proof (induction xs)
  case (Cons x xs)
  then show ?case by (cases x rule: listen_turn.cases) (auto simp: case_prod_beta)
qed simp

definition get_connected_peers :: "(pubkey \<times> 'a option) list \<Rightarrow> ('a \<Rightarrow> socket_address) \<Rightarrow> peer_list" where
  "get_connected_peers peers from = map (\<lambda>(k, a). (k, map_option from a)) peers"

lemma connected_peers_keep:
  "peer_is_connected (get_connected_peers peers from) k \<longleftrightarrow> k \<in> fst ` set peers"
  by (force simp: peer_is_connected_def get_connected_peers_def)

section \<open>Questions to the controller\<close>

definition controller_synced :: "bool \<Rightarrow> bool \<Rightarrow> bool outcome" where
  "controller_synced bitcoind_synchronised wallet_synced = Ok (bitcoind_synchronised \<and> wallet_synced)"

text \<open>The graph gives the announcement of a node, if it has seen one.\<close>

definition alias_of :: "(pubkey \<Rightarrow> string option option) \<Rightarrow> pubkey \<Rightarrow> string option" where
  "alias_of graph k = Option.bind (graph k) (\<lambda>announcement. announcement)"

definition controller_list_payments ::
  "(string \<Rightarrow> bolt11_invoice option) \<Rightarrow> invoice option \<Rightarrow> payment_direction option \<Rightarrow> ldk_database \<Rightarrow> payment list outcome" where
  "controller_list_payments from_str i direction db = fetch_payments from_str (map_option inv_payment_hash i) direction db"

text \<open>The scorer is only asked when its lock is free.\<close>

definition estimated_channel_liquidity_range ::
  "bool \<Rightarrow> (u64 \<Rightarrow> bytes \<Rightarrow> (u64 \<times> u64) option) \<Rightarrow> u64 \<Rightarrow> bytes \<Rightarrow> (u64 \<times> u64) option outcome" where
  "estimated_channel_liquidity_range lock_free scorer scid target =
     (if lock_free then Ok (scorer scid target) else Err (Msg ''failed to acquire lock on scorer''))"

text \<open>\<open>stop\<close>, which dropping the controller calls, disconnects every peer.\<close>

definition controller_stop :: "peer_list \<Rightarrow> peer_list" where
  "controller_stop peers = []"

definition async_api_requests_new ::
  "(u64, fee_rate, raw_tx outcome) async_senders \<times> (bytes, payment, payment outcome) async_senders" where
  "async_api_requests_new = (async_senders_new, async_senders_new)"

lemma async_api_requests_inv: "senders_inv (fst async_api_requests_new) \<and> senders_inv (snd async_api_requests_new)"
  by (simp add: async_api_requests_new_def senders_inv_new)

end
