(* ===== verification/Bitcoind_Rpc.thy ===== *)
theory Bitcoind_Rpc
  imports Bitcoind
begin

text \<open>
  The calls of the client of the bitcoin node (\<^verbatim>\<open>bitcoind/bitcoind_client.rs\<close>): the methods and
  parameters it sends, what it makes of the answers, how it starts, and the tasks that broadcast
  transactions.  A call gives the text of a JSON value or an error; how the text is read is serde's part and an argument,
  one function for each type.
\<close>

section \<open>Calls\<close>

datatype estimate_mode = EstimateUnset | Economical | Conservative

datatype rpc_value = RpcNumber nat | RpcText string | RpcMode estimate_mode

type_synonym rpc = "string \<Rightarrow> rpc_value list \<Rightarrow> string outcome"

text \<open>\<open>call_method::<JsonString>(method, params).await?.deserialize()\<close>.\<close>

definition rpc_read :: "(string \<Rightarrow> 'a outcome) \<Rightarrow> rpc \<Rightarrow> string \<Rightarrow> rpc_value list \<Rightarrow> 'a outcome" where
  "rpc_read from_json rpc meth params = bind_outcome (rpc meth params) from_json"

definition send_transaction :: "(string \<Rightarrow> 'i outcome) \<Rightarrow> (bytes \<Rightarrow> bytes) \<Rightarrow> rpc \<Rightarrow> bytes \<Rightarrow> 'i outcome" where
  "send_transaction from_json serialize rpc tx =
     rpc_read from_json rpc ''sendrawtransaction'' [RpcText (hex_encode (serialize tx))]"

definition generate_to_address :: "(string \<Rightarrow> 'h list outcome) \<Rightarrow> rpc \<Rightarrow> u64 \<Rightarrow> string \<Rightarrow> 'h list outcome" where
  "generate_to_address from_json rpc n_blocks address =
     rpc_read from_json rpc ''generatetoaddress'' [RpcNumber (unat n_blocks), RpcText address]"

definition get_block_hash :: "(string \<Rightarrow> 'h outcome) \<Rightarrow> rpc \<Rightarrow> u32 \<Rightarrow> 'h outcome" where
  "get_block_hash from_json rpc height = rpc_read from_json rpc ''getblockhash'' [RpcNumber (unat height)]"

definition get_blockchain_info :: "(string \<Rightarrow> blockchain_info outcome) \<Rightarrow> rpc \<Rightarrow> blockchain_info outcome" where
  "get_blockchain_info from_json rpc = rpc_read from_json rpc ''getblockchaininfo'' []"

definition get_mempool_info :: "(string \<Rightarrow> 'f outcome) \<Rightarrow> rpc \<Rightarrow> 'f outcome" where
  "get_mempool_info from_json rpc = rpc_read from_json rpc ''getmempoolinfo'' []"

text \<open>\<open>block_height\<close> of the interface counts the blocks of the chain; the one of the metrics takes the height that
  comes with the best block, which may lack it.\<close>

definition block_height :: "(string \<Rightarrow> blockchain_info outcome) \<Rightarrow> rpc \<Rightarrow> u64 outcome" where
  "block_height from_json rpc = bind_outcome (get_blockchain_info from_json rpc) (\<lambda>i. Ok (bi_blocks i))"

definition metrics_block_height :: "('h \<times> u32 option) outcome \<Rightarrow> u32 outcome" where
  "metrics_block_height best_block =
     (case best_block of Ok (_, Some h) \<Rightarrow> Ok h | Panic \<Rightarrow> Panic | _ \<Rightarrow> Err (Msg ''Could not get best block from bitcoind''))"

definition bitcoind_is_connected :: "('h \<times> u32 option) outcome \<Rightarrow> bool" where
  "bitcoind_is_connected best_block \<longleftrightarrow> (case best_block of Ok _ \<Rightarrow> True | _ \<Rightarrow> False)"

text \<open>The answer to \<open>estimatesmartfee\<close> for a class, as the estimation reads it: an error of the call or of the
  reading is logged and leaves the class as it is.\<close>

definition estimate_smart_fee :: "(string \<Rightarrow> u64 option outcome) \<Rightarrow> rpc \<Rightarrow> smart_fee_rpc" where
  "estimate_smart_fee from_json rpc n_blocks =
     (case rpc_read from_json rpc ''estimatesmartfee'' [RpcNumber (unat n_blocks), RpcMode Conservative] of
        Ok rate \<Rightarrow> Some rate | _ \<Rightarrow> None)"

section \<open>Start\<close>

record bitcoind_settings =
  bs_cookie_path :: string
  bs_rpc_host :: string
  bs_rpc_port :: u16
  bs_network :: network

text \<open>\<open>BitcoindClient::new\<close>: the cookie, the client of the RPC library made of its encoding and the endpoint,
  and the check of the chain. The client starts with the default fee rates.\<close>

definition bitcoind_start ::
  "(string \<Rightarrow> bytes option) \<Rightarrow> (bytes \<Rightarrow> string) \<Rightarrow> (string \<Rightarrow> string \<Rightarrow> u16 \<Rightarrow> rpc option) \<Rightarrow> (string \<Rightarrow> blockchain_info outcome) \<Rightarrow>
   bitcoind_settings \<Rightarrow> (rpc \<times> priorities) outcome" where
  "bitcoind_start read base64 rpc_client from_json settings =
     bind_outcome (ok_or (Msg ''Failed to read bitcoin cookie'') (read (bs_cookie_path settings))) (\<lambda>cookie.
     bind_outcome (ok_or (Msg ''failed to create rpc client'')
       (rpc_client (base64 cookie) (bs_rpc_host settings) (bs_rpc_port settings))) (\<lambda>rpc.
     bind_outcome (bitcoind_client_new (bs_network settings) (get_blockchain_info from_json rpc)) (\<lambda>_.
       Ok (rpc, priorities_new))))"

section \<open>Broadcasting\<close>

text \<open>\<open>broadcast_transactions\<close> gives every transaction to a task of its own, in order; the tasks are run by the
  runtime in whatever order. \<open>show\<close> is the text of an error.\<close>

datatype 'i broadcast_line = BroadcastInfo 'i | BroadcastError kld_error

definition broadcast_tasks :: "(bytes \<Rightarrow> bytes) \<Rightarrow> bytes list \<Rightarrow> string list" where
  "broadcast_tasks serialize txs = map (\<lambda>tx. hex_encode (serialize tx)) txs"

definition broadcast_task ::
  "(string \<Rightarrow> 'i outcome) \<Rightarrow> (kld_error \<Rightarrow> string) \<Rightarrow> rpc \<Rightarrow> string \<Rightarrow> 'i broadcast_line option" where
  "broadcast_task from_json show rpc tx =
     (case rpc_read from_json rpc ''sendrawtransaction'' [RpcText tx] of
        Ok txid \<Rightarrow> Some (BroadcastInfo txid)
      | Err e \<Rightarrow> if broadcast_error_logged (show e) then Some (BroadcastError e) else None
      | Panic \<Rightarrow> None)"

section \<open>What the client promises\<close>

text \<open>A client that starts is on the network of the settings, with the default fee rates; without a cookie or on
  another network it does not start.\<close>

lemma bitcoind_start_Ok:
  assumes "bitcoind_start read base64 rpc_client from_json settings = Ok (rpc, p)"
  shows "\<exists>cookie info. read (bs_cookie_path settings) = Some cookie \<and>
    rpc_client (base64 cookie) (bs_rpc_host settings) (bs_rpc_port settings) = Some rpc \<and>
    get_blockchain_info from_json rpc = Ok info \<and> network_matches (bi_chain info) (bs_network settings) \<and> p = priorities_new"
  using assms
  by (auto simp: bitcoind_start_def bitcoind_client_new_def ok_or_def bind_outcome_eq_Ok split: option.splits if_splits)

text \<open>One round of the estimation, from the calls to the rates: a class is changed only by a readable answer to its own
  call, and never falls below the minimum.\<close>

lemma estimation_from_calls:
  "pc_fee_rate (class_at (estimate_fee (estimate_smart_fee from_json rpc) p) c) =
     (case rpc_read from_json rpc ''estimatesmartfee'' [RpcNumber (unat (pc_n_blocks (class_at p c))), RpcMode Conservative] of
        Ok rate \<Rightarrow> estimated_fee (class_at p c) rate | _ \<Rightarrow> pc_fee_rate (class_at p c))"
  by (simp add: class_at_estimate_fee estimate_smart_fee_def split: outcome.splits)

text \<open>A transaction that the node knows already, or whose inputs are gone, is passed over without a line in the log,
  whatever else the error says.\<close>

lemma expected_errors_silent:
  assumes "rpc ''sendrawtransaction'' [RpcText tx] = Err e" and "err \<in> set expected_broadcast_errors"
    and "str_contains (show e) err"
  shows "broadcast_task from_json show rpc tx = None"
  using assms by (auto simp: broadcast_task_def rpc_read_def broadcast_error_logged_def list_ex_iff)

text \<open>The same transactions are broadcast by the task and by \<open>send_transaction\<close>.\<close>

lemma broadcast_is_send:
  "broadcast_task from_json show rpc (broadcast_tasks serialize txs ! i) = None \<longleftrightarrow>
     (case send_transaction from_json serialize rpc (txs ! i) of
        Ok _ \<Rightarrow> False | Err e \<Rightarrow> \<not> broadcast_error_logged (show e) | Panic \<Rightarrow> True)" if "i < length txs"
  using that by (simp add: broadcast_task_def broadcast_tasks_def send_transaction_def split: outcome.splits)

end
