(* ===== verification/Settings.thy ===== *)
theory Settings
  imports Bitcoind_Rpc Peer_Manager Durable_Connection
begin

text \<open>
  The settings of the node (\<^verbatim>\<open>settings/mod.rs\<close>): the options with their environment variables and
  defaults, their values as clap documents it - an option of the command line before the variable, the variable before the
  default - and what the node makes of them first: the client of the bitcoin node, the connection to the database
  (\<open>create_connection\<close> of \<^verbatim>\<open>database/mod.rs\<close>), and the text form of the addresses of peers
  (\<^verbatim>\<open>api/skt_addr.rs\<close>).
\<close>

section \<open>Addresses as text\<close>

text \<open>\<open>Display\<close>. The text of an IPv6 address is the standard library's; \<open>{:?}\<close> of a host name is LDK's.\<close>

definition ipv4_text :: "bytes \<Rightarrow> string" where
  "ipv4_text b = (case b of [] \<Rightarrow> [] | x # xs \<Rightarrow> nat_to_string (unat x) @ concat (map (\<lambda>y. ''.'' @ nat_to_string (unat y)) xs))"

definition debug_bytes :: "bytes \<Rightarrow> string" where
  "debug_bytes b = ''['' @ (case b of [] \<Rightarrow> [] | x # xs \<Rightarrow>
     nat_to_string (unat x) @ concat (map (\<lambda>y. '', '' @ nat_to_string (unat y)) xs)) @ '']''"

fun socket_address_fmt :: "(bytes \<Rightarrow> string) \<Rightarrow> (string \<Rightarrow> string) \<Rightarrow> socket_address \<Rightarrow> string" where
  "socket_address_fmt ipv6_text debug_name (TcpIpV4 addr port) = ipv4_text addr @ '':'' @ nat_to_string (unat port)"
| "socket_address_fmt ipv6_text debug_name (TcpIpV6 addr port) = ''['' @ ipv6_text addr @ '']:'' @ nat_to_string (unat port)"
| "socket_address_fmt ipv6_text debug_name (OnionV2 b) = debug_bytes b @ ''.onion''"
| "socket_address_fmt ipv6_text debug_name (OnionV3 key checksum version port) =
     debug_bytes key @ ''.onion:'' @ nat_to_string (unat port)"
| "socket_address_fmt ipv6_text debug_name (Hostname hostname port) = debug_name hostname @ '':'' @ nat_to_string (unat port)"

text \<open>\<open>FromStr\<close>; \<open>parse\<close> is that of LDK.\<close>

definition socket_address_from_str :: "(string \<Rightarrow> socket_address option) \<Rightarrow> string \<Rightarrow> socket_address outcome" where
  "socket_address_from_str parse s =
     (case parse s of Some a \<Rightarrow> Ok a | None \<Rightarrow> Err (Msg (s @ '' is not a valid socket address'')))"

section \<open>Options\<close>

record setting =
  st_name :: string
  st_env :: string
  st_default :: "string option"
  st_delimiter :: "char option"

definition kld_options :: "setting list" where
  "kld_options =
     [\<lparr>st_name = ''bitcoind_rpc_host'', st_env = ''KLD_BITCOIN_RPC_HOST'', st_default = Some ''localhost'', st_delimiter = None\<rparr>,
      \<lparr>st_name = ''bitcoind_rpc_port'', st_env = ''KLD_BITCOIN_RPC_PORT'', st_default = Some ''8333'', st_delimiter = None\<rparr>,
      \<lparr>st_name = ''bitcoin_network'', st_env = ''KLD_BITCOIN_NETWORK'', st_default = Some ''regtest'', st_delimiter = None\<rparr>,
      \<lparr>st_name = ''bitcoin_cookie_path'', st_env = ''KLD_BITCOIN_COOKIE_PATH'', st_default = Some ''/var/lib/bitcoind-testnet/.cookie'', st_delimiter = None\<rparr>,
      \<lparr>st_name = ''data_dir'', st_env = ''KLD_DATA_DIR'', st_default = Some ''/var/lib/kld'', st_delimiter = None\<rparr>,
      \<lparr>st_name = ''certs_dir'', st_env = ''KLD_CERTS_DIR'', st_default = Some ''/var/lib/kld/certs'', st_delimiter = None\<rparr>,
      \<lparr>st_name = ''mnemonic_path'', st_env = ''KLD_MNEMONIC_PATH'', st_default = Some ''/var/lib/kld/mnemonic'', st_delimiter = None\<rparr>,
      \<lparr>st_name = ''node_id'', st_env = ''KLD_NODE_ID'', st_default = Some ''one'', st_delimiter = None\<rparr>,
      \<lparr>st_name = ''wallet_name'', st_env = ''KLD_WALLET_NAME'', st_default = Some ''kld-wallet'', st_delimiter = None\<rparr>,
      \<lparr>st_name = ''log_level'', st_env = ''KLD_LOG_LEVEL'', st_default = Some ''info'', st_delimiter = None\<rparr>,
      \<lparr>st_name = ''env'', st_env = ''KLD_ENV'', st_default = Some ''test'', st_delimiter = None\<rparr>,
      \<lparr>st_name = ''peer_port'', st_env = ''KLD_PEER_PORT'', st_default = Some ''9234'', st_delimiter = None\<rparr>,
      \<lparr>st_name = ''node_alias'', st_env = ''KLD_NODE_ALIAS'', st_default = Some '''', st_delimiter = None\<rparr>,
      \<lparr>st_name = ''node_alias_color'', st_env = ''KLD_NODE_ALIAS_COLOR'', st_default = Some ''6e2cf7'', st_delimiter = None\<rparr>,
      \<lparr>st_name = ''public_addresses'', st_env = ''KLD_PUBLIC_ADDRESSES'', st_default = None, st_delimiter = Some (CHR '','')\<rparr>,
      \<lparr>st_name = ''exporter_address'', st_env = ''KLD_EXPORTER_ADDRESS'', st_default = Some ''127.0.0.1:2233'', st_delimiter = None\<rparr>,
      \<lparr>st_name = ''rest_api_address'', st_env = ''KLD_REST_API_ADDRESS'', st_default = Some ''127.0.0.1:2244'', st_delimiter = None\<rparr>,
      \<lparr>st_name = ''electrs_url'', st_env = ''KLD_ELECTRS_URL'', st_default = Some ''127.0.0.1:60001'', st_delimiter = None\<rparr>,
      \<lparr>st_name = ''database_host'', st_env = ''KLD_DATABASE_HOST'', st_default = Some ''127.0.0.1'', st_delimiter = None\<rparr>,
      \<lparr>st_name = ''database_port'', st_env = ''KLD_DATABASE_PORT'', st_default = Some ''10000'', st_delimiter = None\<rparr>,
      \<lparr>st_name = ''database_user'', st_env = ''KLD_DATABASE_USER'', st_default = Some ''root'', st_delimiter = None\<rparr>,
      \<lparr>st_name = ''database_name'', st_env = ''KLD_DATABASE_NAME'', st_default = Some ''defaultdb'', st_delimiter = None\<rparr>,
      \<lparr>st_name = ''database_ca_cert_path'', st_env = ''KLD_DATABASE_CA_CERT_PATH'', st_default = Some '''', st_delimiter = None\<rparr>,
      \<lparr>st_name = ''database_client_cert_path'', st_env = ''KLD_DATABASE_CLIENT_CERT_PATH'', st_default = Some '''', st_delimiter = None\<rparr>,
      \<lparr>st_name = ''database_client_key_path'', st_env = ''KLD_DATABASE_CLIENT_KEY_PATH'', st_default = Some '''', st_delimiter = None\<rparr>,
      \<lparr>st_name = ''probe_interval'', st_env = ''KLD_PROBE_INTERVAL'', st_default = Some ''0'', st_delimiter = None\<rparr>,
      \<lparr>st_name = ''probe_amt_msat'', st_env = ''KLD_PROBE_AMT_MSAT'', st_default = Some ''0'', st_delimiter = None\<rparr>,
      \<lparr>st_name = ''probe_targets'', st_env = ''KLD_PROBE_TARGETS'', st_default = None, st_delimiter = Some (CHR '','')\<rparr>,
      \<lparr>st_name = ''shutdown_graceful_sec'', st_env = ''KLD_SHUTDOWN_GRACEFUL_SEC'', st_default = Some ''5'', st_delimiter = None\<rparr>]"


text \<open>The name of an option on the command line has dashes.\<close>

definition option_name :: "setting \<Rightarrow> string" where
  "option_name s = ''--'' @ map (\<lambda>c. if c = CHR ''_'' then CHR ''-'' else c) (st_name s)"

text \<open>The texts of a value: \<open>args\<close> is the value that follows an option on the command line.\<close>

definition option_values :: "(string \<Rightarrow> string option) \<Rightarrow> (string \<Rightarrow> string option) \<Rightarrow> setting \<Rightarrow> string list" where
  "option_values args env s =
     (case (case args (option_name s) of Some v \<Rightarrow> Some v | None \<Rightarrow>
        (case env (st_env s) of Some v \<Rightarrow> Some v | None \<Rightarrow> st_default s)) of
        None \<Rightarrow> []
      | Some v \<Rightarrow> (case st_delimiter s of None \<Rightarrow> [v] | Some d \<Rightarrow> split_char d v))"

definition find_option :: "string \<Rightarrow> setting option" where
  "find_option name = List.find (\<lambda>s. st_name s = name) kld_options"

definition values_of :: "(string \<Rightarrow> string option) \<Rightarrow> (string \<Rightarrow> string option) \<Rightarrow> string \<Rightarrow> string list" where
  "values_of args env name = (case find_option name of Some s \<Rightarrow> option_values args env s | None \<Rightarrow> [])"

definition value_of :: "(string \<Rightarrow> string option) \<Rightarrow> (string \<Rightarrow> string option) \<Rightarrow> string \<Rightarrow> string" where
  "value_of args env name = (case values_of args env name of v # _ \<Rightarrow> v | [] \<Rightarrow> [])"

section \<open>The settings\<close>

record settings =
  se_bitcoind_rpc_host :: string
  se_bitcoind_rpc_port :: u16
  se_bitcoin_network :: network
  se_bitcoin_cookie_path :: string
  se_data_dir :: string
  se_certs_dir :: string
  se_mnemonic_path :: string
  se_node_id :: string
  se_wallet_name :: string
  se_log_level :: string
  se_env :: string
  se_peer_port :: u16
  se_node_alias :: string
  se_node_alias_color :: string
  se_public_addresses :: "socket_address list"
  se_exporter_address :: string
  se_rest_api_address :: string
  se_electrs_url :: string
  se_database_host :: string
  se_database_port :: u16
  se_database_user :: string
  se_database_name :: string
  se_database_ca_cert_path :: string
  se_database_client_cert_path :: string
  se_database_client_key_path :: string
  se_probe_interval :: u64
  se_probe_amt_msat :: u64
  se_probe_targets :: "pubkey list"
  se_shutdown_graceful_sec :: u64


text \<open>Parsers of values; a value that cannot be parsed ends the program with an error.\<close>

record value_parsers =
  vp_network :: "string \<Rightarrow> network option"
  vp_socket_address :: "string \<Rightarrow> socket_address option"
  vp_public_key :: "string \<Rightarrow> pubkey option"

definition parse_setting :: "(string \<Rightarrow> 'a option) \<Rightarrow> string \<Rightarrow> 'a outcome" where
  "parse_setting parse v = ok_or (Msg (''invalid value '' @ v)) (parse v)"

definition parse_u16 :: "string \<Rightarrow> u16 option" where
  "parse_u16 s = map_option of_nat (parse_uint 16 s)"

definition settings_parse ::
  "value_parsers \<Rightarrow> (string \<Rightarrow> string option) \<Rightarrow> (string \<Rightarrow> string option) \<Rightarrow> settings outcome" where
  "settings_parse vp args env =
     (let v = value_of args env
      in bind_outcome (parse_setting parse_u16 (v ''bitcoind_rpc_port'')) (\<lambda>rpc_port.
         bind_outcome (parse_setting (vp_network vp) (v ''bitcoin_network'')) (\<lambda>net.
         bind_outcome (parse_setting parse_u16 (v ''peer_port'')) (\<lambda>peer.
         bind_outcome (collect (socket_address_from_str (vp_socket_address vp)) (values_of args env ''public_addresses'')) (\<lambda>addresses.
         bind_outcome (parse_setting parse_u16 (v ''database_port'')) (\<lambda>db_port.
         bind_outcome (parse_setting parse_u64 (v ''probe_interval'')) (\<lambda>interval.
         bind_outcome (parse_setting parse_u64 (v ''probe_amt_msat'')) (\<lambda>probe_amt.
         bind_outcome (collect (parse_setting (vp_public_key vp)) (values_of args env ''probe_targets'')) (\<lambda>targets.
         bind_outcome (parse_setting parse_u64 (v ''shutdown_graceful_sec'')) (\<lambda>graceful.
         Ok \<lparr>se_bitcoind_rpc_host = v ''bitcoind_rpc_host'',
            se_bitcoind_rpc_port = rpc_port,
            se_bitcoin_network = net,
            se_bitcoin_cookie_path = v ''bitcoin_cookie_path'',
            se_data_dir = v ''data_dir'',
            se_certs_dir = v ''certs_dir'',
            se_mnemonic_path = v ''mnemonic_path'',
            se_node_id = v ''node_id'',
            se_wallet_name = v ''wallet_name'',
            se_log_level = v ''log_level'',
            se_env = v ''env'',
            se_peer_port = peer,
            se_node_alias = v ''node_alias'',
            se_node_alias_color = v ''node_alias_color'',
            se_public_addresses = addresses,
            se_exporter_address = v ''exporter_address'',
            se_rest_api_address = v ''rest_api_address'',
            se_electrs_url = v ''electrs_url'',
            se_database_host = v ''database_host'',
            se_database_port = db_port,
            se_database_user = v ''database_user'',
            se_database_name = v ''database_name'',
            se_database_ca_cert_path = v ''database_ca_cert_path'',
            se_database_client_cert_path = v ''database_client_cert_path'',
            se_database_client_key_path = v ''database_client_key_path'',
            se_probe_interval = interval,
            se_probe_amt_msat = probe_amt,
            se_probe_targets = targets,
            se_shutdown_graceful_sec = graceful\<rparr>))))))))))"


text \<open>\<open>Settings::default\<close> parses an empty command line, so the variables count there, too.\<close>

definition settings_default :: "value_parsers \<Rightarrow> (string \<Rightarrow> string option) \<Rightarrow> settings outcome" where
  "settings_default vp env = settings_parse vp (\<lambda>_. None) env"

section \<open>What is made of them\<close>

definition bitcoind_settings_of :: "settings \<Rightarrow> bitcoind_settings" where
  "bitcoind_settings_of se =
     \<lparr>bs_cookie_path = se_bitcoin_cookie_path se, bs_rpc_host = se_bitcoind_rpc_host se,
      bs_rpc_port = se_bitcoind_rpc_port se, bs_network = se_bitcoin_network se\<rparr>"

definition log_safe_params :: "settings \<Rightarrow> string" where
  "log_safe_params se =
     ''host='' @ se_database_host se @ '' port='' @ nat_to_string (unat (se_database_port se)) @
     '' user='' @ se_database_user se @ '' dbname='' @ se_database_name se"

text \<open>\<open>create_connection\<close>: whether the three files can be used, and the number of the connection that the client
  library makes, if it does. Only the file of the authority gives an error.\<close>

definition create_connection :: "(string \<Rightarrow> bool) \<Rightarrow> (string \<Rightarrow> nat option) \<Rightarrow> settings \<Rightarrow> nat outcome" where
  "create_connection file_ok connect se =
     (if \<not> file_ok (se_database_ca_cert_path se) then Err (Msg ''ca file'')
      else if \<not> file_ok (se_database_client_cert_path se) \<or> \<not> file_ok (se_database_client_key_path se) then Panic
      else ok_or (Msg (''Cannot connect to database ('' @ log_safe_params se @ '')'')) (connect (log_safe_params se)))"

section \<open>What the settings promise\<close>

lemma option_names_distinct: "distinct (map option_name kld_options)"
  by code_simp

lemma option_envs_distinct: "distinct (map st_env kld_options)"
  by code_simp

lemma option_keys: "keys_distinct st_name kld_options"
  unfolding keys_distinct_def by code_simp

lemma find_own_option: "s \<in> set kld_options \<Longrightarrow> find_option (st_name s) = Some s"
  using tbl_find_distinct [OF option_keys] by (simp add: find_option_def tbl_find_def)

lemma setting_value:
  assumes "s \<in> set kld_options" and "st_delimiter s = None"
  shows "value_of args env (st_name s) = (case args (option_name s) of Some v \<Rightarrow> v | None \<Rightarrow>
    (case env (st_env s) of Some v \<Rightarrow> v | None \<Rightarrow> (case st_default s of Some v \<Rightarrow> v | None \<Rightarrow> [])))"
  using assms(2) by (simp add: value_of_def values_of_def find_own_option [OF assms(1)] option_values_def split: option.splits)

text \<open>A node that is started without options and variables.\<close>

lemma default_settings:
  assumes "vp_network vp ''regtest'' = Some Regtest"
  shows "\<exists>se. settings_default vp Map.empty = Ok se \<and> se_bitcoin_network se = Regtest \<and> se_public_addresses se = [] \<and>
    se_rest_api_address se = ''127.0.0.1:2244'' \<and> se_probe_interval se = 0 \<and> se_shutdown_graceful_sec se = 5 \<and>
    bitcoind_settings_of se = \<lparr>bs_cookie_path = ''/var/lib/bitcoind-testnet/.cookie'', bs_rpc_host = ''localhost'',
      bs_rpc_port = 8333, bs_network = Regtest\<rparr> \<and>
    log_safe_params se = ''host=127.0.0.1 port=10000 user=root dbname=defaultdb''"
proof -
  have nums: "parse_u16 ''8333'' = Some 8333" "parse_u16 ''9234'' = Some 9234" "parse_u16 ''10000'' = Some 10000"
      "parse_u64 ''0'' = Some 0" "parse_u64 ''5'' = Some 5"
    by (simp_all add: parse_u16_def parse_u64_def parse_uint_def char_digit_def)
  have port: "nat_to_string 10000 = ''10000''" by (simp add: nat_to_string_def dec_digits.simps digit_char_def char_of_def bit_0)
  have lists: "values_of (\<lambda>_. None) Map.empty ''public_addresses'' = []" "values_of (\<lambda>_. None) Map.empty ''probe_targets'' = []"
    by (simp_all add: values_of_def find_option_def kld_options_def option_values_def)
  show ?thesis
    by (simp add: settings_default_def settings_parse_def lists value_of_def values_of_def find_option_def kld_options_def
        option_values_def parse_setting_def ok_or_def assms nums Let_def
        bitcoind_settings_of_def log_safe_params_def port)
qed

end
