(* ===== verification/Api_Responses.thy ===== *)
theory Api_Responses
  imports Api_Channels Channel_Persistence Macaroon_Auth Complex_Main
begin

text \<open>
  What a client of the API gets (\<^verbatim>\<open>api/mod.rs\<close>): the way of a request through the layers to a handler,
  and errors as responses.  Besides, the optional parameters of a query, the files of the TLS configuration, and
  the estimates of the fees of transactions (\<open>fee_rates\<close> of \<^verbatim>\<open>api/network.rs\<close>), which are floating point
  numbers: the rounding of a product or quotient to a single is an argument.
\<close>

section \<open>Errors as responses\<close>

datatype http_error = Unauthorized | ErrorOf api_error

text \<open>The code and the text of a status, and the body that names the status again.\<close>

record error_body =
  eb_status :: string
  eb_detail :: string

datatype 'a http_reply = Reply nat 'a | ErrorReply nat error_body | FrameworkReply | NoReply

definition status_text :: "nat \<Rightarrow> string" where
  "status_text code =
     (if code = 401 then ''401 Unauthorized'' else if code = 404 then ''404 Not Found''
      else if code = 400 then ''400 Bad Request'' else ''500 Internal Server Error'')"

text \<open>A body of two texts can always be serialised.\<close>

definition build_api_error :: "nat \<Rightarrow> string \<Rightarrow> 'a http_reply" where
  "build_api_error code detail = ErrorReply code \<lparr>eb_status = status_text code, eb_detail = detail\<rparr>"

text \<open>\<open>etext\<close> is the text of an error.\<close>

fun into_response :: "(kld_error \<Rightarrow> string) \<Rightarrow> http_error \<Rightarrow> 'a http_reply" where
  "into_response etext Unauthorized = build_api_error 401 ''Failed to verify macaroon''"
| "into_response etext (ErrorOf (NotFound s)) = build_api_error 404 s"
| "into_response etext (ErrorOf (BadRequest e)) = build_api_error 400 (etext e)"
| "into_response etext (ErrorOf (InternalServer e)) = build_api_error 500 (etext e)"
| "into_response etext (ErrorOf HandlerPanic) = NoReply"

definition handler_404 :: "(kld_error \<Rightarrow> string) \<Rightarrow> 'a http_reply" where
  "handler_404 etext = into_response etext (ErrorOf (NotFound ''No such method''))"

definition root_handler :: "unit response" where
  "root_handler = Inr ()"

text \<open>The routers of \<open>serve\<close>: the layer of the route refuses a request or passes it to the handler, and the
  fallback answers a path without a route. \<open>handler\<close> is the handler of the route. A path with a method that
  it does not have is answered by the framework.\<close>

definition known_path :: "string \<Rightarrow> bool" where
  "known_path path \<longleftrightarrow> path \<in> snd ` set (readonly_routes @ admin_routes)"

definition serve_request ::
  "(kld_error \<Rightarrow> string) \<Rightarrow> ('k, 'm) macaroon_lib \<Rightarrow> 'k \<Rightarrow> 'm outcome \<Rightarrow> http_method \<times> string \<Rightarrow> 'a response \<Rightarrow> 'a http_reply" where
  "serve_request etext lib key macaroon route handler =
     (case request_allowed lib key macaroon route of
        Ok True \<Rightarrow> (case handler of Inr x \<Rightarrow> Reply 200 x | Inl e \<Rightarrow> into_response etext (ErrorOf e))
      | Ok False \<Rightarrow> if known_path (snd route) then FrameworkReply else handler_404 etext
      | Err e \<Rightarrow> into_response etext Unauthorized
      | Panic \<Rightarrow> NoReply)"

section \<open>Parameters and files\<close>

text \<open>\<open>empty_string_as_none\<close>: a parameter that is missing or empty counts as none.\<close>

definition empty_string_as_none :: "(string \<Rightarrow> 'a outcome) \<Rightarrow> string option \<Rightarrow> 'a option outcome" where
  "empty_string_as_none from_str v =
     (case v of None \<Rightarrow> Ok None | Some s \<Rightarrow> if s = [] then Ok None else bind_outcome (from_str s) (\<lambda>x. Ok (Some x)))"

definition tls_files :: "string \<Rightarrow> string \<times> string" where
  "tls_files certs_dir = (certs_dir @ ''/kld.crt'', certs_dir @ ''/kld.key'')"

definition tls_config :: "(string \<Rightarrow> string \<Rightarrow> 'c option) \<Rightarrow> string \<Rightarrow> 'c outcome" where
  "tls_config from_pem certs_dir =
     (case tls_files certs_dir of (cert, key) \<Rightarrow>
        ok_or (Msg (''failed to load certificates ('' @ cert @ '') and private key ('' @ key @ '')'')) (from_pem cert key))"

definition bind_api_server :: "(string \<Rightarrow> string \<Rightarrow> 'c option) \<Rightarrow> (string \<Rightarrow> 'a option) \<Rightarrow> string \<Rightarrow> string \<Rightarrow> ('a \<times> 'c) outcome" where
  "bind_api_server from_pem parse listen_address certs_dir =
     (case tls_config from_pem certs_dir of
        Ok c \<Rightarrow> bind_outcome (ok_or (Msg ''invalid socket address syntax'') (parse listen_address)) (\<lambda>a. Ok (a, c))
      | Err e \<Rightarrow> Err (Msg ''failed to load tls configuration'')
      | Panic \<Rightarrow> Panic)"

section \<open>Estimates of fees\<close>

text \<open>\<open>as u32\<close> of a float: toward zero, and to the nearest bound out of the range.\<close>

definition f32_as_u32 :: "real \<Rightarrow> u32" where
  "f32_as_u32 x = (if x < 0 then 0 else if 2 ^ 32 \<le> x then - 1 else word_of_int \<lfloor>x\<rfloor>)"

definition CHANNEL_OPEN_VB :: nat where "CHANNEL_OPEN_VB = 152"

definition MUTUAL_CLOSE_VB :: nat where "MUTUAL_CLOSE_VB = 130"

definition UNILATERAL_CLOSE_VB :: nat where "UNILATERAL_CLOSE_VB = 150"

record fee_estimates =
  fe_opening_channel_satoshis :: u32
  fe_mutual_close_satoshis :: u32
  fe_unilateral_close_satoshis :: u32

definition onchain_fee :: "(real \<Rightarrow> real) \<Rightarrow> u32 \<Rightarrow> nat \<Rightarrow> u32" where
  "onchain_fee rnd normal vb = f32_as_u32 (rnd (rnd (rnd (rnd (of_nat (unat normal)) / 1000) * of_nat vb) * 4))"

definition onchain_fee_estimates :: "(real \<Rightarrow> real) \<Rightarrow> u32 \<Rightarrow> fee_estimates" where
  "onchain_fee_estimates rnd normal =
     \<lparr>fe_opening_channel_satoshis = onchain_fee rnd normal CHANNEL_OPEN_VB,
      fe_mutual_close_satoshis = onchain_fee rnd normal MUTUAL_CLOSE_VB,
      fe_unilateral_close_satoshis = onchain_fee rnd normal UNILATERAL_CLOSE_VB\<rparr>"

section \<open>The scorer\<close>

text \<open>\<open>score\<close> of \<^verbatim>\<open>api/utility.rs\<close>: the bytes of the stored scorer, which other nodes can load.\<close>

definition api_score :: "ldk_database \<Rightarrow> bytes response" where
  "api_score db = internal_server (fetch_scorer_binary db)"

text \<open>The route gives what LDK last handed over, whenever the table holds at most its own row.\<close>

lemma at_most_one_row:
  assumes "keys_distinct key rows" and "\<forall>r \<in> set rows. key r = k"
  shows "rows = [] \<or> (\<exists>r. rows = [r] \<and> key r = k)"
proof (cases rows)
  case (Cons r rs)
  then have "rs = []" using assms by (cases rs) (simp_all add: keys_distinct_def)
  with Cons assms(2) show ?thesis by simp
qed simp

lemma score_after_store:
  assumes "keys_distinct sr_id (t_scorer db)" and "\<forall>r \<in> set (t_scorer db). sr_id r = ''scorer''" and "\<not> db_closed db"
  shows "api_score (fst (run_task op_write now (StoreScorer buf) (db, a))) = Inr buf"
proof -
  have one: "t_scorer db = [] \<or> (\<exists>r. t_scorer db = [r] \<and> sr_id r = ''scorer'')"
    by (rule at_most_one_row [OF assms(1, 2)])
  let ?row = "\<lparr>sr_id = ''scorer'', sr_scorer = buf, sr_timestamp = now\<rparr>"
  have rows: "tbl_upsert sr_id ''scorer'' (\<lambda>_. ?row) ?row (t_scorer db) = [?row]"
    using one by (elim disjE exE conjE) (simp_all only: tbl_upsert_def list.set image_insert image_empty insert_iff empty_iff list.map if_True if_False simp_thms append_Nil)
  show ?thesis
    unfolding api_score_def fetch_scorer_binary_def run_task.simps rows Let_def
    by (simp add: assms(3) query_one_def on_conn_def)
qed

section \<open>What a client can rely on\<close>

text \<open>Who does not show a macaroon for the route gets the same answer, whatever the handler would have done; and
  no other answer has the code of a failed verification.\<close>

theorem refused_request:
  "(\<exists>e. request_allowed lib key macaroon route = Err e) \<longleftrightarrow>
     (\<exists>body. serve_request etext lib key macaroon route handler = ErrorReply 401 body)"
proof -
  have "into_response etext (ErrorOf e) \<noteq> ErrorReply 401 body" for e and body and etext
    by (cases e) (simp_all add: build_api_error_def)
  then show ?thesis
    by (auto simp: serve_request_def handler_404_def build_api_error_def split: outcome.splits bool.splits sum.splits)
qed

lemma refused_alike:
  "request_allowed lib key macaroon route = Err e \<Longrightarrow>
   serve_request etext lib key macaroon route handler = serve_request etext lib key macaroon route other"
  by (simp add: serve_request_def)

text \<open>A route of the API answers with success exactly what its handler returns, once the macaroon is verified.\<close>

lemma served_request:
  "serve_request etext lib key macaroon route handler = Reply code x \<longleftrightarrow>
     code = 200 \<and> request_allowed lib key macaroon route = Ok True \<and> handler = Inr x"
proof -
  have "into_response etext e \<noteq> Reply code x" for e and etext
    by (cases "(etext, e)" rule: into_response.cases) (simp_all add: build_api_error_def)
  then show ?thesis
    by (auto simp: serve_request_def handler_404_def split: outcome.splits bool.splits sum.splits simp del: into_response.simps)
qed

lemma every_route_has_a_layer:
  "route_layer route = None \<longleftrightarrow> route \<notin> set readonly_routes \<union> set admin_routes"
  by (simp add: route_layer_def)

text \<open>Without rounding, an estimate is the fee of the transaction at the rate, never above the largest number and
  never below the exact fee by a satoshi or more unless it is that number.\<close>

lemma uint_f32_as_u32:
  assumes "0 \<le> y" and "y < 2 ^ 32"
  shows "uint (f32_as_u32 y) = \<lfloor>y\<rfloor>"
proof -
  have "0 \<le> \<lfloor>y\<rfloor>" "\<lfloor>y\<rfloor> < 2 ^ 32" using assms by (simp_all add: floor_less_iff)
  then have "uint (word_of_int \<lfloor>y\<rfloor> :: u32) = \<lfloor>y\<rfloor>" by (simp add: unsigned_of_int take_bit_int_eq_self)
  then show ?thesis using assms by (simp add: f32_as_u32_def)
qed

lemma onchain_fee_exact:
  assumes "unat normal * vb * 4 < 1000 * 2 ^ 32"
  shows "uint (onchain_fee (\<lambda>x. x) normal vb) = int (unat normal * vb * 4 div 1000)"
proof -
  define n where "n = unat normal * vb * 4"
  have fee: "onchain_fee (\<lambda>x. x) normal vb = f32_as_u32 (of_nat n / of_nat 1000)" by (simp add: onchain_fee_def n_def)
  have "(of_nat n :: real) < of_nat (1000 * 2 ^ 32)" using assms unfolding n_def by (simp only: of_nat_less_iff)
  then have "(of_nat n / of_nat 1000 :: real) < 2 ^ 32" by (simp add: divide_less_eq)
  then have "uint (onchain_fee (\<lambda>x. x) normal vb) = \<lfloor>of_nat n / of_nat 1000 :: real\<rfloor>"
    unfolding fee by (intro uint_f32_as_u32) simp_all
  also have "\<dots> = int (n div 1000)" by (rule floor_divide_of_nat_eq)
  finally show ?thesis by (simp add: n_def)
qed

end
