(* ===== verification/Tui_Terminal.thy ===== *)
theory Tui_Terminal
  imports Tui_App Seeds Complex_Main
begin

text \<open>
  The terminal of the interface (\<^verbatim>\<open>tui/src/tui.rs\<close>): the task that turns what the terminal reports into
  events, the end of this task, and the modes of the terminal from \<open>enter\<close> to \<open>exit\<close>, \<open>suspend\<close> and \<open>drop\<close>.
  Besides, what the program reads and sets up before the interface starts (\<^verbatim>\<open>tui/src/main.rs\<close>,
  \<^verbatim>\<open>tui/src/utils.rs\<close>, \<open>ConnectionAuth::new\<close> of \<^verbatim>\<open>tui/src/app.rs\<close>), and the component that counts ticks and
  frames (\<^verbatim>\<open>components/debug.rs\<close>).  The terminal library is the effect of its commands on the modes, and
  whether a command fails is an argument.
\<close>

section \<open>Events\<close>

datatype crossterm_event = CtKey key_event | CtMouse | CtResize u16 u16 | CtFocusLost | CtFocusGained | CtPaste string

datatype terminal_event =
    TeInit | TeQuit | TeError | TeClosed | TeTick | TeRender | TeFocusGained | TeFocusLost | TePaste string
  | TeKey key_event | TeMouse | TeResize u16 u16

text \<open>Which future of \<open>select!\<close> is ready; the stream of the terminal gives an event, an error, or its end.\<close>

datatype ready = Cancelled | FromStream "crossterm_event outcome option" | TickDue | RenderDue

fun crossterm_events :: "crossterm_event \<Rightarrow> terminal_event list" where
  "crossterm_events (CtKey k) = (if ke_kind k = KeyPress then [TeKey k] else [])"
| "crossterm_events CtMouse = [TeMouse]"
| "crossterm_events (CtResize x y) = [TeResize x y]"
| "crossterm_events CtFocusLost = [TeFocusLost]"
| "crossterm_events CtFocusGained = [TeFocusGained]"
| "crossterm_events (CtPaste s) = [TePaste s]"

text \<open>What a turn sends, or \<open>None\<close> where the loop is left.\<close>

fun task_turn :: "ready \<Rightarrow> terminal_event list option" where
  "task_turn Cancelled = None"
| "task_turn (FromStream (Some (Ok e))) = Some (crossterm_events e)"
| "task_turn (FromStream (Some (Err e))) = Some [TeError]"
| "task_turn (FromStream (Some Panic)) = None"
| "task_turn (FromStream None) = Some []"
| "task_turn TickDue = Some [TeTick]"
| "task_turn RenderDue = Some [TeRender]"

fun task_loop :: "ready list \<Rightarrow> terminal_event list" where
  "task_loop [] = []"
| "task_loop (r # rs) = (case task_turn r of None \<Rightarrow> [] | Some es \<Rightarrow> es @ task_loop rs)"

definition event_task :: "ready list \<Rightarrow> terminal_event list" where
  "event_task rs = TeInit # task_loop rs"

text \<open>The events that the loop of the interface tells apart.\<close>

fun event_of :: "terminal_event \<Rightarrow> tui_event" where
  "event_of TeQuit = EvQuit"
| "event_of TeTick = EvTick"
| "event_of TeRender = EvRender"
| "event_of (TeResize x y) = EvResize x y"
| "event_of (TeKey k) = EvKey k"
| "event_of _ = EvOther"

text \<open>\<open>Component::handle_events\<close>, which no component replaces: keys and mouse events go to handlers, of which the
  given ones return no action.\<close>

definition component_handle_events ::
  "(key_event \<Rightarrow> tui_action option outcome) \<Rightarrow> tui_action option outcome \<Rightarrow> terminal_event option \<Rightarrow> tui_action option outcome" where
  "component_handle_events on_keys on_mouse e =
     (case e of Some (TeKey k) \<Rightarrow> on_keys k | Some TeMouse \<Rightarrow> on_mouse | _ \<Rightarrow> Ok None)"

definition default_handle_events :: "terminal_event option \<Rightarrow> tui_action option outcome" where
  "default_handle_events = component_handle_events (\<lambda>k. Ok None) (Ok None)"

section \<open>The end of the task\<close>

text \<open>\<open>stop\<close> cancels the task and polls it, a millisecond apart: \<open>finished c a\<close> is whether the task is finished after
  \<open>c\<close> milliseconds and \<open>a\<close> calls of \<open>abort\<close>.\<close>

datatype stop_result = TaskFinished nat nat | GaveUp nat nat

function stop_loop :: "(nat \<Rightarrow> nat \<Rightarrow> bool) \<Rightarrow> nat \<Rightarrow> nat \<Rightarrow> stop_result" where
  "stop_loop finished c a =
     (if finished c a then TaskFinished c a
      else let c' = c + 1; a' = (if 50 < c' then a + 1 else a)
        in if 100 < c' then GaveUp c' a' else stop_loop finished c' a')"
  by pat_completeness auto
termination
  by (relation "measure (\<lambda>(finished, c, a). 101 - c)") auto

declare stop_loop.simps [simp del]

definition tui_stop :: "(nat \<Rightarrow> nat \<Rightarrow> bool) \<Rightarrow> stop_result" where
  "tui_stop finished = stop_loop finished 0 0"

section \<open>Modes of the terminal\<close>

record terminal =
  tm_raw :: bool
  tm_alternate :: bool
  tm_cursor_hidden :: bool
  tm_mouse :: bool
  tm_paste :: bool

datatype term_command =
    EnableRawMode | DisableRawMode | EnterAlternateScreen | LeaveAlternateScreen | HideCursor | ShowCursor
  | EnableMouseCapture | DisableMouseCapture | EnableBracketedPaste | DisableBracketedPaste | FlushTerminal

fun term_effect :: "term_command \<Rightarrow> terminal \<Rightarrow> terminal" where
  "term_effect EnableRawMode t = t\<lparr>tm_raw := True\<rparr>"
| "term_effect DisableRawMode t = t\<lparr>tm_raw := False\<rparr>"
| "term_effect EnterAlternateScreen t = t\<lparr>tm_alternate := True\<rparr>"
| "term_effect LeaveAlternateScreen t = t\<lparr>tm_alternate := False\<rparr>"
| "term_effect HideCursor t = t\<lparr>tm_cursor_hidden := True\<rparr>"
| "term_effect ShowCursor t = t\<lparr>tm_cursor_hidden := False\<rparr>"
| "term_effect EnableMouseCapture t = t\<lparr>tm_mouse := True\<rparr>"
| "term_effect DisableMouseCapture t = t\<lparr>tm_mouse := False\<rparr>"
| "term_effect EnableBracketedPaste t = t\<lparr>tm_paste := True\<rparr>"
| "term_effect DisableBracketedPaste t = t\<lparr>tm_paste := False\<rparr>"
| "term_effect FlushTerminal t = t"

text \<open>Commands one after the other, up to the first that fails.\<close>

fun term_all :: "(term_command \<Rightarrow> unit outcome) \<Rightarrow> term_command list \<Rightarrow> terminal \<Rightarrow> terminal \<times> unit outcome" where
  "term_all io [] t = (t, Ok ())"
| "term_all io (c # cs) t = (case io c of Ok _ \<Rightarrow> term_all io cs (term_effect c t) | r \<Rightarrow> (t, r))"

text \<open>The fields of \<open>Tui\<close>; the constructor takes the tick rate first.\<close>

record tui =
  tu_frame_rate :: real
  tu_tick_rate :: real
  tu_mouse :: bool
  tu_paste :: bool

definition tui_new :: "real option \<Rightarrow> real option \<Rightarrow> tui" where
  "tui_new tick_rate frame_rate =
     \<lparr>tu_frame_rate = (case tick_rate of Some r \<Rightarrow> r | None \<Rightarrow> 4), tu_tick_rate = (case frame_rate of Some r \<Rightarrow> r | None \<Rightarrow> 60),
      tu_mouse = False, tu_paste = False\<rparr>"

text \<open>\<open>start\<close>: the delays of ticks and frames. \<open>from_secs_f64\<close> panics on a delay that is negative, infinite or too
  long; its rounding to nanoseconds is left out.\<close>

definition delay_of :: "real \<Rightarrow> real outcome" where
  "delay_of rate = (if rate \<le> 0 \<or> 2 ^ 64 \<le> 1 / rate then Panic else Ok (1 / rate))"

definition tui_start :: "tui \<Rightarrow> (real \<times> real) outcome" where
  "tui_start u =
     bind_outcome (delay_of (tu_tick_rate u)) (\<lambda>tick.
     bind_outcome (delay_of (tu_frame_rate u)) (\<lambda>frame. Ok (tick, frame)))"

text \<open>\<open>enter\<close>; the task is started when all commands have worked.\<close>

definition tui_enter :: "(term_command \<Rightarrow> unit outcome) \<Rightarrow> tui \<Rightarrow> terminal \<Rightarrow> terminal \<times> unit outcome" where
  "tui_enter io u t =
     (case term_all io ([EnableRawMode, EnterAlternateScreen, HideCursor] @
       (if tu_mouse u then [EnableMouseCapture] else []) @ (if tu_paste u then [EnableBracketedPaste] else [])) t of
        (t', Ok _) \<Rightarrow> (t', bind_outcome (tui_start u) (\<lambda>_. Ok ()))
      | r \<Rightarrow> r)"

text \<open>\<open>exit\<close>, after \<open>stop\<close>, whose result is always well; \<open>raw\<close> is the answer to the question for the raw mode, which can
  fail.\<close>

definition tui_exit :: "(term_command \<Rightarrow> unit outcome) \<Rightarrow> (bool \<Rightarrow> bool outcome) \<Rightarrow> tui \<Rightarrow> terminal \<Rightarrow> terminal \<times> unit outcome" where
  "tui_exit io raw u t =
     (case raw (tm_raw t) of
        Ok b \<Rightarrow>
          if b then term_all io ([FlushTerminal] @ (if tu_paste u then [DisableBracketedPaste] else []) @
            (if tu_mouse u then [DisableMouseCapture] else []) @ [LeaveAlternateScreen, ShowCursor, DisableRawMode]) t
          else (t, Ok ())
      | Err e \<Rightarrow> (t, Err e)
      | Panic \<Rightarrow> (t, Panic))"

text \<open>\<open>Drop\<close> unwraps the result of \<open>exit\<close>.\<close>

definition tui_drop :: "(term_command \<Rightarrow> unit outcome) \<Rightarrow> (bool \<Rightarrow> bool outcome) \<Rightarrow> tui \<Rightarrow> terminal \<Rightarrow> terminal \<times> unit outcome" where
  "tui_drop io raw u t =
     (case tui_exit io raw u t of (t', Ok _) \<Rightarrow> (t', Ok ()) | (t', _) \<Rightarrow> (t', Panic))"

text \<open>\<open>suspend\<close>: the signal is raised when the terminal has been left.\<close>

definition tui_suspend ::
  "(term_command \<Rightarrow> unit outcome) \<Rightarrow> (bool \<Rightarrow> bool outcome) \<Rightarrow> unit outcome \<Rightarrow> tui \<Rightarrow> terminal \<Rightarrow> terminal \<times> unit outcome" where
  "tui_suspend io raw raise_stop u t =
     (case tui_exit io raw u t of (t', Ok _) \<Rightarrow> (t', raise_stop) | (t', r) \<Rightarrow> (t', r))"

text \<open>A suspension in the loop of \<open>App::run\<close>: the rates are read from the old \<open>Tui\<close> for the new one.\<close>

definition tui_resume :: "tui \<Rightarrow> tui" where
  "tui_resume u = tui_new (Some (tu_tick_rate u)) (Some (tu_frame_rate u))"

section \<open>Before the interface starts\<close>

text \<open>\<open>ConnectionAuth::new\<close>.\<close>

record connection_auth =
  au_url :: string
  au_pem :: string
  au_macaroon :: string

definition connection_auth_new :: "seed_fs \<Rightarrow> string \<Rightarrow> string \<Rightarrow> connection_auth outcome" where
  "connection_auth_new fs secrets url =
     (let pem_path = path_join (path_join secrets ''lightning'') ''ca.pem'';
          macaroon_path = path_join secrets ''admin.macaroon''
      in if \<not> path_exists fs pem_path then
           Err (Msg ''Could not find pem under secrets, please provide a correct one with `--secrets`'')
         else bind_outcome (ok_or (Msg ''Could not read pem'') (read_file fs pem_path)) (\<lambda>pem.
           if \<not> path_exists fs macaroon_path then
             Err (Msg ''Could not find macaroon under secrets, please provide a correct one with `--secrets`'')
           else bind_outcome (ok_or (Msg ''Could not read macaroon'') (read_file fs macaroon_path)) (\<lambda>macaroon.
             Ok \<lparr>au_url = url, au_pem = pem, au_macaroon = macaroon\<rparr>)))"

text \<open>\<open>get\<close> and \<open>post\<close> of \<^verbatim>\<open>query.rs\<close>, run in a thread of its own: the request, which needs a certificate that can be
  read and an address that the route can be joined to, and the text of its answer. \<open>http\<close> sends it; it panics where
  the body of the answer cannot be read.\<close>

record tui_request =
  tq_method :: http_method
  tq_url :: string
  tq_headers :: "(string \<times> string) list"
  tq_body :: "string option"

definition query_request ::
  "(string \<Rightarrow> bool) \<Rightarrow> (string \<Rightarrow> string \<Rightarrow> string option) \<Rightarrow> connection_auth \<Rightarrow> query_thread \<Rightarrow> tui_request outcome" where
  "query_request is_pem url_join auth t =
     (if \<not> is_pem (au_pem auth) then Panic
      else case url_join (au_url auth) (qt_uri t) of
        None \<Rightarrow> Panic
      | Some target \<Rightarrow>
          Ok (if qt_post t
              then \<lparr>tq_method = POST, tq_url = target,
                    tq_headers = [(''Macaroon'', au_macaroon auth), (''Content-Type'', ''application/json'')],
                    tq_body = Some (qt_input t)\<rparr>
              else \<lparr>tq_method = GET, tq_url = target, tq_headers = [(''Macaroon'', au_macaroon auth)], tq_body = None\<rparr>))"

definition query_answer ::
  "(string \<Rightarrow> bool) \<Rightarrow> (string \<Rightarrow> string \<Rightarrow> string option) \<Rightarrow> (tui_request \<Rightarrow> http_result outcome) \<Rightarrow> connection_auth \<Rightarrow>
   query_thread \<Rightarrow> string outcome" where
  "query_answer is_pem url_join http auth t =
     bind_outcome (query_request is_pem url_join auth t) (\<lambda>q. bind_outcome (http q) (\<lambda>r. Ok (query_text r)))"

text \<open>The database of the history: \<open>None\<close> is one in memory.\<close>

definition history_database :: "string option \<Rightarrow> (string \<Rightarrow> bool) \<Rightarrow> string option" where
  "history_database data is_dir =
     map_option (\<lambda>d. if is_dir d then path_join d ''lightning-tui.db'' else d) data"

text \<open>Whether \<open>main\<close> asks for a log, the file that \<open>app\<close> chooses, and what \<open>initialize_logging\<close> makes of it: the
  directory that it creates first, the file, and the value of \<open>RUST_LOG\<close>.\<close>

definition log_enable :: "string option \<Rightarrow> string option \<Rightarrow> bool \<Rightarrow> bool" where
  "log_enable log_file log_level flag \<longleftrightarrow> log_file \<noteq> None \<or> log_level \<noteq> None \<or> flag"

definition app_log_file :: "string option \<Rightarrow> bool \<Rightarrow> string option" where
  "app_log_file log_file enable =
     (case log_file of Some f \<Rightarrow> Some f | None \<Rightarrow> if enable then Some ''kld_tui.log'' else None)"

definition initialize_logging ::
  "(string \<Rightarrow> string option) \<Rightarrow> string option \<Rightarrow> string option \<Rightarrow> (string option \<times> string \<times> string) option" where
  "initialize_logging parent log_file log_level =
     map_option (\<lambda>f. (case parent f of Some d \<Rightarrow> if d \<noteq> [] then Some d else None | None \<Rightarrow> None, f,
       ''kld_tui='' @ (case log_level of Some l \<Rightarrow> l | None \<Rightarrow> ''info''))) log_file"

section \<open>Ticks and frames\<close>

text \<open>Times are in seconds since some point.\<close>

record debug_component =
  dg_app_start :: real
  dg_app_frames :: u32
  dg_app_fps :: real
  dg_render_start :: real
  dg_render_frames :: u32
  dg_render_fps :: real
  dg_last_action :: string

definition debug_new :: "real \<Rightarrow> debug_component" where
  "debug_new now =
     \<lparr>dg_app_start = now, dg_app_frames = 0, dg_app_fps = 0, dg_render_start = now, dg_render_frames = 0,
      dg_render_fps = 0, dg_last_action = ''Action Inspector''\<rparr>"

definition app_tick :: "real \<Rightarrow> debug_component \<Rightarrow> debug_component" where
  "app_tick now d =
     (let frames = dg_app_frames d + 1; elapsed = now - dg_app_start d
      in if 1 \<le> elapsed
         then d\<lparr>dg_app_frames := 0, dg_app_fps := of_nat (unat frames) / elapsed, dg_app_start := now\<rparr>
         else d\<lparr>dg_app_frames := frames\<rparr>)"

definition render_tick :: "real \<Rightarrow> debug_component \<Rightarrow> debug_component" where
  "render_tick now d =
     (let frames = dg_render_frames d + 1; elapsed = now - dg_render_start d
      in if 1 \<le> elapsed
         then d\<lparr>dg_render_frames := 0, dg_render_fps := of_nat (unat frames) / elapsed, dg_render_start := now\<rparr>
         else d\<lparr>dg_render_frames := frames\<rparr>)"

definition debug_update :: "(tui_action \<Rightarrow> string) \<Rightarrow> real \<Rightarrow> tui_action \<Rightarrow> debug_component \<Rightarrow> debug_component" where
  "debug_update display now a d =
     (let d1 = d\<lparr>dg_last_action := display a\<rparr>; d2 = (if a = Tick then app_tick now d1 else d1)
      in if a = Render then render_tick now d2 else d2)"

end
