(* ===== verification/Tui_Terminal_Correct.thy ===== *)
theory Tui_Terminal_Correct
  imports Tui_Terminal Tui_App_Correct Seeds_Correct Api_Responses
begin

text \<open>
  The terminal is left as it was found, the task of its events ends in bounded time and forwards every key, and
  what the interface asks the node is served, with the macaroon that the manager left among the secrets.
\<close>

section \<open>The end of the task\<close>

text \<open>After \<open>m\<close> milliseconds the loop has called \<open>abort\<close> \<open>m - 50\<close> times.\<close>

lemma stop_loop_ends:
  assumes "c \<le> 100"
  shows "case stop_loop finished c (c - 50) of
      TaskFinished n a \<Rightarrow> c \<le> n \<and> n \<le> 100 \<and> a = n - 50 \<and> finished n (n - 50) \<and> (\<forall>m. c \<le> m \<longrightarrow> m < n \<longrightarrow> \<not> finished m (m - 50))
    | GaveUp n a \<Rightarrow> n = 101 \<and> a = 51 \<and> (\<forall>m. c \<le> m \<longrightarrow> m \<le> 100 \<longrightarrow> \<not> finished m (m - 50))"
  using assms
proof (induction "101 - c" arbitrary: c rule: less_induct)
  case less
  show ?case
  proof (cases "finished c (c - 50)")
    case True
    then show ?thesis using less.prems by (simp add: stop_loop.simps)
  next
    case go_on: False
    have aborts: "(if 50 < c + 1 then c - 50 + 1 else c - 50) = c + 1 - 50" by auto
    show ?thesis
    proof (cases "c = 100")
      case True
      with go_on show ?thesis by (auto simp: stop_loop.simps le_antisym)
    next
      case False
      with less.prems have next_turn: "c + 1 \<le> 100" by simp
      then have shorter: "101 - (c + 1) < 101 - c" by simp
      have "stop_loop finished c (c - 50) = stop_loop finished (c + 1) (c + 1 - 50)"
        using go_on next_turn aborts by (subst stop_loop.simps) (simp add: Let_def)
      moreover have "(\<forall>m. c \<le> m \<longrightarrow> Q m) \<longleftrightarrow> Q c \<and> (\<forall>m. c + 1 \<le> m \<longrightarrow> Q m)" for Q
        by (metis Suc_eq_plus1 Suc_leI le_eq_less_or_eq Suc_leD)
      note from_next = this
      ultimately show ?thesis
        using less.hyps [OF shorter next_turn] go_on
        by (cases "stop_loop finished (c + 1) (c + 1 - 50)") (simp_all add: from_next Suc_leD)
    qed
  qed
qed

text \<open>Leaving the interface takes at most 101 milliseconds of waiting, whatever its task does: the task is asked once to
  end and, from the 51st millisecond on, aborted once in each; a task that ends when it is aborted is waited for no longer
  than 51 milliseconds.\<close>

theorem stop_bounded:
  "(case tui_stop finished of
      TaskFinished n a \<Rightarrow> n \<le> 100 \<and> a = n - 50 \<and> finished n a \<and> (\<forall>m < n. \<not> finished m (m - 50))
    | GaveUp n a \<Rightarrow> n = 101 \<and> a = 51 \<and> (\<forall>m \<le> 100. \<not> finished m (m - 50))) \<and>
   ((\<forall>m a. 0 < a \<longrightarrow> finished m a) \<longrightarrow> (\<exists>n \<le> 51. tui_stop finished = TaskFinished n (n - 50)))"
proof -
  have ends: "case tui_stop finished of
      TaskFinished n a \<Rightarrow> n \<le> 100 \<and> a = n - 50 \<and> finished n a \<and> (\<forall>m < n. \<not> finished m (m - 50))
    | GaveUp n a \<Rightarrow> n = 101 \<and> a = 51 \<and> (\<forall>m \<le> 100. \<not> finished m (m - 50))"
    using stop_loop_ends [of 0 finished] by (auto simp: tui_stop_def split: stop_result.splits)
  moreover have "\<exists>n \<le> 51. tui_stop finished = TaskFinished n (n - 50)" if obeys: "\<forall>m a. 0 < a \<longrightarrow> finished m a"
  proof (cases "tui_stop finished")
    case (TaskFinished n a)
    have "finished 51 (51 - 50)" using obeys by simp
    then have "n \<le> 51" using ends TaskFinished by (metis (no_types, lifting) not_le stop_result.simps(5))
    then show ?thesis using ends TaskFinished by simp
  next
    case (GaveUp n a)
    then have "\<forall>m \<le> 100. \<not> finished m (m - 50)" using ends by simp
    from spec [OF this, of 100] show ?thesis using obeys by simp
  qed
  ultimately show ?thesis by blast
qed

theorem stop_bounded_witness: "tui_stop (\<lambda>m a. 0 < a) = TaskFinished 51 1"
  using stop_bounded [of "\<lambda>m a. 0 < a"] by (cases "tui_stop (\<lambda>m a. 0 < a)") auto

section \<open>The modes of the terminal\<close>

definition cooked :: terminal where
  "cooked = \<lparr>tm_raw = False, tm_alternate = False, tm_cursor_hidden = False, tm_mouse = False, tm_paste = False\<rparr>"

text \<open>However far \<open>enter\<close> gets - each of its commands may fail, and the start of the task may panic on a rate
  of zero - dropping the \<open>Tui\<close> afterwards leaves the terminal as it was found, provided that leaving works; and dropping
  it a second time, as happens after \<open>exit\<close> and after \<open>suspend\<close>, changes nothing.\<close>

theorem terminal_restored:
  assumes "\<forall>c. io' c = Ok ()" and "\<forall>b. raw b = Ok b"
  shows "tui_drop io' raw u (fst (tui_enter io u cooked)) = (cooked, Ok ()) \<and> tui_drop io' raw u cooked = (cooked, Ok ())"
  using assms
  by (auto simp: tui_drop_def tui_exit_def tui_enter_def cooked_def split: outcome.splits)

theorem terminal_restored_witness:
  "tui_enter (\<lambda>c. if c = HideCursor then Err (Msg ''io'') else Ok ()) (tui_new None None) cooked =
     (cooked\<lparr>tm_raw := True, tm_alternate := True\<rparr>, Err (Msg ''io'')) \<and>
   tui_drop (\<lambda>_. Ok ()) Ok (tui_new None None) (cooked\<lparr>tm_raw := True, tm_alternate := True\<rparr>) = (cooked, Ok ())"
proof -
  let ?io = "\<lambda>c. if c = HideCursor then Err (Msg ''io'') else Ok ()"
  have "tui_enter ?io (tui_new None None) cooked = (cooked\<lparr>tm_raw := True, tm_alternate := True\<rparr>, Err (Msg ''io''))"
    by (simp add: tui_enter_def tui_new_def)
  with terminal_restored [of "\<lambda>_. Ok ()" Ok "tui_new None None" ?io] show ?thesis by simp
qed

text \<open>The two rates change places each time the interface is suspended and resumed.\<close>

lemma rates_swapped: "tui_start (tui_new (Some tick) (Some frame)) =
    bind_outcome (delay_of frame) (\<lambda>d. bind_outcome (delay_of tick) (\<lambda>d'. Ok (d, d')))"
  by (simp add: tui_start_def tui_new_def)

lemma resume_swaps: "tui_resume (tui_new (Some tick) (Some frame)) = tui_new (Some frame) (Some tick)"
  by (simp add: tui_resume_def tui_new_def)

lemma resumes_swap:
  "(tui_resume ^^ n) (tui_new (Some tick) (Some frame)) =
     (if even n then tui_new (Some tick) (Some frame) else tui_new (Some frame) (Some tick))"
  by (induction n) (simp_all add: resume_swaps)

section \<open>Events\<close>

text \<open>The presses of keys in the turns before the task is cancelled.\<close>

definition pressed :: "ready \<Rightarrow> key_event list" where
  "pressed r = (case r of FromStream (Some (Ok (CtKey k))) \<Rightarrow> if ke_kind k = KeyPress then [k] else [] | _ \<Rightarrow> [])"

definition key_of :: "terminal_event \<Rightarrow> key_event list" where
  "key_of e = (case e of TeKey k \<Rightarrow> [k] | _ \<Rightarrow> [])"

lemma turn_keys: "task_turn r = Some es \<Longrightarrow> concat (map key_of es) = pressed r"
  by (cases r rule: task_turn.cases; (cases "the (case r of FromStream (Some (Ok e)) \<Rightarrow> Some e | _ \<Rightarrow> None)")?)
    (auto simp: key_of_def pressed_def)

lemma turn_never_closed: "task_turn r = Some es \<Longrightarrow> e \<in> set es \<Longrightarrow> e \<notin> {TeQuit, TeClosed, TeInit}"
  by (cases r rule: task_turn.cases; (cases "the (case r of FromStream (Some (Ok e)) \<Rightarrow> Some e | _ \<Rightarrow> None)")?)
    (auto split: if_splits)

lemma keys_forwarded:
  "concat (map key_of (event_task rs)) = concat (map pressed (takeWhile (\<lambda>r. task_turn r \<noteq> None) rs))"
proof -
  have "concat (map key_of (task_loop rs)) = concat (map pressed (takeWhile (\<lambda>r. task_turn r \<noteq> None) rs))"
    by (induction rs) (auto simp: turn_keys split: option.splits)
  then show ?thesis by (simp add: event_task_def key_of_def)
qed

lemma never_closed: "TeQuit \<notin> set (event_task rs) \<and> TeClosed \<notin> set (event_task rs)"
proof -
  have "\<forall>e \<in> set (task_loop rs). e \<notin> {TeQuit, TeClosed, TeInit}"
  proof (induction rs)
    case (Cons r rs)
    then show ?case
      by (cases "task_turn r") (simp_all add: ball_Un turn_never_closed del: insert_iff)
  qed simp
  then show ?thesis by (auto simp: event_task_def)
qed


section \<open>Queries\<close>

text \<open>The route that a thread asks for.\<close>

definition thread_route :: "query_thread \<Rightarrow> http_method \<times> string" where
  "thread_route t = (if qt_post t then POST else GET, qt_uri t)"

definition threads_ok :: "app \<Rightarrow> bool" where
  "threads_ok s \<longleftrightarrow> (\<forall>t \<in> set (ap_threads s). thread_route t \<in> set readonly_routes \<union> set admin_routes)"

lemma send_threads [simp]: "ap_threads (send r s) = ap_threads s"
  by (cases r) (simp_all add: send_def)

lemma execute_threads: "threads_ok s \<Longrightarrow> threads_ok (execute_cmd up now c i s)"
  by (auto simp: threads_ok_def execute_cmd_def Let_def thread_route_def readonly_routes_def admin_routes_def)

lemma app_action_threads: "app_action env up now a s = Ok s' \<Longrightarrow> threads_ok s \<Longrightarrow> threads_ok s'"
  by (cases a) (auto simp: app_action_def draw_app_def bind_outcome_eq_Ok execute_threads, auto simp: threads_ok_def)

lemma process_threads:
  assumes "process env up now a s = Some (Ok s')" and "threads_ok s"
  shows "threads_ok s'"
proof -
  obtain s1 where s1: "app_action env up now a s = Ok s1" and s': "ap_threads s' = ap_threads s1"
    using assms(1)
    by (auto simp: process_def run_eq_Ok update_tab_def update_list_def update_details_def update_hlist_def
        update_hdetails_def case_prod_beta)
  with app_action_threads [OF s1 assms(2)] show ?thesis by (simp add: threads_ok_def)
qed

lemma drain_threads:
  assumes "commands_ok (ap_list s)" and "threads_ok s" and "drain env up now s = Some (Ok s')"
  shows "threads_ok s'"
  using assms
proof (induction "queue_weight s" arbitrary: s rule: less_induct)
  case less
  show ?case
  proof (cases "ap_queue s")
    case Nil
    then show ?thesis using less.prems by (simp add: drain.simps [of _ _ _ s])
  next
    case (Cons a q)
    let ?s = "s\<lparr>ap_queue := q\<rparr>"
    have ok: "commands_ok (ap_list ?s)" "threads_ok ?s" using less.prems by (simp_all add: threads_ok_def)
    have w: "queue_weight ?s + weight a = queue_weight s" by (simp add: queue_weight_def Cons)
    from less.prems(3) Cons obtain s1 where s1: "process env up now a ?s = Some (Ok s1)" "drain env up now s1 = Some (Ok s')"
      by (auto simp: drain.simps [of _ _ _ s] split: option.splits outcome.splits)
    show ?thesis
      using less.hyps [OF _ _ _ s1(2)] process_weight [OF s1(1) ok(1)] w process_threads [OF s1(1) ok(2)] by simp
  qed
qed

lemma on_event_threads [simp]: "ap_threads (on_event env e s) = ap_threads s"
  by (cases e) (simp_all add: on_event_def on_key_def Let_def split: option.splits)

lemma turn_threads:
  assumes "turn env up now e s = Some (Ok (b, s'))" and "commands_ok (ap_list s)" and "threads_ok s"
  shows "threads_ok s'"
proof -
  let ?s = "case e of Some ev \<Rightarrow> on_event env ev s | None \<Rightarrow> s"
  obtain s1 where s1: "drain env up now ?s = Some (Ok s1)"
      "Some (Ok (if ap_suspend s1 then (True, send (Some Resume) s1) else (\<not> ap_quit s1, s1))) = Some (Ok (b, s'))"
    using assms(1) unfolding turn_def run_eq_Ok by blast
  have "commands_ok (ap_list ?s)" "threads_ok ?s" using assms(2,3) by (simp_all add: threads_ok_def split: option.splits)
  from drain_threads [OF this s1(1)] s1(2) show ?thesis by (auto simp: threads_ok_def split: if_splits)
qed

lemma reachable_threads:
  assumes "tui_reachable env kb rows s"
  shows "threads_ok s"
  using assms unfolding tui_reachable_def
proof (induction rule: rtranclp_induct)
  case base
  show ?case by (simp add: threads_ok_def app_new_def)
next
  case (step s s')
  have ok: "commands_ok (ap_list s)" using step.hyps(1) by (intro reachable_commands) (simp add: tui_reachable_def)
  from step.hyps(2) show ?case
  proof cases
    case event
    then show ?thesis using turn_threads ok step.IH by blast
  next
    case answer
    then show ?thesis
      using step.IH by (auto simp: finish_query_def Let_def threads_ok_def dest: in_set_takeD in_set_dropD)
  qed
qed

text \<open>The headers that the node sees; names of headers are compared in lower case.\<close>

definition request_headers :: "(string \<Rightarrow> bytes) \<Rightarrow> tui_request \<Rightarrow> string \<Rightarrow> bytes option" where
  "request_headers enc q = map_of (map (\<lambda>(k, v). (map ascii_lower k, enc v)) (tq_headers q))"

lemma query_headers:
  assumes "query_request is_pem url_join auth t = Ok q"
  shows "request_headers enc q ''macaroon'' = Some (enc (au_macaroon auth))"
    and "request_headers enc q ''sec-websocket-protocol'' = None"
proof -
  have "tq_headers q = [(''Macaroon'', au_macaroon auth)] \<or>
      tq_headers q = [(''Macaroon'', au_macaroon auth), (''Content-Type'', ''application/json'')]"
    using assms by (auto simp: query_request_def split: option.splits if_splits)
  then show "request_headers enc q ''macaroon'' = Some (enc (au_macaroon auth))"
    and "request_headers enc q ''sec-websocket-protocol'' = None"
    by (auto simp: request_headers_def ascii_lower_def Let_def char_of_def bit_0)
qed

lemma query_macaroon:
  assumes "query_request is_pem url_join auth t = Ok q"
  shows "macaroon_from_request lib to_str from_hex (request_headers enc q) =
    macaroon_from_request lib to_str from_hex [''macaroon'' \<mapsto> enc (au_macaroon auth)]"
  by (simp add: macaroon_from_request_def query_headers [OF assms])

lemma allowed_served:
  "request_allowed lib key m route = Ok True \<Longrightarrow>
     serve_request etext lib key m route handler =
       (case handler of Inr x \<Rightarrow> Reply 200 x | Inl e \<Rightarrow> into_response etext (ErrorOf e))"
  by (simp add: serve_request_def)



text \<open>A state with a query: with a key bound to the execution of a command, its press starts one.\<close>

definition query_bindings :: key_bindings where
  "query_bindings = [(Navigate, [([key_event_new KEnter 0], Execute NodeInfo [])])]"

definition querying :: app where
  "querying = (app_new plain_env query_bindings [])
     \<lparr>ap_history := [\<lparr>hr_timestamp = 7, hr_command = ''NodeInfo'', hr_input = [], hr_output = []\<rparr>],
      ap_threads := [\<lparr>qt_time = 7, qt_post = False, qt_uri = ''/v1/getinfo'', qt_input = []\<rparr>]\<rparr>"

lemma querying_turn:
  "turn plain_env True 7 (Some (EvKey (key_event_new KEnter 0))) (app_new plain_env query_bindings []) = Some (Ok (True, querying))"
  by (simp add: turn_def on_event_def on_key_def query_bindings_def app_new_def querying_def run_def drain.simps keymap_get_def
      plain_env_def process_def app_action_def execute_cmd_def update_tab_def tab_update_def update_list_def
      cmd_list_update_def update_details_def cmd_details_update_def update_hlist_def history_list_update_def
      update_hdetails_def history_details_update_def send_def Let_def cmd_list_default_def tab_default_def cmd_details_new_def)



end
